(* ===== verification/Prelude.thy ===== *)
theory Prelude
  imports Main "HOL-Library.Word"
begin

text \<open>
  What every component of the development shares: the Go types that have no counterpart in
  HOL (identifiers, instants, durations, errors), the way they are printed, and generic
  lemmas on lists and options.

  Conventions. A Go \<open>error\<close> is a value of \<open>goerr\<close>; a Go function that returns
  \<open>(T, error)\<close> is a function into \<open>goerr + 'a\<close>, \<open>Inl\<close> being the non-nil error.
  A \<open>time.Time\<close> is the number of nanoseconds since the Unix epoch and a
  \<open>time.Duration\<close> a number of nanoseconds, both as \<open>int\<close>.
\<close>

section \<open>Collections of facts\<close>

named_theorems repo_simps \<open>behaviour of the repository operations on the tables\<close>
named_theorems env_simps \<open>unfolding of the calls to the environment\<close>
named_theorems frame_simps \<open>what an operation leaves unchanged\<close>

section \<open>Identifiers, instants, durations\<close>

type_synonym uuid = "128 word"
type_synonym gotime = int
type_synonym duration = int

definition second :: duration where "second = 1000000000"
definition minute :: duration where "minute = 60 * second"
definition hour :: duration where "hour = 60 * minute"

lemma duration_simps [simp]:
  "0 < second" "0 < minute" "0 < hour" "minute = 60 * second" "hour = 3600 * second"
  by (simp_all add: second_def minute_def hour_def)

text \<open>\<open>time.Time{}\<close>: January 1 of year 1, UTC.\<close>

definition zero_time :: gotime where "zero_time = - 62135596800 * second"

text \<open>Integer division of Go: it truncates towards zero.\<close>

definition trunc_div :: "int \<Rightarrow> int \<Rightarrow> int" where
  "trunc_div num den =
     (let q = \<bar>num\<bar> div \<bar>den\<bar> in if (num < 0) = (den < 0) then q else - q)"

lemma trunc_div_nonneg: "0 \<le> a \<Longrightarrow> 0 < b \<Longrightarrow> trunc_div a b = a div b"
  by (simp add: trunc_div_def)

section \<open>Errors\<close>

text \<open>
  The error values the code compares by identity (\<open>err == gorm.ErrRecordNotFound\<close>,
  \<open>errors.Is(err, broker.ErrQueueFull)\<close>) are the constructors of \<open>sentinel\<close>. \<open>Plain\<close> is
  \<open>errors.New\<close> or an error of a library, known by its text only; \<open>Wrap p e\<close> is
  \<open>fmt.Errorf(p + "%w", e)\<close>; \<open>App\<close> is \<open>*AppError\<close> of pkg/errors: its code, its message
  and the error it wraps, if any.
\<close>

datatype sentinel =
    ErrRecordNotFound | ErrContextCanceled | ErrQueueFull | ErrRejectToDLQ
  | ErrCacheMiss | ErrCircuitBreakerOpen

datatype goerr =
    Sentinel sentinel
  | Plain string
  | Wrap string goerr
  | App int string "goerr option"

text \<open>
  \<open>errors.Is(err, target)\<close> follows \<open>Unwrap\<close>: of \<open>fmt.Errorf\<close> with \<open>%w\<close> and of
  \<open>AppError\<close>, whose \<open>Unwrap\<close> returns \<open>RootErr\<close>.
\<close>

fun errors_is :: "goerr \<Rightarrow> sentinel \<Rightarrow> bool" where
  "errors_is (Sentinel s) t = (s = t)"
| "errors_is (Plain _) t = False"
| "errors_is (Wrap _ e) t = errors_is e t"
| "errors_is (App _ _ None) t = False"
| "errors_is (App _ _ (Some e)) t = errors_is e t"

section \<open>Printing\<close>

definition digit :: "nat \<Rightarrow> char" where
  "digit d = char_of (48 + d)"

fun dec_nat :: "nat \<Rightarrow> string" where
  "dec_nat n = (if n < 10 then [digit n] else dec_nat (n div 10) @ [digit (n mod 10)])"

declare dec_nat.simps [simp del]

text \<open>\<open>%d\<close> of a signed integer.\<close>

definition dec :: "int \<Rightarrow> string" where
  "dec i = (if i < 0 then CHR ''-'' # dec_nat (nat (- i)) else dec_nat (nat i))"

text \<open>
  \<open>%q\<close> of a string: double quotes, with the quote, the backslash and the control characters
  escaped. Bytes above 127 are kept as they are, which is what Go does with printable text.
\<close>

definition hex_digit :: "nat \<Rightarrow> char" where
  "hex_digit d = (if d < 10 then digit d else char_of (87 + d))"

definition escape_char :: "char \<Rightarrow> string" where
  "escape_char c =
    (let n = of_char c :: nat in
      if n = 34 \<or> n = 92 then [CHR 0x5C, c]
      else if n = 7 then [CHR 0x5C, CHR ''a'']
      else if n = 8 then [CHR 0x5C, CHR ''b'']
      else if n = 9 then [CHR 0x5C, CHR ''t'']
      else if n = 10 then [CHR 0x5C, CHR ''n'']
      else if n = 11 then [CHR 0x5C, CHR ''v'']
      else if n = 12 then [CHR 0x5C, CHR ''f'']
      else if n = 13 then [CHR 0x5C, CHR ''r'']
      else if n < 32 \<or> n = 127
        then [CHR 0x5C, CHR ''x'', hex_digit (n div 16), hex_digit (n mod 16)]
      else [c])"

definition quote :: "string \<Rightarrow> string" where
  "quote s = [CHR 0x22] @ concat (map escape_char s) @ [CHR 0x22]"

fun sentinel_text :: "sentinel \<Rightarrow> string" where
  "sentinel_text ErrRecordNotFound = ''record not found''"
| "sentinel_text ErrContextCanceled = ''context canceled''"
| "sentinel_text ErrQueueFull = ''broker: queue is full''"
| "sentinel_text ErrRejectToDLQ = ''broker: reject message to DLQ''"
| "sentinel_text ErrCacheMiss = ''cache: key not found''"
| "sentinel_text ErrCircuitBreakerOpen = ''circuit breaker is open''"

text \<open>The \<open>Error()\<close> text of an error value.\<close>

fun error_text :: "goerr \<Rightarrow> string" where
  "error_text (Sentinel s) = sentinel_text s"
| "error_text (Plain s) = s"
| "error_text (Wrap p e) = p @ error_text e"
| "error_text (App c m None) = ''['' @ dec c @ ''] '' @ m"
| "error_text (App c m (Some e)) = ''['' @ dec c @ ''] '' @ m @ '': '' @ error_text e"

section \<open>Lemmas on lists and options\<close>

lemma map_if_id [simp]: "map (\<lambda>r. if P r then r else r) xs = xs"
  by simp

lemma find_None_filter: "find P xs = None \<longleftrightarrow> filter P xs = []"
  by (auto simp: find_None_iff filter_empty_conv)

lemma find_append: "find P (xs @ ys) = (case find P xs of None \<Rightarrow> find P ys | Some x \<Rightarrow> Some x)"
  by (induction xs) auto

lemma find_SomeD: "find P xs = Some x \<Longrightarrow> x \<in> set xs \<and> P x"
  by (induction xs) (auto split: if_splits)

lemma find_cong_set: "(\<And>x. x \<in> set xs \<Longrightarrow> P x = Q x) \<Longrightarrow> find P xs = find Q xs"
  by (induction xs) auto

lemma find_map: "find P (map f xs) = map_option f (find (P \<circ> f) xs)"
  by (induction xs) auto

lemma filter_take_length: "length (filter P xs) \<le> length xs"
  by (rule length_filter_le)

lemma set_take_mem: "x \<in> set (take n xs) \<Longrightarrow> x \<in> set xs"
  by (rule in_set_takeD)

lemma length_filter_update:
  assumes "i < length xs"
  shows "length (filter P (xs[i := y])) + (if P (xs ! i) then 1 else 0) = length (filter P xs) + (if P y then 1 else 0)"
  using assms
proof (induction xs arbitrary: i)
  case (Cons x xs)
  then show ?case by (cases i) auto
qed simp

text \<open>Consecutive pages of n elements, put together.\<close>

lemma concat_pages: "concat (map (\<lambda>i. take n (drop (i * n) xs)) [0..<k]) = take (k * n) xs"
proof (induction k)
  case (Suc k)
  then show ?case by (simp add: take_add [symmetric] add.commute)
qed simp

lemma sorted_take_key: "sorted (map f xs) \<Longrightarrow> sorted (map f (take n xs))"
  by (metis sorted_wrt_take take_map)

end
