(* ===== verification/GoStrings.thy ===== *)
theory GoStrings
  imports Prelude
begin

text \<open>
  The functions of Go's packages strings and strconv that the code calls, on \<open>string\<close> (a
  Go string is a sequence of bytes, a \<open>char\<close> of HOL is a byte). Case folding and white
  space are those of ASCII.
\<close>

section \<open>strings\<close>

text \<open>\<open>strings.Split(s, sep)\<close> and \<open>strings.SplitN(s, sep, 2)\<close> for a one-byte separator.\<close>

fun split_on :: "char \<Rightarrow> string \<Rightarrow> string list" where
  "split_on c [] = [[]]"
| "split_on c (x # xs) =
     (if x = c then [] # split_on c xs
      else (case split_on c xs of [] \<Rightarrow> [[x]] | p # ps \<Rightarrow> (x # p) # ps))"

definition split_n2 :: "char \<Rightarrow> string \<Rightarrow> string list" where
  "split_n2 c s =
     (case dropWhile (\<lambda>x. x \<noteq> c) s of
        [] \<Rightarrow> [s]
      | _ # rest \<Rightarrow> [takeWhile (\<lambda>x. x \<noteq> c) s, rest])"

text \<open>\<open>strings.Trim\<close>, \<open>strings.TrimRight\<close> for a cutset of one byte, \<open>strings.TrimSpace\<close>.\<close>

definition trim_right_by :: "(char \<Rightarrow> bool) \<Rightarrow> string \<Rightarrow> string" where
  "trim_right_by P s = rev (dropWhile P (rev s))"

definition trim_by :: "(char \<Rightarrow> bool) \<Rightarrow> string \<Rightarrow> string" where
  "trim_by P s = trim_right_by P (dropWhile P s)"

definition trim_char :: "char \<Rightarrow> string \<Rightarrow> string" where
  "trim_char c s = trim_by (\<lambda>x. x = c) s"

definition is_space :: "char \<Rightarrow> bool" where
  "is_space c \<longleftrightarrow> (let n = of_char c :: nat in n = 32 \<or> (9 \<le> n \<and> n \<le> 13))"

definition trim_space :: "string \<Rightarrow> string" where
  "trim_space s = trim_by is_space s"

definition lower_char :: "char \<Rightarrow> char" where
  "lower_char c = (let n = of_char c :: nat in if 65 \<le> n \<and> n \<le> 90 then char_of (n + 32) else c)"

definition to_lower :: "string \<Rightarrow> string" where
  "to_lower s = map lower_char s"

definition has_prefix :: "string \<Rightarrow> string \<Rightarrow> bool" where
  "has_prefix s p \<longleftrightarrow> take (length p) s = p"

fun contains_str :: "string \<Rightarrow> string \<Rightarrow> bool" where
  "contains_str [] p = (p = [])"
| "contains_str (x # xs) p = (has_prefix (x # xs) p \<or> contains_str xs p)"

section \<open>strconv.Atoi\<close>

definition is_digit :: "char \<Rightarrow> bool" where
  "is_digit c \<longleftrightarrow> (let n = of_char c :: nat in 48 \<le> n \<and> n \<le> 57)"

definition digit_val :: "char \<Rightarrow> nat" where
  "digit_val c = of_char c - 48"

definition digits_val :: "string \<Rightarrow> nat" where
  "digits_val s = foldl (\<lambda>n c. 10 * n + digit_val c) 0 s"

definition int64_min :: int where "int64_min = - 9223372036854775808"
definition int64_max :: int where "int64_max = 9223372036854775807"

definition parse_digits :: "string \<Rightarrow> int option" where
  "parse_digits s = (if s \<noteq> [] \<and> list_all is_digit s then Some (int (digits_val s)) else None)"

definition in_int64 :: "int \<Rightarrow> int option" where
  "in_int64 n = (if int64_min \<le> n \<and> n \<le> int64_max then Some n else None)"

fun atoi :: "string \<Rightarrow> int option" where
  "atoi [] = None"
| "atoi (c # cs) =
     (if c = CHR ''-'' then Option.bind (parse_digits cs) (\<lambda>n. in_int64 (- n))
      else if c = CHR ''+'' then Option.bind (parse_digits cs) in_int64
      else Option.bind (parse_digits (c # cs)) in_int64)"

section \<open>Lemmas\<close>

lemma split_on_nonempty [simp]: "split_on c s \<noteq> []"
  by (induction s) (auto split: list.splits)

lemma split_on_no_sep: "c \<notin> set s \<Longrightarrow> split_on c s = [s]"
  by (induction s) auto

lemma split_on_append_sep: "c \<notin> set a \<Longrightarrow> split_on c (a @ c # b) = a # split_on c b"
  by (induction a) auto

lemma length_split_on: "length (split_on c s) = Suc (count_list s c)"
  by (induction s) (auto split: list.splits)

lemma split_n2_sep:
  assumes "c \<notin> set a"
  shows "split_n2 c (a @ c # b) = [a, b]"
proof -
  from assms have "dropWhile (\<lambda>x. x \<noteq> c) (a @ c # b) = c # b" by (induction a) auto
  moreover from assms have "takeWhile (\<lambda>x. x \<noteq> c) (a @ c # b) = a" by (induction a) auto
  ultimately show ?thesis by (simp add: split_n2_def)
qed

lemma split_n2_no_sep:
  assumes "c \<notin> set s"
  shows "split_n2 c s = [s]"
proof -
  from assms have "dropWhile (\<lambda>x. x \<noteq> c) s = []" by (induction s) auto
  then show ?thesis unfolding split_n2_def by (simp only: list.case)
qed

lemma split_n2_cases:
  obtains (one) "split_n2 c s = [s]" "c \<notin> set s"
  | (two) a b where "s = a @ c # b" "c \<notin> set a" "split_n2 c s = [a, b]"
proof (cases "c \<in> set s")
  case True
  then obtain a b where "s = a @ c # b" "c \<notin> set a"
    by (meson split_list_first)
  then show ?thesis using split_n2_sep [of c a b] two by blast
qed (use split_n2_no_sep one in blast)

lemma trim_right_by_last: "trim_right_by P s \<noteq> [] \<Longrightarrow> \<not> P (last (trim_right_by P s))"
  unfolding trim_right_by_def by (metis hd_dropWhile last_rev rev_is_Nil_conv)

lemma trim_right_by_hd:
  assumes "s = [] \<or> \<not> P (hd s)"
  shows "trim_right_by P s = [] \<or> \<not> P (hd (trim_right_by P s))"
proof (cases s)
  case (Cons x xs)
  with assms have nP: "\<not> P x" by simp
  have "trim_right_by P (x # xs) = x # trim_right_by P xs"
  proof (cases "\<forall>y\<in>set xs. P y")
    case True
    then have all: "\<forall>y\<in>set (rev xs). P y" by simp
    then have "dropWhile P (rev xs) = []" by simp
    moreover from all nP have "dropWhile P (rev xs @ [x]) = [x]"
      by (subst dropWhile_append2) auto
    ultimately show ?thesis by (simp add: trim_right_by_def)
  next
    case False
    then obtain y where "y \<in> set (rev xs)" "\<not> P y" by auto
    then show ?thesis by (simp add: trim_right_by_def dropWhile_append1)
  qed
  with nP Cons show ?thesis by simp
qed (simp add: trim_right_by_def)

lemma trim_by_ends:
  assumes "trim_by P s \<noteq> []"
  shows "\<not> P (hd (trim_by P s))" "\<not> P (last (trim_by P s))"
proof -
  have "dropWhile P s = [] \<or> \<not> P (hd (dropWhile P s))" by (metis hd_dropWhile)
  from trim_right_by_hd [where s = "dropWhile P s" and P = P, OF this] assms show "\<not> P (hd (trim_by P s))"
    by (simp add: trim_by_def)
  from trim_right_by_last assms show "\<not> P (last (trim_by P s))"
    by (simp add: trim_by_def)
qed

lemma trim_by_id:
  assumes "s \<noteq> []" "\<not> P (hd s)" "\<not> P (last s)"
  shows "trim_by P s = s"
proof -
  from assms have "dropWhile P s = s" by (cases s) auto
  moreover from assms have "dropWhile P (rev s) = rev s"
    by (cases s rule: rev_cases) auto
  ultimately show ?thesis by (simp add: trim_by_def trim_right_by_def)
qed

lemma trim_by_idem: "trim_by P (trim_by P s) = trim_by P s"
proof (cases "trim_by P s = []")
  case True
  then show ?thesis by (simp only: trim_by_def trim_right_by_def) simp
next
  case False
  then show ?thesis using trim_by_id trim_by_ends by blast
qed

lemma has_prefix_append [simp]: "has_prefix (p @ s) p"
  by (simp add: has_prefix_def)

end
