(* ===== verification/GoNumbers.thy ===== *)
theory GoNumbers
  imports Prelude
begin

text \<open>
  Go's fixed-width integers and the one use of \<open>float64\<close> in the services: the wrap-around of
  \<open>int64\<close> and \<open>int32\<close>, and \<open>math.Ceil(float64(a) / float64(b))\<close> as IEEE 754 evaluates it
  (53-bit significands, ties to even). \<open>f64_ceil_div_exact\<close> shows that the division through
  floats is the exact ceiling for every dividend below \<open>2\<^sup>5\<^sup>3\<close>.
\<close>

section \<open>Conversions to int64 and int32\<close>

definition int64 :: "int \<Rightarrow> int" where
  "int64 x = sint (word_of_int x :: 64 word)"

definition int32 :: "int \<Rightarrow> int" where
  "int32 x = sint (word_of_int x :: 32 word)"

lemma int64_id: "- (2 ^ 63) \<le> x \<Longrightarrow> x < 2 ^ 63 \<Longrightarrow> int64 x = x"
  by (simp add: int64_def sint_word_ariths signed_take_bit_int_eq_self sint_uint unsigned_of_int
      signed_take_bit_take_bit)

lemma int32_id: "- (2 ^ 31) \<le> x \<Longrightarrow> x < 2 ^ 31 \<Longrightarrow> int32 x = x"
  by (simp add: int32_def sint_uint unsigned_of_int signed_take_bit_take_bit signed_take_bit_int_eq_self)

lemma int64_wrap: "int64 (x - 2 ^ 64) = int64 x"
proof -
  have "(word_of_int (x - 2 ^ 64) :: 64 word) = word_of_int x"
    by (simp only: word_of_int_eq_iff take_bit_eq_mod len_num1 len_bit0 len_bit1) simp
  then show ?thesis by (simp only: int64_def)
qed


lemma int64_range: "- (2 ^ 63) \<le> int64 x \<and> int64 x < 2 ^ 63"
  unfolding int64_def using sint_range_size [of "word_of_int x :: 64 word"] by (simp add: word_size)

section \<open>Division of float64\<close>

fun bit_len :: "nat \<Rightarrow> nat" where
  "bit_len n = (if n = 0 then 0 else Suc (bit_len (n div 2)))"

declare bit_len.simps [simp del]

definition round_half_even :: "nat \<Rightarrow> nat \<Rightarrow> nat" where
  "round_half_even num den =
     (let q = num div den; r = num mod den
      in if 2 * r < den \<or> (2 * r = den \<and> even q) then q else Suc q)"

text \<open>The \<open>float64\<close> of a natural number is an integer: the number rounded to 53 bits.\<close>

definition f64_of_nat :: "nat \<Rightarrow> nat" where
  "f64_of_nat n = (let s = bit_len n - 53 in round_half_even n (2 ^ s) * 2 ^ s)"

text \<open>
  The \<open>float64\<close> quotient of two integral floats, as \<open>(m, t)\<close> for \<open>m / 2\<^sup>t\<close>. The exponent makes
  \<open>m\<close> a 53-bit number; it is not negative for the quotients below \<open>2\<^sup>5\<^sup>2\<close> that occur here.
\<close>

definition f64_quot :: "nat \<Rightarrow> nat \<Rightarrow> nat \<times> nat" where
  "f64_quot a b =
     (let t0 = 53 + bit_len b - bit_len a;
          t = (if 2 ^ 53 * b \<le> a * 2 ^ t0 then t0 - 1 else t0)
      in (round_half_even (a * 2 ^ t) b, t))"

definition f64_ceil :: "nat \<times> nat \<Rightarrow> nat" where
  "f64_ceil x = (fst x + 2 ^ snd x - 1) div 2 ^ snd x"

definition f64_floor :: "nat \<times> nat \<Rightarrow> nat" where
  "f64_floor x = fst x div 2 ^ snd x"

text \<open>\<open>math.Ceil(float64(a) / float64(b))\<close> for a positive \<open>b\<close>.\<close>

definition f64_ceil_div :: "int \<Rightarrow> int \<Rightarrow> int" where
  "f64_ceil_div a b =
     (let q = f64_quot (f64_of_nat (nat \<bar>a\<bar>)) (f64_of_nat (nat b))
      in if a = 0 then 0 else if 0 < a then int (f64_ceil q) else - int (f64_floor q))"

section \<open>Exactness\<close>

lemma bit_len_le: "n < 2 ^ k \<Longrightarrow> bit_len n \<le> k"
proof (induction k arbitrary: n)
  case (Suc k)
  then have "bit_len (n div 2) \<le> k" by (intro Suc.IH) (simp add: div_less_iff_less_mult mult.commute)
  then show ?case by (subst bit_len.simps) simp
qed (simp add: bit_len.simps)

lemma bit_len_upper: "n < 2 ^ bit_len n"
proof (induction n rule: bit_len.induct)
  case (1 n)
  show ?case
  proof (cases "n = 0")
    case False
    with 1 have "n div 2 < 2 ^ bit_len (n div 2)" by simp
    then have "n < 2 * 2 ^ bit_len (n div 2)" by linarith
    with False show ?thesis by (subst bit_len.simps) simp
  qed (simp add: bit_len.simps)
qed

lemma bit_len_lower: "0 < n \<Longrightarrow> 2 ^ (bit_len n - 1) \<le> n"
proof (induction n rule: bit_len.induct)
  case (1 n)
  show ?case
  proof (cases "n div 2 = 0")
    case True
    then have "bit_len (n div 2) = 0" by (simp add: bit_len.simps)
    with 1(2) show ?thesis by (subst bit_len.simps) simp
  next
    case False
    with 1 have "2 ^ (bit_len (n div 2) - 1) \<le> n div 2" by simp
    moreover from False have "0 < bit_len (n div 2)" by (subst bit_len.simps) simp
    ultimately have "2 ^ bit_len (n div 2) \<le> n"
      by (cases "bit_len (n div 2)") auto
    with 1(2) show ?thesis by (subst bit_len.simps) simp
  qed
qed

lemma f64_of_nat_id: "n < 2 ^ 53 \<Longrightarrow> f64_of_nat n = n"
  using bit_len_le [of n 53] by (simp add: f64_of_nat_def round_half_even_def)

lemma f64_quot_normal:
  assumes "0 < a" and "a < 2 ^ 53" and "0 < b" and "f64_quot a b = (m, t)"
  shows "2 ^ 52 * b \<le> a * 2 ^ t" and "m = round_half_even (a * 2 ^ t) b"
proof -
  let ?t0 = "53 + bit_len b - bit_len a"
  have la: "bit_len a \<le> 53" using bit_len_le assms(2) by blast
  have pos: "0 < bit_len a" "0 < bit_len b" using assms(1,3) by (subst bit_len.simps; simp)+
  have "2 ^ 52 * b \<le> 2 ^ 52 * 2 ^ bit_len b" using bit_len_upper [of b] by simp
  also have "\<dots> = 2 ^ (52 + bit_len b)" by (simp only: power_add)
  also have "\<dots> = 2 ^ (bit_len a - 1 + ?t0)" using la pos by (intro arg_cong [where f = "(^) 2"]) linarith
  also have "\<dots> = 2 ^ (bit_len a - 1) * 2 ^ ?t0" by (simp only: power_add)
  also have "\<dots> \<le> a * 2 ^ ?t0" using bit_len_lower [OF assms(1)] by simp
  finally have base: "2 ^ 52 * b \<le> a * 2 ^ ?t0" .
  obtain t1 where t1: "?t0 = Suc t1" using la pos by (cases ?t0) simp_all
  show "2 ^ 52 * b \<le> a * 2 ^ t"
    using assms(4) base unfolding f64_quot_def Let_def t1 by (auto split: if_splits)
  show "m = round_half_even (a * 2 ^ t) b"
    using assms(4) by (auto simp: f64_quot_def Let_def)
qed

lemma round_half_even_upper: "0 < d \<Longrightarrow> n \<le> k * d \<Longrightarrow> round_half_even n d \<le> k"
proof -
  assume d: "0 < d" and n: "n \<le> k * d"
  then have q: "n div d \<le> k" using div_le_mono [OF n, of d] by simp
  show ?thesis
  proof (cases "n mod d = 0")
    case True
    with q d show ?thesis by (simp add: round_half_even_def)
  next
    case False
    have "n div d \<noteq> k"
    proof
      assume "n div d = k"
      then have "n = k * d + n mod d" by (metis div_mult_mod_eq)
      with n False show False by simp
    qed
    with q show ?thesis by (simp add: round_half_even_def Let_def)
  qed
qed

lemma round_half_even_lower:
  assumes "0 < d" and "k * d < n" and "d < 2 * (n - k * d)"
  shows "k < round_half_even n d"
proof -
  have "k \<le> n div d" using assms(1,2) by (simp add: less_eq_div_iff_mult_less_eq)
  moreover have "n div d = k \<Longrightarrow> n mod d = n - k * d"
    by (metis minus_div_mult_eq_mod)
  ultimately show ?thesis using assms(3)
    by (cases "n div d = k") (auto simp: round_half_even_def Let_def)
qed

lemma ceil_char: "0 < (b::nat) \<Longrightarrow> 0 < a \<Longrightarrow> (a + b - 1) div b = n \<longleftrightarrow> (n - 1) * b < a \<and> a \<le> n * b \<and> 0 < n"
proof -
  assume ab: "0 < b" "0 < a"
  have "(a + b - 1) div b = n \<longleftrightarrow> n * b \<le> a + b - 1 \<and> a + b - 1 < Suc n * b"
    using ab by (metis div_nat_eqI div_times_less_eq_dividend dividend_less_div_times mult.commute
        mult_Suc add.commute)
  also have "\<dots> \<longleftrightarrow> (n - 1) * b < a \<and> a \<le> n * b \<and> 0 < n"
    using ab by (cases n) auto
  finally show ?thesis .
qed

lemma f64_ceil_quot:
  assumes "0 < a" and "a < 2 ^ 53" and "0 < b"
  shows "f64_ceil (f64_quot a b) = (a + b - 1) div b"
proof -
  obtain m t where q: "f64_quot a b = (m, t)" by (cases "f64_quot a b")
  note N = f64_quot_normal [OF assms q]
  define n where "n = (a + b - 1) div b"
  have n: "(n - 1) * b < a" "a \<le> n * b" "0 < n"
    using ceil_char [OF assms(3,1), of n] by (auto simp: n_def)
  have "a * 2 ^ t \<le> (n * 2 ^ t) * b" using n(2) by (simp add: mult.commute mult.left_commute)
  with N(2) assms(3) have upper: "m \<le> n * 2 ^ t" by (simp add: round_half_even_upper)
  have "2 ^ 52 * b < 2 ^ 53 * 2 ^ t"
    using N(1) assms(2) by (meson le_less_trans mult_less_mono1 zero_less_numeral zero_less_power)
  then have b: "b < 2 * 2 ^ t" by simp
  have gap: "2 ^ t \<le> a * 2 ^ t - (n - 1) * 2 ^ t * b"
    using n(1) by (metis diff_mult_distrib Suc_leI mult.commute mult.left_commute mult_le_mono1
        nat_mult_1 zero_less_diff One_nat_def)
  have "(n - 1) * 2 ^ t * b < a * 2 ^ t"
    using n(1) by (simp add: mult.commute mult.left_commute)
  moreover have "b < 2 * (a * 2 ^ t - (n - 1) * 2 ^ t * b)" using gap b by linarith
  ultimately have lower: "(n - 1) * 2 ^ t < m"
    unfolding N(2) using assms(3) by (intro round_half_even_lower) simp_all
  then have "0 < m" by simp
  with upper lower n(3) have "(m + 2 ^ t - 1) div 2 ^ t = n"
    using ceil_char [of "2 ^ t" m n] by simp
  then show ?thesis by (simp add: q f64_ceil_def n_def)
qed

lemma ceil_div_bounds:
  fixes a b :: int
  assumes "0 < a" and "0 < b" and "n = (a + b - 1) div b"
  shows "1 \<le> n" and "(n - 1) * b < a" and "a \<le> n * b"
proof -
  have "a + b - 1 = n * b + (a + b - 1) mod b" unfolding assms(3) by simp
  moreover have "0 \<le> (a + b - 1) mod b" "(a + b - 1) mod b < b" using assms(2) by simp_all
  moreover have "(n - 1) * b = n * b - b" by (simp add: algebra_simps)
  ultimately show lo: "(n - 1) * b < a" and hi: "a \<le> n * b" by linarith+
  from hi assms(1) have "0 < n * b" by linarith
  with assms(2) show "1 \<le> n" by (simp add: zero_less_mult_iff)
qed

lemma f64_ceil_div_exact:
  assumes "0 < a" and "a < 2 ^ 53" and "0 < b" and "b < 2 ^ 53"
  shows "f64_ceil_div a b = (a + b - 1) div b"
proof -
  from assms have ab: "nat a < 2 ^ 53" "nat b < 2 ^ 53" "0 < nat a" "0 < nat b" by simp_all
  then have "f64_ceil_div a b = int (f64_ceil (f64_quot (nat a) (nat b)))"
    using assms by (simp add: f64_ceil_div_def f64_of_nat_id)
  also have "\<dots> = int ((nat a + nat b - 1) div nat b)"
    using ab by (simp add: f64_ceil_quot)
  also have "\<dots> = (a + b - 1) div b"
    using assms by (simp add: zdiv_int of_nat_diff)
  finally show ?thesis .
qed

end
