(* ===== verification/Storage.thy ===== *)
theory Storage
  imports GoStrings GoNumbers
begin

text \<open>
  services/upload/internal/storage: the \<open>S3Storage\<close> wrapper of the AWS SDK. The SDK operations
  are parameters (\<open>sdk\<close>): they answer an error or the fields of the output the wrapper reads,
  a nil pointer being \<open>None\<close>. What is modelled is what the wrapper adds: the URLs, the quotes
  around entity tags, the errors that count as "not there", the loop over the pages of
  \<open>ListParts\<close>.
\<close>

section \<open>Data\<close>

record storage_config =
  sc_endpoint :: string
  sc_region :: string
  sc_bucket :: string
  sc_public_url :: string

record s3_storage =
  s3_bucket :: string
  s3_public_url :: string

text \<open>\<open>CompletedPart\<close>: a part number (int32) and an entity tag without surrounding quotes.\<close>

record completed_part =
  cp_number :: int
  cp_etag :: string

record part_info =
  pi_number :: int
  pi_etag :: string
  pi_size :: int
  pi_modified :: gotime

section \<open>NewS3Storage and PublicURL\<close>

definition new_s3_storage :: "goerr option \<Rightarrow> storage_config \<Rightarrow> goerr + s3_storage" where
  "new_s3_storage load_err cfg =
     (case load_err of
        Some e \<Rightarrow> Inl (Wrap ''failed to load AWS config: '' e)
      | None \<Rightarrow>
          Inr \<lparr>s3_bucket = sc_bucket cfg,
               s3_public_url =
                 (if sc_public_url cfg = '''' then
                    (if sc_endpoint cfg \<noteq> ''''
                     then trim_right_by (\<lambda>c. c = CHR ''/'') (sc_endpoint cfg) @ ''/'' @ sc_bucket cfg
                     else ''https://'' @ sc_bucket cfg @ ''.s3.'' @ sc_region cfg @ ''.amazonaws.com'')
                  else sc_public_url cfg)\<rparr>)"

definition s3_object_url :: "s3_storage \<Rightarrow> string \<Rightarrow> string" where
  "s3_object_url s key = s3_public_url s @ ''/'' @ key"

section \<open>Objects\<close>

definition s3_presign_put :: "(string \<Rightarrow> string \<Rightarrow> string \<Rightarrow> duration \<Rightarrow> goerr + string)
    \<Rightarrow> s3_storage \<Rightarrow> gotime \<Rightarrow> string \<Rightarrow> string \<Rightarrow> duration \<Rightarrow> goerr + (string \<times> gotime)" where
  "s3_presign_put sdk s now key content_type ttl =
     (case sdk (s3_bucket s) key content_type ttl of
        Inl e \<Rightarrow> Inl (Wrap ''failed to presign put: '' e)
      | Inr url \<Rightarrow> Inr (url, now + ttl))"

definition is_missing :: "string \<Rightarrow> string \<Rightarrow> bool" where
  "is_missing err_str code \<longleftrightarrow>
     contains_str err_str ''404'' \<or> contains_str err_str code \<or> contains_str err_str ''NotFound''"

definition quote_char :: char where "quote_char = CHR 0x22"

definition s3_head_object :: "(string \<Rightarrow> string \<Rightarrow> goerr + (int option \<times> string option))
    \<Rightarrow> s3_storage \<Rightarrow> string \<Rightarrow> goerr + (int \<times> string \<times> bool)" where
  "s3_head_object sdk s key =
     (case sdk (s3_bucket s) key of
        Inl e \<Rightarrow>
          if is_missing (error_text e) ''NoSuchKey'' then Inr (0, '''', False)
          else Inl (Wrap ''head object failed: '' e)
      | Inr (content_length, etag) \<Rightarrow>
          Inr (case content_length of Some n \<Rightarrow> n | None \<Rightarrow> 0,
               case etag of Some e \<Rightarrow> trim_char quote_char e | None \<Rightarrow> '''',
               True))"

definition s3_delete_object :: "(string \<Rightarrow> string \<Rightarrow> goerr option) \<Rightarrow> s3_storage \<Rightarrow> string \<Rightarrow> goerr option" where
  "s3_delete_object sdk s key =
     map_option (Wrap ''delete object failed: '') (sdk (s3_bucket s) key)"

section \<open>Multipart uploads\<close>

definition aws_to_string :: "string option \<Rightarrow> string" where
  "aws_to_string p = (case p of None \<Rightarrow> '''' | Some s \<Rightarrow> s)"

definition s3_create_multipart :: "(string \<Rightarrow> string \<Rightarrow> string \<Rightarrow> goerr + string option)
    \<Rightarrow> s3_storage \<Rightarrow> string \<Rightarrow> string \<Rightarrow> goerr + string" where
  "s3_create_multipart sdk s object_key mime_type =
     (case sdk (s3_bucket s) object_key mime_type of
        Inl e \<Rightarrow> Inl (Wrap ''create multipart upload failed: '' e)
      | Inr upload_id \<Rightarrow> Inr (aws_to_string upload_id))"

definition s3_presign_part :: "(string \<Rightarrow> string \<Rightarrow> string \<Rightarrow> int \<Rightarrow> duration \<Rightarrow> goerr + string)
    \<Rightarrow> s3_storage \<Rightarrow> gotime \<Rightarrow> string \<Rightarrow> string \<Rightarrow> int \<Rightarrow> duration \<Rightarrow> goerr + (string \<times> gotime)" where
  "s3_presign_part sdk s now object_key upload_id part_number ttl =
     (case sdk (s3_bucket s) object_key upload_id part_number ttl of
        Inl e \<Rightarrow> Inl (Wrap ''presign part upload failed: '' e)
      | Inr url \<Rightarrow> Inr (url, now + ttl))"

text \<open>The entity tag of a part as it is sent to S3.\<close>

definition quoted_etag :: "string \<Rightarrow> string" where
  "quoted_etag etag = (if \<not> has_prefix etag [quote_char] then [quote_char] @ etag @ [quote_char] else etag)"

definition sent_parts :: "completed_part list \<Rightarrow> (int \<times> string) list" where
  "sent_parts parts = map (\<lambda>p. (cp_number p, quoted_etag (cp_etag p))) parts"

definition s3_complete_multipart ::
  "(string \<Rightarrow> string \<Rightarrow> string \<Rightarrow> (int \<times> string) list \<Rightarrow> goerr + string option)
    \<Rightarrow> s3_storage \<Rightarrow> string \<Rightarrow> string \<Rightarrow> completed_part list \<Rightarrow> goerr + string" where
  "s3_complete_multipart sdk s object_key upload_id parts =
     (case sdk (s3_bucket s) object_key upload_id (sent_parts parts) of
        Inl e \<Rightarrow> Inl (Wrap ''complete multipart upload failed: '' e)
      | Inr etag \<Rightarrow> Inr (trim_char quote_char (aws_to_string etag)))"

definition s3_abort_multipart :: "(string \<Rightarrow> string \<Rightarrow> string \<Rightarrow> goerr option)
    \<Rightarrow> s3_storage \<Rightarrow> string \<Rightarrow> string \<Rightarrow> goerr option" where
  "s3_abort_multipart sdk s object_key upload_id =
     (case sdk (s3_bucket s) object_key upload_id of
        None \<Rightarrow> None
      | Some e \<Rightarrow>
          if is_missing (error_text e) ''NoSuchUpload'' then None
          else Some (Wrap ''abort multipart upload failed: '' e))"

text \<open>
  One page of \<open>ListParts\<close>: its parts, whether the list is truncated, the marker of the next page.
  The loop need not end (a server may answer truncated pages for ever), hence the option.
\<close>

record parts_page =
  pp_parts :: "(int option \<times> string option \<times> int option \<times> gotime option) list"
  pp_truncated :: "bool option"
  pp_next :: "string option"

definition to_part_info :: "int option \<times> string option \<times> int option \<times> gotime option \<Rightarrow> part_info" where
  "to_part_info p =
     (case p of (n, etag, len, modified) \<Rightarrow>
        \<lparr>pi_number = (case n of Some x \<Rightarrow> x | None \<Rightarrow> 0),
         pi_etag = trim_char quote_char (aws_to_string etag),
         pi_size = (case len of Some x \<Rightarrow> x | None \<Rightarrow> 0),
         pi_modified = (case modified of Some x \<Rightarrow> x | None \<Rightarrow> zero_time)\<rparr>)"

partial_function (option) s3_list_parts ::
  "(string option \<Rightarrow> goerr + parts_page) \<Rightarrow> string option \<Rightarrow> part_info list
     \<Rightarrow> (goerr + part_info list) option" where
  "s3_list_parts sdk marker result =
     (case sdk marker of
        Inl e \<Rightarrow> Some (Inl (Wrap ''list parts failed: '' e))
      | Inr out \<Rightarrow>
          if pp_truncated out = Some True
          then s3_list_parts sdk (pp_next out) (result @ map to_part_info (pp_parts out))
          else Some (Inr (result @ map to_part_info (pp_parts out))))"

section \<open>Lemmas\<close>

lemma trim_quoted:
  assumes "quote_char \<notin> set x"
  shows "trim_char quote_char ([quote_char] @ x @ [quote_char]) = x" and "trim_char quote_char x = x"
proof -
  have first: "dropWhile (\<lambda>c. c = quote_char) x = x" using assms by (cases x) auto
  have "dropWhile (\<lambda>c. c = quote_char) (rev x) = rev x" using assms by (cases x rule: rev_cases) auto
  note id = first this
  then show "trim_char quote_char x = x"
    by (simp add: trim_char_def trim_by_def trim_right_by_def)
  show "trim_char quote_char ([quote_char] @ x @ [quote_char]) = x"
  proof (cases x)
    case (Cons a list)
    with assms have "a \<noteq> quote_char" by auto
    with Cons id(2) show ?thesis by (simp add: trim_char_def trim_by_def trim_right_by_def)
  qed (simp add: trim_char_def trim_by_def trim_right_by_def)
qed

lemma quoted_etag_plain: "quote_char \<notin> set x \<Longrightarrow> x \<noteq> [] \<Longrightarrow> quoted_etag x = [quote_char] @ x @ [quote_char]"
  by (cases x) (auto simp: quoted_etag_def has_prefix_def)

lemma quoted_etag_trim_plain:
  assumes "quote_char \<notin> set x" and "x \<noteq> []"
  shows "quoted_etag (trim_char quote_char ([quote_char] @ x @ [quote_char])) = [quote_char] @ x @ [quote_char]"
    and "quoted_etag (trim_char quote_char x) = [quote_char] @ x @ [quote_char]"
  using trim_quoted [OF assms(1)] quoted_etag_plain [OF assms] by simp_all

lemma fst_sent_parts [simp]: "map fst (sent_parts ps) = map cp_number ps"
  by (simp add: sent_parts_def)

text \<open>A trimmed tag never starts with a quote, so it is always quoted again.\<close>

lemma quoted_etag_trim:
  "quoted_etag (trim_char quote_char e) = [quote_char] @ trim_char quote_char e @ [quote_char]"
  using trim_by_ends(1) [of "\<lambda>c. c = quote_char" e]
  by (cases "trim_char quote_char e") (auto simp: quoted_etag_def has_prefix_def trim_char_def)

section \<open>The pages of ListParts\<close>

text \<open>\<open>serves sdk marker pages\<close>: from \<open>marker\<close> on, the server answers these pages, the last one only
  being not truncated.\<close>

fun serves :: "(string option \<Rightarrow> goerr + parts_page) \<Rightarrow> string option \<Rightarrow> parts_page list \<Rightarrow> bool" where
  "serves sdk marker [] = False"
| "serves sdk marker [p] = (sdk marker = Inr p \<and> pp_truncated p \<noteq> Some True)"
| "serves sdk marker (p # q # ps) =
     (sdk marker = Inr p \<and> pp_truncated p = Some True \<and> serves sdk (pp_next p) (q # ps))"

text \<open>
  \<open>ListMultipartParts\<close> follows the markers to the end: when the server answers any finite
  chain of truncated pages closed by a page that is not, the loop returns, and its result is the
  parts of all the pages in order, after those collected before, each exactly once.
\<close>
theorem list_parts_complete:
  assumes "serves sdk marker pages"
  shows "s3_list_parts sdk marker acc =
           Some (Inr (acc @ concat (map (\<lambda>p. map to_part_info (pp_parts p)) pages)))"
  using assms
proof (induction sdk marker pages arbitrary: acc rule: serves.induct)
  case (2 sdk marker p)
  then show ?case by (subst s3_list_parts.simps) simp
next
  case (3 sdk marker p q ps)
  then show ?case by (subst s3_list_parts.simps) simp
qed simp

theorem list_parts_complete_witness:
  "s3_list_parts
     (\<lambda>m. if m = None
          then Inr \<lparr>pp_parts = [(Some 1, Some [CHR 0x22, CHR ''a'', CHR 0x22], Some 5, None)],
                    pp_truncated = Some True, pp_next = Some ''m''\<rparr>
          else Inr \<lparr>pp_parts = [(Some 2, Some ''b'', None, Some 7)], pp_truncated = None, pp_next = None\<rparr>)
     None [] =
   Some (Inr [\<lparr>pi_number = 1, pi_etag = ''a'', pi_size = 5, pi_modified = zero_time\<rparr>,
              \<lparr>pi_number = 2, pi_etag = ''b'', pi_size = 0, pi_modified = 7\<rparr>])"
  by (subst list_parts_complete
        [where pages = "[\<lparr>pp_parts = [(Some 1, Some [CHR 0x22, CHR ''a'', CHR 0x22], Some 5, None)],
                    pp_truncated = Some True, pp_next = Some ''m''\<rparr>,
                 \<lparr>pp_parts = [(Some 2, Some ''b'', None, Some 7)], pp_truncated = None, pp_next = None\<rparr>]"])
    (simp_all add: to_part_info_def trim_char_def trim_by_def trim_right_by_def quote_char_def aws_to_string_def)

end
