(* ===== verification/AppErrors.thy ===== *)
theory AppErrors
  imports GoStrings
begin

text \<open>
  pkg/errors/errors.go and pkg/response/response.go: the constructors of \<open>*AppError\<close> with
  their default messages, and the HTTP envelope every handler of the three services answers
  with. \<open>response.Error\<close> is modelled with the line it logs, so that what is kept on the
  server and what is sent to the client can be told apart.
\<close>

section \<open>pkg/errors\<close>

definition new_app_error :: "int \<Rightarrow> string \<Rightarrow> goerr option \<Rightarrow> goerr" where
  "new_app_error code message rootErr = App code message rootErr"

definition bad_request :: "goerr option \<Rightarrow> string \<Rightarrow> goerr" where
  "bad_request err message = new_app_error 400
     (if message = '''' then ''Data send is invalid or missing required fields'' else message) err"

definition unauthorized :: "string \<Rightarrow> goerr" where
  "unauthorized message = new_app_error 401
     (if message = '''' then ''You are not logged in or the token is invalid'' else message) None"

definition forbidden :: "string \<Rightarrow> goerr" where
  "forbidden message = new_app_error 403
     (if message = '''' then ''You do not have permission to perform this action'' else message) None"

definition not_found :: "string \<Rightarrow> goerr" where
  "not_found message = new_app_error 404
     (if message = '''' then ''Resource not found'' else message) None"

definition internal_server :: "goerr \<Rightarrow> goerr" where
  "internal_server err =
     new_app_error 500 ''System is experiencing issues, please try again later'' (Some err)"

definition too_many_requests :: "string \<Rightarrow> goerr" where
  "too_many_requests message = new_app_error 429
     (if message = '''' then ''Too many requests, please try again later'' else message) None"

lemmas app_error_defs =
  new_app_error_def bad_request_def unauthorized_def forbidden_def not_found_def
  internal_server_def too_many_requests_def

section \<open>pkg/response\<close>

record 'd standard_response =
  resp_success :: bool
  resp_data :: "'d option"
  resp_meta :: "string option"
  resp_error :: "(int \<times> string) option"

record 'd http_response =
  http_status :: int
  http_body :: "'d standard_response"

datatype log_line = LogError string | LogWarn int string

definition write_json :: "int \<Rightarrow> 'd standard_response \<Rightarrow> 'd http_response" where
  "write_json status payload = \<lparr>http_status = status, http_body = payload\<rparr>"

definition response_ok :: "'d \<Rightarrow> 'd http_response" where
  "response_ok d = write_json 200
     \<lparr>resp_success = True, resp_data = Some d, resp_meta = None, resp_error = None\<rparr>"

definition response_created :: "'d \<Rightarrow> 'd http_response" where
  "response_created d = write_json 201
     \<lparr>resp_success = True, resp_data = Some d, resp_meta = None, resp_error = None\<rparr>"

definition response_ok_with_meta :: "'d \<Rightarrow> string \<Rightarrow> 'd http_response" where
  "response_ok_with_meta d m = write_json 200
     \<lparr>resp_success = True, resp_data = Some d, resp_meta = Some m, resp_error = None\<rparr>"

text \<open>
  \<open>err.(*errors.AppError)\<close> is a type assertion on the value itself: an \<open>AppError\<close> wrapped by
  \<open>fmt.Errorf\<close> does not pass it.
\<close>

definition as_app_error :: "goerr \<Rightarrow> goerr" where
  "as_app_error err = (case err of App _ _ _ \<Rightarrow> err | _ \<Rightarrow> internal_server err)"

fun app_code :: "goerr \<Rightarrow> int" where
  "app_code (App c _ _) = c"
| "app_code _ = 0"

fun app_message :: "goerr \<Rightarrow> string" where
  "app_message (App _ m _) = m"
| "app_message _ = ''''"

fun app_root :: "goerr \<Rightarrow> goerr option" where
  "app_root (App _ _ r) = r"
| "app_root _ = None"

definition response_error :: "goerr \<Rightarrow> log_line \<times> 'd http_response" where
  "response_error err =
    (let appErr = as_app_error err;
         log = (if app_code appErr \<ge> 500
                then LogError (case app_root appErr of None \<Rightarrow> '''' | Some e \<Rightarrow> error_text e)
                else LogWarn (app_code appErr) (app_message appErr))
     in (log, write_json (app_code appErr)
          \<lparr>resp_success = False, resp_data = None, resp_meta = None,
           resp_error = Some (app_code appErr, app_message appErr)\<rparr>))"

text \<open>What a handler does with the result of its service call.\<close>

definition respond :: "('d \<Rightarrow> 'd http_response) \<Rightarrow> goerr + 'd \<Rightarrow> 'd http_response" where
  "respond ok r = (case r of Inl e \<Rightarrow> snd (response_error e) | Inr d \<Rightarrow> ok d)"

section \<open>Lemmas\<close>

lemma app_error_code [simp]:
  "app_code (bad_request e m) = 400" "app_code (unauthorized m) = 401"
  "app_code (forbidden m) = 403" "app_code (not_found m) = 404"
  "app_code (internal_server err) = 500" "app_code (too_many_requests m) = 429"
  by (simp_all add: app_error_defs)

lemma as_app_error_idem [simp]: "as_app_error (as_app_error e) = as_app_error e"
  by (simp add: as_app_error_def app_error_defs split: goerr.splits)

lemma status_response_error: "http_status (snd (response_error e)) = app_code (as_app_error e)"
  by (simp add: response_error_def write_json_def Let_def)

lemma respond_simps:
  "respond ok (Inr d) = ok d" "respond ok (Inl e) = snd (response_error e)"
  by (simp_all add: respond_def)

section \<open>What the client sees of an error\<close>

text \<open>
  An error response never carries the wrapped cause: two errors that agree on the code and
  the message of their \<open>AppError\<close> give the same HTTP response whatever they wrap, and an error
  that is no \<open>AppError\<close> (a database or SMTP error, or an \<open>AppError\<close> wrapped by \<open>fmt.Errorf\<close>)
  is answered with status 500 and the fixed text. Only the log line keeps the cause.
\<close>
theorem response_error_hides_cause:
  "snd (response_error (App c m r1) :: log_line \<times> 'd http_response) = snd (response_error (App c m r2))
   \<and> (\<not> (\<exists>c m r. e = App c m r) \<longrightarrow>
        snd (response_error e :: log_line \<times> 'd http_response) =
          \<lparr>http_status = 500, http_body =
             \<lparr>resp_success = False, resp_data = None, resp_meta = None,
              resp_error = Some (500, ''System is experiencing issues, please try again later'')\<rparr>\<rparr>
        \<and> fst (response_error e :: log_line \<times> 'd http_response) = LogError (error_text e))"
  by (cases e) (simp_all add: response_error_def as_app_error_def app_error_defs write_json_def Let_def)

theorem response_error_hides_cause_witness:
  "snd (response_error (Wrap ''failed: '' (Plain ''pq: password'')) :: log_line \<times> unit http_response) =
     \<lparr>http_status = 500, http_body =
        \<lparr>resp_success = False, resp_data = None, resp_meta = None,
         resp_error = Some (500, ''System is experiencing issues, please try again later'')\<rparr>\<rparr>"
  using response_error_hides_cause [of 0 "''''" None None "Wrap ''failed: '' (Plain ''pq: password'')", where 'd = unit]
  by blast

end
