(* ===== verification/Tables.thy ===== *)
theory Tables
  imports AppErrors
begin

text \<open>
  The relational store under the repositories. A table is the list of its rows, in the order in
  which the engine scans them; the queries of the repositories are read with the usual meaning
  of their SQL: \<open>WHERE\<close> keeps rows, \<open>ORDER BY\<close> is a stable sort of the scan, \<open>LIMIT\<close> and
  \<open>OFFSET\<close> cut it, \<open>UPDATE ... WHERE\<close> rewrites the rows it selects, \<open>INSERT\<close> appends a row.
  Since the theorems quantify over all tables they hold for every scan order. What a statement
  that fails does (nothing) and whether it fails are decided by the caller's environment.

  The locale \<open>row_store\<close> is the contract the services rely on when they read a row by its
  primary key, change it and save it back (\<open>GetByID\<close> followed by \<open>Update\<close>); the save of GORM is
  an instance of it on any table whose keys are distinct.
\<close>

section \<open>Queries and statements\<close>

type_synonym 'r table = "'r list"

definition first_row :: "('r \<Rightarrow> bool) \<Rightarrow> 'r table \<Rightarrow> goerr + 'r" where
  "first_row P t = (case find P t of None \<Rightarrow> Inl (Sentinel ErrRecordNotFound) | Some r \<Rightarrow> Inr r)"

definition update_rows :: "('r \<Rightarrow> bool) \<Rightarrow> ('r \<Rightarrow> 'r) \<Rightarrow> 'r table \<Rightarrow> 'r table" where
  "update_rows P f t = map (\<lambda>r. if P r then f r else r) t"

definition rows_affected :: "('r \<Rightarrow> bool) \<Rightarrow> 'r table \<Rightarrow> nat" where
  "rows_affected P t = length (filter P t)"

definition insert_row :: "'r \<Rightarrow> 'r table \<Rightarrow> 'r table" where
  "insert_row r t = t @ [r]"

text \<open>
  \<open>db.Save(r)\<close>: the row with the primary key of \<open>r\<close> takes all the columns of \<open>r\<close>; a row that is
  not there is inserted.
\<close>

definition save_row :: "('r \<Rightarrow> 'k) \<Rightarrow> 'r \<Rightarrow> 'r table \<Rightarrow> 'r table" where
  "save_row key r t =
     (if list_ex (\<lambda>x. key x = key r) t then update_rows (\<lambda>x. key x = key r) (\<lambda>_. r) t
      else insert_row r t)"

text \<open>
  \<open>Limit(n)\<close> of GORM 1.25 and later: a negative n is no limit. \<open>Offset(n)\<close>: an n that is not
  positive is no offset.
\<close>

definition limit_rows :: "int \<Rightarrow> 'r table \<Rightarrow> 'r table" where
  "limit_rows n t = (if n < 0 then t else take (nat n) t)"

definition offset_rows :: "int \<Rightarrow> 'r table \<Rightarrow> 'r table" where
  "offset_rows n t = (if n \<le> 0 then t else drop (nat n) t)"

definition keyed :: "('r \<Rightarrow> 'k) \<Rightarrow> 'r table \<Rightarrow> bool" where
  "keyed key t \<longleftrightarrow> distinct (map key t)"

definition by_key :: "('r \<Rightarrow> 'k) \<Rightarrow> 'k \<Rightarrow> 'r table \<Rightarrow> 'r option" where
  "by_key key k t = find (\<lambda>r. key r = k) t"

section \<open>The contract of a store of rows\<close>

locale row_store =
  fixes lookup :: "'k \<Rightarrow> 's \<Rightarrow> 'r option"
    and save :: "'r \<Rightarrow> 's \<Rightarrow> 's"
    and key :: "'r \<Rightarrow> 'k"
    and wf :: "'s \<Rightarrow> bool"
  assumes lookup_save: "wf s \<Longrightarrow> lookup k (save r s) = (if k = key r then Some r else lookup k s)"
    and lookup_key: "wf s \<Longrightarrow> lookup k s = Some r \<Longrightarrow> key r = k"
    and wf_save: "wf s \<Longrightarrow> wf (save r s)"
begin

lemma lookup_save_same: "wf s \<Longrightarrow> lookup (key r) (save r s) = Some r"
  by (simp add: lookup_save)

lemma lookup_save_other: "wf s \<Longrightarrow> k \<noteq> key r \<Longrightarrow> lookup k (save r s) = lookup k s"
  by (simp add: lookup_save)

text \<open>Reading a row, changing columns other than the key, saving it.\<close>

lemma read_modify_write:
  assumes "wf s" and "lookup k s = Some r" and "key (f r) = key r"
  shows "lookup k' (save (f r) s) = (if k' = k then Some (f r) else lookup k' s)"
  using assms lookup_key [OF assms(1,2)] by (simp add: lookup_save)

lemma last_save_wins:
  "wf s \<Longrightarrow> key r = key r' \<Longrightarrow> lookup k (save r' (save r s)) = lookup k (save r' s)"
  by (simp add: lookup_save wf_save)

lemma saves_commute:
  "wf s \<Longrightarrow> key r \<noteq> key r' \<Longrightarrow> lookup k (save r (save r' s)) = lookup k (save r' (save r s))"
  by (simp add: lookup_save wf_save)

lemma wf_fold_save: "wf s \<Longrightarrow> wf (fold save rs s)"
  by (induction rs arbitrary: s) (simp_all add: wf_save)

text \<open>Saving a list of rows with distinct keys stores each of them and nothing else.\<close>

lemma lookup_fold_save:
  assumes "wf s" and "distinct (map key rs)"
  shows "lookup k (fold save rs s) = (case find (\<lambda>r. key r = k) rs of Some r \<Rightarrow> Some r | None \<Rightarrow> lookup k s)"
  using assms
proof (induction rs arbitrary: s)
  case (Cons r rs)
  then have IH: "lookup k (fold save rs (save r s)) =
      (case find (\<lambda>r. key r = k) rs of Some r \<Rightarrow> Some r | None \<Rightarrow> lookup k (save r s))"
    by (simp add: wf_save)
  show ?case
  proof (cases "key r = k")
    case True
    with Cons.prems have "find (\<lambda>r. key r = k) rs = None"
      by (force simp: find_None_iff image_iff)
    with IH True Cons.prems show ?thesis by (simp add: lookup_save)
  next
    case False
    with IH Cons.prems show ?thesis by (auto simp: lookup_save split: option.splits)
  qed
qed simp

end

section \<open>Tables are row stores\<close>

lemma by_key_Some: "by_key key k t = Some r \<Longrightarrow> r \<in> set t \<and> key r = k"
  unfolding by_key_def by (drule find_SomeD) simp

lemma by_key_keyed: "keyed key t \<Longrightarrow> r \<in> set t \<Longrightarrow> by_key key (key r) t = Some r"
  by (induction t) (auto simp: by_key_def keyed_def)

lemma by_key_None: "by_key key k t = None \<longleftrightarrow> k \<notin> key ` set t"
  by (auto simp: by_key_def find_None_iff)

lemma map_key_update: "(\<And>r. P r \<Longrightarrow> key (f r) = key r) \<Longrightarrow> map key (update_rows P f t) = map key t"
  by (simp add: update_rows_def)

lemma keyed_update: "(\<And>r. P r \<Longrightarrow> key (f r) = key r) \<Longrightarrow> keyed key t \<Longrightarrow> keyed key (update_rows P f t)"
  by (simp add: keyed_def map_key_update)

lemma by_key_update_rows:
  assumes "\<And>r. P r \<Longrightarrow> key (f r) = key r"
  shows "by_key key k (update_rows P f t) = map_option (\<lambda>r. if P r then f r else r) (by_key key k t)"
  using assms by (induction t) (auto simp: by_key_def update_rows_def)

text \<open>An update of the row with a given key.\<close>

lemma by_key_update_other:
  assumes "j \<noteq> i" and "\<And>r. key (f r) = key r"
  shows "by_key key j (update_rows (\<lambda>r. key r = i) f t) = by_key key j t"
  using assms by (induction t) (auto simp: by_key_def update_rows_def)

lemma by_key_update_same:
  assumes "\<And>r. key (f r) = key r"
  shows "by_key key i (update_rows (\<lambda>r. key r = i) f t) = map_option f (by_key key i t)"
  using assms by (induction t) (auto simp: by_key_def update_rows_def)

lemma by_key_update_cases:
  assumes "by_key key j (update_rows (\<lambda>r. key r = i) f t) = Some n" and "\<And>r. key (f r) = key r"
  shows "(j = i \<and> (\<exists>n0. by_key key j t = Some n0 \<and> n = f n0)) \<or> (j \<noteq> i \<and> by_key key j t = Some n)"
  using assms by (cases "j = i") (auto simp: by_key_update_same by_key_update_other)

text \<open>An update of the columns of one row, selected by its key and a condition it meets.\<close>

lemma by_key_update_one:
  assumes "by_key key k t = Some r" and "P r" and "\<And>x. key (f x) = key x"
  shows "by_key key j (update_rows (\<lambda>x. key x = k \<and> P x) f t) = (if j = k then Some (f r) else by_key key j t)"
  using assms by (cases "by_key key j t") (auto simp: by_key_update_rows dest: by_key_Some)

lemma by_key_update_const:
  "by_key key k (update_rows (\<lambda>x. key x = key r) (\<lambda>_. r) t) =
     (if k = key r \<and> k \<in> key ` set t then Some r else by_key key k t)"
  by (induction t) (auto simp: by_key_def update_rows_def)

lemma keyed_save: "keyed key t \<Longrightarrow> keyed key (save_row key r t)"
proof -
  assume k: "keyed key t"
  have "map key (update_rows (\<lambda>x. key x = key r) (\<lambda>_. r) t) = map key t"
    by (auto simp: update_rows_def)
  with k show ?thesis
    by (auto simp: save_row_def keyed_def insert_row_def list_ex_iff)
qed

lemma by_key_save:
  "by_key key k (save_row key r t) = (if k = key r then Some r else by_key key k t)"
proof (cases "list_ex (\<lambda>x. key x = key r) t")
  case True
  then obtain x where "x \<in> set t" "key x = key r" by (auto simp: list_ex_iff)
  then have mem: "key r \<in> key ` set t" by (metis imageI)
  have "save_row key r t = update_rows (\<lambda>x. key x = key r) (\<lambda>_. r) t"
    using True by (simp add: save_row_def)
  with mem show ?thesis by (simp add: by_key_update_const)
next
  case False
  then have "key r \<notin> key ` set t" by (auto simp: list_ex_iff)
  then have none: "by_key key (key r) t = None" by (simp add: by_key_None)
  from False have "save_row key r t = t @ [r]" by (simp add: save_row_def insert_row_def)
  then show ?thesis using none
    by (auto simp: by_key_def find_append split: option.splits)
qed

text \<open>
  The save of GORM on a table whose primary keys are distinct: the interpretation every
  repository of the services uses through its own instance.
\<close>

interpretation saved_rows: row_store "by_key key" "save_row key" key "keyed key" for key
  by unfold_locales (auto simp: by_key_save keyed_save dest: by_key_Some)

section \<open>Facts the repositories share\<close>

lemma first_row_by_key:
  "first_row (\<lambda>r. key r = k) t =
     (case by_key key k t of None \<Rightarrow> Inl (Sentinel ErrRecordNotFound) | Some r \<Rightarrow> Inr r)"
  by (simp add: first_row_def by_key_def)

lemma first_row_Inr: "first_row P t = Inr r \<Longrightarrow> r \<in> set t \<and> P r"
  by (auto simp: first_row_def split: option.splits dest: find_SomeD)

lemma first_row_Inl: "first_row P t = Inl e \<Longrightarrow> e = Sentinel ErrRecordNotFound \<and> (\<forall>r\<in>set t. \<not> P r)"
  by (auto simp: first_row_def find_None_iff split: option.splits)

lemma set_limit_rows: "set (limit_rows n t) \<subseteq> set t"
  by (auto simp: limit_rows_def dest: in_set_takeD)

lemma length_limit_rows: "0 \<le> n \<Longrightarrow> int (length (limit_rows n t)) \<le> n"
  by (simp add: limit_rows_def)

lemma length_update_rows [simp]: "length (update_rows P f t) = length t"
  by (simp add: update_rows_def)

lemma update_rows_none: "(\<And>r. r \<in> set t \<Longrightarrow> \<not> P r) \<Longrightarrow> update_rows P f t = t"
  by (simp add: update_rows_def map_idI)

lemma keyed_rows_affected:
  assumes "keyed key t"
  shows "rows_affected (\<lambda>r. key r = k \<and> P r) t = (case by_key key k t of Some r \<Rightarrow> if P r then 1 else 0 | None \<Rightarrow> 0)"
  using assms
proof (induction t)
  case (Cons x t)
  show ?case
  proof (cases "key x = k")
    case True
    with Cons.prems have "filter (\<lambda>r. key r = k \<and> P r) t = []"
      by (force simp: keyed_def filter_empty_conv image_iff)
    with True show ?thesis by (simp add: rows_affected_def by_key_def)
  next
    case False
    with Cons show ?thesis by (simp add: rows_affected_def by_key_def keyed_def)
  qed
qed (simp add: rows_affected_def by_key_def)

text \<open>Saving a row that is there: what a search and a count see of it.\<close>

lemma save_row_existing:
  "by_key key (key r) t = Some r0 \<Longrightarrow> save_row key r t = update_rows (\<lambda>x. key x = key r) (\<lambda>_. r) t"
  by (auto simp: save_row_def list_ex_iff dest: by_key_Some)

lemma by_key_unique: "keyed key t \<Longrightarrow> by_key key k t = Some r0 \<Longrightarrow> x \<in> set t \<Longrightarrow> key x = k \<Longrightarrow> x = r0"
  using by_key_keyed by fastforce

lemma first_row_save:
  assumes "keyed key t" and "by_key key (key r) t = Some r0" and "P r = P r0"
  shows "first_row P (save_row key r t) = (if first_row P t = Inr r0 then Inr r else first_row P t)"
proof -
  let ?g = "\<lambda>x. if key x = key r then r else x"
  have "find (P \<circ> ?g) t = find P t"
    using assms by (intro find_cong_set) (auto dest: by_key_unique)
  then have "find P (save_row key r t) = map_option ?g (find P t)"
    using assms(2) by (simp add: save_row_existing update_rows_def find_map)
  then show ?thesis
    using by_key_unique [OF assms(1,2)] by_key_Some [OF assms(2)]
    by (auto simp: first_row_def split: option.splits dest: find_SomeD)
qed

lemma length_filter_save:
  assumes "keyed key t" and "by_key key (key r) t = Some r0" and "\<not> Q r0" and "Q r"
  shows "length (filter Q (save_row key r t)) = Suc (length (filter Q t))"
proof -
  from assms(2) have "r0 \<in> set t" "key r0 = key r" by (auto dest: by_key_Some)
  then obtain t1 t2 where t: "t = t1 @ r0 # t2" by (meson split_list)
  with assms(1) \<open>key r0 = key r\<close> have "key r \<notin> key ` set t1" "key r \<notin> key ` set t2"
    by (auto simp: keyed_def)
  then have "update_rows (\<lambda>x. key x = key r) (\<lambda>_. r) t1 = t1" "update_rows (\<lambda>x. key x = key r) (\<lambda>_. r) t2 = t2"
    by (auto simp: update_rows_def image_iff intro!: map_idI)
  then have "save_row key r t = t1 @ r # t2"
    using assms(2) \<open>key r0 = key r\<close> by (simp add: save_row_existing t update_rows_def)
  with assms(3,4) show ?thesis by (simp add: t)
qed

end
