(* ===== verification/GoTime.thy ===== *)
theory GoTime
  imports GoNumbers
begin

text \<open>
  The part of package \<open>time\<close> the services use: the proleptic Gregorian calendar (year, month, day
  and weekday of an instant, and the instant of a date), with the conversion that counts years
  from March as most C libraries do. \<open>civil_roundtrip\<close> shows that the two directions agree.
  An offset from UTC is a number of seconds.
\<close>

definition days_of_civil :: "int \<Rightarrow> int \<Rightarrow> int \<Rightarrow> int" where
  "days_of_civil y m d =
     (let y' = (if m \<le> 2 then y - 1 else y);
          era = y' div 400;
          yoe = y' mod 400;
          mp = (if 2 < m then m - 3 else m + 9);
          doy = (153 * mp + 2) div 5 + d - 1
      in era * 146097 + (yoe * 365 + yoe div 4 - yoe div 100 + doy) - 719468)"

text \<open>The year of a day of a 400-year era: by century, four-year cycle and year.\<close>

definition year_of_era :: "int \<Rightarrow> int" where
  "year_of_era doe =
     (let c = min (doe div 36524) 3;
          q = (doe - 36524 * c) div 1461;
          y = min ((doe - 36524 * c - 1461 * q) div 365) 3
      in 100 * c + 4 * q + y)"

definition civil_of_days :: "int \<Rightarrow> int \<times> int \<times> int" where
  "civil_of_days z0 =
     (let z = z0 + 719468;
          era = z div 146097;
          doe = z mod 146097;
          yoe = year_of_era doe;
          doy = doe - (365 * yoe + yoe div 4 - yoe div 100);
          mp = (5 * doy + 2) div 153;
          d = doy - (153 * mp + 2) div 5 + 1;
          m = (if mp < 10 then mp + 3 else mp - 9);
          y = yoe + era * 400
      in (if m \<le> 2 then y + 1 else y, m, d))"

definition day_length :: duration where "day_length = 24 * hour"

definition local_days :: "int \<Rightarrow> gotime \<Rightarrow> int" where
  "local_days offset t = (t + offset * second) div day_length"

definition time_year :: "int \<Rightarrow> gotime \<Rightarrow> int" where
  "time_year offset t = fst (civil_of_days (local_days offset t))"

definition time_month :: "int \<Rightarrow> gotime \<Rightarrow> int" where
  "time_month offset t = fst (snd (civil_of_days (local_days offset t)))"

definition time_day :: "int \<Rightarrow> gotime \<Rightarrow> int" where
  "time_day offset t = snd (snd (civil_of_days (local_days offset t)))"

text \<open>\<open>%02d\<close>\<close>

definition dec2 :: "int \<Rightarrow> string" where
  "dec2 n = (if 0 \<le> n \<and> n < 10 then CHR ''0'' # dec n else dec n)"

section \<open>The two conversions agree\<close>

lemma min_quotient:
  fixes n k m :: int
  assumes "0 \<le> n" and "n \<le> (m + 1) * k" and "0 < k" and "0 \<le> m"
  shows "0 \<le> n - k * min (n div k) m" and "n - k * min (n div k) m \<le> k"
proof -
  have "k * (n div k) \<le> n" "n < k * (n div k) + k"
    using assms(3) by (metis mult.commute mult_div_mod_eq pos_mod_sign add.commute le_add_same_cancel1)
      (metis assms(3) mult_div_mod_eq pos_mod_bound add_strict_left_mono)
  moreover have "m \<le> n div k \<Longrightarrow> k * m \<le> n"
    using assms(3) calculation(1) mult_left_mono [of m "n div k" k] by linarith
  ultimately show "0 \<le> n - k * min (n div k) m" and "n - k * min (n div k) m \<le> k"
    using assms(2) by (auto simp: min_def algebra_simps)
qed

lemma year_of_era_bounds:
  assumes "0 \<le> doe" and "doe \<le> 146096" and "y = year_of_era doe"
  shows "0 \<le> y" "y \<le> 399" "0 \<le> doe - (365 * y + y div 4 - y div 100)"
    "doe - (365 * y + y div 4 - y div 100) \<le> 365"
proof -
  define c where "c = min (doe div 36524) 3"
  define dc where "dc = doe - 36524 * c"
  define q where "q = dc div 1461"
  define dq where "dq = dc - 1461 * q"
  define x where "x = min (dq div 365) 3"
  have y: "y = 100 * c + 4 * q + x"
    using assms(3) by (simp only: year_of_era_def Let_def c_def q_def x_def dq_def dc_def)
  have c: "0 \<le> c" "c \<le> 3" using assms(1) by (auto simp: c_def)
  have dc: "0 \<le> dc" "dc \<le> 36524"
    using min_quotient [of doe 36524 3] assms(1,2) by (simp_all add: dc_def c_def)
  then have q: "0 \<le> q" "q \<le> 24" by (simp_all add: q_def)
  have dq: "0 \<le> dq" "dq \<le> 1460" by (simp_all add: dq_def q_def minus_mult_div_eq_mod)
  have x: "0 \<le> x" "x \<le> 3" "0 \<le> dq - 365 * x" "dq - 365 * x \<le> 365"
    using min_quotient [of dq 365 3] dq by (simp_all add: x_def)
  have "y div 4 = 25 * c + q" "y div 100 = c" unfolding y using c q x by simp_all
  then have "doe - (365 * y + y div 4 - y div 100) = dq - 365 * x"
    by (simp add: y dq_def dc_def)
  with x show "0 \<le> doe - (365 * y + y div 4 - y div 100)"
    "doe - (365 * y + y div 4 - y div 100) \<le> 365" by simp_all
  show "0 \<le> y" "y \<le> 399" unfolding y using c q x by simp_all
qed

lemma month_of_doy:
  fixes doy :: int
  assumes "0 \<le> doy" and "doy \<le> 365" and "mp = (5 * doy + 2) div 153"
  shows "0 \<le> mp" "mp \<le> 11" "(153 * mp + 2) div 5 \<le> doy"
proof -
  have "153 * mp \<le> 5 * doy + 2" "5 * doy + 2 < 153 * mp + 153"
    unfolding assms(3) by linarith+
  with assms(1,2) show "0 \<le> mp" "mp \<le> 11" "(153 * mp + 2) div 5 \<le> doy" by linarith+
qed

lemma civil_roundtrip:
  assumes "civil_of_days z = (y, m, d)"
  shows "days_of_civil y m d = z" and "1 \<le> m" and "m \<le> 12" and "1 \<le> d"
proof -
  define doe where "doe = (z + 719468) mod 146097"
  define era where "era = (z + 719468) div 146097"
  define yoe where "yoe = year_of_era doe"
  define doy where "doy = doe - (365 * yoe + yoe div 4 - yoe div 100)"
  define mp where "mp = (5 * doy + 2) div 153"
  have "0 \<le> doe" "doe \<le> 146096" by (simp_all add: doe_def)
  note Y = year_of_era_bounds [OF this yoe_def]
  then have doy: "0 \<le> doy" "doy \<le> 365" by (simp_all add: doy_def)
  note M = month_of_doy [OF this mp_def]
  have z: "z = era * 146097 + doe - 719468" by (simp add: era_def doe_def)
  have eq: "d = doy - (153 * mp + 2) div 5 + 1" "m = (if mp < 10 then mp + 3 else mp - 9)"
    "y = (if m \<le> 2 then yoe + era * 400 + 1 else yoe + era * 400)"
    using assms unfolding civil_of_days_def Let_def
    unfolding doe_def [symmetric] era_def [symmetric]
    unfolding yoe_def [symmetric]
    unfolding doy_def [symmetric]
    unfolding mp_def [symmetric] by (auto split: if_splits)
  show "1 \<le> m" "m \<le> 12" "1 \<le> d" using M eq by auto
  have "(if m \<le> 2 then y - 1 else y) = yoe + era * 400" "(if 2 < m then m - 3 else m + 9) = mp"
    using eq M by auto
  with Y eq(1) z show "days_of_civil y m d = z"
    by (simp add: days_of_civil_def Let_def doy_def)
qed

text \<open>The day after a date of the same month has the next day number.\<close>

lemma days_of_civil_day: "days_of_civil y m (d + k) = days_of_civil y m d + k"
  by (simp add: days_of_civil_def Let_def)

end
