(* ===== verification/Program.thy ===== *)
theory Program
  imports Prelude
begin

text \<open>
  Go functions that call out. A function of a service is the tree of the calls it makes on its
  interfaces (a repository, the object store, the broker, the clock): \<open>Return\<close> ends it with its
  result, \<open>Call c k\<close> makes the call \<open>c\<close> and goes on with \<open>k\<close> applied to the reply. The Go code is
  translated statement by statement into such a tree; what a call does to the state of the
  service (its tables, what was published) is the \<open>handle\<close> function of that service.

  The same tree is read in two ways: \<open>run\<close> executes it alone, call after call, and \<open>sched\<close>
  interleaves any number of trees call by call, as concurrent requests and workers do. The locale
  \<open>typestate\<close> is the proof rule for the second reading.
\<close>

section \<open>Programs\<close>

datatype ('c, 'r, 'a) prog = Return 'a | Call 'c "'r \<Rightarrow> ('c, 'r, 'a) prog"

primrec run :: "('c \<Rightarrow> 's \<Rightarrow> 'r \<times> 's) \<Rightarrow> ('c, 'r, 'a) prog \<Rightarrow> 's \<Rightarrow> 'a \<times> 's" where
  "run handle (Return x) w = (x, w)"
| "run handle (Call c k) w = run handle (k (fst (handle c w))) (snd (handle c w))"

text \<open>Running a part of a function and going on with its result.\<close>

primrec bind :: "('c, 'r, 'a) prog \<Rightarrow> ('a \<Rightarrow> ('c, 'r, 'b) prog) \<Rightarrow> ('c, 'r, 'b) prog" where
  "bind (Return x) f = f x"
| "bind (Call c k) f = Call c (\<lambda>r. bind (k r) f)"

lemma run_bind: "run h (bind p f) w = (case run h p w of (x, w') \<Rightarrow> run h (f x) w')"
  by (induction p arbitrary: w) auto

lemma bind_bind: "bind (bind p f) g = bind p (\<lambda>x. bind (f x) g)"
  by (induction p) auto

text \<open>A property of the state that every call keeps holds after a run.\<close>

primrec calls_in :: "('c \<Rightarrow> bool) \<Rightarrow> ('c, 'r, 'a) prog \<Rightarrow> bool" where
  "calls_in C (Return x) = True"
| "calls_in C (Call c k) = (C c \<and> (\<forall>r. calls_in C (k r)))"

lemma run_invariant:
  assumes "calls_in C p" and "\<And>c w. C c \<Longrightarrow> I w \<Longrightarrow> I (snd (h c w))" and "I w"
  shows "I (snd (run h p w))"
  using assms by (induction p arbitrary: w) auto

lemma calls_in_mono: "calls_in C p \<Longrightarrow> (\<And>c. C c \<Longrightarrow> D c) \<Longrightarrow> calls_in D p"
  by (induction p) auto

lemma calls_in_bind: "calls_in C p \<Longrightarrow> (\<And>x. calls_in C (f x)) \<Longrightarrow> calls_in C (bind p f)"
  by (induction p) auto

text \<open>The result of a Go function that may panic.\<close>

datatype 'a outcome = Returned 'a | Panicked string


section \<open>Interleaving\<close>

text \<open>
  \<open>sched handle P\<close>: a request of \<open>P\<close> arrives, or one of the running functions makes its next
  call. \<open>handle\<close> takes an environment that decides how the calls outside the program turn out;
  every step may pick another one.
\<close>

inductive sched ::
  "('e \<Rightarrow> 'c \<Rightarrow> 's \<Rightarrow> 'r \<times> 's) \<Rightarrow> ('c, 'r, 'a) prog set \<Rightarrow> ('c, 'r, 'a) prog list \<times> 's
     \<Rightarrow> ('c, 'r, 'a) prog list \<times> 's \<Rightarrow> bool"
  for handle :: "'e \<Rightarrow> 'c \<Rightarrow> 's \<Rightarrow> 'r \<times> 's" and P :: "('c, 'r, 'a) prog set" where
  arrive: "p \<in> P \<Longrightarrow> sched handle P (ts, w) (ts @ [p], w)"
| call: "i < length ts \<Longrightarrow> ts ! i = Call c k \<Longrightarrow> handle e c w = (r, w')
           \<Longrightarrow> sched handle P (ts, w) (ts[i := k r], w')"

inductive_cases sched_cases: "sched handle P (ts, w) (ts', w')"

inductive reachable ::
  "('e \<Rightarrow> 'c \<Rightarrow> 's \<Rightarrow> 'r \<times> 's) \<Rightarrow> ('c, 'r, 'a) prog set \<Rightarrow> 's
     \<Rightarrow> ('c, 'r, 'a) prog list \<times> 's \<Rightarrow> bool"
  for handle :: "'e \<Rightarrow> 'c \<Rightarrow> 's \<Rightarrow> 'r \<times> 's" and P :: "('c, 'r, 'a) prog set" and w0 :: 's where
  reach_init: "reachable handle P w0 ([], w0)"
| reach_step: "reachable handle P w0 x \<Longrightarrow> sched handle P x y \<Longrightarrow> reachable handle P w0 y"

text \<open>A schedule to execute: which function makes the next call, and in which environment.\<close>

definition sched_call ::
  "('e \<Rightarrow> 'c \<Rightarrow> 's \<Rightarrow> 'r \<times> 's) \<Rightarrow> nat \<times> 'e \<Rightarrow> ('c, 'r, 'a) prog list \<times> 's
     \<Rightarrow> ('c, 'r, 'a) prog list \<times> 's" where
  "sched_call handle ie x =
     (case fst x ! fst ie of
        Return _ \<Rightarrow> x
      | Call c k \<Rightarrow> (case handle (snd ie) c (snd x) of (r, w') \<Rightarrow> ((fst x)[fst ie := k r], w')))"

definition run_sched where
  "run_sched handle ies x = fold (sched_call handle) ies x"

lemma reachable_arrivals:
  "set ps \<subseteq> P \<Longrightarrow> reachable handle P w0 (ts, w) \<Longrightarrow> reachable handle P w0 (ts @ ps, w)"
proof (induction ps rule: rev_induct)
  case (snoc p ps)
  then have "reachable handle P w0 ((ts @ ps) @ [p], w)"
    by (intro reach_step [OF _ arrive]) auto
  then show ?case by simp
qed simp

lemma reachable_sched_call:
  assumes "reachable handle P w0 x" and "fst ie < length (fst x)"
  shows "reachable handle P w0 (sched_call handle ie x)"
proof (cases "fst x ! fst ie")
  case (Return r)
  with assms show ?thesis by (simp add: sched_call_def)
next
  case (Call c k)
  obtain ts w where x: "x = (ts, w)" by (cases x)
  obtain r w' where h: "handle (snd ie) c w = (r, w')" by (cases "handle (snd ie) c w")
  from assms x Call h have "sched handle P (ts, w) (ts[fst ie := k r], w')"
    by (intro call) auto
  with assms x Call h show ?thesis by (auto simp: sched_call_def intro: reach_step)
qed

lemma length_sched_call [simp]: "length (fst (sched_call handle ie x)) = length (fst x)"
  by (cases "fst x ! fst ie") (auto simp: sched_call_def split: prod.splits)

lemma reachable_run_sched:
  assumes "reachable handle P w0 x" and "list_all (\<lambda>ie. fst ie < length (fst x)) ies"
  shows "reachable handle P w0 (run_sched handle ies x)"
  using assms
proof (induction ies arbitrary: x)
  case (Cons ie ies)
  then have "reachable handle P w0 (run_sched handle ies (sched_call handle ie x))"
    by (intro Cons.IH) (auto intro: reachable_sched_call)
  then show ?case by (simp add: run_sched_def)
qed (simp add: run_sched_def)

fun result_of :: "('c, 'r, 'a) prog \<Rightarrow> 'a option" where
  "result_of (Return x) = Some x"
| "result_of (Call c k) = None"

lemma all_returned: "map result_of ts = map Some xs \<Longrightarrow> ts = map Return xs"
proof (induction ts arbitrary: xs)
  case (Cons t ts)
  then show ?case by (cases t) (auto simp: Cons_eq_map_conv)
qed simp

text \<open>The reachable states of a set of requests that all have the same form.\<close>

lemma reachable_schedule:
  assumes "set ps \<subseteq> P" and "list_all (\<lambda>ie. fst ie < length ps) ies"
  shows "reachable handle P w0 (run_sched handle ies (ps, w0))"
proof -
  have "reachable handle P w0 ([] @ ps, w0)"
    using assms(1) by (intro reachable_arrivals reach_init)
  with assms(2) show ?thesis by (intro reachable_run_sched) simp_all
qed

text \<open>A restriction on the calls of every request holds of the calls every running function has left.\<close>

lemma reachable_calls_in:
  assumes "reachable handle P w0 x" and "\<And>p. p \<in> P \<Longrightarrow> calls_in C p"
  shows "list_all (calls_in C) (fst x)"
  using assms(1)
proof (induction rule: reachable.induct)
  case (reach_step x y)
  from reach_step.hyps(2) show ?case
  proof cases
    case (arrive p ts w)
    with reach_step.IH assms(2) show ?thesis by simp
  next
    case (call i ts c k e w r w')
    with reach_step.IH have "calls_in C (Call c k)" by (auto simp: list_all_length)
    with reach_step.IH call show ?thesis by (auto simp: list_all_length nth_list_update)
  qed
qed simp

text \<open>What every call keeps holds in every reachable state, whatever the requests are.\<close>

lemma reachable_keeps:
  assumes "reachable handle P w0 x" and "I w0" and "\<And>e c w r w'. I w \<Longrightarrow> handle e c w = (r, w') \<Longrightarrow> I w'"
  shows "I (snd x)"
  using assms(1)
proof (induction rule: reachable.induct)
  case (reach_step x y)
  from reach_step.hyps(2) show ?case
  proof cases
    case (call i ts c k e w r w')
    with reach_step.IH assms(3) show ?thesis by auto
  qed (use reach_step.IH in simp)
qed (use assms(2) in simp)


text \<open>A step relation on the state that every permitted call obeys is obeyed by every step.\<close>

lemma sched_simulates:
  assumes "reachable handle P w0 (ts, w)" and "sched handle P (ts, w) (ts', w')"
    and "\<And>p. p \<in> P \<Longrightarrow> calls_in C p" and "\<And>e c w r w'. C c \<Longrightarrow> handle e c w = (r, w') \<Longrightarrow> R w w'" and "R w w"
  shows "R w w'"
  using assms(2)
proof cases
  case (call i c k e r)
  with reachable_calls_in [OF assms(1,3)] have "C c" by (auto simp: list_all_length)
  with assms(4) call show ?thesis by blast
qed (use assms(5) in simp)

section \<open>Typestates\<close>

text \<open>
  A typestate gives every running function a phase. \<open>allowed\<close> says which calls a phase may make
  and \<open>next_phase\<close> where a reply leads; \<open>good_reply\<close> restricts the replies that have to be
  considered. \<open>follows\<close> checks a function against it. If every allowed call keeps \<open>inv\<close>, a relation between the
  state and the phases of all the running functions, then \<open>inv\<close> holds in every reachable state.
\<close>

primrec follows ::
  "('p \<Rightarrow> 'c \<Rightarrow> bool) \<Rightarrow> ('p \<Rightarrow> 'c \<Rightarrow> 'r \<Rightarrow> 'p) \<Rightarrow> ('c \<Rightarrow> 'r \<Rightarrow> bool)
     \<Rightarrow> ('c, 'r, 'a) prog \<Rightarrow> 'p \<Rightarrow> bool" where
  "follows allowed next_phase good_reply (Return x) ph = True"
| "follows allowed next_phase good_reply (Call c k) ph =
     (allowed ph c \<and> (\<forall>r. good_reply c r \<longrightarrow> follows allowed next_phase good_reply (k r) (next_phase ph c r)))"

text \<open>The result of a function does not matter to its typestate.\<close>

lemma follows_ignore_result:
  "follows allowed next_phase good_reply (bind p (\<lambda>_. Return x)) ph = follows allowed next_phase good_reply p ph"
  by (induction p arbitrary: ph) auto

lemma follows_stay:
  assumes "calls_in (allowed ph) p" and "\<And>c r. allowed ph c \<Longrightarrow> next_phase ph c r = ph"
  shows "follows allowed next_phase good_reply p ph"
  using assms by (induction p) auto


locale typestate =
  fixes handle :: "'e \<Rightarrow> 'c \<Rightarrow> 's \<Rightarrow> 'r \<times> 's"
    and allowed :: "'p \<Rightarrow> 'c \<Rightarrow> bool"
    and next_phase :: "'p \<Rightarrow> 'c \<Rightarrow> 'r \<Rightarrow> 'p"
    and good_reply :: "'c \<Rightarrow> 'r \<Rightarrow> bool"
    and start :: 'p
    and inv :: "'s \<Rightarrow> 'p list \<Rightarrow> bool"
  assumes inv_arrive: "inv w phs \<Longrightarrow> inv w (phs @ [start])"
    and inv_call: "inv w phs \<Longrightarrow> i < length phs \<Longrightarrow> allowed (phs ! i) c \<Longrightarrow> handle e c w = (r, w')
                     \<Longrightarrow> good_reply c r \<and> inv w' (phs[i := next_phase (phs ! i) c r])"
begin

definition well_phased :: "('c, 'r, 'a) prog list \<times> 's \<Rightarrow> bool" where
  "well_phased x \<longleftrightarrow>
     (\<exists>phs. list_all2 (follows allowed next_phase good_reply) (fst x) phs \<and> inv (snd x) phs)"

lemma well_phased_step:
  assumes "well_phased x" and "sched handle P x y"
    and P: "\<And>p. p \<in> P \<Longrightarrow> follows allowed next_phase good_reply p start"
  shows "well_phased y"
proof -
  from assms(1) obtain phs where
    phs: "list_all2 (follows allowed next_phase good_reply) (fst x) phs" "inv (snd x) phs"
    by (auto simp: well_phased_def)
  from assms(2) show ?thesis
  proof cases
    case (arrive p ts w)
    with phs P have "list_all2 (follows allowed next_phase good_reply) (ts @ [p]) (phs @ [start])"
      by (auto simp: list_all2_appendI)
    with arrive phs inv_arrive show ?thesis by (auto simp: well_phased_def)
  next
    case (call i ts c k e w r w')
    with phs have len: "i < length phs" "length ts = length phs" by (auto dest: list_all2_lengthD)
    from call phs have f: "follows allowed next_phase good_reply (Call c k) (phs ! i)"
      by (auto dest: list_all2_nthD)
    with call phs len inv_call [of w phs i c e r w'] have
      g: "good_reply c r" and inv': "inv w' (phs[i := next_phase (phs ! i) c r])" by auto
    from f g have "follows allowed next_phase good_reply (k r) (next_phase (phs ! i) c r)" by simp
    with phs call have "list_all2 (follows allowed next_phase good_reply) (ts[i := k r])
        (phs[i := next_phase (phs ! i) c r])"
      by (auto intro: list_all2_update_cong)
    with inv' call show ?thesis by (auto simp: well_phased_def)
  qed
qed

theorem reachable_well_phased:
  assumes "reachable handle P w0 x" and "inv w0 []"
    and "\<And>p. p \<in> P \<Longrightarrow> follows allowed next_phase good_reply p start"
  shows "well_phased x"
  using assms(1)
proof (induction rule: reachable.induct)
  case reach_init
  with assms(2) show ?case by (auto simp: well_phased_def)
next
  case (reach_step x y)
  with assms(3) show ?case by (blast intro: well_phased_step)
qed

text \<open>What the invariant says of the state alone holds in every reachable state.\<close>

corollary reachable_inv:
  assumes "reachable handle P w0 (ts, w)" and "inv w0 []"
    and "\<And>p. p \<in> P \<Longrightarrow> follows allowed next_phase good_reply p start"
  shows "\<exists>phs. length phs = length ts \<and> inv w phs"
  using reachable_well_phased [OF assms] by (auto simp: well_phased_def) (metis list_all2_lengthD)

end

end
