(* ===== verification/UploadCalls.thy ===== *)
theory UploadCalls
  imports Storage Tables GoTime Program
begin

text \<open>
  What the upload service is made of: its domain types (internal/domain), its configuration, the
  calls its functions make on the repositories (internal/repository), the object store
  (internal/storage), the event publisher (internal/publisher) and the clock, and the state
  those calls act on. \<open>upload_handle\<close> gives each call its meaning: a repository call is one SQL
  statement (or one transaction) on the tables, a storage call goes through the wrapper of
  Storage to the SDK, which is a parameter like every other third party.
\<close>

section \<open>internal/domain\<close>

datatype video_status = PendingUpload | Uploaded | Aborted | Expired

fun video_status_str :: "video_status \<Rightarrow> string" where
  "video_status_str PendingUpload = ''pending_upload''"
| "video_status_str Uploaded = ''uploaded''"
| "video_status_str Aborted = ''aborted''"
| "video_status_str Expired = ''expired''"

record video =
  vid_id :: uuid
  vid_title :: string
  vid_description :: string
  vid_owner :: "uuid option"
  vid_object_key :: string
  vid_bucket :: string
  vid_mime :: string
  vid_size :: "int option"
  vid_etag :: string
  vid_status :: video_status
  vid_storage_url :: string
  vid_upload_expires :: "gotime option"
  vid_uploaded_at :: "gotime option"
  vid_created_at :: gotime
  vid_updated_at :: gotime

datatype session_status =
    SInitiated | SInProgress | SCompleting | SCompleted | SAborted | SExpired

fun session_status_str :: "session_status \<Rightarrow> string" where
  "session_status_str SInitiated = ''initiated''"
| "session_status_str SInProgress = ''in_progress''"
| "session_status_str SCompleting = ''completing''"
| "session_status_str SCompleted = ''completed''"
| "session_status_str SAborted = ''aborted''"
| "session_status_str SExpired = ''expired''"

datatype part_status = PPending | PUploaded

fun part_status_str :: "part_status \<Rightarrow> string" where
  "part_status_str PPending = ''pending''"
| "part_status_str PUploaded = ''uploaded''"

record upload_part =
  up_id :: uuid
  up_session :: uuid
  up_number :: int
  up_etag :: string
  up_size :: "int option"
  up_status :: part_status
  up_url :: string
  up_url_expires :: "gotime option"
  up_uploaded_at :: "gotime option"
  up_created_at :: gotime
  up_updated_at :: gotime

text \<open>\<open>us_parts\<close> is the association \<open>Parts\<close>: it is not a column, only a preload fills it.\<close>

record upload_session =
  us_id :: uuid
  us_video :: uuid
  us_s3_id :: string
  us_object_key :: string
  us_bucket :: string
  us_mime :: string
  us_total_parts :: int
  us_part_size :: int
  us_total_size :: int
  us_status :: session_status
  us_expires :: gotime
  us_completed_at :: "gotime option"
  us_created_at :: gotime
  us_updated_at :: gotime
  us_parts :: "upload_part list"

section \<open>internal/config\<close>

record upload_config =
  uc_bucket :: string
  uc_max_size :: int
  uc_presign_ttl :: int
  uc_mime_types :: string
  uc_chunk_mb :: int
  uc_part_ttl :: int
  uc_session_hours :: int
  uc_janitor_interval :: int
  uc_janitor_batch :: int

section \<open>internal/dto/event.go\<close>

record video_uploaded_event =
  ev_video :: string
  ev_object_key :: string
  ev_bucket :: string
  ev_mime :: string
  ev_size :: "int option"
  ev_etag :: string
  ev_owner :: "string option"
  ev_uploaded_at :: "gotime option"
  ev_storage_url :: string

section \<open>Calls and replies\<close>

datatype upload_call =
    CVideoCreate video
  | CVideoGet uuid
  | CVideoSave video
  | CVideoCount string
  | CVideoPage string int int
  | CVideosExpired gotime int
  | CSessionCreate upload_session "upload_part list"
  | CSessionGet uuid
  | CPartsOf uuid
  | CSessionSave upload_session
  | CPartGet uuid int
  | CPartSave upload_part
  | CPartsUploaded uuid
  | CSessionsExpired gotime int
  | CTransition uuid session_status session_status
  | CPresignPut string string duration
  | CHead string
  | CDelete string
  | CCreateMultipart string string
  | CPresignPart string string int duration
  | CComplete string string "completed_part list"
  | CAbort string string
  | CPublish string string video_uploaded_event
  | CNow
  | CNewUUID

datatype upload_reply =
    RError (r_error: "goerr option")
  | RVideo (r_video: "goerr + video")
  | RVideos (r_videos: "goerr + video list")
  | RCount (r_count: "goerr + int")
  | RSession (r_session: "goerr + upload_session")
  | RSessions (r_sessions: "goerr + upload_session list")
  | RPart (r_part: "goerr + upload_part")
  | RParts (r_parts: "goerr + upload_part list")
  | RMoved (r_moved: "goerr + bool")
  | RText (r_text: "goerr + string")
  | RUrl (r_url: "goerr + (string \<times> gotime)")
  | RHead (r_head: "goerr + (int \<times> string \<times> bool)")
  | RTime (r_time: gotime)
  | RUuid (r_uuid: uuid)

type_synonym 'a upload_prog = "(upload_call, upload_reply, 'a) prog"

section \<open>The state and the environment\<close>

text \<open>
  Tables, the events the broker accepted, the effects on the bucket that succeeded, and how many
  times the clock and the random source were read.
\<close>

datatype s3_effect =
    S3Created string string
  | S3Completed string string "(int \<times> string) list"
  | S3Aborted string string
  | S3Deleted string

record upload_world =
  uw_videos :: "video list"
  uw_sessions :: "upload_session list"
  uw_parts :: "upload_part list"
  uw_events :: "video_uploaded_event list"
  uw_s3 :: "s3_effect list"
  uw_ticks :: nat
  uw_uuids :: nat

text \<open>
  What is decided outside: whether a database statement or a publication fails, what the SDK
  answers, the successive readings of the clock and of \<open>uuid.New\<close>.
\<close>

record upload_env =
  ue_db_err :: "upload_call \<Rightarrow> goerr option"
  ue_broker_err :: "string \<Rightarrow> string \<Rightarrow> video_uploaded_event \<Rightarrow> goerr option"
  ue_clock :: "nat \<Rightarrow> gotime"
  ue_uuid :: "nat \<Rightarrow> uuid"
  ue_storage :: s3_storage
  ue_sdk_presign_put :: "string \<Rightarrow> string \<Rightarrow> string \<Rightarrow> duration \<Rightarrow> goerr + string"
  ue_sdk_head :: "string \<Rightarrow> string \<Rightarrow> goerr + (int option \<times> string option)"
  ue_sdk_delete :: "string \<Rightarrow> string \<Rightarrow> goerr option"
  ue_sdk_create :: "string \<Rightarrow> string \<Rightarrow> string \<Rightarrow> goerr + string option"
  ue_sdk_presign_part :: "string \<Rightarrow> string \<Rightarrow> string \<Rightarrow> int \<Rightarrow> duration \<Rightarrow> goerr + string"
  ue_sdk_complete :: "string \<Rightarrow> string \<Rightarrow> string \<Rightarrow> (int \<times> string) list \<Rightarrow> goerr + string option"
  ue_sdk_abort :: "string \<Rightarrow> string \<Rightarrow> string \<Rightarrow> goerr option"

definition tick :: "upload_env \<Rightarrow> upload_world \<Rightarrow> gotime \<times> upload_world" where
  "tick env w = (ue_clock env (uw_ticks w), w\<lparr>uw_ticks := Suc (uw_ticks w)\<rparr>)"

definition log_s3 :: "s3_effect \<Rightarrow> upload_world \<Rightarrow> upload_world" where
  "log_s3 x w = w\<lparr>uw_s3 := uw_s3 w @ [x]\<rparr>"

section \<open>SQL of the repositories\<close>

text \<open>Each statement on the tables; GORM fills \<open>created_at\<close> and \<open>updated_at\<close> when it writes a row.\<close>

definition sql_video_create :: "gotime \<Rightarrow> video \<Rightarrow> upload_world \<Rightarrow> upload_world" where
  "sql_video_create now v w =
     w\<lparr>uw_videos := insert_row (v\<lparr>vid_created_at := now, vid_updated_at := now\<rparr>) (uw_videos w)\<rparr>"

definition sql_video_save :: "gotime \<Rightarrow> video \<Rightarrow> upload_world \<Rightarrow> upload_world" where
  "sql_video_save now v w = w\<lparr>uw_videos := save_row vid_id (v\<lparr>vid_updated_at := now\<rparr>) (uw_videos w)\<rparr>"

definition sql_video_match :: "string \<Rightarrow> video \<Rightarrow> bool" where
  "sql_video_match status v \<longleftrightarrow> status = '''' \<or> video_status_str (vid_status v) = status"

definition sql_video_page :: "string \<Rightarrow> int \<Rightarrow> int \<Rightarrow> upload_world \<Rightarrow> video list" where
  "sql_video_page status off lim w =
     limit_rows lim (offset_rows off
       (sort_key (\<lambda>v. - vid_created_at v) (filter (sql_video_match status) (uw_videos w))))"

definition sql_videos_expired :: "gotime \<Rightarrow> int \<Rightarrow> upload_world \<Rightarrow> video list" where
  "sql_videos_expired before lim w =
     limit_rows lim
       (filter (\<lambda>v. vid_status v = PendingUpload \<and>
                  (case vid_upload_expires v of Some t \<Rightarrow> t < before | None \<Rightarrow> False)) (uw_videos w))"

definition sql_session_create :: "gotime \<Rightarrow> upload_session \<Rightarrow> upload_part list \<Rightarrow> upload_world \<Rightarrow> upload_world" where
  "sql_session_create now s parts w =
     w\<lparr>uw_sessions := insert_row (s\<lparr>us_created_at := now, us_updated_at := now, us_parts := []\<rparr>) (uw_sessions w),
       uw_parts := uw_parts w @ map (\<lambda>p. p\<lparr>up_created_at := now, up_updated_at := now\<rparr>) parts\<rparr>"

definition sql_parts_of :: "uuid \<Rightarrow> (upload_part \<Rightarrow> bool) \<Rightarrow> upload_world \<Rightarrow> upload_part list" where
  "sql_parts_of sid P w = sort_key up_number (filter (\<lambda>p. up_session p = sid \<and> P p) (uw_parts w))"

definition sql_session_save :: "gotime \<Rightarrow> upload_session \<Rightarrow> upload_world \<Rightarrow> upload_world" where
  "sql_session_save now s w =
     w\<lparr>uw_sessions := save_row us_id (s\<lparr>us_updated_at := now, us_parts := []\<rparr>) (uw_sessions w)\<rparr>"

definition sql_part_save :: "gotime \<Rightarrow> upload_part \<Rightarrow> upload_world \<Rightarrow> upload_world" where
  "sql_part_save now p w = w\<lparr>uw_parts := save_row up_id (p\<lparr>up_updated_at := now\<rparr>) (uw_parts w)\<rparr>"

definition sql_sessions_expired :: "gotime \<Rightarrow> int \<Rightarrow> upload_world \<Rightarrow> upload_session list" where
  "sql_sessions_expired before lim w =
     limit_rows lim
       (filter (\<lambda>s. us_status s \<in> {SInitiated, SInProgress} \<and> us_expires s < before) (uw_sessions w))"

text \<open>\<open>UPDATE upload_sessions SET status = to WHERE id = ? AND status = from\<close>\<close>

definition sql_transition :: "gotime \<Rightarrow> uuid \<Rightarrow> session_status \<Rightarrow> session_status \<Rightarrow> upload_world \<Rightarrow> bool \<times> upload_world" where
  "sql_transition now sid frm to w =
     (rows_affected (\<lambda>s. us_id s = sid \<and> us_status s = frm) (uw_sessions w) = 1,
      w\<lparr>uw_sessions := update_rows (\<lambda>s. us_id s = sid \<and> us_status s = frm)
                         (\<lambda>s. s\<lparr>us_status := to, us_updated_at := now\<rparr>) (uw_sessions w)\<rparr>)"

section \<open>What each call does\<close>

text \<open>A statement that writes: it fails and changes nothing, or it takes effect.\<close>

definition db_exec :: "upload_env \<Rightarrow> upload_call \<Rightarrow> (gotime \<Rightarrow> upload_world \<Rightarrow> upload_world) \<Rightarrow> upload_world
    \<Rightarrow> upload_reply \<times> upload_world" where
  "db_exec env c f w =
     (case ue_db_err env c of
        Some e \<Rightarrow> (RError (Some e), w)
      | None \<Rightarrow> (case tick env w of (now, w') \<Rightarrow> (RError None, f now w')))"

definition db_read :: "upload_env \<Rightarrow> upload_call \<Rightarrow> (goerr + 'x) \<Rightarrow> goerr + 'x" where
  "db_read env c r = (case ue_db_err env c of Some e \<Rightarrow> Inl e | None \<Rightarrow> r)"

fun upload_handle :: "upload_env \<Rightarrow> upload_call \<Rightarrow> upload_world \<Rightarrow> upload_reply \<times> upload_world" where
  "upload_handle env (CVideoCreate v) w = db_exec env (CVideoCreate v) (\<lambda>now. sql_video_create now v) w"
| "upload_handle env (CVideoGet i) w =
     (RVideo (db_read env (CVideoGet i) (first_row (\<lambda>v. vid_id v = i) (uw_videos w))), w)"
| "upload_handle env (CVideoSave v) w = db_exec env (CVideoSave v) (\<lambda>now. sql_video_save now v) w"
| "upload_handle env (CVideoCount status) w =
     (RCount (db_read env (CVideoCount status)
        (Inr (int (length (filter (sql_video_match status) (uw_videos w)))))), w)"
| "upload_handle env (CVideoPage status off lim) w =
     (RVideos (db_read env (CVideoPage status off lim) (Inr (sql_video_page status off lim w))), w)"
| "upload_handle env (CVideosExpired before lim) w =
     (RVideos (db_read env (CVideosExpired before lim) (Inr (sql_videos_expired before lim w))), w)"
| "upload_handle env (CSessionCreate s parts) w =
     db_exec env (CSessionCreate s parts) (\<lambda>now. sql_session_create now s parts) w"
| "upload_handle env (CSessionGet i) w =
     (RSession (db_read env (CSessionGet i) (first_row (\<lambda>s. us_id s = i) (uw_sessions w))), w)"
| "upload_handle env (CPartsOf i) w =
     (RParts (db_read env (CPartsOf i) (Inr (sql_parts_of i (\<lambda>_. True) w))), w)"
| "upload_handle env (CSessionSave s) w = db_exec env (CSessionSave s) (\<lambda>now. sql_session_save now s) w"
| "upload_handle env (CPartGet i n) w =
     (RPart (db_read env (CPartGet i n)
        (first_row (\<lambda>p. up_session p = i \<and> up_number p = n) (uw_parts w))), w)"
| "upload_handle env (CPartSave p) w = db_exec env (CPartSave p) (\<lambda>now. sql_part_save now p) w"
| "upload_handle env (CPartsUploaded i) w =
     (RParts (db_read env (CPartsUploaded i) (Inr (sql_parts_of i (\<lambda>p. up_status p = PUploaded) w))), w)"
| "upload_handle env (CSessionsExpired before lim) w =
     (RSessions (db_read env (CSessionsExpired before lim) (Inr (sql_sessions_expired before lim w))), w)"
| "upload_handle env (CTransition i frm to) w =
     (case ue_db_err env (CTransition i frm to) of
        Some e \<Rightarrow> (RMoved (Inl e), w)
      | None \<Rightarrow>
          (case tick env w of (now, w1) \<Rightarrow>
            (case sql_transition now i frm to w1 of (ok, w2) \<Rightarrow> (RMoved (Inr ok), w2))))"
| "upload_handle env (CPresignPut key ct ttl) w =
     (case tick env w of (now, w') \<Rightarrow>
        (RUrl (s3_presign_put (ue_sdk_presign_put env) (ue_storage env) now key ct ttl), w'))"
| "upload_handle env (CHead key) w = (RHead (s3_head_object (ue_sdk_head env) (ue_storage env) key), w)"
| "upload_handle env (CDelete key) w =
     (case s3_delete_object (ue_sdk_delete env) (ue_storage env) key of
        None \<Rightarrow> (RError None, log_s3 (S3Deleted key) w)
      | Some e \<Rightarrow> (RError (Some e), w))"
| "upload_handle env (CCreateMultipart key mime) w =
     (case s3_create_multipart (ue_sdk_create env) (ue_storage env) key mime of
        Inl e \<Rightarrow> (RText (Inl e), w)
      | Inr uid \<Rightarrow> (RText (Inr uid), log_s3 (S3Created key uid) w))"
| "upload_handle env (CPresignPart key uid n ttl) w =
     (case tick env w of (now, w') \<Rightarrow>
        (RUrl (s3_presign_part (ue_sdk_presign_part env) (ue_storage env) now key uid n ttl), w'))"
| "upload_handle env (CComplete key uid parts) w =
     (case s3_complete_multipart (ue_sdk_complete env) (ue_storage env) key uid parts of
        Inl e \<Rightarrow> (RText (Inl e), w)
      | Inr etag \<Rightarrow> (RText (Inr etag), log_s3 (S3Completed key uid (sent_parts parts)) w))"
| "upload_handle env (CAbort key uid) w =
     (case s3_abort_multipart (ue_sdk_abort env) (ue_storage env) key uid of
        None \<Rightarrow> (RError None, log_s3 (S3Aborted key uid) w)
      | Some e \<Rightarrow> (RError (Some e), w))"
| "upload_handle env (CPublish exchange routing_key ev) w =
     (case ue_broker_err env exchange routing_key ev of
        Some e \<Rightarrow> (RError (Some e), w)
      | None \<Rightarrow> (RError None, w\<lparr>uw_events := uw_events w @ [ev]\<rparr>))"
| "upload_handle env CNow w = (case tick env w of (now, w') \<Rightarrow> (RTime now, w'))"
| "upload_handle env CNewUUID w = (RUuid (ue_uuid env (uw_uuids w)), w\<lparr>uw_uuids := Suc (uw_uuids w)\<rparr>)"

section \<open>The repositories as the services call them\<close>

definition video_create :: "video \<Rightarrow> (goerr option \<Rightarrow> 'a upload_prog) \<Rightarrow> 'a upload_prog" where
  "video_create v k = Call (CVideoCreate v) (\<lambda>r. k (r_error r))"

definition video_get_by_id :: "uuid \<Rightarrow> (goerr + video \<Rightarrow> 'a upload_prog) \<Rightarrow> 'a upload_prog" where
  "video_get_by_id i k = Call (CVideoGet i) (\<lambda>r. k (r_video r))"

definition video_update :: "video \<Rightarrow> (goerr option \<Rightarrow> 'a upload_prog) \<Rightarrow> 'a upload_prog" where
  "video_update v k = Call (CVideoSave v) (\<lambda>r. k (r_error r))"

definition video_list :: "string \<Rightarrow> int \<Rightarrow> int \<Rightarrow> (goerr + (video list \<times> int) \<Rightarrow> 'a upload_prog) \<Rightarrow> 'a upload_prog" where
  "video_list status page page_size k =
     Call (CVideoCount status) (\<lambda>r. case r_count r of
       Inl err \<Rightarrow> k (Inl err)
     | Inr cnt \<Rightarrow>
         (let off = int64 (int64 (page - 1) * page_size) in
          Call (CVideoPage status off page_size) (\<lambda>r. case r_videos r of
            Inl err \<Rightarrow> k (Inl err)
          | Inr videos \<Rightarrow> k (Inr (videos, cnt)))))"

definition video_list_expired_pending :: "gotime \<Rightarrow> int \<Rightarrow> (goerr + video list \<Rightarrow> 'a upload_prog) \<Rightarrow> 'a upload_prog" where
  "video_list_expired_pending before lim k = Call (CVideosExpired before lim) (\<lambda>r. k (r_videos r))"

definition session_create :: "upload_session \<Rightarrow> upload_part list \<Rightarrow> (goerr option \<Rightarrow> 'a upload_prog) \<Rightarrow> 'a upload_prog" where
  "session_create s parts k = Call (CSessionCreate s parts) (\<lambda>r. k (r_error r))"

definition session_get_by_id :: "uuid \<Rightarrow> (goerr + upload_session \<Rightarrow> 'a upload_prog) \<Rightarrow> 'a upload_prog" where
  "session_get_by_id i k = Call (CSessionGet i) (\<lambda>r. k (r_session r))"

text \<open>The preload is a second statement, after the session was read.\<close>

definition session_get_with_parts :: "uuid \<Rightarrow> (goerr + upload_session \<Rightarrow> 'a upload_prog) \<Rightarrow> 'a upload_prog" where
  "session_get_with_parts i k =
     Call (CSessionGet i) (\<lambda>r. case r_session r of
       Inl err \<Rightarrow> k (Inl err)
     | Inr s \<Rightarrow>
         Call (CPartsOf (us_id s)) (\<lambda>r. case r_parts r of
           Inl err \<Rightarrow> k (Inl err)
         | Inr ps \<Rightarrow> k (Inr (s\<lparr>us_parts := ps\<rparr>))))"

definition session_update :: "upload_session \<Rightarrow> (goerr option \<Rightarrow> 'a upload_prog) \<Rightarrow> 'a upload_prog" where
  "session_update s k = Call (CSessionSave s) (\<lambda>r. k (r_error r))"

definition part_get_by_number :: "uuid \<Rightarrow> int \<Rightarrow> (goerr + upload_part \<Rightarrow> 'a upload_prog) \<Rightarrow> 'a upload_prog" where
  "part_get_by_number i n k = Call (CPartGet i n) (\<lambda>r. k (r_part r))"

definition part_update :: "upload_part \<Rightarrow> (goerr option \<Rightarrow> 'a upload_prog) \<Rightarrow> 'a upload_prog" where
  "part_update p k = Call (CPartSave p) (\<lambda>r. k (r_error r))"

definition get_uploaded_parts :: "uuid \<Rightarrow> (goerr + upload_part list \<Rightarrow> 'a upload_prog) \<Rightarrow> 'a upload_prog" where
  "get_uploaded_parts i k = Call (CPartsUploaded i) (\<lambda>r. k (r_parts r))"

definition list_expired_active_sessions :: "gotime \<Rightarrow> int \<Rightarrow> (goerr + upload_session list \<Rightarrow> 'a upload_prog) \<Rightarrow> 'a upload_prog" where
  "list_expired_active_sessions before lim k = Call (CSessionsExpired before lim) (\<lambda>r. k (r_sessions r))"

definition transition_session_status ::
  "uuid \<Rightarrow> session_status \<Rightarrow> session_status \<Rightarrow> (goerr + bool \<Rightarrow> 'a upload_prog) \<Rightarrow> 'a upload_prog" where
  "transition_session_status i frm to k = Call (CTransition i frm to) (\<lambda>r. k (r_moved r))"

section \<open>Storage, publisher, clock\<close>

definition presign_put :: "string \<Rightarrow> string \<Rightarrow> duration \<Rightarrow> (goerr + (string \<times> gotime) \<Rightarrow> 'a upload_prog) \<Rightarrow> 'a upload_prog" where
  "presign_put key ct ttl k = Call (CPresignPut key ct ttl) (\<lambda>r. k (r_url r))"

definition head_object :: "string \<Rightarrow> (goerr + (int \<times> string \<times> bool) \<Rightarrow> 'a upload_prog) \<Rightarrow> 'a upload_prog" where
  "head_object key k = Call (CHead key) (\<lambda>r. k (r_head r))"

definition delete_object :: "string \<Rightarrow> (goerr option \<Rightarrow> 'a upload_prog) \<Rightarrow> 'a upload_prog" where
  "delete_object key k = Call (CDelete key) (\<lambda>r. k (r_error r))"

definition create_multipart_upload :: "string \<Rightarrow> string \<Rightarrow> (goerr + string \<Rightarrow> 'a upload_prog) \<Rightarrow> 'a upload_prog" where
  "create_multipart_upload key mime k = Call (CCreateMultipart key mime) (\<lambda>r. k (r_text r))"

definition presign_part_url :: "string \<Rightarrow> string \<Rightarrow> int \<Rightarrow> duration \<Rightarrow> (goerr + (string \<times> gotime) \<Rightarrow> 'a upload_prog) \<Rightarrow> 'a upload_prog" where
  "presign_part_url key uid n ttl k = Call (CPresignPart key uid n ttl) (\<lambda>r. k (r_url r))"

definition complete_multipart_upload :: "string \<Rightarrow> string \<Rightarrow> completed_part list \<Rightarrow> (goerr + string \<Rightarrow> 'a upload_prog) \<Rightarrow> 'a upload_prog" where
  "complete_multipart_upload key uid parts k = Call (CComplete key uid parts) (\<lambda>r. k (r_text r))"

definition abort_multipart_upload :: "string \<Rightarrow> string \<Rightarrow> (goerr option \<Rightarrow> 'a upload_prog) \<Rightarrow> 'a upload_prog" where
  "abort_multipart_upload key uid k = Call (CAbort key uid) (\<lambda>r. k (r_error r))"

definition publish_video_uploaded :: "video_uploaded_event \<Rightarrow> (goerr option \<Rightarrow> 'a upload_prog) \<Rightarrow> 'a upload_prog" where
  "publish_video_uploaded ev k = Call (CPublish ''video.events'' ''video.uploaded'' ev) (\<lambda>r. k (r_error r))"

definition time_now :: "(gotime \<Rightarrow> 'a upload_prog) \<Rightarrow> 'a upload_prog" where
  "time_now k = Call CNow (\<lambda>r. k (r_time r))"

definition uuid_new :: "(uuid \<Rightarrow> 'a upload_prog) \<Rightarrow> 'a upload_prog" where
  "uuid_new k = Call CNewUUID (\<lambda>r. k (r_uuid r))"

lemmas upload_call_defs =
  video_create_def video_get_by_id_def video_update_def video_list_def video_list_expired_pending_def
  session_create_def session_get_by_id_def session_get_with_parts_def session_update_def
  part_get_by_number_def part_update_def get_uploaded_parts_def list_expired_active_sessions_def
  transition_session_status_def presign_put_def head_object_def delete_object_def
  create_multipart_upload_def presign_part_url_def complete_multipart_upload_def
  abort_multipart_upload_def publish_video_uploaded_def time_now_def uuid_new_def

end
