(* ===== verification/VideoService.thy ===== *)
theory VideoService
  imports UploadCalls
begin

text \<open>
  services/upload/internal/service/video_service.go: single-request uploads. \<open>InitUpload\<close> creates a
  pending video with a presigned URL, \<open>CompleteUpload\<close> checks the object and publishes
  \<open>video.uploaded\<close>, \<open>AbortUpload\<close>, \<open>GetVideo\<close> and \<open>ListVideos\<close>. Each function is the tree of its
  calls (theory Program); its result is the Go pair of response and error.
\<close>

section \<open>internal/dto/api.go\<close>

record init_upload_request =
  iu_title :: string
  iu_description :: string
  iu_mime :: string
  iu_size :: int

record init_upload_response =
  iur_video :: string
  iur_object_key :: string
  iur_bucket :: string
  iur_url :: string
  iur_method :: string
  iur_expires :: gotime
  iur_status :: string

record complete_upload_response =
  cur_video :: string
  cur_status :: string
  cur_size :: "int option"
  cur_etag :: string
  cur_uploaded_at :: "gotime option"

record abort_response =
  ar_id :: string
  ar_status :: string

record video_response =
  vr_video :: string
  vr_title :: string
  vr_description :: string
  vr_object_key :: string
  vr_bucket :: string
  vr_mime :: string
  vr_size :: "int option"
  vr_status :: string
  vr_storage_url :: string
  vr_upload_expires :: "gotime option"
  vr_uploaded_at :: "gotime option"
  vr_created_at :: gotime

record list_videos_request =
  lv_status :: string
  lv_page :: int
  lv_page_size :: int

record list_videos_response =
  lvr_videos :: "video_response list"
  lvr_total :: int
  lvr_page :: int
  lvr_page_size :: int

text \<open>Third-party and machine facts: google/uuid, and the zone of the server's clock.\<close>

record upload_lib =
  ul_uuid_string :: "uuid \<Rightarrow> string"
  ul_uuid_parse :: "string \<Rightarrow> goerr + uuid"
  ul_zone :: int

section \<open>Helpers\<close>

text \<open>\<open>filepath.Ext\<close>: the suffix from the last dot after the last slash.\<close>

definition filepath_ext :: "string \<Rightarrow> string" where
  "filepath_ext path =
     (let tail = takeWhile (\<lambda>c. c \<noteq> CHR ''.'' \<and> c \<noteq> CHR ''/'') (rev path)
      in case drop (length tail) (rev path) of
           [] \<Rightarrow> ''''
         | c # _ \<Rightarrow> if c = CHR ''.'' then CHR ''.'' # rev tail else '''')"

definition mime_to_ext :: "string \<Rightarrow> string" where
  "mime_to_ext mime =
     (if mime = ''video/mp4'' then ''.mp4''
      else if mime = ''video/quicktime'' then ''.mov''
      else if mime = ''video/webm'' then ''.webm''
      else filepath_ext mime)"

definition validate_mime_type :: "upload_config \<Rightarrow> string \<Rightarrow> goerr option" where
  "validate_mime_type cfg mime =
     (if list_ex (\<lambda>a. trim_space a = mime) (split_on (CHR '','') (uc_mime_types cfg)) then None
      else Some (bad_request None (''mime type '' @ quote mime @ '' is not allowed'')))"

definition video_to_response :: "upload_lib \<Rightarrow> video \<Rightarrow> video_response" where
  "video_to_response lib v =
     \<lparr>vr_video = ul_uuid_string lib (vid_id v), vr_title = vid_title v, vr_description = vid_description v,
      vr_object_key = vid_object_key v, vr_bucket = vid_bucket v, vr_mime = vid_mime v,
      vr_size = vid_size v, vr_status = video_status_str (vid_status v), vr_storage_url = vid_storage_url v,
      vr_upload_expires = vid_upload_expires v, vr_uploaded_at = vid_uploaded_at v,
      vr_created_at = vid_created_at v\<rparr>"

definition video_to_complete_response :: "upload_lib \<Rightarrow> video \<Rightarrow> complete_upload_response" where
  "video_to_complete_response lib v =
     \<lparr>cur_video = ul_uuid_string lib (vid_id v), cur_status = video_status_str (vid_status v),
      cur_size = vid_size v, cur_etag = vid_etag v, cur_uploaded_at = vid_uploaded_at v\<rparr>"

definition uploaded_event :: "upload_lib \<Rightarrow> video \<Rightarrow> video_uploaded_event" where
  "uploaded_event lib v =
     \<lparr>ev_video = ul_uuid_string lib (vid_id v), ev_object_key = vid_object_key v, ev_bucket = vid_bucket v,
      ev_mime = vid_mime v, ev_size = vid_size v, ev_etag = vid_etag v,
      ev_owner = map_option (ul_uuid_string lib) (vid_owner v), ev_uploaded_at = vid_uploaded_at v,
      ev_storage_url = vid_storage_url v\<rparr>"

text \<open>A failed publication is logged and forgotten.\<close>

definition publish_uploaded_event :: "upload_lib \<Rightarrow> video \<Rightarrow> 'a upload_prog \<Rightarrow> 'a upload_prog" where
  "publish_uploaded_event lib v k = publish_video_uploaded (uploaded_event lib v) (\<lambda>err. k)"

definition video_lookup_error :: "goerr \<Rightarrow> goerr" where
  "video_lookup_error err =
     (if err = Sentinel ErrRecordNotFound then not_found ''video not found'' else internal_server err)"

section \<open>Operations\<close>

definition init_upload ::
  "upload_lib \<Rightarrow> s3_storage \<Rightarrow> upload_config \<Rightarrow> init_upload_request \<Rightarrow> (goerr + init_upload_response) upload_prog" where
  "init_upload lib store cfg req =
     (case validate_mime_type cfg (iu_mime req) of
        Some err \<Rightarrow> Return (Inl err)
      | None \<Rightarrow>
          if iu_size req > uc_max_size cfg
          then Return (Inl (bad_request None (''file size exceeds limit of '' @ dec (uc_max_size cfg) @ '' bytes'')))
          else
            uuid_new (\<lambda>video_id.
            time_now (\<lambda>now.
              let object_key = ''videos/'' @ dec (time_year (ul_zone lib) now) @ ''/'' @
                    dec2 (time_month (ul_zone lib) now) @ ''/'' @ ul_uuid_string lib video_id @
                    mime_to_ext (iu_mime req);
                  ttl = int64 (uc_presign_ttl cfg * second)
              in presign_put object_key (iu_mime req) ttl (\<lambda>r. case r of
                   Inl err \<Rightarrow> Return (Inl (internal_server err))
                 | Inr (upload_url, expires_at) \<Rightarrow>
                     video_create
                       \<lparr>vid_id = video_id, vid_title = iu_title req, vid_description = iu_description req,
                        vid_owner = None, vid_object_key = object_key, vid_bucket = uc_bucket cfg,
                        vid_mime = iu_mime req, vid_size = None, vid_etag = '''',
                        vid_status = PendingUpload, vid_storage_url = s3_object_url store object_key,
                        vid_upload_expires = Some expires_at, vid_uploaded_at = None,
                        vid_created_at = zero_time, vid_updated_at = zero_time\<rparr>
                       (\<lambda>err. case err of
                          Some err \<Rightarrow> Return (Inl (internal_server err))
                        | None \<Rightarrow> Return (Inr
                            \<lparr>iur_video = ul_uuid_string lib video_id, iur_object_key = object_key,
                             iur_bucket = uc_bucket cfg, iur_url = upload_url, iur_method = ''PUT'',
                             iur_expires = expires_at, iur_status = video_status_str PendingUpload\<rparr>))))))"

definition complete_upload :: "upload_lib \<Rightarrow> uuid \<Rightarrow> (goerr + complete_upload_response) upload_prog" where
  "complete_upload lib i =
     video_get_by_id i (\<lambda>r. case r of
       Inl err \<Rightarrow> Return (Inl (video_lookup_error err))
     | Inr v \<Rightarrow>
         if vid_status v = Uploaded then Return (Inr (video_to_complete_response lib v))
         else
           head_object (vid_object_key v) (\<lambda>r. case r of
             Inl err \<Rightarrow> Return (Inl (internal_server err))
           | Inr (size_bytes, etag, exists) \<Rightarrow>
               if \<not> exists then Return (Inl (bad_request None ''object not found in storage''))
               else
                 time_now (\<lambda>now.
                   let v' = v\<lparr>vid_status := Uploaded, vid_size := Some size_bytes, vid_etag := etag,
                              vid_uploaded_at := Some now\<rparr>
                   in video_update v' (\<lambda>err. case err of
                        Some err \<Rightarrow> Return (Inl (internal_server err))
                      | None \<Rightarrow>
                          publish_uploaded_event lib v' (Return (Inr (video_to_complete_response lib v')))))))"

definition abort_upload :: "upload_lib \<Rightarrow> uuid \<Rightarrow> (goerr + abort_response) upload_prog" where
  "abort_upload lib i =
     video_get_by_id i (\<lambda>r. case r of
       Inl err \<Rightarrow> Return (Inl (video_lookup_error err))
     | Inr v \<Rightarrow>
         if vid_status v = Aborted
         then Return (Inr \<lparr>ar_id = ul_uuid_string lib i, ar_status = video_status_str (vid_status v)\<rparr>)
         else
           delete_object (vid_object_key v) (\<lambda>err.
             video_update (v\<lparr>vid_status := Aborted\<rparr>) (\<lambda>err. case err of
               Some err \<Rightarrow> Return (Inl (internal_server err))
             | None \<Rightarrow>
                 Return (Inr \<lparr>ar_id = ul_uuid_string lib i, ar_status = video_status_str Aborted\<rparr>))))"

definition get_video :: "upload_lib \<Rightarrow> uuid \<Rightarrow> (goerr + video_response) upload_prog" where
  "get_video lib i =
     video_get_by_id i (\<lambda>r. case r of
       Inl err \<Rightarrow> Return (Inl (video_lookup_error err))
     | Inr v \<Rightarrow> Return (Inr (video_to_response lib v)))"

definition list_videos :: "upload_lib \<Rightarrow> list_videos_request \<Rightarrow> (goerr + list_videos_response) upload_prog" where
  "list_videos lib req =
     video_list (lv_status req) (lv_page req) (lv_page_size req) (\<lambda>r. case r of
       Inl err \<Rightarrow> Return (Inl (internal_server err))
     | Inr (videos, cnt) \<Rightarrow>
         Return (Inr \<lparr>lvr_videos = map (video_to_response lib) videos, lvr_total = cnt,
                      lvr_page = lv_page req, lvr_page_size = lv_page_size req\<rparr>))"

section \<open>A concrete service\<close>

text \<open>
  The witnesses evaluate the model on one bucket with one pending video; the SDK answers with an
  object of five bytes, no statement fails and the clock advances by a second at each reading.
\<close>

definition demo_lib :: upload_lib where
  "demo_lib = \<lparr>ul_uuid_string = (\<lambda>i. dec (uint i)),
     ul_uuid_parse = (\<lambda>s. if s = ''7'' then Inr 7 else Inl (Plain ''invalid UUID'')), ul_zone = 0\<rparr>"

definition demo_video :: video where
  "demo_video = \<lparr>vid_id = 7, vid_title = ''t'', vid_description = '''', vid_owner = None,
     vid_object_key = ''k'', vid_bucket = ''b'', vid_mime = ''video/mp4'', vid_size = None, vid_etag = '''',
     vid_status = PendingUpload, vid_storage_url = ''u'', vid_upload_expires = Some 100,
     vid_uploaded_at = None, vid_created_at = 1, vid_updated_at = 1\<rparr>"

definition demo_world :: upload_world where
  "demo_world = \<lparr>uw_videos = [demo_video], uw_sessions = [], uw_parts = [], uw_events = [], uw_s3 = [],
     uw_ticks = 0, uw_uuids = 0\<rparr>"

definition demo_env :: upload_env where
  "demo_env = \<lparr>ue_db_err = (\<lambda>_. None), ue_broker_err = (\<lambda>_ _ _. None),
     ue_clock = (\<lambda>n. int n * second), ue_uuid = (\<lambda>n. word_of_nat n),
     ue_storage = \<lparr>s3_bucket = ''b'', s3_public_url = ''u''\<rparr>,
     ue_sdk_presign_put = (\<lambda>_ _ _ _. Inr ''put''), ue_sdk_head = (\<lambda>_ _. Inr (Some 5, Some ''e'')),
     ue_sdk_delete = (\<lambda>_ _. None), ue_sdk_create = (\<lambda>_ _ _. Inr (Some ''mpu'')),
     ue_sdk_presign_part = (\<lambda>_ _ _ _ _. Inr ''part''), ue_sdk_complete = (\<lambda>_ _ _ _. Inr (Some ''e'')),
     ue_sdk_abort = (\<lambda>_ _ _. None)\<rparr>"

definition demo_cfg :: upload_config where
  "demo_cfg = \<lparr>uc_bucket = ''b'', uc_max_size = 1000000000, uc_presign_ttl = 900,
     uc_mime_types = ''video/webm, video/mp4'', uc_chunk_mb = 5, uc_part_ttl = 3600, uc_session_hours = 24,
     uc_janitor_interval = 60, uc_janitor_batch = 10\<rparr>"

lemmas demo_defs = demo_cfg_def demo_lib_def demo_video_def demo_world_def demo_env_def by_key_def

section \<open>CompleteUpload\<close>

lemma tick_simps [simp]:
  "uw_videos (snd (tick env w)) = uw_videos w" "uw_events (snd (tick env w)) = uw_events w"
  "uw_sessions (snd (tick env w)) = uw_sessions w" "uw_parts (snd (tick env w)) = uw_parts w"
  "uw_s3 (snd (tick env w)) = uw_s3 w"
  by (simp_all add: tick_def)

text \<open>What \<open>CompleteUpload\<close> stores: the row of the video with the size and tag of the object.\<close>

definition uploaded_row :: "int \<Rightarrow> string \<Rightarrow> gotime \<Rightarrow> gotime \<Rightarrow> video \<Rightarrow> video" where
  "uploaded_row n e now now' v =
     v\<lparr>vid_status := Uploaded, vid_size := Some n, vid_etag := e, vid_uploaded_at := Some now,
       vid_updated_at := now'\<rparr>"

lemma complete_upload_uploaded:
  assumes "by_key vid_id i (uw_videos w) = Some v" and "vid_status v = Uploaded"
    and "ue_db_err env (CVideoGet i) = None"
  shows "run (upload_handle env) (complete_upload lib i) w = (Inr (video_to_complete_response lib v), w)"
  using assms by (simp add: complete_upload_def video_get_by_id_def db_read_def first_row_by_key)

lemma event_after_update [simp]:
  "uploaded_event lib (v\<lparr>vid_updated_at := t\<rparr>) = uploaded_event lib v"
  "video_to_complete_response lib (v\<lparr>vid_updated_at := t\<rparr>) = video_to_complete_response lib v"
  by (simp_all add: uploaded_event_def video_to_complete_response_def)

lemma complete_upload_run:
  assumes "by_key vid_id i (uw_videos w) = Some v" and "vid_status v \<noteq> Uploaded"
    and "run (upload_handle env) (complete_upload lib i) w = (r, w')"
  defines "row \<equiv> \<lambda>n e. uploaded_row n e (ue_clock env (uw_ticks w)) (ue_clock env (Suc (uw_ticks w))) v"
  shows "(uw_videos w' = uw_videos w \<and> uw_events w' = uw_events w \<and> isl r) \<or>
    (\<exists>n e. s3_head_object (ue_sdk_head env) (ue_storage env) (vid_object_key v) = Inr (n, e, True) \<and>
       uw_videos w' = save_row vid_id (row n e) (uw_videos w) \<and>
       r = Inr (video_to_complete_response lib (row n e)) \<and>
       uw_events w' = uw_events w @
         (case ue_broker_err env ''video.events'' ''video.uploaded'' (uploaded_event lib (row n e)) of
            None \<Rightarrow> [uploaded_event lib (row n e)] | Some _ \<Rightarrow> []))"
proof (cases "\<exists>n e. s3_head_object (ue_sdk_head env) (ue_storage env) (vid_object_key v) = Inr (n, e, True)")
  case True
  then obtain n e where head: "s3_head_object (ue_sdk_head env) (ue_storage env) (vid_object_key v) = Inr (n, e, True)"
    by blast
  have "(uw_videos w' = uw_videos w \<and> uw_events w' = uw_events w \<and> isl r) \<or>
      (uw_videos w' = save_row vid_id (row n e) (uw_videos w) \<and>
       r = Inr (video_to_complete_response lib (row n e)) \<and>
       uw_events w' = uw_events w @
         (case ue_broker_err env ''video.events'' ''video.uploaded'' (uploaded_event lib (row n e)) of
            None \<Rightarrow> [uploaded_event lib (row n e)] | Some _ \<Rightarrow> []))"
    using assms(1-3) head
    by (auto simp: complete_upload_def upload_call_defs publish_uploaded_event_def db_read_def db_exec_def
        first_row_by_key tick_def sql_video_save_def uploaded_row_def uploaded_event_def row_def
        video_to_complete_response_def Let_def split: option.splits sum.splits if_splits)
  with head show ?thesis by blast
next
  case False
  with assms(1-3) show ?thesis
    by (auto simp: complete_upload_def upload_call_defs db_read_def first_row_by_key
        split: option.splits sum.splits if_splits)
qed

text \<open>
  \<open>CompleteUpload\<close> on a video that is not uploaded yet either fails and leaves the videos and
  the published events as they were, or marks exactly that row uploaded with the size and the
  tag the store reports and publishes that very event (unless the broker refuses it, which is only
  logged); after a success the same request again answers the same and changes nothing, so the
  event of a video is not published twice.
\<close>
theorem complete_upload_once:
  assumes "by_key vid_id i (uw_videos w) = Some v" and "vid_status v \<noteq> Uploaded"
    and "run (upload_handle env) (complete_upload lib i) w = (r, w')"
  shows "(isl r \<longrightarrow> uw_videos w' = uw_videos w \<and> uw_events w' = uw_events w)
    \<and> (\<not> isl r \<longrightarrow>
        (\<exists>v'. by_key vid_id i (uw_videos w') = Some v' \<and> vid_status v' = Uploaded
          \<and> s3_head_object (ue_sdk_head env) (ue_storage env) (vid_object_key v) = Inr (the (vid_size v'), vid_etag v', True)
          \<and> (\<forall>j. j \<noteq> i \<longrightarrow> by_key vid_id j (uw_videos w') = by_key vid_id j (uw_videos w))
          \<and> uw_events w' = uw_events w @
              (if ue_broker_err env ''video.events'' ''video.uploaded'' (uploaded_event lib v') = None
               then [uploaded_event lib v'] else [])
          \<and> (ue_db_err env' (CVideoGet i) = None \<longrightarrow>
               run (upload_handle env') (complete_upload lib i) w' = (r, w'))))"
proof -
  have key: "vid_id v = i" using assms(1) by_key_Some by fastforce
  consider (fail) "uw_videos w' = uw_videos w" "uw_events w' = uw_events w" "isl r"
    | (stored) n e now now' where
      "s3_head_object (ue_sdk_head env) (ue_storage env) (vid_object_key v) = Inr (n, e, True)"
      "uw_videos w' = save_row vid_id (uploaded_row n e now now' v) (uw_videos w)"
      "r = Inr (video_to_complete_response lib (uploaded_row n e now now' v))"
      "uw_events w' = uw_events w @
         (case ue_broker_err env ''video.events'' ''video.uploaded''
                 (uploaded_event lib (uploaded_row n e now now' v)) of
            None \<Rightarrow> [uploaded_event lib (uploaded_row n e now now' v)] | Some _ \<Rightarrow> [])"
    using complete_upload_run [OF assms] by blast
  then show ?thesis
  proof cases
    case fail
    then show ?thesis by simp
  next
    case stored
    define v' where "v' = uploaded_row n e now now' v"
    have v': "vid_id v' = i" "vid_status v' = Uploaded" "vid_size v' = Some n" "vid_etag v' = e"
      using key by (simp_all add: v'_def uploaded_row_def)
    have row: "by_key vid_id j (uw_videos w') = (if j = i then Some v' else by_key vid_id j (uw_videos w))" for j
      using stored(2) v'(1) by (simp add: by_key_save flip: v'_def)
    moreover have "ue_db_err env' (CVideoGet i) = None \<Longrightarrow>
        run (upload_handle env') (complete_upload lib i) w' = (r, w')"
      using complete_upload_uploaded [of i w' v' env' lib] row v' stored(3) by (simp add: v'_def)
    ultimately show ?thesis using stored v'
      by (intro conjI impI exI [of _ v']) (auto simp: v'_def split: option.splits)
  qed
qed

lemma demo_complete_ok:
  "\<not> isl (fst (run (upload_handle demo_env) (complete_upload demo_lib 7) demo_world))"
  by (simp add: demo_defs complete_upload_def upload_call_defs publish_uploaded_event_def db_read_def
      db_exec_def tick_def first_row_def s3_head_object_def Let_def)

theorem complete_upload_once_witness:
  "\<exists>v'. by_key vid_id 7 (uw_videos (snd (run (upload_handle demo_env) (complete_upload demo_lib 7) demo_world))) = Some v'
      \<and> vid_status v' = Uploaded"
proof -
  have "by_key vid_id 7 (uw_videos demo_world) = Some demo_video" "vid_status demo_video \<noteq> Uploaded"
    by (simp_all add: demo_defs)
  from complete_upload_once [OF this, of demo_env demo_lib] demo_complete_ok show ?thesis
    by (metis prod.collapse)
qed

section \<open>ListVideos\<close>

lemma list_videos_run:
  assumes "ue_db_err env = (\<lambda>_. None)" and "1 \<le> p" and "0 < n" and "(p - 1) * n < 2 ^ 63" and "p < 2 ^ 63"
  shows "run (upload_handle env) (list_videos lib \<lparr>lv_status = status, lv_page = p, lv_page_size = n\<rparr>) w =
    (Inr \<lparr>lvr_videos = map (video_to_response lib) (take (nat n) (drop (nat ((p - 1) * n))
            (sort_key (\<lambda>v. - vid_created_at v) (filter (sql_video_match status) (uw_videos w))))),
          lvr_total = int (length (filter (sql_video_match status) (uw_videos w))),
          lvr_page = p, lvr_page_size = n\<rparr>, w)"
proof -
  have "int64 (p - 1) = p - 1" using assms by (intro int64_id) auto
  moreover have "0 \<le> (p - 1) * n" using assms by simp
  then have "int64 ((p - 1) * n) = (p - 1) * n" using assms(4) by (intro int64_id) linarith+
  moreover have "offset_rows ((p - 1) * n) xs = drop (nat ((p - 1) * n)) xs" for xs :: "video list"
    using assms by (cases "(p - 1) * n = 0") (auto simp: offset_rows_def)
  ultimately show ?thesis
    using assms by (simp add: list_videos_def video_list_def db_read_def sql_video_page_def limit_rows_def)
qed

text \<open>
  Pagination of \<open>ListVideos\<close>: for any page size, the pages 1 to k put together are exactly
  the videos with the requested status, newest first, as soon as k pages are enough to hold them;
  every page reports their number as the total, and the requests change nothing.
\<close>
theorem list_videos_pages:
  fixes env :: upload_env and lib :: upload_lib and w :: upload_world and n k :: nat and status :: string
  assumes "ue_db_err env = (\<lambda>_. None)" and "0 < n" and "length matching \<le> k * n" and "k * n < 2 ^ 63"
    and "matching = filter (sql_video_match status) (uw_videos w)"
  defines "page \<equiv> \<lambda>p. run (upload_handle env)
      (list_videos lib \<lparr>lv_status = status, lv_page = int (Suc p), lv_page_size = int n\<rparr>) w"
  shows "concat (map (\<lambda>p. case fst (page p) of Inr r \<Rightarrow> lvr_videos r | Inl _ \<Rightarrow> []) [0..<k]) =
         map (video_to_response lib) (sort_key (\<lambda>v. - vid_created_at v) matching)
    \<and> list_all (\<lambda>p. snd (page p) = w \<and> (\<exists>r. fst (page p) = Inr r \<and> lvr_total r = int (length matching))) [0..<k]"
proof -
  let ?sorted = "sort_key (\<lambda>v. - vid_created_at v) matching"
  have page: "page p = (Inr \<lparr>lvr_videos = map (video_to_response lib) (take n (drop (p * n) ?sorted)),
      lvr_total = int (length matching), lvr_page = int (Suc p), lvr_page_size = int n\<rparr>, w)"
    if "p < k" for p
  proof -
    have "Suc p * n \<le> k * n" using that by (intro mult_le_mono1) simp
    moreover have "p * n \<le> Suc p * n" "Suc p \<le> Suc p * n" using assms(2) by (simp_all del: mult_Suc)
    ultimately have "p * n < 2 ^ 63" "Suc p < 2 ^ 63" using assms(4) by linarith+
    then have "int (p * n) < int (2 ^ 63)" "int (Suc p) < int (2 ^ 63)" by (simp_all only: of_nat_less_iff)
    moreover have e: "(int (Suc p) - 1) * int n = int (p * n)" by simp
    ultimately have b: "(int (Suc p) - 1) * int n < 2 ^ 63" "int (Suc p) < 2 ^ 63"
      by (simp_all only: e of_nat_power of_nat_numeral)
    have "nat ((int (Suc p) - 1) * int n) = p * n" by (simp only: e nat_int)
    then show ?thesis
      using list_videos_run [OF assms(1), of "int (Suc p)" "int n" lib status w] b assms(2,5)
      by (simp add: page_def)
  qed
  then have "map (\<lambda>p. case fst (page p) of Inr r \<Rightarrow> lvr_videos r | Inl _ \<Rightarrow> []) [0..<k] =
      map (map (video_to_response lib)) (map (\<lambda>p. take n (drop (p * n) ?sorted)) [0..<k])"
    by simp
  moreover have "concat (map (map (video_to_response lib)) (map (\<lambda>p. take n (drop (p * n) ?sorted)) [0..<k])) =
      map (video_to_response lib) ?sorted"
    unfolding map_concat [symmetric] concat_pages using assms(3) by simp
  ultimately have "concat (map (\<lambda>p. case fst (page p) of Inr r \<Rightarrow> lvr_videos r | Inl _ \<Rightarrow> []) [0..<k]) =
      map (video_to_response lib) ?sorted" by (simp only:)
  moreover have "list_all (\<lambda>p. snd (page p) = w \<and>
      (\<exists>r. fst (page p) = Inr r \<and> lvr_total r = int (length matching))) [0..<k]"
    using page by (simp add: list_all_iff)
  ultimately show ?thesis by blast
qed

theorem list_videos_pages_witness:
  "concat (map (\<lambda>p. case fst (run (upload_handle demo_env)
      (list_videos demo_lib \<lparr>lv_status = [], lv_page = int (Suc p), lv_page_size = int 1\<rparr>) demo_world) of
        Inr r \<Rightarrow> lvr_videos r | Inl _ \<Rightarrow> []) [0..<2]) = [video_to_response demo_lib demo_video]"
  using list_videos_pages [of demo_env 1 "[demo_video]" 2 "[]" demo_world demo_lib]
  by (simp add: demo_defs sql_video_match_def)

end
