(* ===== verification/SessionService.thy ===== *)
theory SessionService
  imports VideoService
begin

text \<open>
  services/upload/internal/service/upload_session_service.go: chunked uploads. A session is created
  with its pending parts, each part gets a presigned URL and is confirmed with its entity tag,
  then the session is completed on S3 or aborted. \<open>CompleteSession\<close> is split where the code takes
  its optimistic lock (\<open>in_progress\<close> to \<open>completing\<close>) and where S3 has answered.
\<close>

section \<open>Data\<close>

record init_chunked_request =
  ic_video :: string
  ic_mime :: string
  ic_size :: int

record init_chunked_response =
  icr_session :: string
  icr_video :: string
  icr_total_parts :: int
  icr_part_size :: int
  icr_total_size :: int
  icr_status :: string
  icr_expires :: gotime

record part_state_response =
  ps_number :: int
  ps_status :: string
  ps_etag :: string

record get_session_response =
  gs_session :: string
  gs_video :: string
  gs_total_parts :: int
  gs_part_size :: int
  gs_total_size :: int
  gs_status :: string
  gs_expires :: gotime
  gs_parts :: "part_state_response list"

record part_url_response =
  pu_session :: string
  pu_number :: int
  pu_url :: string
  pu_method :: string
  pu_expires :: gotime

record confirm_part_response =
  cf_session :: string
  cf_number :: int
  cf_status :: string
  cf_uploaded :: int
  cf_total :: int

record complete_chunked_response =
  cc_session :: string
  cc_video :: string
  cc_status :: string
  cc_etag :: string
  cc_size :: "int option"
  cc_uploaded_at :: "gotime option"

section \<open>Sizes\<close>

definition min_part_size :: int where "min_part_size = 5 * 1024 * 1024"
definition max_part_count :: int where "max_part_count = 10000"

definition part_size_of :: "upload_config \<Rightarrow> int" where
  "part_size_of cfg =
     (let chunk = (if uc_chunk_mb cfg < 5 then 5 else uc_chunk_mb cfg);
          part_size = int64 (int64 (chunk * 1024) * 1024)
      in if part_size < min_part_size then min_part_size else part_size)"

definition part_count :: "int \<Rightarrow> int \<Rightarrow> int" where
  "part_count size_bytes part_size = f64_ceil_div size_bytes part_size"

section \<open>Helpers\<close>

text \<open>The session service has copies of two helpers of the video service, which do the same.\<close>

abbreviation session_validate_mime_type :: "upload_config \<Rightarrow> string \<Rightarrow> goerr option" where
  "session_validate_mime_type \<equiv> validate_mime_type"

abbreviation session_publish_uploaded_event :: "upload_lib \<Rightarrow> video \<Rightarrow> 'a upload_prog \<Rightarrow> 'a upload_prog" where
  "session_publish_uploaded_event \<equiv> publish_uploaded_event"


definition session_lookup_error :: "goerr \<Rightarrow> goerr" where
  "session_lookup_error err =
     (if err = Sentinel ErrRecordNotFound then not_found ''upload session not found'' else internal_server err)"

definition part_lookup_error :: "goerr \<Rightarrow> goerr" where
  "part_lookup_error err =
     (if err = Sentinel ErrRecordNotFound then not_found ''part not found'' else internal_server err)"

definition session_to_complete_response :: "upload_lib \<Rightarrow> upload_session \<Rightarrow> video option \<Rightarrow> complete_chunked_response" where
  "session_to_complete_response lib s v =
     \<lparr>cc_session = ul_uuid_string lib (us_id s), cc_video = ul_uuid_string lib (us_video s),
      cc_status = session_status_str (us_status s),
      cc_etag = (case v of Some x \<Rightarrow> vid_etag x | None \<Rightarrow> ''''),
      cc_size = Option.bind v vid_size, cc_uploaded_at = Option.bind v vid_uploaded_at\<rparr>"

text \<open>\<open>%v\<close> of a \<open>[]int\<close>: the numbers in brackets, separated by spaces.\<close>

definition show_ints :: "int list \<Rightarrow> string" where
  "show_ints ns = ''['' @ concat (map (\<lambda>(i, n). (if i = 0 then '''' else '' '') @ dec n) (enumerate 0 ns)) @ '']''"

section \<open>InitChunkedUpload and GetSession\<close>

text \<open>The loop that builds the pending parts, one \<open>uuid.New\<close> for each number.\<close>

fun new_parts :: "uuid \<Rightarrow> int list \<Rightarrow> (upload_part list \<Rightarrow> 'a upload_prog) \<Rightarrow> 'a upload_prog" where
  "new_parts sid [] k = k []"
| "new_parts sid (n # ns) k =
     uuid_new (\<lambda>u. new_parts sid ns (\<lambda>ps. k
       (\<lparr>up_id = u, up_session = sid, up_number = n, up_etag = '''', up_size = None, up_status = PPending,
         up_url = '''', up_url_expires = None, up_uploaded_at = None, up_created_at = zero_time,
         up_updated_at = zero_time\<rparr> # ps)))"

definition new_session ::
  "upload_config \<Rightarrow> init_chunked_request \<Rightarrow> int \<Rightarrow> int \<Rightarrow> uuid \<Rightarrow> video \<Rightarrow> string \<Rightarrow> uuid \<Rightarrow> gotime \<Rightarrow> upload_session" where
  "new_session cfg req total_parts part_size video_id v s3_upload_id session_id now =
     (let ttl0 = int64 (uc_session_hours cfg * hour);
          session_ttl = (if ttl0 = 0 then 24 * hour else ttl0)
      in \<lparr>us_id = session_id, us_video = video_id, us_s3_id = s3_upload_id,
          us_object_key = vid_object_key v, us_bucket = vid_bucket v, us_mime = ic_mime req,
          us_total_parts = total_parts, us_part_size = part_size, us_total_size = ic_size req,
          us_status = SInitiated, us_expires = now + session_ttl, us_completed_at = None,
          us_created_at = zero_time, us_updated_at = zero_time, us_parts = []\<rparr>)"

definition store_session ::
  "upload_lib \<Rightarrow> upload_session \<Rightarrow> upload_part list \<Rightarrow> (goerr + init_chunked_response) upload_prog" where
  "store_session lib s parts =
     session_create s parts (\<lambda>err. case err of
       Some err \<Rightarrow>
         abort_multipart_upload (us_object_key s) (us_s3_id s) (\<lambda>_. Return (Inl (internal_server err)))
     | None \<Rightarrow>
         Return (Inr \<lparr>icr_session = ul_uuid_string lib (us_id s), icr_video = ul_uuid_string lib (us_video s),
           icr_total_parts = us_total_parts s, icr_part_size = us_part_size s,
           icr_total_size = us_total_size s, icr_status = session_status_str SInitiated,
           icr_expires = us_expires s\<rparr>))"

definition init_session ::
  "upload_lib \<Rightarrow> upload_config \<Rightarrow> init_chunked_request \<Rightarrow> int \<Rightarrow> int \<Rightarrow> uuid \<Rightarrow> video \<Rightarrow> string
     \<Rightarrow> (goerr + init_chunked_response) upload_prog" where
  "init_session lib cfg req total_parts part_size video_id v s3_upload_id =
     uuid_new (\<lambda>session_id.
     time_now (\<lambda>now.
     new_parts session_id [1..total_parts] (\<lambda>parts.
       store_session lib (new_session cfg req total_parts part_size video_id v s3_upload_id session_id now) parts)))"

definition init_chunked_upload ::
  "upload_lib \<Rightarrow> upload_config \<Rightarrow> init_chunked_request \<Rightarrow> (goerr + init_chunked_response) upload_prog" where
  "init_chunked_upload lib cfg req =
     (case session_validate_mime_type cfg (ic_mime req) of
        Some err \<Rightarrow> Return (Inl err)
      | None \<Rightarrow>
          if ic_size req > uc_max_size cfg
          then Return (Inl (bad_request None (''file size exceeds limit of '' @ dec (uc_max_size cfg) @ '' bytes'')))
          else
            (let part_size = part_size_of cfg;
                 total0 = part_count (ic_size req) part_size
             in if total0 > max_part_count
                then Return (Inl (bad_request None (''file requires '' @ dec total0 @
                       '' parts which exceeds the maximum of '' @ dec max_part_count)))
                else
                  (let total_parts = (if total0 < 1 then 1 else total0) in
                   case ul_uuid_parse lib (ic_video req) of
                     Inl err \<Rightarrow> Return (Inl (bad_request None ''invalid video_id''))
                   | Inr video_id \<Rightarrow>
                       video_get_by_id video_id (\<lambda>r. case r of
                         Inl err \<Rightarrow> Return (Inl (video_lookup_error err))
                       | Inr v \<Rightarrow>
                           if vid_status v \<noteq> PendingUpload
                           then Return (Inl (bad_request None (''video status is '' @
                                  quote (video_status_str (vid_status v)) @ '', expected '' @
                                  quote (video_status_str PendingUpload))))
                           else
                             create_multipart_upload (vid_object_key v) (ic_mime req) (\<lambda>r. case r of
                               Inl err \<Rightarrow> Return (Inl (internal_server err))
                             | Inr s3_upload_id \<Rightarrow>
                                 init_session lib cfg req total_parts part_size video_id v s3_upload_id)))))"

definition get_session :: "upload_lib \<Rightarrow> uuid \<Rightarrow> (goerr + get_session_response) upload_prog" where
  "get_session lib sid =
     session_get_with_parts sid (\<lambda>r. case r of
       Inl err \<Rightarrow> Return (Inl (session_lookup_error err))
     | Inr s \<Rightarrow>
         Return (Inr \<lparr>gs_session = ul_uuid_string lib (us_id s), gs_video = ul_uuid_string lib (us_video s),
           gs_total_parts = us_total_parts s, gs_part_size = us_part_size s,
           gs_total_size = us_total_size s, gs_status = session_status_str (us_status s),
           gs_expires = us_expires s,
           gs_parts = map (\<lambda>p. \<lparr>ps_number = up_number p, ps_status = part_status_str (up_status p),
                                ps_etag = up_etag p\<rparr>) (us_parts s)\<rparr>))"

section \<open>GetPartURL and ConfirmPart\<close>

definition get_part_url :: "upload_lib \<Rightarrow> upload_config \<Rightarrow> uuid \<Rightarrow> int \<Rightarrow> (goerr + part_url_response) upload_prog" where
  "get_part_url lib cfg sid part_number =
     session_get_by_id sid (\<lambda>r. case r of
       Inl err \<Rightarrow> Return (Inl (session_lookup_error err))
     | Inr s \<Rightarrow>
         if us_status s \<noteq> SInitiated \<and> us_status s \<noteq> SInProgress
         then Return (Inl (bad_request None (''session status is '' @
                quote (session_status_str (us_status s)) @ '', cannot request part URL'')))
         else if part_number < 1 \<or> part_number > us_total_parts s
         then Return (Inl (bad_request None (''part number must be between 1 and '' @ dec (us_total_parts s))))
         else
           part_get_by_number sid part_number (\<lambda>r. case r of
             Inl err \<Rightarrow> Return (Inl (part_lookup_error err))
           | Inr part \<Rightarrow>
               if up_status part = PUploaded
               then Return (Inl (bad_request None (''part '' @ dec part_number @ '' is already uploaded'')))
               else
                 (let ttl0 = int64 (uc_part_ttl cfg * second);
                      ttl = (if ttl0 = 0 then hour else ttl0)
                  in presign_part_url (us_object_key s) (us_s3_id s) (int32 part_number) ttl (\<lambda>r. case r of
                       Inl err \<Rightarrow> Return (Inl (internal_server err))
                     | Inr (url, expires_at) \<Rightarrow>
                         part_update (part\<lparr>up_url := url, up_url_expires := Some expires_at\<rparr>) (\<lambda>err.
                           let fin = Return (Inr
                             \<lparr>pu_session = ul_uuid_string lib sid, pu_number = part_number, pu_url = url,
                              pu_method = ''PUT'', pu_expires = expires_at\<rparr>)
                           in if us_status s = SInitiated
                              then transition_session_status sid SInitiated SInProgress (\<lambda>_. fin)
                              else fin)))))"

definition confirm_part :: "upload_lib \<Rightarrow> uuid \<Rightarrow> int \<Rightarrow> string \<Rightarrow> (goerr + confirm_part_response) upload_prog" where
  "confirm_part lib sid part_number req_etag =
     session_get_by_id sid (\<lambda>r. case r of
       Inl err \<Rightarrow> Return (Inl (session_lookup_error err))
     | Inr s \<Rightarrow>
         if us_status s \<noteq> SInitiated \<and> us_status s \<noteq> SInProgress
         then Return (Inl (bad_request None (''session status is '' @
                quote (session_status_str (us_status s)) @ '', cannot confirm part'')))
         else
           part_get_by_number sid part_number (\<lambda>r. case r of
             Inl err \<Rightarrow> Return (Inl (part_lookup_error err))
           | Inr part \<Rightarrow>
               if up_status part = PUploaded
               then Return (Inl (bad_request None (''part '' @ dec part_number @ '' is already confirmed'')))
               else
                 (let etag = trim_char quote_char req_etag in
                  if etag = '''' then Return (Inl (bad_request None ''etag must not be empty''))
                  else
                    time_now (\<lambda>now.
                      part_update (part\<lparr>up_etag := etag, up_status := PUploaded, up_uploaded_at := Some now\<rparr>)
                        (\<lambda>err. case err of
                           Some err \<Rightarrow> Return (Inl (internal_server err))
                         | None \<Rightarrow>
                             get_uploaded_parts sid (\<lambda>r. case r of
                               Inl err \<Rightarrow> Return (Inl (internal_server err))
                             | Inr ups \<Rightarrow>
                                 Return (Inr \<lparr>cf_session = ul_uuid_string lib sid, cf_number = part_number,
                                   cf_status = part_status_str PUploaded, cf_uploaded = int (length ups),
                                   cf_total = us_total_parts s\<rparr>)))))))"

section \<open>CompleteSession and AbortSession\<close>

text \<open>After S3 has assembled the object: the video, the session, the event.\<close>

definition complete_stored ::
  "upload_lib \<Rightarrow> upload_session \<Rightarrow> string \<Rightarrow> (goerr + complete_chunked_response) upload_prog" where
  "complete_stored lib s etag =
     time_now (\<lambda>now.
       video_get_by_id (us_video s) (\<lambda>r. case r of
         Inl err \<Rightarrow> Return (Inl (internal_server err))
       | Inr v \<Rightarrow>
           (let v' = v\<lparr>vid_status := Uploaded, vid_etag := etag, vid_size := Some (us_total_size s),
                       vid_uploaded_at := Some now\<rparr>
            in video_update v' (\<lambda>err. case err of
                 Some err \<Rightarrow> Return (Inl (internal_server err))
               | None \<Rightarrow>
                   (let s' = s\<lparr>us_status := SCompleted, us_completed_at := Some now\<rparr>
                    in session_update s' (\<lambda>_.
                         session_publish_uploaded_event lib v'
                           (Return (Inr (session_to_complete_response lib s' (Some v'))))))))))"

definition completed_parts :: "upload_part list \<Rightarrow> completed_part list" where
  "completed_parts ps = map (\<lambda>p. \<lparr>cp_number = int32 (up_number p), cp_etag = up_etag p\<rparr>) ps"

text \<open>After the lock: the multipart upload is completed on S3, or the lock is given back.\<close>

definition complete_locked ::
  "upload_lib \<Rightarrow> uuid \<Rightarrow> upload_session \<Rightarrow> (goerr + complete_chunked_response) upload_prog" where
  "complete_locked lib sid s =
     complete_multipart_upload (us_object_key s) (us_s3_id s) (completed_parts (us_parts s)) (\<lambda>r. case r of
       Inl err \<Rightarrow>
         transition_session_status sid SCompleting SInProgress (\<lambda>_. Return (Inl (internal_server err)))
     | Inr etag \<Rightarrow> complete_stored lib s etag)"

definition complete_session :: "upload_lib \<Rightarrow> uuid \<Rightarrow> (goerr + complete_chunked_response) upload_prog" where
  "complete_session lib sid =
     session_get_with_parts sid (\<lambda>r. case r of
       Inl err \<Rightarrow> Return (Inl (session_lookup_error err))
     | Inr s \<Rightarrow>
         if us_status s = SCompleted
         then video_get_by_id (us_video s) (\<lambda>r.
                Return (Inr (session_to_complete_response lib s (case r of Inr v \<Rightarrow> Some v | Inl _ \<Rightarrow> None))))
         else if us_status s \<noteq> SInProgress
         then Return (Inl (bad_request None (''session status is '' @
                quote (session_status_str (us_status s)) @ '', cannot complete'')))
         else
           (let pending = map up_number (filter (\<lambda>p. up_status p \<noteq> PUploaded) (us_parts s)) in
            if pending \<noteq> []
            then Return (Inl (bad_request None (''parts not yet uploaded: '' @ show_ints pending)))
            else
              transition_session_status sid SInProgress SCompleting (\<lambda>r. case r of
                Inl err \<Rightarrow> Return (Inl (internal_server err))
              | Inr ok \<Rightarrow>
                  if \<not> ok
                  then Return (Inl (bad_request None ''session is already being completed by another request''))
                  else complete_locked lib sid s)))"

definition abort_session :: "upload_lib \<Rightarrow> uuid \<Rightarrow> (goerr + abort_response) upload_prog" where
  "abort_session lib sid =
     session_get_by_id sid (\<lambda>r. case r of
       Inl err \<Rightarrow> Return (Inl (session_lookup_error err))
     | Inr s \<Rightarrow>
         if us_status s = SAborted
         then Return (Inr \<lparr>ar_id = ul_uuid_string lib sid, ar_status = session_status_str (us_status s)\<rparr>)
         else
           abort_multipart_upload (us_object_key s) (us_s3_id s) (\<lambda>_.
             session_update (s\<lparr>us_status := SAborted\<rparr>) (\<lambda>err. case err of
               Some err \<Rightarrow> Return (Inl (internal_server err))
             | None \<Rightarrow> Return (Inr \<lparr>ar_id = ul_uuid_string lib sid, ar_status = session_status_str SAborted\<rparr>))))"

section \<open>Lemmas on one run\<close>

definition db_ok :: "upload_env \<Rightarrow> bool" where
  "db_ok env \<longleftrightarrow> (\<forall>c. ue_db_err env c = None)"

lemma db_ok_simps [simp]: "db_ok env \<Longrightarrow> ue_db_err env c = None"
  by (simp add: db_ok_def)

lemma db_read_ok [simp]: "db_ok env \<Longrightarrow> db_read env c r = r"
  by (simp add: db_read_def)

lemma run_new_parts:
  "\<exists>ps. (\<forall>k. run (upload_handle env) (new_parts sid ns k) w =
               run (upload_handle env) (k ps) (w\<lparr>uw_uuids := uw_uuids w + length ns\<rparr>))
      \<and> map up_number ps = ns
      \<and> list_all (\<lambda>p. up_session p = sid \<and> up_status p = PPending) ps"
proof (induction ns arbitrary: w)
  case (Cons n ns)
  define mk where "mk = (\<lambda>u. \<lparr>up_id = u, up_session = sid, up_number = n, up_etag = '''', up_size = None,
      up_status = PPending, up_url = '''', up_url_expires = None, up_uploaded_at = None,
      up_created_at = zero_time, up_updated_at = zero_time\<rparr>)"
  let ?u = "ue_uuid env (uw_uuids w)" and ?w = "w\<lparr>uw_uuids := Suc (uw_uuids w)\<rparr>"
  have step: "run (upload_handle env) (new_parts sid (n # ns) k) w =
      run (upload_handle env) (new_parts sid ns (\<lambda>ps. k (mk ?u # ps))) ?w" for k :: "upload_part list \<Rightarrow> 'a upload_prog"
    by (simp add: uuid_new_def mk_def)
  obtain ps where ps: "\<And>k :: upload_part list \<Rightarrow> 'a upload_prog. run (upload_handle env) (new_parts sid ns k) ?w =
        run (upload_handle env) (k ps) (?w\<lparr>uw_uuids := uw_uuids ?w + length ns\<rparr>)"
      "map up_number ps = ns" "list_all (\<lambda>p. up_session p = sid \<and> up_status p = PPending) ps"
    using Cons.IH [of ?w] by auto
  show ?case
    by (rule exI [of _ "mk ?u # ps"]) (use step ps in \<open>simp add: mk_def\<close>)
qed simp

lemma transition_hit:
  assumes "keyed us_id (uw_sessions w)" and "by_key us_id sid (uw_sessions w) = Some s" and "us_status s = frm"
  shows "fst (sql_transition now sid frm to w)"
    and "by_key us_id j (uw_sessions (snd (sql_transition now sid frm to w))) =
      (if j = sid then Some (s\<lparr>us_status := to, us_updated_at := now\<rparr>) else by_key us_id j (uw_sessions w))"
    and "keyed us_id (uw_sessions (snd (sql_transition now sid frm to w)))"
  using assms by (simp_all add: sql_transition_def keyed_rows_affected by_key_update_one keyed_update)

lemma sql_transition_frame [simp]:
  "uw_videos (snd (sql_transition now sid frm to w)) = uw_videos w"
  "uw_parts (snd (sql_transition now sid frm to w)) = uw_parts w"
  "uw_events (snd (sql_transition now sid frm to w)) = uw_events w"
  "uw_s3 (snd (sql_transition now sid frm to w)) = uw_s3 w"
  "uw_ticks (snd (sql_transition now sid frm to w)) = uw_ticks w"
  by (simp_all add: sql_transition_def)

section \<open>InitChunkedUpload\<close>

lemma part_size_min: "min_part_size \<le> part_size_of cfg"
  by (simp add: part_size_of_def Let_def)

lemma init_session_run:
  assumes "run (upload_handle env) (init_session lib cfg req n p vid v uid) w = (Inr resp, w')"
  shows "\<exists>s ps. uw_sessions w' = uw_sessions w @ [s] \<and> uw_parts w' = uw_parts w @ ps
    \<and> us_status s = SInitiated \<and> us_total_size s = ic_size req \<and> us_total_parts s = n \<and> us_part_size s = p
    \<and> map up_number ps = [1..n]
    \<and> list_all (\<lambda>p. up_session p = us_id s \<and> up_status p = PPending) ps
    \<and> icr_total_parts resp = n \<and> icr_part_size resp = p"
proof -
  let ?sid = "ue_uuid env (uw_uuids w)"
  let ?w = "w\<lparr>uw_uuids := Suc (uw_uuids w), uw_ticks := Suc (uw_ticks w)\<rparr>"
  define s where "s = new_session cfg req n p vid v uid ?sid (ue_clock env (uw_ticks w))"
  have k: "run (upload_handle env) (init_session lib cfg req n p vid v uid) w =
      run (upload_handle env) (new_parts ?sid [1..n] (store_session lib s)) ?w"
    by (simp add: init_session_def uuid_new_def time_now_def tick_def s_def)
  have s: "us_status s = SInitiated" "us_total_size s = ic_size req" "us_total_parts s = n"
    "us_part_size s = p" "us_id s = ?sid"
    by (simp_all add: s_def new_session_def Let_def)
  obtain ps where ps: "\<And>f :: upload_part list \<Rightarrow> (goerr + init_chunked_response) upload_prog.
        run (upload_handle env) (new_parts ?sid [1..n] f) ?w =
        run (upload_handle env) (f ps) (?w\<lparr>uw_uuids := uw_uuids ?w + length [1..n]\<rparr>)"
      "map up_number ps = [1..n]"
      "list_all (\<lambda>p. up_session p = ?sid \<and> up_status p = PPending) ps"
    using run_new_parts [of env ?sid "[1..n]" ?w] by blast
  define now where "now = ue_clock env (uw_ticks ?w)"
  from assms [unfolded k ps(1)] have
    "uw_sessions w' = uw_sessions w @ [s\<lparr>us_created_at := now, us_updated_at := now, us_parts := []\<rparr>]"
    "uw_parts w' = uw_parts w @ map (\<lambda>p. p\<lparr>up_created_at := now, up_updated_at := now\<rparr>) ps"
    "icr_total_parts resp = us_total_parts s" "icr_part_size resp = us_part_size s"
    by (auto simp: store_session_def upload_call_defs db_exec_def tick_def sql_session_create_def insert_row_def
        now_def split: option.splits)
  moreover have "map up_number (map (\<lambda>p. p\<lparr>up_created_at := now, up_updated_at := now\<rparr>) ps) = [1..n]"
    using ps(2) by (simp add: comp_def)
  moreover have "list_all (\<lambda>p. up_session p = ?sid \<and> up_status p = PPending)
      (map (\<lambda>p. p\<lparr>up_created_at := now, up_updated_at := now\<rparr>) ps)"
    using ps(3) by (simp add: list_all_iff)
  ultimately show ?thesis
    using s by (intro exI [of _ "s\<lparr>us_created_at := now, us_updated_at := now, us_parts := []\<rparr>"]
        exI [of _ "map (\<lambda>p. p\<lparr>up_created_at := now, up_updated_at := now\<rparr>) ps"]) simp
qed

text \<open>
  C16. A session that \<open>InitChunkedUpload\<close> creates covers its file exactly: at least one and at most
  10000 parts of at least 5 MiB, so that all parts together are long enough and all but the last are
  too short; its parts are the pending numbers 1 to n in order, each once, under the new session.
  This holds although the number of parts is computed in floating point, for every size a
  \<open>float64\<close> represents exactly (below 2^53, far above the 5 TiB limit of S3).
\<close>
theorem init_session_covers:
  assumes "run (upload_handle env) (init_chunked_upload lib cfg req) w = (Inr resp, w')"
    and "0 < ic_size req" and "ic_size req < 2 ^ 53" and "part_size_of cfg < 2 ^ 53"
  shows "\<exists>s ps. uw_sessions w' = uw_sessions w @ [s] \<and> uw_parts w' = uw_parts w @ ps
    \<and> us_status s = SInitiated \<and> us_total_size s = ic_size req
    \<and> 1 \<le> us_total_parts s \<and> us_total_parts s \<le> 10000 \<and> 5242880 \<le> us_part_size s
    \<and> (us_total_parts s - 1) * us_part_size s < ic_size req
    \<and> ic_size req \<le> us_total_parts s * us_part_size s
    \<and> map up_number ps = [1..us_total_parts s]
    \<and> list_all (\<lambda>p. up_session p = us_id s \<and> up_status p = PPending) ps
    \<and> icr_total_parts resp = us_total_parts s \<and> icr_part_size resp = us_part_size s"
proof -
  let ?p = "part_size_of cfg"
  let ?n = "part_count (ic_size req) ?p"
  have p: "0 < ?p" "5242880 \<le> ?p" using part_size_min [of cfg] by (simp_all add: min_part_size_def)
  have n: "?n = (ic_size req + ?p - 1) div ?p"
    unfolding part_count_def using assms(2-4) p by (intro f64_ceil_div_exact) simp_all
  note B = ceil_div_bounds [OF assms(2) p(1) n]

  have n1: "\<not> ?n < 1" using B(1) by linarith
  have "\<exists>vid v uid wa. run (upload_handle env) (init_session lib cfg req ?n ?p vid v uid) wa = (Inr resp, w')
      \<and> uw_sessions wa = uw_sessions w \<and> uw_parts wa = uw_parts w" and "?n \<le> 10000"
    using assms(1) n1
    by (auto simp: init_chunked_upload_def upload_call_defs Let_def max_part_count_def log_s3_def
        split: option.splits sum.splits if_splits) (intro exI conjI, assumption, simp_all)
  then obtain vid v uid wa where
    r: "run (upload_handle env) (init_session lib cfg req ?n ?p vid v uid) wa = (Inr resp, w')"
    "uw_sessions wa = uw_sessions w" "uw_parts wa = uw_parts w" by blast
  from init_session_run [OF r(1)] obtain s ps where
    "uw_sessions w' = uw_sessions wa @ [s]" "uw_parts w' = uw_parts wa @ ps" "us_status s = SInitiated"
    "us_total_size s = ic_size req" "us_total_parts s = ?n" "us_part_size s = ?p"
    "map up_number ps = [1..?n]" "list_all (\<lambda>p. up_session p = us_id s \<and> up_status p = PPending) ps"
    "icr_total_parts resp = ?n" "icr_part_size resp = ?p" by blast
  then show ?thesis
    using B p(2) r(2,3) \<open>?n \<le> 10000\<close> by (intro exI [of _ s] exI [of _ ps]) simp
qed

definition demo_init :: init_chunked_request where
  "demo_init = \<lparr>ic_video = ''7'', ic_mime = ''video/mp4'', ic_size = 11534336\<rparr>"

lemma demo_part_count: "part_size_of demo_cfg = 5242880" "part_count 11534336 5242880 = 3"
  by (simp_all add: part_size_of_def demo_cfg_def int64_id min_part_size_def part_count_def f64_ceil_div_exact)

lemma demo_init_ok:
  "\<not> isl (fst (run (upload_handle demo_env) (init_chunked_upload demo_lib demo_cfg demo_init) demo_world))"
proof -
  have mime: "validate_mime_type demo_cfg ''video/mp4'' = None"
    by (simp add: validate_mime_type_def demo_cfg_def trim_space_def trim_by_def trim_right_by_def is_space_def)
  show ?thesis
    by (simp add: init_chunked_upload_def mime demo_part_count demo_init_def Let_def max_part_count_def)
      (simp add: demo_defs upload_call_defs db_read_def first_row_def
        db_exec_def tick_def init_session_def store_session_def new_session_def s3_create_multipart_def log_s3_def
        Let_def upto.simps)
qed

theorem init_session_covers_witness:
  "\<exists>s. uw_sessions (snd (run (upload_handle demo_env) (init_chunked_upload demo_lib demo_cfg demo_init) demo_world)) = [s]
     \<and> us_total_parts s * us_part_size s \<ge> 11534336"
proof -
  obtain resp w' where r: "run (upload_handle demo_env) (init_chunked_upload demo_lib demo_cfg demo_init) demo_world = (Inr resp, w')"
    using demo_init_ok
    by (metis isl_def old.sum.exhaust prod.collapse)
  from init_session_covers [OF r] show ?thesis
    by (auto simp: r demo_part_count) (auto simp: demo_init_def demo_world_def)
qed

end
