(* ===== verification/SessionRuns.thy ===== *)
theory SessionRuns
  imports SessionService
begin

text \<open>
  What one request on an upload session does when it runs alone: confirming a part, completing
  the session (success, an error of S3, an error of the database after S3), aborting it.
\<close>

section \<open>A concrete session\<close>

definition demo_part :: "int \<Rightarrow> upload_part" where
  "demo_part n = \<lparr>up_id = word_of_int n, up_session = 9, up_number = n, up_etag = ''e'', up_size = None,
     up_status = PUploaded, up_url = '''', up_url_expires = None, up_uploaded_at = Some 0,
     up_created_at = 0, up_updated_at = 0\<rparr>"

definition demo_session :: upload_session where
  "demo_session = \<lparr>us_id = 9, us_video = 7, us_s3_id = ''mpu'', us_object_key = ''k'', us_bucket = ''b'',
     us_mime = ''video/mp4'', us_total_parts = 2, us_part_size = 5242880, us_total_size = 6000000,
     us_status = SInProgress, us_expires = 1000, us_completed_at = None, us_created_at = 0,
     us_updated_at = 0, us_parts = []\<rparr>"

text \<open>The rows of the parts are stored out of order.\<close>

definition demo_uploading :: upload_world where
  "demo_uploading = demo_world\<lparr>uw_sessions := [demo_session], uw_parts := [demo_part 2, demo_part 1]\<rparr>"

lemma demo_uploading_simps:
  "db_ok demo_env" "keyed us_id (uw_sessions demo_uploading)"
  "by_key us_id 9 (uw_sessions demo_uploading) = Some demo_session" "us_status demo_session = SInProgress"
  "sql_parts_of 9 (\<lambda>_. True) demo_uploading = [demo_part 1, demo_part 2]"
  "list_all (\<lambda>p. up_status p = PUploaded) [demo_part 1, demo_part 2]"
  "by_key vid_id 7 (uw_videos demo_uploading) = Some demo_video" "us_video demo_session = 7"
  "us_object_key demo_session = ''k''" "us_s3_id demo_session = ''mpu''" "uw_s3 demo_uploading = []"
  by (simp_all add: db_ok_def demo_defs keyed_def demo_uploading_def demo_session_def demo_part_def sql_parts_of_def
      insort_key_def)

section \<open>Taking the lock\<close>

lemma tick_frame [simp]: "uw_ticks (snd (tick env w)) = Suc (uw_ticks w)" "fst (tick env w) = ue_clock env (uw_ticks w)"
  by (simp_all add: tick_def)

text \<open>The state after the optimistic lock was taken.\<close>

definition locked_world :: "upload_env \<Rightarrow> uuid \<Rightarrow> upload_world \<Rightarrow> upload_world" where
  "locked_world env sid w =
     snd (sql_transition (ue_clock env (uw_ticks w)) sid SInProgress SCompleting (snd (tick env w)))"

lemma locked_world_frame [simp]:
  "uw_videos (locked_world env sid w) = uw_videos w" "uw_parts (locked_world env sid w) = uw_parts w"
  "uw_events (locked_world env sid w) = uw_events w" "uw_s3 (locked_world env sid w) = uw_s3 w"
  by (simp_all add: locked_world_def)

lemma locked_world_row:
  assumes "keyed us_id (uw_sessions w)" and "by_key us_id sid (uw_sessions w) = Some s" and "us_status s = SInProgress"
  shows "by_key us_id j (uw_sessions (locked_world env sid w)) =
      (if j = sid then Some (s\<lparr>us_status := SCompleting, us_updated_at := ue_clock env (uw_ticks w)\<rparr>)
       else by_key us_id j (uw_sessions w))"
    and "keyed us_id (uw_sessions (locked_world env sid w))"
  using transition_hit [of "snd (tick env w)" sid s SInProgress] assms
  by (simp_all add: locked_world_def)

lemma complete_session_locks:
  assumes "ue_db_err env (CSessionGet sid) = None \<and> ue_db_err env (CPartsOf sid) = None \<and>
        ue_db_err env (CTransition sid SInProgress SCompleting) = None"
    and "keyed us_id (uw_sessions w)" and "by_key us_id sid (uw_sessions w) = Some s"
    and "us_status s = SInProgress" and "list_all (\<lambda>p. up_status p = PUploaded) (sql_parts_of sid (\<lambda>_. True) w)"
  shows "run (upload_handle env) (complete_session lib sid) w =
         run (upload_handle env) (complete_locked lib sid (s\<lparr>us_parts := sql_parts_of sid (\<lambda>_. True) w\<rparr>))
           (locked_world env sid w)"
proof -
  have id: "us_id s = sid" using assms(3) by_key_Some by fastforce
  have "filter (\<lambda>p. up_status p \<noteq> PUploaded) (sql_parts_of sid (\<lambda>_. True) w) = []"
    using assms(5) by (simp add: list_all_iff filter_empty_conv)
  moreover have "fst (sql_transition (ue_clock env (uw_ticks w)) sid SInProgress SCompleting (snd (tick env w)))"
    using assms(2-4) by (intro transition_hit) simp_all
  ultimately show ?thesis
    using assms(1,3,4) id
    by (simp add: complete_session_def upload_call_defs first_row_by_key locked_world_def split_def db_read_def)
qed

section \<open>CompleteSession\<close>

abbreviation parts_of :: "uuid \<Rightarrow> upload_world \<Rightarrow> upload_part list" where
  "parts_of sid w \<equiv> sql_parts_of sid (\<lambda>_. True) w"

lemma sorted_parts_of: "sorted (map up_number (sql_parts_of sid P w))"
  by (simp add: sql_parts_of_def)

lemma sent_completed_parts:
  "sent_parts (completed_parts ps) = map (\<lambda>p. (int32 (up_number p), quoted_etag (up_etag p))) ps"
  by (simp add: sent_parts_def completed_parts_def)

lemma complete_session_effect:
  fixes w :: upload_world and lib :: upload_lib
  assumes "db_ok env" and "keyed us_id (uw_sessions w)" and "by_key us_id sid (uw_sessions w) = Some s"
    and "us_status s = SInProgress" and "list_all (\<lambda>p. up_status p = PUploaded) (parts_of sid w)"
    and "s3_complete_multipart (ue_sdk_complete env) (ue_storage env) (us_object_key s) (us_s3_id s)
           (completed_parts (parts_of sid w)) = Inr etag"
    and "by_key vid_id (us_video s) (uw_videos w) = Some v"
  defines "res \<equiv> run (upload_handle env) (complete_session lib sid) w"
  shows "\<exists>s' v'. \<not> isl (fst res)
    \<and> uw_s3 (snd res) = uw_s3 w @ [S3Completed (us_object_key s) (us_s3_id s)
         (map (\<lambda>p. (int32 (up_number p), quoted_etag (up_etag p))) (parts_of sid w))]
    \<and> by_key us_id sid (uw_sessions (snd res)) = Some s' \<and> us_status s' = SCompleted
    \<and> by_key vid_id (us_video s) (uw_videos (snd res)) = Some v' \<and> vid_status v' = Uploaded
    \<and> vid_etag v' = etag \<and> vid_size v' = Some (us_total_size s)
    \<and> uw_events (snd res) = uw_events w @
        (if ue_broker_err env ''video.events'' ''video.uploaded'' (uploaded_event lib v') = None
         then [uploaded_event lib v'] else [])"
proof -
  let ?w = "locked_world env sid w" and ?s = "s\<lparr>us_parts := parts_of sid w\<rparr>"
  define now where "now = ue_clock env (uw_ticks ?w)"
  define t1 where "t1 = ue_clock env (Suc (uw_ticks ?w))"
  define t2 where "t2 = ue_clock env (Suc (Suc (uw_ticks ?w)))"
  define v' where "v' = v\<lparr>vid_status := Uploaded, vid_etag := etag, vid_size := Some (us_total_size s),
      vid_uploaded_at := Some now, vid_updated_at := t1\<rparr>"
  have ids: "vid_id v = us_video s" "us_id s = sid" using assms(3,7) by (auto dest: by_key_Some)
  have res: "res = run (upload_handle env) (complete_locked lib sid ?s) ?w"
    unfolding res_def using complete_session_locks [OF _ assms(2-5)] assms(1) by simp
  have run: "\<not> isl (fst res)"
    "uw_s3 (snd res) = uw_s3 w @ [S3Completed (us_object_key s) (us_s3_id s)
         (sent_parts (completed_parts (parts_of sid w)))]"
    "uw_sessions (snd res) = save_row us_id
       (?s\<lparr>us_status := SCompleted, us_completed_at := Some now, us_updated_at := t2, us_parts := []\<rparr>)
       (uw_sessions ?w)"
    "uw_videos (snd res) = save_row vid_id v' (uw_videos w)"
    "uw_events (snd res) = uw_events w @
       (if ue_broker_err env ''video.events'' ''video.uploaded'' (uploaded_event lib v') = None
        then [uploaded_event lib v'] else [])"
    using assms(1,6,7)
    by (simp_all add: res complete_locked_def complete_stored_def upload_call_defs publish_uploaded_event_def
        first_row_by_key db_exec_def log_s3_def split_def sql_video_save_def sql_session_save_def Let_def
        v'_def now_def t1_def t2_def uploaded_event_def split: option.splits)
  have "vid_id v' = us_video s" "vid_status v' = Uploaded" "vid_etag v' = etag" "vid_size v' = Some (us_total_size s)"
    using ids by (simp_all add: v'_def)
  with run ids show ?thesis
    by (intro exI [of _ "?s\<lparr>us_status := SCompleted, us_completed_at := Some now, us_updated_at := t2, us_parts := []\<rparr>"]
        exI [of _ v']) (simp add: by_key_save sent_completed_parts)
qed

lemma complete_session_succeeds:
  fixes lib :: upload_lib
  assumes "db_ok env" and "keyed us_id (uw_sessions w)" and "by_key us_id sid (uw_sessions w) = Some s"
    and "us_status s = SInProgress" and "list_all (\<lambda>p. up_status p = PUploaded) (parts_of sid w)"
    and "s3_complete_multipart (ue_sdk_complete env) (ue_storage env) (us_object_key s) (us_s3_id s)
           (completed_parts (parts_of sid w)) = Inr etag"
    and "by_key vid_id (us_video s) (uw_videos w) = Some v"
  shows "\<not> isl (fst (run (upload_handle env) (complete_session lib sid) w))"
  using complete_session_effect [OF assms, of lib] by (elim exE conjE)

text \<open>
  C10. A session with every part uploaded is completed on S3 with all its parts, in ascending order of
  part number, each with its confirmed tag in quotes, and with nothing else; then the video is
  uploaded with the tag S3 answered and the size of the session, the session is completed, and
  the event of that video goes to the broker.
\<close>
theorem complete_session_assembles:
  fixes w :: upload_world and lib :: upload_lib
  assumes "db_ok env" and "keyed us_id (uw_sessions w)" and "by_key us_id sid (uw_sessions w) = Some s"
    and "us_status s = SInProgress" and "list_all (\<lambda>p. up_status p = PUploaded) (parts_of sid w)"
    and "s3_complete_multipart (ue_sdk_complete env) (ue_storage env) (us_object_key s) (us_s3_id s)
           (completed_parts (parts_of sid w)) = Inr etag"
    and "by_key vid_id (us_video s) (uw_videos w) = Some v"
  defines "res \<equiv> run (upload_handle env) (complete_session lib sid) w"
  shows "\<not> isl (fst res)
    \<and> uw_s3 (snd res) = uw_s3 w @ [S3Completed (us_object_key s) (us_s3_id s)
         (map (\<lambda>p. (int32 (up_number p), quoted_etag (up_etag p))) (parts_of sid w))]
    \<and> sorted (map up_number (parts_of sid w))
    \<and> (\<exists>s'. by_key us_id sid (uw_sessions (snd res)) = Some s' \<and> us_status s' = SCompleted)
    \<and> (\<exists>v'. by_key vid_id (us_video s) (uw_videos (snd res)) = Some v' \<and> vid_status v' = Uploaded
         \<and> vid_etag v' = etag \<and> vid_size v' = Some (us_total_size s)
         \<and> uw_events (snd res) = uw_events w @
             (if ue_broker_err env ''video.events'' ''video.uploaded'' (uploaded_event lib v') = None
              then [uploaded_event lib v'] else []))"
proof -
  obtain s' v' where "\<not> isl (fst res)"
    "uw_s3 (snd res) = uw_s3 w @ [S3Completed (us_object_key s) (us_s3_id s)
         (map (\<lambda>p. (int32 (up_number p), quoted_etag (up_etag p))) (parts_of sid w))]"
    "by_key us_id sid (uw_sessions (snd res)) = Some s'" "us_status s' = SCompleted"
    "by_key vid_id (us_video s) (uw_videos (snd res)) = Some v'" "vid_status v' = Uploaded"
    "vid_etag v' = etag" "vid_size v' = Some (us_total_size s)"
    "uw_events (snd res) = uw_events w @
        (if ue_broker_err env ''video.events'' ''video.uploaded'' (uploaded_event lib v') = None
         then [uploaded_event lib v'] else [])"
    using complete_session_effect [OF assms(1-7), of lib, folded res_def] by (elim exE conjE)
  with sorted_parts_of [of sid "\<lambda>_. True" w] show ?thesis
    by (intro conjI exI [of _ s'] exI [of _ v'])
qed

theorem complete_session_assembles_witness:
  "uw_s3 (snd (run (upload_handle demo_env) (complete_session demo_lib 9) demo_uploading)) =
     [S3Completed ''k'' ''mpu'' [(1, [CHR 0x22, CHR ''e'', CHR 0x22]), (2, [CHR 0x22, CHR ''e'', CHR 0x22])]]"
proof -
  have s3: "s3_complete_multipart (ue_sdk_complete demo_env) (ue_storage demo_env) ''k'' ''mpu'' ps = Inr ''e''" for ps
    by (simp add: demo_env_def s3_complete_multipart_def aws_to_string_def trim_char_def trim_by_def
        trim_right_by_def quote_char_def)
  show ?thesis
    using complete_session_assembles [of demo_env demo_uploading 9 demo_session "''e''" demo_video demo_lib]
    by (simp add: demo_uploading_simps s3 int32_id demo_part_def quoted_etag_def has_prefix_def quote_char_def)
qed

text \<open>
  C38. When S3 refuses to complete the upload, \<open>CompleteSession\<close> gives its lock back: the request is
  answered with a server error, the session is in progress again with all its other columns
  unchanged (but the update time), no video, part or event was touched, and completing again later
  can succeed, with the same parts.
\<close>
theorem complete_session_reverts:
  fixes w :: upload_world and lib :: upload_lib
  assumes "db_ok env" and "keyed us_id (uw_sessions w)" and "by_key us_id sid (uw_sessions w) = Some s"
    and "us_status s = SInProgress" and "list_all (\<lambda>p. up_status p = PUploaded) (parts_of sid w)"
    and "s3_complete_multipart (ue_sdk_complete env) (ue_storage env) (us_object_key s) (us_s3_id s)
           (completed_parts (parts_of sid w)) = Inl e"
  defines "res \<equiv> run (upload_handle env) (complete_session lib sid) w"
  shows "fst res = Inl (internal_server e)
    \<and> (\<exists>t. by_key us_id sid (uw_sessions (snd res)) = Some (s\<lparr>us_updated_at := t\<rparr>))
    \<and> (\<forall>j. j \<noteq> sid \<longrightarrow> by_key us_id j (uw_sessions (snd res)) = by_key us_id j (uw_sessions w))
    \<and> uw_videos (snd res) = uw_videos w \<and> uw_parts (snd res) = uw_parts w
    \<and> uw_events (snd res) = uw_events w \<and> uw_s3 (snd res) = uw_s3 w
    \<and> (\<forall>env' etag v. db_ok env' \<longrightarrow>
         s3_complete_multipart (ue_sdk_complete env') (ue_storage env') (us_object_key s) (us_s3_id s)
           (completed_parts (parts_of sid w)) = Inr etag \<longrightarrow>
         by_key vid_id (us_video s) (uw_videos w) = Some v \<longrightarrow>
         \<not> isl (fst (run (upload_handle env') (complete_session lib sid) (snd res))))"
proof -
  let ?w = "locked_world env sid w" and ?s = "s\<lparr>us_parts := parts_of sid w\<rparr>"
  define t where "t = ue_clock env (uw_ticks ?w)"
  have L: "by_key us_id sid (uw_sessions ?w) = Some (s\<lparr>us_status := SCompleting, us_updated_at := ue_clock env (uw_ticks w)\<rparr>)"
    "keyed us_id (uw_sessions ?w)" and other: "\<And>j. j \<noteq> sid \<Longrightarrow> by_key us_id j (uw_sessions ?w) = by_key us_id j (uw_sessions w)"
    using locked_world_row [OF assms(2-4)] by simp_all
  have "us_status (s\<lparr>us_status := SCompleting, us_updated_at := ue_clock env (uw_ticks w)\<rparr>) = SCompleting" by simp
  from transition_hit [of "snd (tick env ?w)", unfolded tick_simps, OF L(2,1) this]
  have reverted: "by_key us_id j (uw_sessions (snd (sql_transition t sid SCompleting SInProgress (snd (tick env ?w))))) =
      (if j = sid then Some (s\<lparr>us_updated_at := t\<rparr>) else by_key us_id j (uw_sessions w))"
      "keyed us_id (uw_sessions (snd (sql_transition t sid SCompleting SInProgress (snd (tick env ?w)))))" for j
    using other [of j] assms(4) by simp_all
  have res: "res = (Inl (internal_server e), snd (sql_transition t sid SCompleting SInProgress (snd (tick env ?w))))"
    unfolding res_def using complete_session_locks [OF _ assms(2-5), of env lib] assms(1,6)
    by (simp add: complete_locked_def upload_call_defs split_def t_def)
  have parts: "parts_of sid (snd res) = parts_of sid w" by (simp add: res sql_parts_of_def)
  have "\<not> isl (fst (run (upload_handle env') (complete_session lib sid) (snd res)))"
    if "db_ok env'"
      "s3_complete_multipart (ue_sdk_complete env') (ue_storage env') (us_object_key s) (us_s3_id s)
         (completed_parts (parts_of sid w)) = Inr etag"
      "by_key vid_id (us_video s) (uw_videos w) = Some v" for env' etag v
  proof -
    have "by_key us_id sid (uw_sessions (snd res)) = Some (s\<lparr>us_updated_at := t\<rparr>)" "keyed us_id (uw_sessions (snd res))"
      "by_key vid_id (us_video s) (uw_videos (snd res)) = Some v"
      using reverted that(3) by (simp_all add: res)
    with complete_session_succeeds [of env' "snd res" sid "s\<lparr>us_updated_at := t\<rparr>" etag v lib] that(1,2) assms(4,5)
    show ?thesis by (simp add: parts)
  qed
  with reverted show ?thesis by (auto simp: res)
qed

theorem complete_session_reverts_witness:
  "fst (run (upload_handle (demo_env\<lparr>ue_sdk_complete := \<lambda>_ _ _ _. Inl (Plain ''500'')\<rparr>)) (complete_session demo_lib 9) demo_uploading) =
     Inl (internal_server (Wrap ''complete multipart upload failed: '' (Plain ''500'')))"
proof -
  define env where "env = demo_env\<lparr>ue_sdk_complete := \<lambda>_ _ _ _. Inl (Plain ''500'')\<rparr>"
  have "db_ok env" by (simp add: env_def db_ok_def demo_env_def)
  moreover have "s3_complete_multipart (ue_sdk_complete env) (ue_storage env) k u ps =
      Inl (Wrap ''complete multipart upload failed: '' (Plain ''500''))" for k u ps
    by (simp add: env_def s3_complete_multipart_def)
  ultimately have "fst (run (upload_handle env) (complete_session demo_lib 9) demo_uploading) =
     Inl (internal_server (Wrap ''complete multipart upload failed: '' (Plain ''500'')))"
    using complete_session_reverts [of env demo_uploading 9 demo_session
      "Wrap ''complete multipart upload failed: '' (Plain ''500'')" demo_lib] demo_uploading_simps by simp
  then show ?thesis by (simp add: env_def)
qed

text \<open>
  C37. A database error between S3 and the session row is not undone: if the update of the video
  fails after S3 has assembled the object, the request is answered with a server error, the
  object exists on S3, no event was published, the video keeps its row, and the session stays
  'completing'. In that state every later \<open>CompleteSession\<close> is rejected and changes nothing, and
  the janitor never finds the session, however old it gets.
\<close>
theorem complete_session_stuck:
  fixes w :: upload_world and lib :: upload_lib
  assumes "keyed us_id (uw_sessions w)" and "by_key us_id sid (uw_sessions w) = Some s"
    and "us_status s = SInProgress" and "list_all (\<lambda>p. up_status p = PUploaded) (parts_of sid w)"
    and "s3_complete_multipart (ue_sdk_complete env) (ue_storage env) (us_object_key s) (us_s3_id s)
           (completed_parts (parts_of sid w)) = Inr etag"
    and "by_key vid_id (us_video s) (uw_videos w) = Some v"
    and "\<And>c. ue_db_err env c = (case c of CVideoSave _ \<Rightarrow> Some e | _ \<Rightarrow> None)"
  defines "res \<equiv> run (upload_handle env) (complete_session lib sid) w"
  shows "fst res = Inl (internal_server e) \<and> length (uw_s3 (snd res)) = Suc (length (uw_s3 w))
    \<and> uw_videos (snd res) = uw_videos w \<and> uw_events (snd res) = uw_events w
    \<and> (\<exists>s'. by_key us_id sid (uw_sessions (snd res)) = Some s' \<and> us_status s' = SCompleting)
    \<and> (\<forall>env'. db_ok env' \<longrightarrow> run (upload_handle env') (complete_session lib sid) (snd res) =
         (Inl (bad_request None (''session status is '' @ quote ''completing'' @ '', cannot complete'')), snd res))
    \<and> (\<forall>before lim. sid \<notin> us_id ` set (sql_sessions_expired before lim (snd res)))"
proof -
  let ?w = "locked_world env sid w" and ?s = "s\<lparr>us_parts := parts_of sid w\<rparr>"
  let ?row = "s\<lparr>us_status := SCompleting, us_updated_at := ue_clock env (uw_ticks w)\<rparr>"
  have L: "by_key us_id sid (uw_sessions ?w) = Some ?row" "keyed us_id (uw_sessions ?w)"
    using locked_world_row [OF assms(1-3)] by simp_all
  have "res = run (upload_handle env) (complete_locked lib sid ?s) ?w"
    unfolding res_def using complete_session_locks [OF _ assms(1-4), of env lib] assms(7) by simp
  then have run: "fst res = Inl (internal_server e)" "length (uw_s3 (snd res)) = Suc (length (uw_s3 w))"
    "uw_sessions (snd res) = uw_sessions ?w" "uw_videos (snd res) = uw_videos w" "uw_events (snd res) = uw_events w"
    using assms(5-7)
    by (simp_all add: complete_locked_def complete_stored_def upload_call_defs first_row_by_key db_read_def
        db_exec_def log_s3_def split_def Let_def)
  have reject: "run (upload_handle env') (complete_session lib sid) (snd res) =
         (Inl (bad_request None (''session status is '' @ quote ''completing'' @ '', cannot complete'')), snd res)"
    if "db_ok env'" for env'
    using that L(1) by (simp add: complete_session_def upload_call_defs first_row_by_key run)
  have "sid \<notin> us_id ` set (sql_sessions_expired before lim (snd res))" for before lim
  proof
    assume "sid \<in> us_id ` set (sql_sessions_expired before lim (snd res))"
    then obtain x where "x \<in> set (sql_sessions_expired before lim (snd res))" "us_id x = sid" by blast
    then have "x \<in> set (uw_sessions ?w)" "us_status x = SInitiated \<or> us_status x = SInProgress" "us_id x = sid"
      using set_limit_rows unfolding sql_sessions_expired_def run(3) by fastforce+
    with by_key_unique [OF L(2,1)] show False by force
  qed
  with run L(1) reject show ?thesis by simp
qed

theorem complete_session_stuck_witness:
  "fst (run (upload_handle (demo_env\<lparr>ue_db_err := \<lambda>c. case c of CVideoSave _ \<Rightarrow> Some (Plain ''deadlock'') | _ \<Rightarrow> None\<rparr>))
     (complete_session demo_lib 9) demo_uploading) = Inl (internal_server (Plain ''deadlock''))"
proof -
  define env where "env = demo_env\<lparr>ue_db_err := \<lambda>c. case c of CVideoSave _ \<Rightarrow> Some (Plain ''deadlock'') | _ \<Rightarrow> None\<rparr>"
  have "s3_complete_multipart (ue_sdk_complete env) (ue_storage env) ''k'' ''mpu'' ps = Inr ''e''" for ps
    by (simp add: env_def demo_env_def s3_complete_multipart_def aws_to_string_def trim_char_def trim_by_def
        trim_right_by_def quote_char_def)
  moreover have "ue_db_err env c = (case c of CVideoSave _ \<Rightarrow> Some (Plain ''deadlock'') | _ \<Rightarrow> None)" for c
    by (simp add: env_def)
  ultimately have "fst (run (upload_handle env) (complete_session demo_lib 9) demo_uploading) =
      Inl (internal_server (Plain ''deadlock''))"
    using complete_session_stuck [of demo_uploading 9 demo_session env "''e''" demo_video "Plain ''deadlock''" demo_lib]
      demo_uploading_simps by simp
  then show ?thesis by (simp add: env_def)
qed

section \<open>ConfirmPart\<close>


text \<open>
  \<open>AbortSession\<close> always ends in 'aborted', whatever S3 answers and whatever the session was: also
  a completed session is overwritten, although its object and its uploaded video stay. The other
  sessions, the videos and the parts are untouched, and aborting again changes nothing.
\<close>
theorem abort_session_aborts:
  fixes w :: upload_world and lib :: upload_lib
  assumes "db_ok env" and "by_key us_id sid (uw_sessions w) = Some s"
  defines "res \<equiv> run (upload_handle env) (abort_session lib sid) w"
  shows "fst res = Inr \<lparr>ar_id = ul_uuid_string lib sid, ar_status = ''aborted''\<rparr>
    \<and> (\<exists>s'. by_key us_id sid (uw_sessions (snd res)) = Some s' \<and> us_status s' = SAborted \<and> us_video s' = us_video s)
    \<and> (\<forall>j. j \<noteq> sid \<longrightarrow> by_key us_id j (uw_sessions (snd res)) = by_key us_id j (uw_sessions w))
    \<and> uw_videos (snd res) = uw_videos w \<and> uw_parts (snd res) = uw_parts w \<and> uw_events (snd res) = uw_events w
    \<and> (\<forall>env'. db_ok env' \<longrightarrow> run (upload_handle env') (abort_session lib sid) (snd res) = (fst res, snd res))"
proof (cases "us_status s = SAborted")
  case True
  with assms show ?thesis
    by (auto simp: abort_session_def upload_call_defs first_row_by_key)
next
  case False
  have id: "us_id s = sid" using assms(2) by_key_Some by fastforce
  define t where "t = ue_clock env (uw_ticks w)"
  have t: "uw_sessions (snd res) = save_row us_id (s\<lparr>us_status := SAborted, us_updated_at := t, us_parts := []\<rparr>) (uw_sessions w)"
    "fst res = Inr \<lparr>ar_id = ul_uuid_string lib sid, ar_status = ''aborted''\<rparr>"
    "uw_videos (snd res) = uw_videos w" "uw_parts (snd res) = uw_parts w" "uw_events (snd res) = uw_events w"
    using assms False
    by (auto simp: res_def abort_session_def upload_call_defs first_row_by_key db_exec_def tick_def log_s3_def
        sql_session_save_def t_def split: option.splits)
  then have row: "by_key us_id j (uw_sessions (snd res)) =
      (if j = sid then Some (s\<lparr>us_status := SAborted, us_updated_at := t, us_parts := []\<rparr>) else by_key us_id j (uw_sessions w))" for j
    by (simp add: by_key_save id)
  then have "run (upload_handle env') (abort_session lib sid) (snd res) = (fst res, snd res)" if "db_ok env'" for env'
    using that by (simp add: abort_session_def upload_call_defs first_row_by_key t(2))
  with row t show ?thesis by auto
qed


theorem abort_session_aborts_witness:
  "\<exists>s'. by_key us_id 9 (uw_sessions (snd (run (upload_handle demo_env) (abort_session demo_lib 9) demo_uploading))) = Some s'
     \<and> us_status s' = SAborted"
  using abort_session_aborts [OF demo_uploading_simps(1,3), of demo_lib] by blast

end
