(* ===== verification/Janitor.thy ===== *)
theory Janitor
  imports SessionRuns
begin

text \<open>
  services/upload/internal/worker/janitor_worker.go: at each tick the janitor settles the videos whose
  presigned URL has expired (uploaded if the object is there, expired if not) and expires the
  upload sessions that are past their time. Errors of single rows are logged and skipped.
\<close>

section \<open>The worker\<close>

text \<open>\<open>processVideo\<close>, then what follows it in the loop.\<close>

definition process_video :: "upload_lib \<Rightarrow> video \<Rightarrow> 'a upload_prog \<Rightarrow> 'a upload_prog" where
  "process_video lib v k =
     head_object (vid_object_key v) (\<lambda>r. case r of
       Inl err \<Rightarrow> k
     | Inr (size_bytes, etag, exists) \<Rightarrow>
         if exists then
           time_now (\<lambda>now.
             let v' = v\<lparr>vid_status := Uploaded, vid_size := Some size_bytes, vid_etag := etag,
                        vid_uploaded_at := Some now\<rparr>
             in video_update v' (\<lambda>err. case err of
                  Some err \<Rightarrow> k
                | None \<Rightarrow> publish_video_uploaded (uploaded_event lib v') (\<lambda>err. k)))
         else
           video_update (v\<lparr>vid_status := Expired\<rparr>) (\<lambda>err. k))"

fun process_videos :: "upload_lib \<Rightarrow> video list \<Rightarrow> 'a upload_prog \<Rightarrow> 'a upload_prog" where
  "process_videos lib [] k = k"
| "process_videos lib (v # vs) k = process_video lib v (process_videos lib vs k)"

definition run_batch :: "upload_lib \<Rightarrow> upload_config \<Rightarrow> 'a upload_prog \<Rightarrow> 'a upload_prog" where
  "run_batch lib cfg k =
     time_now (\<lambda>now. video_list_expired_pending now (uc_janitor_batch cfg) (\<lambda>r. case r of
       Inl err \<Rightarrow> k
     | Inr videos \<Rightarrow> process_videos lib videos k))"

fun expire_sessions :: "upload_session list \<Rightarrow> 'a upload_prog \<Rightarrow> 'a upload_prog" where
  "expire_sessions [] k = k"
| "expire_sessions (s # ss) k =
     abort_multipart_upload (us_object_key s) (us_s3_id s) (\<lambda>err.
       session_update (s\<lparr>us_status := SExpired\<rparr>) (\<lambda>err. expire_sessions ss k))"

definition run_session_batch :: "upload_config \<Rightarrow> 'a upload_prog \<Rightarrow> 'a upload_prog" where
  "run_session_batch cfg k =
     time_now (\<lambda>now. list_expired_active_sessions now (uc_janitor_batch cfg) (\<lambda>r. case r of
       Inl err \<Rightarrow> k
     | Inr sessions \<Rightarrow> expire_sessions sessions k))"

text \<open>What \<open>Start\<close> does at one tick of its timer.\<close>

definition janitor_tick :: "upload_lib \<Rightarrow> upload_config \<Rightarrow> unit upload_prog" where
  "janitor_tick lib cfg = run_batch lib cfg (run_session_batch cfg (Return ()))"

section \<open>Videos\<close>

definition in_store :: "upload_env \<Rightarrow> video \<Rightarrow> bool" where
  "in_store env v \<longleftrightarrow>
     (case s3_head_object (ue_sdk_head env) (ue_storage env) (vid_object_key v) of
        Inr (_, _, ex) \<Rightarrow> ex | Inl _ \<Rightarrow> False)"

definition store_ok :: "upload_env \<Rightarrow> bool" where
  "store_ok env \<longleftrightarrow> db_ok env \<and> (\<forall>x y e. ue_broker_err env x y e = None)
     \<and> (\<forall>key. \<not> isl (s3_head_object (ue_sdk_head env) (ue_storage env) key))"

lemma run_process_video:
  assumes "store_ok env"
  shows "\<exists>v' w'. run (upload_handle env) (process_video lib v k) w = run (upload_handle env) k w'
    \<and> uw_videos w' = save_row vid_id v' (uw_videos w) \<and> vid_id v' = vid_id v
    \<and> vid_status v' = (if in_store env v then Uploaded else Expired)
    \<and> map ev_video (uw_events w') = map ev_video (uw_events w) @
        (if in_store env v then [ul_uuid_string lib (vid_id v)] else [])
    \<and> uw_sessions w' = uw_sessions w"
proof -
  obtain n e ex where head: "s3_head_object (ue_sdk_head env) (ue_storage env) (vid_object_key v) = Inr (n, e, ex)"
    using assms unfolding store_ok_def by (metis isl_def prod_cases3 sum.exhaust_sel)
  define t where "t = ue_clock env (uw_ticks w)"
  define t' where "t' = ue_clock env (Suc (uw_ticks w))"
  let ?up = "v\<lparr>vid_status := Uploaded, vid_size := Some n, vid_etag := e, vid_uploaded_at := Some t\<rparr>"
  have db: "db_ok env" "\<And>x y e. ue_broker_err env x y e = None" using assms by (auto simp: store_ok_def)
  show ?thesis
  proof (cases ex)
    case True
    then have "run (upload_handle env) (process_video lib v k) w = run (upload_handle env) k
        (w\<lparr>uw_ticks := Suc (Suc (uw_ticks w)), uw_videos := save_row vid_id (?up\<lparr>vid_updated_at := t'\<rparr>) (uw_videos w),
           uw_events := uw_events w @ [uploaded_event lib ?up]\<rparr>)"
      using head db by (simp add: process_video_def upload_call_defs db_exec_def tick_def sql_video_save_def
          Let_def t_def t'_def)
    with True head show ?thesis
      by (intro exI [of _ "?up\<lparr>vid_updated_at := t'\<rparr>"]
          exI [of _ "w\<lparr>uw_ticks := Suc (Suc (uw_ticks w)), uw_videos := save_row vid_id (?up\<lparr>vid_updated_at := t'\<rparr>) (uw_videos w),
             uw_events := uw_events w @ [uploaded_event lib ?up]\<rparr>"])
        (simp add: in_store_def uploaded_event_def)
  next
    case False
    then have "run (upload_handle env) (process_video lib v k) w = run (upload_handle env) k
        (w\<lparr>uw_ticks := Suc (uw_ticks w), uw_videos := save_row vid_id (v\<lparr>vid_status := Expired, vid_updated_at := t\<rparr>) (uw_videos w)\<rparr>)"
      using head db by (simp add: process_video_def upload_call_defs db_exec_def tick_def sql_video_save_def t_def)
    with False head show ?thesis
      by (intro exI [of _ "v\<lparr>vid_status := Expired, vid_updated_at := t\<rparr>"]
          exI [of _ "w\<lparr>uw_ticks := Suc (uw_ticks w),
             uw_videos := save_row vid_id (v\<lparr>vid_status := Expired, vid_updated_at := t\<rparr>) (uw_videos w)\<rparr>"])
        (simp add: in_store_def)
  qed
qed

lemma run_process_videos:
  assumes "store_ok env" and "distinct (map vid_id vs)"
  shows "\<exists>w'. run (upload_handle env) (process_videos lib vs k) w = run (upload_handle env) k w'
    \<and> (\<forall>v\<in>set vs. \<exists>v'. by_key vid_id (vid_id v) (uw_videos w') = Some v'
          \<and> vid_status v' = (if in_store env v then Uploaded else Expired))
    \<and> (\<forall>i. i \<notin> vid_id ` set vs \<longrightarrow> by_key vid_id i (uw_videos w') = by_key vid_id i (uw_videos w))
    \<and> map ev_video (uw_events w') = map ev_video (uw_events w) @
        map (\<lambda>v. ul_uuid_string lib (vid_id v)) (filter (in_store env) vs)
    \<and> uw_sessions w' = uw_sessions w"
  using assms(2)
proof (induction vs arbitrary: w)
  case (Cons v vs)
  obtain v' w1 where v: "run (upload_handle env) (process_videos lib (v # vs) k) w =
        run (upload_handle env) (process_videos lib vs k) w1"
    "uw_videos w1 = save_row vid_id v' (uw_videos w)" "vid_id v' = vid_id v"
    "vid_status v' = (if in_store env v then Uploaded else Expired)"
    "map ev_video (uw_events w1) = map ev_video (uw_events w) @
        (if in_store env v then [ul_uuid_string lib (vid_id v)] else [])"
    "uw_sessions w1 = uw_sessions w"
    using run_process_video [OF assms(1), of lib v "process_videos lib vs k" w] by auto
  obtain w' where w': "run (upload_handle env) (process_videos lib vs k) w1 = run (upload_handle env) k w'"
    "\<forall>v\<in>set vs. \<exists>v'. by_key vid_id (vid_id v) (uw_videos w') = Some v'
          \<and> vid_status v' = (if in_store env v then Uploaded else Expired)"
    "\<forall>i. i \<notin> vid_id ` set vs \<longrightarrow> by_key vid_id i (uw_videos w') = by_key vid_id i (uw_videos w1)"
    "map ev_video (uw_events w') = map ev_video (uw_events w1) @
        map (\<lambda>v. ul_uuid_string lib (vid_id v)) (filter (in_store env) vs)"
    "uw_sessions w' = uw_sessions w1"
    using Cons.IH [of w1] Cons.prems by auto
  have "vid_id v \<notin> vid_id ` set vs" using Cons.prems by simp
  with v w' show ?case
    by (intro exI [of _ w']) (auto simp: by_key_save)
next
  case Nil
  show ?case by (rule exI [of _ w]) simp
qed

lemma distinct_expired: "keyed vid_id (uw_videos w) \<Longrightarrow> distinct (map vid_id (sql_videos_expired t n w))"
  by (auto simp: keyed_def sql_videos_expired_def limit_rows_def distinct_map_filter take_map [symmetric])

text \<open>
  C40. A janitor tick settles every expired pending video of its batch when storage, database and
  broker answer: a video whose object exists becomes uploaded and its event is published, any
  other becomes expired, one event for each uploaded video in the order of the batch and no other
  event; videos outside the batch keep their rows.
\<close>
theorem janitor_settles_videos:
  fixes lib :: upload_lib and w :: upload_world and cfg :: upload_config
  assumes "store_ok env" and "keyed vid_id (uw_videos w)"
  defines "batch \<equiv> sql_videos_expired (ue_clock env (uw_ticks w)) (uc_janitor_batch cfg) w"
    and "w' \<equiv> snd (run (upload_handle env) (run_batch lib cfg (Return ())) w)"
  shows "(\<forall>v\<in>set batch. \<exists>v'. by_key vid_id (vid_id v) (uw_videos w') = Some v'
          \<and> vid_status v' = (if in_store env v then Uploaded else Expired))
    \<and> (\<forall>i. i \<notin> vid_id ` set batch \<longrightarrow> by_key vid_id i (uw_videos w') = by_key vid_id i (uw_videos w))
    \<and> map ev_video (uw_events w') = map ev_video (uw_events w) @
        map (\<lambda>v. ul_uuid_string lib (vid_id v)) (filter (in_store env) batch)"
proof -
  let ?w = "snd (tick env w)"
  have "sql_videos_expired t n ?w = sql_videos_expired t n w" for t n
    by (simp add: sql_videos_expired_def)
  then have "run (upload_handle env) (run_batch lib cfg (Return ())) w =
      run (upload_handle env) (process_videos lib batch (Return ())) ?w"
    using assms(1) by (simp add: run_batch_def upload_call_defs split_def store_ok_def batch_def)
  moreover have "distinct (map vid_id batch)" unfolding batch_def using assms(2) by (rule distinct_expired)
  from run_process_videos [OF assms(1) this, of lib "Return ()" ?w] obtain w1 where
    "run (upload_handle env) (process_videos lib batch (Return ())) ?w = ((), w1)"
    "\<forall>v\<in>set batch. \<exists>v'. by_key vid_id (vid_id v) (uw_videos w1) = Some v'
          \<and> vid_status v' = (if in_store env v then Uploaded else Expired)"
    "\<forall>i. i \<notin> vid_id ` set batch \<longrightarrow> by_key vid_id i (uw_videos w1) = by_key vid_id i (uw_videos w)"
    "map ev_video (uw_events w1) = map ev_video (uw_events w) @
        map (\<lambda>v. ul_uuid_string lib (vid_id v)) (filter (in_store env) batch)" by auto
  ultimately show ?thesis by (simp add: w'_def)
qed

section \<open>Sessions\<close>

lemma run_expire_sessions:
  assumes "db_ok env" and "distinct (map us_id ss)"
  shows "\<exists>w'. run (upload_handle env) (expire_sessions ss k) w = run (upload_handle env) k w'
    \<and> (\<forall>s\<in>set ss. \<exists>s'. by_key us_id (us_id s) (uw_sessions w') = Some s' \<and> us_status s' = SExpired)
    \<and> (\<forall>i. i \<notin> us_id ` set ss \<longrightarrow> by_key us_id i (uw_sessions w') = by_key us_id i (uw_sessions w))
    \<and> uw_videos w' = uw_videos w \<and> uw_events w' = uw_events w"
  using assms(2)
proof (induction ss arbitrary: w)
  case (Cons s ss)
  define w0 where "w0 = snd (upload_handle env (CAbort (us_object_key s) (us_s3_id s)) w)"
  define s' where "s' = s\<lparr>us_status := SExpired, us_updated_at := ue_clock env (uw_ticks w0), us_parts := []\<rparr>"
  define w1 where "w1 = w0\<lparr>uw_ticks := Suc (uw_ticks w0), uw_sessions := save_row us_id s' (uw_sessions w0)\<rparr>"
  have w0: "uw_sessions w0 = uw_sessions w" "uw_videos w0 = uw_videos w" "uw_events w0 = uw_events w"
    by (simp_all add: w0_def log_s3_def split: option.splits)
  have step: "run (upload_handle env) (expire_sessions (s # ss) k) w =
      run (upload_handle env) (expire_sessions ss k) w1"
    using assms(1)
    by (simp add: upload_call_defs db_exec_def tick_def sql_session_save_def w1_def s'_def w0_def log_s3_def
        split: option.split)
  obtain w' where w': "run (upload_handle env) (expire_sessions ss k) w1 = run (upload_handle env) k w'"
    "\<forall>s\<in>set ss. \<exists>s'. by_key us_id (us_id s) (uw_sessions w') = Some s' \<and> us_status s' = SExpired"
    "\<forall>i. i \<notin> us_id ` set ss \<longrightarrow> by_key us_id i (uw_sessions w') = by_key us_id i (uw_sessions w1)"
    "uw_videos w' = uw_videos w1" "uw_events w' = uw_events w1"
    using Cons.IH [of w1] Cons.prems by auto
  have "us_id s \<notin> us_id ` set ss" using Cons.prems by simp
  moreover have "uw_sessions w1 = save_row us_id s' (uw_sessions w)" "us_id s' = us_id s" "us_status s' = SExpired"
    by (simp_all add: w1_def w0 s'_def)
  ultimately show ?case
    using step w' by (intro exI [of _ w']) (auto simp: by_key_save w1_def w0)
next
  case Nil
  show ?case by (rule exI [of _ w]) simp
qed

lemma distinct_expired_sessions:
  "keyed us_id (uw_sessions w) \<Longrightarrow> distinct (map us_id (sql_sessions_expired t n w))"
  by (auto simp: keyed_def sql_sessions_expired_def limit_rows_def distinct_map_filter take_map [symmetric])

text \<open>
  After a tick with a batch large enough, no session that was past its time is left initiated or
  in progress.
\<close>

lemma janitor_expires_sessions:
  assumes "db_ok env" and "keyed us_id (uw_sessions w)"
    and "uc_janitor_batch cfg < 0 \<or> int (length (uw_sessions w)) \<le> uc_janitor_batch cfg"
    and "by_key us_id i (uw_sessions w) = Some s" and "us_status s = SInitiated \<or> us_status s = SInProgress"
    and "us_expires s < ue_clock env (uw_ticks w)"
  shows "\<exists>s'. by_key us_id i (uw_sessions (snd (run (upload_handle env) (run_session_batch cfg (Return ())) w))) = Some s'
    \<and> us_status s' = SExpired"
proof -
  let ?batch = "sql_sessions_expired (ue_clock env (uw_ticks w)) (uc_janitor_batch cfg) w"
  have "length (filter P (uw_sessions w)) \<le> nat (uc_janitor_batch cfg)" if "0 \<le> uc_janitor_batch cfg" for P
    using assms(3) that length_filter_le [of P "uw_sessions w"] by linarith
  then have "?batch = filter (\<lambda>s. us_status s \<in> {SInitiated, SInProgress} \<and> us_expires s < ue_clock env (uw_ticks w)) (uw_sessions w)"
    by (simp add: sql_sessions_expired_def limit_rows_def)
  with by_key_Some [OF assms(4)] assms(5,6) have "s \<in> set ?batch" "us_id s = i" by auto
  moreover have "sql_sessions_expired t n (snd (tick env w)) = sql_sessions_expired t n w" for t n
    by (simp add: sql_sessions_expired_def)
  then have "run (upload_handle env) (run_session_batch cfg (Return ())) w =
      run (upload_handle env) (expire_sessions ?batch (Return ())) (snd (tick env w))"
    using assms(1) by (simp add: run_session_batch_def upload_call_defs split_def)
  moreover have "distinct (map us_id ?batch)" using assms(2) by (rule distinct_expired_sessions)
  from run_expire_sessions [OF assms(1) this, of "Return ()" "snd (tick env w)"] obtain w1 where
    "run (upload_handle env) (expire_sessions ?batch (Return ())) (snd (tick env w)) = ((), w1)"
    "\<forall>s\<in>set ?batch. \<exists>s'. by_key us_id (us_id s) (uw_sessions w1) = Some s' \<and> us_status s' = SExpired"
    by auto
  ultimately show ?thesis by auto
qed

theorem janitor_settles_videos_witness:
  "\<exists>v'. by_key vid_id 7 (uw_videos (snd (run (upload_handle demo_env) (run_batch demo_lib demo_cfg (Return ()))
        (demo_world\<lparr>uw_ticks := 1\<rparr>)))) = Some v' \<and> vid_status v' = Uploaded"
proof -
  have ok: "store_ok demo_env"
    by (simp add: store_ok_def db_ok_def demo_env_def s3_head_object_def)
  have k: "keyed vid_id (uw_videos (demo_world\<lparr>uw_ticks := 1\<rparr>))" by (simp add: keyed_def demo_world_def)
  have "demo_video \<in> set (sql_videos_expired (ue_clock demo_env (uw_ticks (demo_world\<lparr>uw_ticks := 1\<rparr>)))
      (uc_janitor_batch demo_cfg) (demo_world\<lparr>uw_ticks := 1\<rparr>))" "in_store demo_env demo_video" "vid_id demo_video = 7"
    by (simp_all add: sql_videos_expired_def demo_defs limit_rows_def second_def in_store_def s3_head_object_def)
  with janitor_settles_videos [OF ok k, of demo_cfg demo_lib] show ?thesis by (metis (no_types))
qed

end
