(* ===== verification/SessionRace.thy ===== *)
theory SessionRace
  imports Janitor
begin

text \<open>
  The requests of the session service and the session batch of the janitor, interleaved call by
  call in any number and any order, with any call failing at any time (theory Program). The
  optimistic lock of \<open>CompleteSession\<close> is checked as a typestate: a request that won the transition
  to 'completing' holds the session until it gives the lock back; while a request holds it, or
  has assembled the object, no request can win it again.
\<close>

section \<open>The requests\<close>

text \<open>The interleaving does not look at the answers, only whether a request succeeded.\<close>

definition outcome :: "(goerr + 'x) upload_prog \<Rightarrow> bool upload_prog" where
  "outcome p = bind p (\<lambda>r. Return (\<not> isl r))"

definition session_requests :: "upload_lib \<Rightarrow> upload_config \<Rightarrow> bool upload_prog set" where
  "session_requests lib cfg =
     range (\<lambda>sid. outcome (complete_session lib sid)) \<union>
     range (\<lambda>sid. outcome (abort_session lib sid)) \<union>
     range (\<lambda>sid. outcome (get_session lib sid)) \<union>
     range (\<lambda>(sid, n). outcome (get_part_url lib cfg sid n)) \<union>
     range (\<lambda>(sid, n, etag). outcome (confirm_part lib sid n etag)) \<union>
     {run_session_batch cfg (Return True)}"

lemma session_requestsI [intro]:
  "outcome (complete_session lib i) \<in> session_requests lib cfg"
  "outcome (abort_session lib i) \<in> session_requests lib cfg"
  "outcome (get_session lib i) \<in> session_requests lib cfg"
  "outcome (get_part_url lib cfg i n) \<in> session_requests lib cfg"
  "outcome (confirm_part lib i n etag) \<in> session_requests lib cfg"
  "run_session_batch cfg (Return True) \<in> session_requests lib cfg"
  by (auto simp: session_requests_def intro: image_eqI [of _ _ "(i, n)"] image_eqI [of _ _ "(i, n, etag)"])

section \<open>The typestate of one session\<close>

text \<open>
  \<open>Free\<close>: has not the lock of the session; \<open>Holding\<close>: won it; \<open>Reverting\<close>: S3 refused, the lock is to
  be given back; \<open>Assembled\<close>: S3 has assembled the object; \<open>Announced\<close>: the event was sent.
\<close>

datatype lock_phase = Free | Holding | Reverting | Assembled | Announced

definition open_status :: "session_status \<Rightarrow> bool" where
  "open_status st \<longleftrightarrow> st = SInitiated \<or> st = SInProgress"

text \<open>A row belongs to the session, its multipart upload and its video at once or to none of them.\<close>

definition own_row :: "uuid \<Rightarrow> string \<Rightarrow> uuid \<Rightarrow> upload_session \<Rightarrow> bool" where
  "own_row sid uid vid s \<longleftrightarrow> (us_s3_id s = uid) = (us_id s = sid) \<and> (us_video s = vid) = (us_id s = sid)"

fun lock_allows :: "uuid \<Rightarrow> string \<Rightarrow> uuid \<Rightarrow> string \<Rightarrow> lock_phase \<Rightarrow> upload_call \<Rightarrow> bool" where
  "lock_allows sid uid vid name ph (CTransition i frm to) =
     (if i \<noteq> sid then ph = Free
      else if ph = Free then (frm, to) = (SInitiated, SInProgress) \<or> (frm, to) = (SInProgress, SCompleting)
      else ph = Reverting \<and> (frm, to) = (SCompleting, SInProgress))"
| "lock_allows sid uid vid name ph (CComplete key u ps) = (ph = (if u = uid then Holding else Free))"
| "lock_allows sid uid vid name ph (CSessionSave s) =
     (own_row sid uid vid s \<and> (us_id s = sid \<longrightarrow> \<not> open_status (us_status s)) \<and> (ph = Free \<or> ph = Assembled))"
| "lock_allows sid uid vid name ph (CPublish x y ev) = (ph = (if ev_video ev = name then Assembled else Free))"
| "lock_allows sid uid vid name ph (CSessionCreate s ps) = False"
| "lock_allows sid uid vid name ph c = True"

fun lock_next :: "uuid \<Rightarrow> string \<Rightarrow> string \<Rightarrow> lock_phase \<Rightarrow> upload_call \<Rightarrow> upload_reply \<Rightarrow> lock_phase" where
  "lock_next sid uid name ph (CTransition i frm to) r =
     (if i \<noteq> sid then ph
      else if to = SCompleting \<and> r_moved r = Inr True then Holding
      else if frm = SCompleting then Free else ph)"
| "lock_next sid uid name ph (CComplete key u ps) r =
     (if u = uid then (if isl (r_text r) then Reverting else Assembled) else ph)"
| "lock_next sid uid name ph (CPublish x y ev) r = (if ev_video ev = name then Announced else ph)"
| "lock_next sid uid name ph c r = ph"

fun lock_reply :: "uuid \<Rightarrow> string \<Rightarrow> uuid \<Rightarrow> upload_call \<Rightarrow> upload_reply \<Rightarrow> bool" where
  "lock_reply sid uid vid (CSessionGet i) r = (\<forall>s. r_session r = Inr s \<longrightarrow> us_id s = i \<and> own_row sid uid vid s)"
| "lock_reply sid uid vid (CVideoGet i) r = (\<forall>v. r_video r = Inr v \<longrightarrow> vid_id v = i)"
| "lock_reply sid uid vid (CSessionsExpired t n) r =
     (\<forall>ss. r_sessions r = Inr ss \<longrightarrow> list_all (own_row sid uid vid) ss)"
| "lock_reply sid uid vid c r = True"

definition completions :: "string \<Rightarrow> upload_world \<Rightarrow> nat" where
  "completions uid w = length (filter (\<lambda>x. case x of S3Completed _ u _ \<Rightarrow> u = uid | _ \<Rightarrow> False) (uw_s3 w))"

definition announcements :: "string \<Rightarrow> upload_world \<Rightarrow> nat" where
  "announcements name w = length (filter (\<lambda>ev. ev_video ev = name) (uw_events w))"

definition locked_by :: "lock_phase list \<Rightarrow> nat" where
  "locked_by phs = length (filter (\<lambda>ph. ph \<noteq> Free) phs)"

definition lock_inv :: "uuid \<Rightarrow> string \<Rightarrow> uuid \<Rightarrow> string \<Rightarrow> nat \<Rightarrow> nat \<Rightarrow> upload_world \<Rightarrow> lock_phase list \<Rightarrow> bool" where
  "lock_inv sid uid vid name c0 e0 w phs \<longleftrightarrow>
     keyed us_id (uw_sessions w) \<and> list_all (own_row sid uid vid) (uw_sessions w)
   \<and> locked_by phs \<le> 1
   \<and> (0 < locked_by phs \<longrightarrow> list_all (\<lambda>s. us_id s = sid \<longrightarrow> \<not> open_status (us_status s)) (uw_sessions w))
   \<and> completions uid w \<le> c0 + length (filter (\<lambda>ph. ph = Assembled \<or> ph = Announced) phs)
   \<and> announcements name w \<le> e0 + length (filter (\<lambda>ph. ph = Announced) phs)"

section \<open>The handlers follow it\<close>

lemma follows_bind_return:
  "follows A N G (bind p (\<lambda>r. Return (f r))) ph = follows A N G p ph"
  by (induction p arbitrary: ph) auto

lemma follows_outcome: "follows A N G (outcome p) ph = follows A N G p ph"
  by (simp add: outcome_def follows_bind_return)

lemma follows_expire_sessions:
  assumes "list_all (own_row sid uid vid) ss"
    and "follows (lock_allows sid uid vid name) (lock_next sid uid name) (lock_reply sid uid vid) k Free"
  shows "follows (lock_allows sid uid vid name) (lock_next sid uid name) (lock_reply sid uid vid) (expire_sessions ss k) Free"
  using assms(1)
  by (induction ss) (auto simp: assms(2) upload_call_defs own_row_def open_status_def)

lemma requests_follow_lock:
  assumes "p \<in> session_requests lib cfg" and "inj (ul_uuid_string lib)" and "name = ul_uuid_string lib vid"
  shows "follows (lock_allows sid uid vid name) (lock_next sid uid name) (lock_reply sid uid vid) p Free"
proof -
  let ?F = "follows (lock_allows sid uid vid name) (lock_next sid uid name) (lock_reply sid uid vid)"
  have str: "ul_uuid_string lib i = ul_uuid_string lib vid \<longleftrightarrow> i = vid" for i
    using assms(2) by (auto dest: injD)
  have "?F (complete_session lib i) Free" for i
    by (auto simp: complete_session_def complete_locked_def complete_stored_def upload_call_defs
        publish_uploaded_event_def uploaded_event_def own_row_def open_status_def str assms(3) Let_def
        split: sum.splits option.splits if_splits)
  moreover have "?F (abort_session lib i) Free" for i
    by (auto simp: abort_session_def upload_call_defs own_row_def open_status_def split: sum.splits option.splits)
  moreover have "?F (get_session lib i) Free" for i
    by (auto simp: get_session_def upload_call_defs split: sum.splits)
  moreover have "?F (get_part_url lib cfg i n) Free" for i n
    by (auto simp: get_part_url_def upload_call_defs Let_def split: sum.splits)
  moreover have "?F (confirm_part lib i n etag) Free" for i n etag
    by (auto simp: confirm_part_def upload_call_defs Let_def split: sum.splits option.splits)
  moreover have "?F (run_session_batch cfg (Return True)) Free"
    by (auto simp: run_session_batch_def time_now_def list_expired_active_sessions_def
        intro!: follows_expire_sessions split: sum.splits)
  ultimately show ?thesis
    using assms(1) by (auto simp: session_requests_def follows_outcome)
qed

section \<open>The invariant\<close>

lemma lock_inv_frame:
  assumes "lock_inv sid uid vid name c0 e0 w phs" and "uw_sessions w' = uw_sessions w"
    and "completions uid w' = completions uid w" and "announcements name w' = announcements name w"
  shows "lock_inv sid uid vid name c0 e0 w' phs"
  using assms by (simp add: lock_inv_def)

lemma lock_inv_arrive:
  "lock_inv sid uid vid name c0 e0 w phs \<Longrightarrow> lock_inv sid uid vid name c0 e0 w (phs @ [Free])"
  by (simp add: lock_inv_def locked_by_def)

lemma log_counts [simp]:
  "completions uid (log_s3 x w) = completions uid w + (case x of S3Completed _ u _ \<Rightarrow> if u = uid then 1 else 0 | _ \<Rightarrow> 0)"
  "announcements name (log_s3 x w) = announcements name w" "uw_sessions (log_s3 x w) = uw_sessions w"
  by (auto simp: completions_def announcements_def log_s3_def split: s3_effect.splits)

lemma tick_counts [simp]:
  "completions uid (snd (tick env w)) = completions uid w"
  "announcements name (snd (tick env w)) = announcements name w"
  "completions uid (w\<lparr>uw_sessions := x1\<rparr>) = completions uid w"
  "announcements name (w\<lparr>uw_sessions := x1\<rparr>) = announcements name w"
  "completions uid (w\<lparr>uw_videos := x2\<rparr>) = completions uid w"
  "announcements name (w\<lparr>uw_videos := x2\<rparr>) = announcements name w"
  "completions uid (w\<lparr>uw_parts := x3\<rparr>) = completions uid w"
  "announcements name (w\<lparr>uw_parts := x3\<rparr>) = announcements name w"
  "completions uid (w\<lparr>uw_uuids := x4\<rparr>) = completions uid w"
  "announcements name (w\<lparr>uw_uuids := x4\<rparr>) = announcements name w"
  "completions uid (w\<lparr>uw_events := x5\<rparr>) = completions uid w"
  by (simp_all add: completions_def announcements_def tick_def)

lemma locked_update:
  "i < length phs \<Longrightarrow> locked_by (phs[i := y]) + (if phs ! i \<noteq> Free then 1 else 0) = locked_by phs + (if y \<noteq> Free then 1 else 0)"
  unfolding locked_by_def by (rule length_filter_update)

lemma all_saved:
  "list_all P t \<Longrightarrow> P r \<Longrightarrow> list_all P (save_row key r t)"
  by (auto simp: save_row_def update_rows_def insert_row_def list_all_iff)

lemma all_updated: "list_all P t \<Longrightarrow> (\<And>x. x \<in> set t \<Longrightarrow> P x \<Longrightarrow> Q x \<Longrightarrow> P (f x)) \<Longrightarrow> list_all P (update_rows Q f t)"
  by (auto simp: update_rows_def list_all_iff)

lemma save_keeps_lock:
  assumes "lock_inv sid uid vid name c0 e0 w phs" and "own_row sid uid vid s"
    and "us_id s = sid \<longrightarrow> \<not> open_status (us_status s)"
  shows "lock_inv sid uid vid name c0 e0 (sql_session_save now s w) phs"
  using assms
  by (auto simp: lock_inv_def sql_session_save_def keyed_save own_row_def intro!: all_saved)

lemma transition_keeps_lock:
  assumes "lock_inv sid uid vid name c0 e0 w phs"
    and "0 < locked_by phs \<Longrightarrow> i = sid \<Longrightarrow> open_status frm \<or> \<not> open_status to"
  shows "lock_inv sid uid vid name c0 e0 (snd (sql_transition now i frm to w)) phs"
proof -
  have own: "list_all (own_row sid uid vid) (update_rows (\<lambda>s. us_id s = i \<and> us_status s = frm)
      (\<lambda>s. s\<lparr>us_status := to, us_updated_at := now\<rparr>) (uw_sessions w))"
    using assms(1) by (intro all_updated) (auto simp: lock_inv_def own_row_def)
  have closed: "list_all (\<lambda>s. us_id s = sid \<longrightarrow> \<not> open_status (us_status s))
      (update_rows (\<lambda>s. us_id s = i \<and> us_status s = frm) (\<lambda>s. s\<lparr>us_status := to, us_updated_at := now\<rparr>) (uw_sessions w))"
    if "0 < locked_by phs"
    using assms that by (intro all_updated) (auto simp: lock_inv_def)
  have keyed: "keyed us_id (update_rows (\<lambda>s. us_id s = i \<and> us_status s = frm)
      (\<lambda>s. s\<lparr>us_status := to, us_updated_at := now\<rparr>) (uw_sessions w))"
    using assms(1) by (intro keyed_update) (simp_all add: lock_inv_def)
  show ?thesis
    using assms(1) own closed keyed unfolding lock_inv_def sql_transition_def by simp
qed

text \<open>The transition that takes the lock succeeds only if no one has it.\<close>

lemma take_lock:
  assumes "lock_inv sid uid vid name c0 e0 w phs" and "i < length phs" and "phs ! i = Free"
    and "sql_transition now sid SInProgress SCompleting w = (True, w')"
  shows "lock_inv sid uid vid name c0 e0 w' (phs[i := Holding])"
proof -
  have K: "keyed us_id (uw_sessions w)" using assms(1) by (simp add: lock_inv_def)
  from assms(4) have "rows_affected (\<lambda>s. us_id s = sid \<and> us_status s = SInProgress) (uw_sessions w) = 1"
    and w': "w' = snd (sql_transition now sid SInProgress SCompleting w)"
    by (auto simp: sql_transition_def)
  then obtain s where s: "by_key us_id sid (uw_sessions w) = Some s" "us_status s = SInProgress"
    using K by (auto simp: keyed_rows_affected split: option.splits if_splits)
  then have mem: "s \<in> set (uw_sessions w)" "us_id s = sid" by (auto dest: by_key_Some)
  then have free: "locked_by phs = 0"
    using assms(1) s(2) by (auto simp: lock_inv_def list_all_iff open_status_def)
  have "list_all (\<lambda>x. us_id x = sid \<longrightarrow> \<not> open_status (us_status x)) (uw_sessions w')"
    unfolding list_all_iff
  proof (intro ballI impI)
    fix x
    let ?f = "\<lambda>y. if us_id y = sid \<and> us_status y = SInProgress
        then y\<lparr>us_status := SCompleting, us_updated_at := now\<rparr> else y"
    assume x: "x \<in> set (uw_sessions w')" and id: "us_id x = sid"
    have "uw_sessions w' = map ?f (uw_sessions w)"
      by (simp add: w' sql_transition_def update_rows_def)
    with x obtain y where y: "y \<in> set (uw_sessions w)" "x = ?f y" by auto
    have "us_id y = sid" using id unfolding y(2) by (cases "us_id y = sid") simp_all
    from by_key_unique [OF K s(1) y(1) this] have "y = s" .
    with y(2) s(2) mem show "\<not> open_status (us_status x)" by (simp add: open_status_def)
  qed
  moreover have "lock_inv sid uid vid name c0 e0 w' phs"
    unfolding w' using assms(1) free by (intro transition_keeps_lock) simp_all
  moreover have "locked_by (phs[i := Holding]) = 1"
    using locked_update [OF assms(2), of Holding] assms(3) free by simp
  moreover have "length (filter P (phs[i := Holding])) = length (filter P phs)" if "\<not> P Holding" "\<not> P Free" for P
    using length_filter_update [OF assms(2), of P Holding] assms(3) that by simp
  then have "length (filter (\<lambda>ph. ph = Assembled \<or> ph = Announced) (phs[i := Holding])) =
      length (filter (\<lambda>ph. ph = Assembled \<or> ph = Announced) phs)"
    "length (filter (\<lambda>ph. ph = Announced) (phs[i := Holding])) = length (filter (\<lambda>ph. ph = Announced) phs)"
    by simp_all
  ultimately show ?thesis unfolding lock_inv_def by linarith
qed

text \<open>Giving the lock back.\<close>

lemma release_lock:
  assumes "lock_inv sid uid vid name c0 e0 w phs" and "i < length phs" and "phs ! i = Reverting"
    and "uw_sessions w' = uw_sessions w \<or> w' = snd (sql_transition now sid SCompleting SInProgress (snd (tick env w)))"
    and "completions uid w' = completions uid w" "announcements name w' = announcements name w"
  shows "lock_inv sid uid vid name c0 e0 w' (phs[i := Free])"
proof -
  have le: "locked_by phs \<le> 1" using assms(1) by (simp add: lock_inv_def)
  with locked_update [OF assms(2), of Free] assms(3) have free: "locked_by (phs[i := Free]) = 0" by simp
  have cnt: "length (filter P (phs[i := Free])) = length (filter P phs)" if "\<not> P Reverting" "\<not> P Free" for P
    using length_filter_update [OF assms(2), of P Free] assms(3) that by simp
  have "length (filter (\<lambda>ph. ph = Assembled \<or> ph = Announced) (phs[i := Free])) =
      length (filter (\<lambda>ph. ph = Assembled \<or> ph = Announced) phs)"
    "length (filter (\<lambda>ph. ph = Announced) (phs[i := Free])) = length (filter (\<lambda>ph. ph = Announced) phs)"
    by (rule cnt; simp)+
  with assms(1) free have inv0: "lock_inv sid uid vid name c0 e0 w (phs[i := Free])"
    unfolding lock_inv_def by linarith
  show ?thesis
  proof (cases "uw_sessions w' = uw_sessions w")
    case True
    from lock_inv_frame [OF inv0 this assms(5,6)] show ?thesis .
  next
    case False
    with assms(4) have "w' = snd (sql_transition now sid SCompleting SInProgress (snd (tick env w)))" by simp
    moreover have "lock_inv sid uid vid name c0 e0 (snd (tick env w)) (phs[i := Free])"
      using inv0 by (rule lock_inv_frame) simp_all
    ultimately show ?thesis using free by (auto intro: transition_keeps_lock)
  qed
qed

section \<open>Every call keeps the invariant\<close>

text \<open>The calls that touch neither the sessions nor what the invariant counts.\<close>

definition quiet :: "upload_call \<Rightarrow> bool" where
  "quiet c \<longleftrightarrow> (case c of CTransition _ _ _ \<Rightarrow> False | CComplete _ _ _ \<Rightarrow> False | CSessionSave _ \<Rightarrow> False
     | CPublish _ _ _ \<Rightarrow> False | CSessionCreate _ _ \<Rightarrow> False | _ \<Rightarrow> True)"

lemma quiet_frame:
  assumes "quiet c" and "upload_handle env c w = (r, w')"
  shows "uw_sessions w' = uw_sessions w" "completions uid w' = completions uid w"
    "announcements name w' = announcements name w"
  using assms
  by (cases c; auto simp: quiet_def db_exec_def sql_video_create_def sql_video_save_def sql_part_save_def split_def
      split: option.splits sum.splits)+

lemma quiet_next: "quiet c \<Longrightarrow> lock_next sid uid name ph c r = ph"
  by (cases c) (auto simp: quiet_def)

lemma lock_reply_holds:
  assumes "lock_inv sid uid vid name c0 e0 w phs" and "upload_handle env c w = (r, w')"
  shows "lock_reply sid uid vid c r"
proof (cases c)
  case (CSessionGet i)
  have "us_id s = i \<and> own_row sid uid vid s" if "first_row (\<lambda>s. us_id s = i) (uw_sessions w) = Inr s" for s
    using first_row_Inr [OF that] assms(1) by (simp add: lock_inv_def list_all_iff)
  with CSessionGet assms(2) show ?thesis by (auto simp: db_read_def split: option.splits)
next
  case (CVideoGet i)
  with assms show ?thesis by (auto simp: db_read_def split: option.splits dest: first_row_Inr)
next
  case (CSessionsExpired t n)
  have "list_all (own_row sid uid vid) (sql_sessions_expired t n w)"
    using assms(1) set_limit_rows unfolding lock_inv_def list_all_iff sql_sessions_expired_def by fastforce
  with CSessionsExpired assms show ?thesis by (auto simp: db_read_def split: option.splits)
qed auto

text \<open>One step of the typestate that changes the phase of the acting request.\<close>

lemma phase_step:
  assumes "lock_inv sid uid vid name c0 e0 w phs" and "i < length phs" and "phs ! i \<noteq> Free" and "ph \<noteq> Free"
    and "uw_sessions w' = uw_sessions w"
    and "completions uid w' + (if phs ! i = Assembled \<or> phs ! i = Announced then 1 else 0)
           \<le> completions uid w + (if ph = Assembled \<or> ph = Announced then 1 else 0)"
    and "announcements name w' + (if phs ! i = Announced then 1 else 0)
           \<le> announcements name w + (if ph = Announced then 1 else 0)"
  shows "lock_inv sid uid vid name c0 e0 w' (phs[i := ph])"
proof -
  have "locked_by (phs[i := ph]) = locked_by phs"
    using locked_update [OF assms(2), of ph] assms(3,4) by simp
  moreover note length_filter_update [OF assms(2), of "\<lambda>ph. ph = Assembled \<or> ph = Announced" ph]
    length_filter_update [OF assms(2), of "\<lambda>ph. ph = Announced" ph]
  ultimately show ?thesis using assms(1,5-7) unfolding lock_inv_def by (simp split: if_splits)
qed

lemma keep_phase: "lock_inv sid uid vid name c0 e0 w phs \<Longrightarrow> ph = phs ! i \<Longrightarrow> lock_inv sid uid vid name c0 e0 w (phs[i := ph])"
  by simp

text \<open>A transition that the database refuses, and one that succeeds, by what it is for.\<close>

lemma transition_fault:
  assumes inv: "lock_inv sid uid vid name c0 e0 w phs" and i: "i < length phs"
    and allowed: "lock_allows sid uid vid name (phs ! i) (CTransition j frm to)" and r: "r = RMoved (Inl e)"
  shows "lock_inv sid uid vid name c0 e0 w (phs[i := lock_next sid uid name (phs ! i) (CTransition j frm to) r])"
proof (cases "j = sid \<and> phs ! i = Reverting")
  case True
  with allowed r have "lock_next sid uid name (phs ! i) (CTransition j frm to) r = Free" by auto
  with release_lock [OF inv i, of w] True show ?thesis by simp
next
  case False
  with allowed r have "lock_next sid uid name (phs ! i) (CTransition j frm to) r = phs ! i" by (auto split: if_splits)
  with inv show ?thesis by simp
qed

lemma transition_take:
  assumes inv: "lock_inv sid uid vid name c0 e0 w phs" and i: "i < length phs" and free: "phs ! i = Free"
    and r: "r = RMoved (Inr (fst (sql_transition now sid SInProgress SCompleting w)))"
  shows "lock_inv sid uid vid name c0 e0 (snd (sql_transition now sid SInProgress SCompleting w))
    (phs[i := lock_next sid uid name (phs ! i) (CTransition sid SInProgress SCompleting) r])"
proof (cases "fst (sql_transition now sid SInProgress SCompleting w)")
  case True
  with take_lock [OF inv i free] free r show ?thesis by (metis lock_next.simps(1) prod.collapse upload_reply.sel(9))
next
  case False
  have "lock_inv sid uid vid name c0 e0 (snd (sql_transition now sid SInProgress SCompleting w)) phs"
    by (rule transition_keeps_lock [OF inv]) (simp add: open_status_def)
  then show ?thesis by (rule keep_phase) (use free r False in simp)
qed

lemma transition_step:
  assumes inv: "lock_inv sid uid vid name c0 e0 w phs" and i: "i < length phs"
    and allowed: "lock_allows sid uid vid name (phs ! i) (CTransition j frm to)"
    and h: "upload_handle env (CTransition j frm to) w = (r, w')"
  shows "lock_inv sid uid vid name c0 e0 w' (phs[i := lock_next sid uid name (phs ! i) (CTransition j frm to) r])"
proof (cases "ue_db_err env (CTransition j frm to)")
  case (Some e)
  with h have r: "r = RMoved (Inl e)" "w' = w" by auto
  show ?thesis unfolding r(2) by (rule transition_fault [OF inv i allowed r(1)])

next
  case None
  define now where "now = ue_clock env (uw_ticks w)"
  let ?w = "snd (tick env w)"
  from None h have r: "r = RMoved (Inr (fst (sql_transition now j frm to ?w)))" "w' = snd (sql_transition now j frm to ?w)"
    by (auto simp: split_def now_def)
  have inv': "lock_inv sid uid vid name c0 e0 ?w phs" using inv by (rule lock_inv_frame) simp_all
  consider (other) "j \<noteq> sid" | (start) "j = sid" "phs ! i = Free" "frm = SInitiated" "to = SInProgress"
    | (take) "j = sid" "phs ! i = Free" "frm = SInProgress" "to = SCompleting"
    | (give) "j = sid" "phs ! i = Reverting" "frm = SCompleting" "to = SInProgress"
    using allowed by (auto split: if_splits)
  then show ?thesis
  proof cases
    case other
    then show ?thesis using transition_keeps_lock [OF inv'] r by simp
  next
    case start
    have "lock_inv sid uid vid name c0 e0 w' phs"
      unfolding r start by (rule transition_keeps_lock [OF inv']) (simp add: open_status_def)
    then show ?thesis by (rule keep_phase) (use start in simp)
  next
    case take
    show ?thesis unfolding r(2) take(1,3,4) by (rule transition_take [OF inv' i take(2)]) (simp add: r take)

  next
    case give
    then have "lock_next sid uid name (phs ! i) (CTransition j frm to) r = Free" by simp
    moreover have "completions uid w' = completions uid w" "announcements name w' = announcements name w"
      unfolding r by (simp_all add: sql_transition_def)
    ultimately show ?thesis using release_lock [OF inv i, of w' now env] give r by simp
  qed
qed

lemma complete_step:
  assumes inv: "lock_inv sid uid vid name c0 e0 w phs" and i: "i < length phs"
    and allowed: "lock_allows sid uid vid name (phs ! i) (CComplete key u ps)" and h: "upload_handle env (CComplete key u ps) w = (r, w')"
  shows "lock_inv sid uid vid name c0 e0 w' (phs[i := lock_next sid uid name (phs ! i) (CComplete key u ps) r])"
proof -
  from h have c': "uw_sessions w' = uw_sessions w" "announcements name w' = announcements name w"
    "completions uid w' = completions uid w + (if isl (r_text r) then 0 else if u = uid then 1 else 0)"
    by (auto split: sum.splits)
  show ?thesis
  proof (cases "u = uid")
    case True
    with allowed c' show ?thesis by (auto intro!: phase_step [OF inv i])
  next
    case False
    with c' lock_inv_frame [OF inv, of w'] show ?thesis by simp
  qed
qed

lemma publish_step:
  assumes inv: "lock_inv sid uid vid name c0 e0 w phs" and i: "i < length phs"
    and allowed: "lock_allows sid uid vid name (phs ! i) (CPublish x y ev)" and h: "upload_handle env (CPublish x y ev) w = (r, w')"
  shows "lock_inv sid uid vid name c0 e0 w' (phs[i := lock_next sid uid name (phs ! i) (CPublish x y ev) r])"
proof -
  from h have e': "uw_sessions w' = uw_sessions w" "completions uid w' = completions uid w"
    "announcements name w' \<le> announcements name w + (if ev_video ev = name then 1 else 0)"
    by (auto simp: announcements_def split: option.splits)
  show ?thesis
  proof (cases "ev_video ev = name")
    case True
    with allowed e' show ?thesis by (simp add: phase_step [OF inv i])
  next
    case False
    with h have "announcements name w' = announcements name w" by (auto simp: announcements_def split: option.splits)
    with False lock_inv_frame [OF inv e'(1,2)] show ?thesis by simp
  qed
qed

lemma lock_step:
  assumes inv: "lock_inv sid uid vid name c0 e0 w phs" and i: "i < length phs"
    and allowed: "lock_allows sid uid vid name (phs ! i) c" and h: "upload_handle env c w = (r, w')"
  shows "lock_inv sid uid vid name c0 e0 w' (phs[i := lock_next sid uid name (phs ! i) c r])"
proof (cases "quiet c")
  case True
  with lock_inv_frame [OF inv quiet_frame [OF True h]] show ?thesis by (simp add: quiet_next)
next
  case False
  then consider (trans) j frm to where "c = CTransition j frm to" | (complete) key u ps where "c = CComplete key u ps"
    | (save) s where "c = CSessionSave s" | (publish) x y ev where "c = CPublish x y ev"
    | (create) s ps where "c = CSessionCreate s ps"
    by (cases c) (auto simp: quiet_def)
  then show ?thesis
  proof cases
    case trans
    with transition_step [OF inv i] allowed h show ?thesis by blast
  next
    case complete
    with complete_step [OF inv i] allowed h show ?thesis by blast

  next
    case save
    have "lock_inv sid uid vid name c0 e0 (snd (tick env w)) phs" using inv by (rule lock_inv_frame) simp_all
    with save h allowed inv save_keeps_lock [of sid uid vid name c0 e0 "snd (tick env w)" phs s]
    show ?thesis by (auto simp: db_exec_def split_def split: option.splits)
  next
    case publish
    with publish_step [OF inv i] allowed h show ?thesis by blast

  next
    case create
    with allowed show ?thesis by simp
  qed
qed

interpretation session_lock: typestate upload_handle "lock_allows sid uid vid name" "lock_next sid uid name"
  "lock_reply sid uid vid" Free "lock_inv sid uid vid name c0 e0" for sid uid vid name c0 e0
  by unfold_locales (auto intro: lock_inv_arrive lock_step lock_reply_holds)

section \<open>At most one completion\<close>

text \<open>
  C1. Mutual exclusion of \<open>CompleteSession\<close>. Let any number of requests on upload sessions (complete,
  abort, get, part URL, confirm) and janitor batches arrive at any time and be interleaved call by
  call, with database, S3 and broker failing as they like. If the multipart upload and the video
  of a session belong to no other session, S3 is made to assemble that upload successfully at most
  once, and the event of its video is published at most once, however many requests try.
\<close>
theorem complete_session_exclusive:
  assumes "reachable upload_handle (session_requests lib cfg) w0 (ts, w)"
    and "keyed us_id (uw_sessions w0)"
    and "list_all (\<lambda>s. (us_s3_id s = uid) = (us_id s = sid) \<and> (us_video s = vid) = (us_id s = sid)) (uw_sessions w0)"
    and "inj (ul_uuid_string lib)"
  shows "completions uid w \<le> completions uid w0 + 1
    \<and> announcements (ul_uuid_string lib vid) w \<le> announcements (ul_uuid_string lib vid) w0 + 1"
proof -
  let ?inv = "lock_inv sid uid vid (ul_uuid_string lib vid) (completions uid w0) (announcements (ul_uuid_string lib vid) w0)"
  have "?inv w0 []"
    using assms(2,3) by (auto simp: lock_inv_def locked_by_def own_row_def list_all_iff)
  with session_lock.reachable_inv [OF assms(1)] requests_follow_lock [OF _ assms(4) refl]
  obtain phs where "?inv w phs" by blast
  moreover have "length (filter (\<lambda>ph. ph = Assembled \<or> ph = Announced) phs) \<le> locked_by phs"
    "length (filter (\<lambda>ph. ph = Announced) phs) \<le> locked_by phs"
    unfolding locked_by_def by (induction phs) auto
  ultimately show ?thesis unfolding lock_inv_def by linarith
qed

definition race_lib :: upload_lib where
  "race_lib = demo_lib\<lparr>ul_uuid_string := \<lambda>i. replicate (unat i) (CHR ''i'')\<rparr>"

definition two_completions :: "bool upload_prog list" where
  "two_completions = [outcome (complete_session race_lib 9), outcome (complete_session race_lib 9)]"

theorem complete_session_exclusive_witness:
  "completions ''mpu'' (snd (run_sched upload_handle [(0, demo_env), (1, demo_env), (0, demo_env), (1, demo_env),
      (0, demo_env), (1, demo_env), (0, demo_env), (1, demo_env)] (two_completions, demo_uploading))) \<le> 1"
proof -
  let ?ies = "[(0, demo_env), (1, demo_env), (0, demo_env), (1, demo_env), (0, demo_env), (1, demo_env),
    (0, demo_env), (1, demo_env)]"
  obtain ts w where x: "run_sched upload_handle ?ies (two_completions, demo_uploading) = (ts, w)"
    by (cases "run_sched upload_handle ?ies (two_completions, demo_uploading)")
  have "reachable upload_handle (session_requests race_lib demo_cfg) demo_uploading
      (run_sched upload_handle ?ies (two_completions, demo_uploading))"
    by (intro reachable_schedule) (auto simp: two_completions_def session_requests_def)
  then have "reachable upload_handle (session_requests race_lib demo_cfg) demo_uploading (ts, w)"
    unfolding x .
  moreover have "inj (ul_uuid_string race_lib)" by (auto simp: race_lib_def inj_def) (metis length_replicate word_unat_eq_iff)
  moreover have "list_all (\<lambda>s. (us_s3_id s = ''mpu'') = (us_id s = 9) \<and> (us_video s = 7) = (us_id s = 9)) (uw_sessions demo_uploading)"
    by (simp add: demo_uploading_def demo_session_def)
  ultimately have "completions ''mpu'' w \<le> completions ''mpu'' demo_uploading + 1"
    using complete_session_exclusive demo_uploading_simps(2) by blast
  then show ?thesis unfolding x by (simp add: completions_def demo_uploading_simps)
qed

section \<open>The status of a session as an abstract state machine\<close>

text \<open>The edges of the status machine, besides staying where one is.\<close>

definition session_edge :: "session_status \<Rightarrow> session_status \<Rightarrow> bool" where
  "session_edge a b \<longleftrightarrow> a = b \<or> b = SCompleted \<or> b = SAborted \<or> b = SExpired
     \<or> (a = SInitiated \<and> b = SInProgress) \<or> (a = SInProgress \<and> b = SCompleting)
     \<or> (a = SCompleting \<and> b = SInProgress)"

fun status_call :: "upload_call \<Rightarrow> bool" where
  "status_call (CTransition i frm to) = session_edge frm to"
| "status_call (CSessionSave s) = (us_status s \<in> {SCompleted, SAborted, SExpired})"
| "status_call (CSessionCreate s ps) = False"
| "status_call c = True"

lemma calls_in_expire: "calls_in status_call k \<Longrightarrow> calls_in status_call (expire_sessions ss k)"
  by (induction ss) (simp_all add: upload_call_defs)

lemma requests_status_calls: "p \<in> session_requests lib cfg \<Longrightarrow> calls_in status_call p"
proof -
  have "calls_in status_call (complete_session lib i)" "calls_in status_call (abort_session lib i)"
    "calls_in status_call (get_session lib i)" "calls_in status_call (get_part_url lib cfg i n)"
    "calls_in status_call (confirm_part lib i n e)" for i n e
    by (auto simp: complete_session_def complete_locked_def complete_stored_def abort_session_def get_session_def
        get_part_url_def confirm_part_def publish_uploaded_event_def upload_call_defs Let_def session_edge_def
        split: sum.splits option.splits)
  moreover have "calls_in status_call (run_session_batch cfg (Return True))"
    by (auto simp: run_session_batch_def time_now_def list_expired_active_sessions_def calls_in_expire split: sum.splits)
  ultimately show "p \<in> session_requests lib cfg \<Longrightarrow> calls_in status_call p"
    by (auto simp: session_requests_def outcome_def intro!: calls_in_bind)
qed

definition status_of :: "uuid \<Rightarrow> upload_world \<Rightarrow> session_status option" where
  "status_of sid w = map_option us_status (by_key us_id sid (uw_sessions w))"

definition status_step :: "uuid \<Rightarrow> upload_world \<Rightarrow> upload_world \<Rightarrow> bool" where
  "status_step sid w w' \<longleftrightarrow>
     (case (status_of sid w, status_of sid w') of
        (Some a, Some b) \<Rightarrow> session_edge a b
      | (Some a, None) \<Rightarrow> False
      | (None, Some b) \<Rightarrow> b \<in> {SCompleted, SAborted, SExpired}
      | (None, None) \<Rightarrow> True)"

lemma status_step_same: "uw_sessions w' = uw_sessions w \<Longrightarrow> status_step sid w w'"
  by (simp add: status_step_def status_of_def session_edge_def split: option.splits)

lemma status_step_handle:
  assumes "status_call c" and "upload_handle env c w = (r, w')"
  shows "status_step sid w w'"
proof (cases "quiet c")
  case True
  with quiet_frame(1) assms(2) show ?thesis by (blast intro: status_step_same)
next
  case False
  then consider (trans) j frm to where "c = CTransition j frm to" | (save) s where "c = CSessionSave s"
    | (create) s ps where "c = CSessionCreate s ps"
    | (complete) key u ps where "c = CComplete key u ps" | (publish) x y ev where "c = CPublish x y ev"
    by (cases c) (auto simp: quiet_def)
  then show ?thesis
  proof cases
    case trans
    with assms show ?thesis
      by (auto simp: split_def sql_transition_def status_step_def status_of_def by_key_update_rows
          session_edge_def split: option.splits if_splits)
  next
    case save
    with assms show ?thesis
      by (auto simp: db_exec_def split_def sql_session_save_def status_step_def status_of_def by_key_save
          session_edge_def split: option.splits if_splits)
  next
    case create
    with assms show ?thesis by simp
  qed (use assms in \<open>auto intro!: status_step_same split: option.splits sum.splits\<close>)
qed



section \<open>A confirmation that is lost\<close>

definition pending_part :: upload_part where
  "pending_part = (demo_part 1)\<lparr>up_status := PPending, up_etag := ''''\<rparr>"

definition one_pending :: upload_world where
  "one_pending = demo_world\<lparr>uw_sessions := [demo_session], uw_parts := [pending_part]\<rparr>"

definition lost_schedule :: "(nat \<times> upload_env) list" where
  "lost_schedule = map (\<lambda>i. (i, demo_env)) ([0, 0, 0] @ replicate 5 1 @ [0])"


end
