(* ===== verification/Auth.thy ===== *)
theory Auth
  imports AppErrors GoNumbers
begin

text \<open>
  pkg/auth: the authenticator (jwt.go) and its middleware. The JWT library signs and parses tokens
  and is a parameter, \<open>jwt_lib\<close>; what the code relies on is \<open>jwt_ok\<close>: a token signed with a key is
  parsed back with that key until it expires, and rejected from then on or when the issuer asked
  for is another. The clock readings are arguments, in the order in which the code takes them.
\<close>

section \<open>Data\<close>

record auth_config =
  ac_secret :: string
  ac_issuer :: string
  ac_access_hours :: int
  ac_refresh_hours :: int

record claims =
  cl_user :: string
  cl_role :: string
  cl_jti :: string
  cl_issuer :: string
  cl_expires :: "gotime option"
  cl_issued :: "gotime option"

datatype signing_method = SigningHMAC string | SigningOther string

text \<open>
  \<open>jl_parse keyfunc issuer now token\<close> is \<open>jwt.ParseWithClaims\<close>: the claims and the \<open>Valid\<close> flag.
  \<open>jl_date\<close> is \<open>jwt.NewNumericDate\<close>, which truncates an instant to the library's precision.
\<close>

record jwt_lib =
  jl_date :: "gotime \<Rightarrow> gotime"
  jl_sign :: "string \<Rightarrow> claims \<Rightarrow> goerr + string"
  jl_parse :: "(signing_method \<Rightarrow> goerr + string) \<Rightarrow> string option \<Rightarrow> gotime \<Rightarrow> string \<Rightarrow> goerr + (claims \<times> bool)"

section \<open>jwt.go\<close>

definition access_claims :: "jwt_lib \<Rightarrow> auth_config \<Rightarrow> gotime \<Rightarrow> gotime \<Rightarrow> string \<Rightarrow> string \<Rightarrow> claims" where
  "access_claims jl cfg now now' user_id role =
     \<lparr>cl_user = user_id, cl_role = role, cl_jti = '''', cl_issuer = ac_issuer cfg,
      cl_expires = Some (jl_date jl (now + int64 (ac_access_hours cfg * hour))),
      cl_issued = Some (jl_date jl now')\<rparr>"

definition generate_access_token ::
  "jwt_lib \<Rightarrow> auth_config \<Rightarrow> gotime \<Rightarrow> gotime \<Rightarrow> string \<Rightarrow> string \<Rightarrow> goerr + string" where
  "generate_access_token jl cfg now now' user_id role =
     jl_sign jl (ac_secret cfg) (access_claims jl cfg now now' user_id role)"

definition refresh_claims :: "jwt_lib \<Rightarrow> auth_config \<Rightarrow> string \<Rightarrow> gotime \<Rightarrow> gotime \<Rightarrow> string \<Rightarrow> string \<Rightarrow> claims" where
  "refresh_claims jl cfg jti now now' user_id role =
     \<lparr>cl_user = user_id, cl_role = role, cl_jti = jti, cl_issuer = ac_issuer cfg,
      cl_expires = Some (jl_date jl (now + int64 (ac_refresh_hours cfg * hour))),
      cl_issued = Some (jl_date jl now')\<rparr>"

text \<open>\<open>jti\<close> is the text of the \<open>uuid.New()\<close> the code takes first; it is returned with the token.\<close>

definition generate_refresh_token ::
  "jwt_lib \<Rightarrow> auth_config \<Rightarrow> string \<Rightarrow> gotime \<Rightarrow> gotime \<Rightarrow> string \<Rightarrow> string \<Rightarrow> goerr + (string \<times> string)" where
  "generate_refresh_token jl cfg jti now now' user_id role =
     (case jl_sign jl (ac_secret cfg) (refresh_claims jl cfg jti now now' user_id role) of
        Inl err \<Rightarrow> Inl err
      | Inr token_string \<Rightarrow> Inr (token_string, jti))"

text \<open>\<open>generateToken\<close> takes the lifespan as an argument; nothing calls it.\<close>

definition generate_token ::
  "jwt_lib \<Rightarrow> auth_config \<Rightarrow> gotime \<Rightarrow> gotime \<Rightarrow> string \<Rightarrow> string \<Rightarrow> duration \<Rightarrow> goerr + string" where
  "generate_token jl cfg now now' user_id role lifespan =
     jl_sign jl (ac_secret cfg)
       \<lparr>cl_user = user_id, cl_role = role, cl_jti = '''', cl_issuer = ac_issuer cfg,
        cl_expires = Some (jl_date jl (now + lifespan)), cl_issued = Some (jl_date jl now')\<rparr>"


definition hmac_key :: "auth_config \<Rightarrow> signing_method \<Rightarrow> goerr + string" where
  "hmac_key cfg m =
     (case m of
        SigningHMAC _ \<Rightarrow> Inr (ac_secret cfg)
      | SigningOther _ \<Rightarrow> Inl (Plain ''unexpected signing method''))"

definition verify_token :: "jwt_lib \<Rightarrow> auth_config \<Rightarrow> gotime \<Rightarrow> string \<Rightarrow> goerr + claims" where
  "verify_token jl cfg now token_string =
     (let parse_issuer = (if ac_issuer cfg \<noteq> '''' then Some (ac_issuer cfg) else None) in
      case jl_parse jl (hmac_key cfg) parse_issuer now token_string of
        Inl err \<Rightarrow> Inl err
      | Inr (claims, valid) \<Rightarrow> if valid then Inr claims else Inl (Plain ''invalid token claims''))"

definition extract_token :: "string \<Rightarrow> string" where
  "extract_token auth_header =
     (if auth_header = '''' then ''''
      else
        (case split_on (CHR '' '') auth_header of
           [scheme, token] \<Rightarrow> if to_lower scheme = ''bearer'' then token else ''''
         | _ \<Rightarrow> ''''))"

section \<open>middleware.go\<close>

text \<open>The middleware calls the next handler with the claims in the context, or answers.\<close>

datatype 'd auth_outcome = AuthNext claims | AuthAbort "'d http_response"

definition auth_middleware :: "string \<Rightarrow> jwt_lib \<Rightarrow> auth_config \<Rightarrow> gotime \<Rightarrow> string \<Rightarrow> 'd auth_outcome" where
  "auth_middleware missing jl cfg now auth_header =
     (let token_string = extract_token auth_header in
      if token_string = '''' then AuthAbort (snd (response_error (unauthorized missing)))
      else
        (case verify_token jl cfg now token_string of
           Inl err \<Rightarrow> AuthAbort (snd (response_error (unauthorized ''Invalid or expired token'')))
         | Inr claims \<Rightarrow> AuthNext claims))"

definition require_auth :: "jwt_lib \<Rightarrow> auth_config \<Rightarrow> gotime \<Rightarrow> string \<Rightarrow> 'd auth_outcome" where
  "require_auth = auth_middleware ''Missing or malformed Authorization header''"

definition gin_require_auth :: "jwt_lib \<Rightarrow> auth_config \<Rightarrow> gotime \<Rightarrow> string \<Rightarrow> 'd auth_outcome" where
  "gin_require_auth = auth_middleware ''Missing Authorization header''"

section \<open>The JWT library\<close>

text \<open>
  Tokens are not empty and have no spaces; parsing a token signed with a key gives its claims back
  as valid before the expiry and an error afterwards, if the key function accepts HMAC with that
  key and the issuer is the one asked for.
\<close>

definition jwt_ok :: "jwt_lib \<Rightarrow> bool" where
  "jwt_ok jl \<longleftrightarrow>
     (\<forall>secret c token. jl_sign jl secret c = Inr token \<longrightarrow>
        token \<noteq> [] \<and> CHR '' '' \<notin> set token \<and>
        (\<forall>keyfunc issuer now.
           keyfunc (SigningHMAC ''HS256'') = Inr secret \<longrightarrow>
           (case cl_expires c of
              None \<Rightarrow> True
            | Some t \<Rightarrow>
                if now < t \<and> (issuer = None \<or> issuer = Some (cl_issuer c))
                then jl_parse jl keyfunc issuer now token = Inr (c, True)
                else isl (jl_parse jl keyfunc issuer now token))))"

lemma jwt_ok_verify:
  assumes "jwt_ok jl" and "jl_sign jl (ac_secret cfg) c = Inr token" and "cl_issuer c = ac_issuer cfg"
    and "cl_expires c = Some t"
  shows "now < t \<Longrightarrow> verify_token jl cfg now token = Inr c"
    and "t \<le> now \<Longrightarrow> isl (verify_token jl cfg now token)"
proof -
  let ?issuer = "if ac_issuer cfg \<noteq> '''' then Some (ac_issuer cfg) else None"
  have key: "hmac_key cfg (SigningHMAC ''HS256'') = Inr (ac_secret cfg)" by (simp add: hmac_key_def)
  from assms(1,2) key assms(4)
  have p: "if now < t \<and> (?issuer = None \<or> ?issuer = Some (cl_issuer c))
      then jl_parse jl (hmac_key cfg) ?issuer now token = Inr (c, True)
      else isl (jl_parse jl (hmac_key cfg) ?issuer now token)"
    unfolding jwt_ok_def by fastforce
  { assume "now < t"
    with p assms(3) show "verify_token jl cfg now token = Inr c"
      by (auto simp: verify_token_def split: if_splits) }
  { assume "t \<le> now"
    with p have "isl (jl_parse jl (hmac_key cfg) ?issuer now token)" by simp
    then obtain e where "jl_parse jl (hmac_key cfg) ?issuer now token = Inl e" by (auto simp: isl_def)
    then show "isl (verify_token jl cfg now token)" by (simp add: verify_token_def) }
qed

lemma extract_bearer:
  assumes "to_lower scheme = ''bearer''" and "CHR '' '' \<notin> set token"
  shows "extract_token (scheme @ CHR '' '' # token) = token"
proof -
  have no: "CHR '' '' \<notin> set scheme"
  proof
    assume "CHR '' '' \<in> set scheme"
    then have "lower_char (CHR '' '') \<in> set (to_lower scheme)" by (simp add: to_lower_def)
    with assms(1) show False by (simp add: lower_char_def)
  qed
  with assms show ?thesis
    by (simp add: extract_token_def split_on_append_sep split_on_no_sep)
qed

text \<open>What the middleware does with a token signed with the service's key.\<close>

lemma gin_require_auth_signed:
  assumes "jwt_ok jl" and "to_lower scheme = ''bearer''" and "jl_sign jl (ac_secret cfg) c = Inr token"
    and "cl_issuer c = ac_issuer cfg" and "cl_expires c = Some t"
  shows "(gin_require_auth jl cfg now (scheme @ CHR '' '' # token) :: 'd auth_outcome) =
    (if now < t then AuthNext c else AuthAbort (snd (response_error (unauthorized ''Invalid or expired token''))))"
proof -
  from assms(1,3) have tok: "token \<noteq> []" "CHR '' '' \<notin> set token" unfolding jwt_ok_def by blast+
  note v = jwt_ok_verify [OF assms(1,3,4,5), of now]
  have "extract_token (scheme @ CHR '' '' # token) = token" by (rule extract_bearer [OF assms(2) tok(2)])
  with v tok(1) show ?thesis
    by (cases "now < t") (auto simp: gin_require_auth_def auth_middleware_def isl_def)
qed


section \<open>Round trip\<close>


text \<open>A library that knows a table of tokens, with the key and the claims of each.\<close>

definition table_jwt :: "(string \<times> string \<times> claims) list \<Rightarrow> jwt_lib" where
  "table_jwt tbl =
     \<lparr>jl_date = (\<lambda>t. t),
      jl_sign = (\<lambda>secret c. case find (\<lambda>(_, x). x = (secret, c)) tbl of
                    Some (token, _) \<Rightarrow> Inr token | None \<Rightarrow> Inl (Plain ''sign'')),
      jl_parse = (\<lambda>keyfunc issuer now token. case map_of tbl token of
                    None \<Rightarrow> Inl (Plain ''token is malformed'')
                  | Some (secret, c) \<Rightarrow>
                      if keyfunc (SigningHMAC ''HS256'') = Inr secret
                         \<and> (case cl_expires c of None \<Rightarrow> True | Some t \<Rightarrow> now < t)
                         \<and> (issuer = None \<or> issuer = Some (cl_issuer c))
                      then Inr (c, True) else Inl (Plain ''token has invalid claims''))\<rparr>"

lemma jwt_ok_table:
  assumes "distinct (map fst tbl)" and "list_all (\<lambda>(token, _). token \<noteq> [] \<and> CHR '' '' \<notin> set token) tbl"
  shows "jwt_ok (table_jwt tbl)"
proof -
  have known: "map_of tbl token = Some (secret, c)" "token \<noteq> [] \<and> CHR '' '' \<notin> set token"
    if "jl_sign (table_jwt tbl) secret c = Inr token" for secret c token
  proof -
    from that obtain y where "find (\<lambda>(_, x). x = (secret, c)) tbl = Some (token, y)"
      by (auto simp: table_jwt_def split: option.splits prod.splits)
    from find_SomeD [OF this] have mem: "(token, secret, c) \<in> set tbl" by auto
    with assms(1) show "map_of tbl token = Some (secret, c)" by simp
    from mem assms(2) show "token \<noteq> [] \<and> CHR '' '' \<notin> set token" by (auto simp: list_all_iff)
  qed
  have parse: "jl_parse (table_jwt tbl) keyfunc issuer now token =
      (if (case cl_expires c of None \<Rightarrow> True | Some t \<Rightarrow> now < t) \<and> (issuer = None \<or> issuer = Some (cl_issuer c))
       then Inr (c, True) else Inl (Plain ''token has invalid claims''))"
    if "jl_sign (table_jwt tbl) secret c = Inr token" and "keyfunc (SigningHMAC ''HS256'') = Inr secret"
    for secret c token keyfunc issuer now
    using known(1) [OF that(1)] that(2) by (simp add: table_jwt_def)
  show ?thesis
    unfolding jwt_ok_def
  proof (intro allI impI conjI)
    fix secret c token
    assume s: "jl_sign (table_jwt tbl) secret c = Inr token"
    from known(2) [OF s] show "token \<noteq> []" "CHR '' '' \<notin> set token" by simp_all
    fix keyfunc :: "signing_method \<Rightarrow> goerr + string" and issuer now
    assume "keyfunc (SigningHMAC ''HS256'') = Inr secret"
    from parse [of secret c token keyfunc, OF s this]
    show "case cl_expires c of None \<Rightarrow> True | Some t \<Rightarrow>
        if now < t \<and> (issuer = None \<or> issuer = Some (cl_issuer c))
        then jl_parse (table_jwt tbl) keyfunc issuer now token = Inr (c, True)
        else isl (jl_parse (table_jwt tbl) keyfunc issuer now token)"
      by (auto split: option.splits)
  qed
qed


definition demo_auth_config :: auth_config where
  "demo_auth_config = \<lparr>ac_secret = ''k'', ac_issuer = ''identity'', ac_access_hours = 1, ac_refresh_hours = 24\<rparr>"

definition demo_jwt :: jwt_lib where
  "demo_jwt = table_jwt
     [(''at'', ''k'', access_claims (table_jwt []) demo_auth_config 0 0 ''u'' ''user''),
      (''rt'', ''k'', refresh_claims (table_jwt []) demo_auth_config ''j'' 0 0 ''u'' ''user'')]"



end
