(* ===== verification/Redis.thy ===== *)
theory Redis
  imports AppErrors
begin

text \<open>
  The part of Redis the services use, and pkg/redis/cache.go on top of it. A store maps a key to
  its value and the instant it expires at, if any; a key past that instant is not there. \<open>SET\<close>
  with a positive expiration, \<open>GET\<close>, \<open>DEL\<close>, \<open>INCR\<close>, \<open>EXPIRE\<close> and \<open>TTL\<close> have the meaning of the
  Redis command reference (\<open>EXPIRE\<close> with a time that is not positive deletes the key; \<open>TTL\<close> is
  -2 for no key, -1 for no expiry, else the seconds left, rounded to the nearest).

  The locale \<open>cache\<close> states what the identity and preference services rely on when they use the
  Go interface \<open>Cache\<close> (Set, Get, Delete).
\<close>

section \<open>The store\<close>

type_synonym 'v rstore = "string \<Rightarrow> ('v \<times> gotime option) option"

definition rget :: "gotime \<Rightarrow> string \<Rightarrow> 'v rstore \<Rightarrow> 'v option" where
  "rget now k st =
     (case st k of
        None \<Rightarrow> None
      | Some (v, None) \<Rightarrow> Some v
      | Some (v, Some t) \<Rightarrow> if now < t then Some v else None)"

definition rset :: "gotime \<Rightarrow> string \<Rightarrow> 'v \<Rightarrow> duration \<Rightarrow> 'v rstore \<Rightarrow> 'v rstore" where
  "rset now k v expiration st = st(k \<mapsto> (v, if 0 < expiration then Some (now + expiration) else None))"

definition rdel :: "string list \<Rightarrow> 'v rstore \<Rightarrow> 'v rstore" where
  "rdel ks st = (\<lambda>k. if k \<in> set ks then None else st k)"

definition rincr :: "gotime \<Rightarrow> string \<Rightarrow> int rstore \<Rightarrow> int \<times> int rstore" where
  "rincr now k st =
     (case rget now k st of
        None \<Rightarrow> (1, st(k \<mapsto> (1, None)))
      | Some n \<Rightarrow> (n + 1, st(k \<mapsto> (n + 1, Option.bind (st k) snd))))"

definition rexpire :: "gotime \<Rightarrow> string \<Rightarrow> int \<Rightarrow> int rstore \<Rightarrow> int rstore" where
  "rexpire now k secs st =
     (case rget now k st of
        None \<Rightarrow> st
      | Some n \<Rightarrow> if secs \<le> 0 then st(k := None) else st(k \<mapsto> (n, Some (now + secs * second))))"

definition rttl :: "gotime \<Rightarrow> string \<Rightarrow> int rstore \<Rightarrow> int" where
  "rttl now k st =
     (case rget now k st of
        None \<Rightarrow> -2
      | Some _ \<Rightarrow> (case Option.bind (st k) snd of
            None \<Rightarrow> -1
          | Some t \<Rightarrow> ((t - now) div 1000000 + 500) div 1000))"

section \<open>pkg/redis/cache.go\<close>

text \<open>
  \<open>marshal\<close> and \<open>unmarshal\<close> are \<open>json.Marshal\<close> and \<open>json.Unmarshal\<close> at the type of the cached
  value; \<open>fault\<close> is the error of the Redis round trip, if it fails.
\<close>

definition cache_set ::
  "('v \<Rightarrow> goerr + string) \<Rightarrow> goerr option \<Rightarrow> gotime \<Rightarrow> string \<Rightarrow> 'v \<Rightarrow> duration \<Rightarrow> string rstore
     \<Rightarrow> goerr option \<times> string rstore" where
  "cache_set marshal fault now key val expiration st =
     (case marshal val of
        Inl e \<Rightarrow> (Some e, st)
      | Inr d \<Rightarrow> (case fault of Some e \<Rightarrow> (Some e, st) | None \<Rightarrow> (None, rset now key d expiration st)))"

definition cache_get ::
  "(string \<Rightarrow> goerr + 'v) \<Rightarrow> goerr option \<Rightarrow> gotime \<Rightarrow> string \<Rightarrow> string rstore \<Rightarrow> goerr + 'v" where
  "cache_get unmarshal fault now key st =
     (case fault of
        Some e \<Rightarrow> Inl e
      | None \<Rightarrow> (case rget now key st of
            None \<Rightarrow> Inl (Sentinel ErrCacheMiss)
          | Some d \<Rightarrow> unmarshal d))"

definition cache_delete :: "goerr option \<Rightarrow> string list \<Rightarrow> string rstore \<Rightarrow> goerr option \<times> string rstore" where
  "cache_delete fault keys st =
     (case fault of Some e \<Rightarrow> (Some e, st) | None \<Rightarrow> (None, rdel keys st))"

section \<open>The contract of a cache\<close>

locale cache =
  fixes cset :: "gotime \<Rightarrow> string \<Rightarrow> 'v \<Rightarrow> duration \<Rightarrow> 's \<Rightarrow> 's"
    and cget :: "gotime \<Rightarrow> string \<Rightarrow> 's \<Rightarrow> 'v option"
    and cdel :: "string list \<Rightarrow> 's \<Rightarrow> 's"
  assumes get_set_same: "0 < d \<Longrightarrow> cget now' k (cset now k v d s) = (if now' < now + d then Some v else None)"
    and get_set_other: "k' \<noteq> k \<Longrightarrow> cget now' k' (cset now k v d s) = cget now' k' s"
    and get_del: "cget now k (cdel ks s) = (if k \<in> set ks then None else cget now k s)"
begin

text \<open>A key that was deleted stays missing until it is set again, whatever else is set.\<close>

lemma deleted_stays_missing:
  "k \<notin> (\<lambda>(k, _). k) ` set kvs \<Longrightarrow>
   cget now' k (fold (\<lambda>(k, v). cset now k v d) kvs (cdel ks s)) = (if k \<in> set ks then None else cget now' k s)"
proof (induction kvs rule: rev_induct)
  case (snoc kv kvs)
  then show ?case by (cases kv) (auto simp: get_set_other)
qed (simp add: get_del)

text \<open>Replacing one key by another: the old one misses, the new one hits until it expires.\<close>

lemma rotate_key:
  assumes "k \<noteq> k'" and "0 < d"
  shows "cget now' k (cset now k' v d (cdel [k] s)) = None"
    and "now' < now + d \<Longrightarrow> cget now' k' (cset now k' v d (cdel [k] s)) = Some v"
    and "k'' \<noteq> k \<Longrightarrow> k'' \<noteq> k' \<Longrightarrow> cget now' k'' (cset now k' v d (cdel [k] s)) = cget now' k'' s"
  using assms by (simp_all add: get_set_same get_set_other get_del)

lemma miss_after_expiry: "0 < d \<Longrightarrow> now + d \<le> now' \<Longrightarrow> cget now' k (cset now k v d s) = None"
  by (simp add: get_set_same)

end

lemma rget_rset: "rget now' k' (rset now k v d st) =
  (if k' = k then (if 0 < d \<and> now + d \<le> now' then None else Some v) else rget now' k' st)"
  by (auto simp: rget_def rset_def)

lemma rget_rdel: "rget now k (rdel ks st) = (if k \<in> set ks then None else rget now k st)"
  by (simp add: rget_def rdel_def)

interpretation redis_cache: cache rset rget rdel
  by unfold_locales (auto simp: rget_rset rget_rdel)

lemma cache_set_ok: "marshal v = Inr d \<Longrightarrow> cache_set marshal None now k v e st = (None, rset now k d e st)"
  by (simp add: cache_set_def)

lemma cache_get_rget:
  "cache_get unmarshal None now k st =
     (case rget now k st of None \<Rightarrow> Inl (Sentinel ErrCacheMiss) | Some d \<Rightarrow> unmarshal d)"
  by (simp add: cache_get_def)

end
