(* ===== verification/Identity.thy ===== *)
theory Identity
  imports Auth Tables Redis Program
begin

text \<open>
  What the identity service is made of: its users (internal/domain), the calls its functions make on
  the user repository (internal/repository), the cache, the clock, the random source, bcrypt and
  Google, and the state those calls act on. \<open>identity_handle\<close> gives each call its meaning; what is
  decided outside (faults, hashes, Google's answers, the readings of the clock) is \<open>identity_env\<close>.
\<close>

section \<open>internal/domain, internal/dto\<close>

record user =
  usr_id :: uuid
  usr_created_at :: gotime
  usr_updated_at :: gotime
  usr_deleted_at :: "gotime option"
  usr_email :: string
  usr_role :: string
  usr_hash :: string
  usr_name :: string

record user_response =
  ur_id :: uuid
  ur_email :: string
  ur_name :: string
  ur_role :: string

record login_response =
  lr_access :: string
  lr_refresh :: string
  lr_user :: user_response

record google_user =
  gu_email :: string
  gu_name :: string

text \<open>
  Libraries: the JWT library, the text of a uuid and PostgreSQL's cast of a text to one, bcrypt's
  comparison, the decoding of Google's profile, the OAuth URL, and the JSON of a cached string.
\<close>

record identity_lib =
  il_jwt :: jwt_lib
  il_uuid_str :: "uuid \<Rightarrow> string"
  il_uuid_cast :: "string \<Rightarrow> uuid option"
  il_compare :: "string \<Rightarrow> string \<Rightarrow> goerr option"
  il_decode_google :: "string \<Rightarrow> goerr + google_user"
  il_auth_url :: "string \<Rightarrow> string"
  il_marshal :: "string \<Rightarrow> goerr + string"
  il_unmarshal :: "string \<Rightarrow> goerr + string"

section \<open>Calls, replies, state\<close>

datatype identity_call =
    IUserCreate user
  | IBulkCreate "user list" int
  | IByEmail string
  | IByID string
  | IUserSave user
  | IUserDelete string
  | IListUsers string string int
  | ICountUsers string
  | ICacheSet string string duration
  | ICacheGet string
  | ICacheDel "string list"
  | INow
  | INewUUID
  | IHash string
  | IExchange string
  | IHttpGet string

datatype identity_reply =
    JError (j_error: "goerr option")
  | JUser (j_user: "goerr + user")
  | JUsers (j_users: "goerr + user list")
  | JCount (j_count: "goerr + int")
  | JText (j_text: "goerr + string")
  | JTime (j_time: gotime)
  | JUuid (j_uuid: uuid)

type_synonym 'a identity_prog = "(identity_call, identity_reply, 'a) prog"

text \<open>\<open>iw_random\<close> is the tape the random uuids are read from, \<open>iw_uuids\<close> the position on it.\<close>

record identity_world =
  iw_users :: "user list"
  iw_cache :: "string rstore"
  iw_random :: "nat \<Rightarrow> uuid"
  iw_uuids :: nat
  iw_ticks :: nat

record identity_env =
  ie_db_err :: "identity_call \<Rightarrow> goerr option"
  ie_cache_err :: "identity_call \<Rightarrow> goerr option"
  ie_clock :: "nat \<Rightarrow> gotime"
  ie_hash :: "string \<Rightarrow> goerr + string"
  ie_exchange :: "string \<Rightarrow> goerr + string"
  ie_http :: "string \<Rightarrow> goerr + string"

definition inow :: "identity_env \<Rightarrow> identity_world \<Rightarrow> gotime \<times> identity_world" where
  "inow env w = (ie_clock env (iw_ticks w), w\<lparr>iw_ticks := Suc (iw_ticks w)\<rparr>)"

definition new_uuid :: "identity_world \<Rightarrow> uuid \<times> identity_world" where
  "new_uuid w = (iw_random w (iw_uuids w), w\<lparr>iw_uuids := Suc (iw_uuids w)\<rparr>)"

section \<open>internal/repository/user_repository.go\<close>

definition unique_violation :: goerr where
  "unique_violation = Plain ''duplicate key value violates unique constraint''"

definition users_ok :: "user list \<Rightarrow> bool" where
  "users_ok us \<longleftrightarrow> keyed usr_id us \<and> keyed usr_email us"

definition invalid_uuid :: goerr where
  "invalid_uuid = Plain ''invalid input syntax for type uuid''"

text \<open>
  \<open>Create\<close>: GORM writes the defaults of the columns that are zero (a random id, the role user) and
  reads them back into the struct. The id is the primary key and the email has a unique index.
\<close>

definition new_user_row :: "gotime \<Rightarrow> uuid \<Rightarrow> user \<Rightarrow> user" where
  "new_user_row now fresh u =
     u\<lparr>usr_id := (if usr_id u = 0 then fresh else usr_id u), usr_role := (if usr_role u = '''' then ''user'' else usr_role u),
       usr_created_at := now, usr_updated_at := now\<rparr>"

definition sql_user_create :: "gotime \<Rightarrow> uuid \<Rightarrow> user \<Rightarrow> identity_world \<Rightarrow> (goerr + user) \<times> identity_world" where
  "sql_user_create now fresh u w =
     (let row = new_user_row now fresh u in
      if users_ok (insert_row row (iw_users w))
      then (Inr row, w\<lparr>iw_users := insert_row row (iw_users w)\<rparr>)
      else (Inl unique_violation, w))"

text \<open>\<open>CreateInBatches\<close> runs in one transaction: all the rows or none. The ids are set by the caller.\<close>

definition sql_bulk_create :: "gotime \<Rightarrow> user list \<Rightarrow> identity_world \<Rightarrow> goerr option \<times> identity_world" where
  "sql_bulk_create now us w =
     (let rows = iw_users w @ map (\<lambda>u. new_user_row now (usr_id u) u) us in
      if users_ok rows then (None, w\<lparr>iw_users := rows\<rparr>) else (Some unique_violation, w))"

definition sql_user_by_id :: "identity_lib \<Rightarrow> string \<Rightarrow> identity_world \<Rightarrow> goerr + user" where
  "sql_user_by_id lib uid w =
     (case il_uuid_cast lib uid of
        None \<Rightarrow> Inl invalid_uuid
      | Some i \<Rightarrow> first_row (\<lambda>u. usr_id u = i) (iw_users w))"

definition sql_user_save :: "gotime \<Rightarrow> user \<Rightarrow> identity_world \<Rightarrow> goerr option \<times> identity_world" where
  "sql_user_save now u w =
     (let rows = save_row usr_id (u\<lparr>usr_updated_at := now\<rparr>) (iw_users w) in
      if users_ok rows then (None, w\<lparr>iw_users := rows\<rparr>) else (Some unique_violation, w))"

text \<open>\<open>DeletedAt\<close> is a plain pointer and not \<open>gorm.DeletedAt\<close>: the delete removes the row.\<close>

definition sql_user_delete :: "identity_lib \<Rightarrow> string \<Rightarrow> identity_world \<Rightarrow> goerr option \<times> identity_world" where
  "sql_user_delete lib uid w =
     (case il_uuid_cast lib uid of
        None \<Rightarrow> (Some invalid_uuid, w)
      | Some i \<Rightarrow> (None, w\<lparr>iw_users := filter (\<lambda>u. usr_id u \<noteq> i) (iw_users w)\<rparr>))"

definition user_selected :: "string \<Rightarrow> user \<Rightarrow> bool" where
  "user_selected role u \<longleftrightarrow> usr_deleted_at u = None \<and> (role = '''' \<or> usr_role u = role)"

definition sql_list_users :: "identity_lib \<Rightarrow> string \<Rightarrow> string \<Rightarrow> int \<Rightarrow> user list \<Rightarrow> goerr + user list" where
  "sql_list_users lib role cursor lim us =
     (if cursor = '''' then Inr (limit_rows lim (sort_key usr_id (filter (user_selected role) us)))
      else
        (case il_uuid_cast lib cursor of
           None \<Rightarrow> Inl invalid_uuid
         | Some i \<Rightarrow> Inr (limit_rows lim (sort_key usr_id (filter (\<lambda>u. user_selected role u \<and> i < usr_id u) us)))))"

definition sql_count_users :: "string \<Rightarrow> identity_world \<Rightarrow> int" where
  "sql_count_users role w = int (length (filter (user_selected role) (iw_users w)))"

section \<open>What each call does\<close>

definition ie_read :: "identity_env \<Rightarrow> identity_call \<Rightarrow> (goerr + 'x) \<Rightarrow> goerr + 'x" where
  "ie_read env c r = (case ie_db_err env c of Some e \<Rightarrow> Inl e | None \<Rightarrow> r)"

fun identity_handle ::
  "identity_lib \<Rightarrow> identity_env \<Rightarrow> identity_call \<Rightarrow> identity_world \<Rightarrow> identity_reply \<times> identity_world" where
  "identity_handle lib env (IUserCreate u) w =
     (case ie_db_err env (IUserCreate u) of
        Some e \<Rightarrow> (JUser (Inl e), w)
      | None \<Rightarrow>
          (case inow env w of (now, w1) \<Rightarrow>
            (case new_uuid w1 of (fresh, w2) \<Rightarrow>
              (case sql_user_create now fresh u w2 of (r, w3) \<Rightarrow> (JUser r, w3)))))"
| "identity_handle lib env (IBulkCreate us n) w =
     (case ie_db_err env (IBulkCreate us n) of
        Some e \<Rightarrow> (JError (Some e), w)
      | None \<Rightarrow> (case inow env w of (now, w1) \<Rightarrow>
                   (case sql_bulk_create now us w1 of (r, w2) \<Rightarrow> (JError r, w2))))"
| "identity_handle lib env (IByEmail email) w =
     (JUser (ie_read env (IByEmail email) (first_row (\<lambda>u. usr_email u = email) (iw_users w))), w)"
| "identity_handle lib env (IByID uid) w = (JUser (ie_read env (IByID uid) (sql_user_by_id lib uid w)), w)"
| "identity_handle lib env (IUserSave u) w =
     (case ie_db_err env (IUserSave u) of
        Some e \<Rightarrow> (JError (Some e), w)
      | None \<Rightarrow> (case inow env w of (now, w1) \<Rightarrow> (case sql_user_save now u w1 of (r, w2) \<Rightarrow> (JError r, w2))))"
| "identity_handle lib env (IUserDelete uid) w =
     (case ie_db_err env (IUserDelete uid) of
        Some e \<Rightarrow> (JError (Some e), w)
      | None \<Rightarrow> (case sql_user_delete lib uid w of (r, w1) \<Rightarrow> (JError r, w1)))"
| "identity_handle lib env (IListUsers role cursor lim) w =
     (JUsers (ie_read env (IListUsers role cursor lim) (sql_list_users lib role cursor lim (iw_users w))), w)"
| "identity_handle lib env (ICountUsers role) w =
     (JCount (ie_read env (ICountUsers role) (Inr (sql_count_users role w))), w)"
| "identity_handle lib env (ICacheSet key val expiration) w =
     (case inow env w of (now, w1) \<Rightarrow>
       (case cache_set (il_marshal lib) (ie_cache_err env (ICacheSet key val expiration)) now key val expiration (iw_cache w1) of
          (r, st) \<Rightarrow> (JError r, w1\<lparr>iw_cache := st\<rparr>)))"
| "identity_handle lib env (ICacheGet key) w =
     (case inow env w of (now, w1) \<Rightarrow>
       (JText (cache_get (il_unmarshal lib) (ie_cache_err env (ICacheGet key)) now key (iw_cache w1)), w1))"
| "identity_handle lib env (ICacheDel keys) w =
     (case cache_delete (ie_cache_err env (ICacheDel keys)) keys (iw_cache w) of
        (r, st) \<Rightarrow> (JError r, w\<lparr>iw_cache := st\<rparr>))"
| "identity_handle lib env INow w = (case inow env w of (now, w1) \<Rightarrow> (JTime now, w1))"
| "identity_handle lib env INewUUID w = (case new_uuid w of (u, w1) \<Rightarrow> (JUuid u, w1))"
| "identity_handle lib env (IHash password) w = (JText (ie_hash env password), w)"
| "identity_handle lib env (IExchange code) w = (JText (ie_exchange env code), w)"
| "identity_handle lib env (IHttpGet url) w = (JText (ie_http env url), w)"

section \<open>internal/service/auth_service.go\<close>


definition build_rt_key :: "string \<Rightarrow> string \<Rightarrow> string" where
  "build_rt_key user_id jti = ''rt:'' @ user_id @ '':'' @ jti"

definition build_blacklist_key :: "string \<Rightarrow> string" where
  "build_blacklist_key access_token = ''blacklist:'' @ access_token"

definition rt_expiration :: "auth_config \<Rightarrow> duration" where
  "rt_expiration cfg = int64 (ac_refresh_hours cfg * hour)"

text \<open>The two generators of pkg/auth, with the readings of the clock and of \<open>uuid.New\<close> they make.\<close>

definition with_access_token ::
  "identity_lib \<Rightarrow> auth_config \<Rightarrow> user \<Rightarrow> (string \<Rightarrow> (goerr + 'a) identity_prog) \<Rightarrow> (goerr + 'a) identity_prog" where
  "with_access_token lib cfg u k =
     Call INow (\<lambda>r1. Call INow (\<lambda>r2.
       case generate_access_token (il_jwt lib) cfg (j_time r1) (j_time r2) (il_uuid_str lib (usr_id u)) (usr_role u) of
         Inl err \<Rightarrow> Return (Inl err)
       | Inr token \<Rightarrow> k token))"

definition with_refresh_token ::
  "identity_lib \<Rightarrow> auth_config \<Rightarrow> user \<Rightarrow> (string \<Rightarrow> string \<Rightarrow> (goerr + 'a) identity_prog) \<Rightarrow> (goerr + 'a) identity_prog" where
  "with_refresh_token lib cfg u k =
     Call INewUUID (\<lambda>r. Call INow (\<lambda>r1. Call INow (\<lambda>r2.
       case generate_refresh_token (il_jwt lib) cfg (il_uuid_str lib (j_uuid r)) (j_time r1) (j_time r2)
              (il_uuid_str lib (usr_id u)) (usr_role u) of
         Inl err \<Rightarrow> Return (Inl err)
       | Inr (token, jti) \<Rightarrow> k token jti)))"

definition user_to_response :: "user \<Rightarrow> user_response" where
  "user_to_response u = \<lparr>ur_id = usr_id u, ur_email = usr_email u, ur_name = usr_name u, ur_role = usr_role u\<rparr>"

definition check_password :: "identity_lib \<Rightarrow> user \<Rightarrow> string \<Rightarrow> bool" where
  "check_password lib u password \<longleftrightarrow> il_compare lib (usr_hash u) password = None"

definition blank_user :: user where
  "blank_user = \<lparr>usr_id = 0, usr_created_at = zero_time, usr_updated_at = zero_time, usr_deleted_at = None,
     usr_email = '''', usr_role = '''', usr_hash = '''', usr_name = ''''\<rparr>"

definition register_user :: "string \<Rightarrow> string \<Rightarrow> string \<Rightarrow> (goerr + uuid) identity_prog" where
  "register_user email password name =
     Call (IHash password) (\<lambda>r. case j_text r of
       Inl err \<Rightarrow> Return (Inl err)
     | Inr hash \<Rightarrow>
         Call (IUserCreate (blank_user\<lparr>usr_email := email, usr_name := name, usr_hash := hash\<rparr>)) (\<lambda>r. case j_user r of
           Inl err \<Rightarrow> Return (Inl err)
         | Inr u \<Rightarrow> Return (Inr (usr_id u))))"

definition login :: "identity_lib \<Rightarrow> auth_config \<Rightarrow> string \<Rightarrow> string \<Rightarrow> (goerr + login_response) identity_prog" where
  "login lib cfg email password =
     Call (IByEmail email) (\<lambda>r. case j_user r of
       Inl err \<Rightarrow> Return (Inl err)
     | Inr u \<Rightarrow>
         if \<not> check_password lib u password then Return (Inl (unauthorized ''invalid credentials''))
         else
           with_access_token lib cfg u (\<lambda>access.
           with_refresh_token lib cfg u (\<lambda>refresh jti.
             Call (ICacheSet (build_rt_key (il_uuid_str lib (usr_id u)) jti) ''active'' (rt_expiration cfg)) (\<lambda>r.
               case j_error r of
                 Some err \<Rightarrow> Return (Inl err)
               | None \<Rightarrow> Return (Inr \<lparr>lr_access = access, lr_refresh = refresh, lr_user = user_to_response u\<rparr>)))))"

definition get_user_by_id :: "string \<Rightarrow> (goerr + user) identity_prog" where
  "get_user_by_id uid = Call (IByID uid) (\<lambda>r. Return (j_user r))"

text \<open>\<open>RefreshToken\<close> from where the key of the old token has been deleted.\<close>

definition reissue :: "identity_lib \<Rightarrow> auth_config \<Rightarrow> string \<Rightarrow> (goerr + login_response) identity_prog" where
  "reissue lib cfg user_id =
     Call (IByID user_id) (\<lambda>r. case j_user r of
       Inl err \<Rightarrow> Return (Inl err)
     | Inr u \<Rightarrow>
         with_access_token lib cfg u (\<lambda>access.
         with_refresh_token lib cfg u (\<lambda>refresh jti.
           Call (ICacheSet (build_rt_key (il_uuid_str lib (usr_id u)) jti) ''active'' (rt_expiration cfg)) (\<lambda>r.
             case j_error r of
               Some err \<Rightarrow> Return (Inl err)
             | None \<Rightarrow> Return (Inr \<lparr>lr_access = access, lr_refresh = refresh, lr_user = user_to_response u\<rparr>)))))"

definition refresh_token :: "identity_lib \<Rightarrow> auth_config \<Rightarrow> string \<Rightarrow> (goerr + login_response) identity_prog" where
  "refresh_token lib cfg token =
     Call INow (\<lambda>r. case verify_token (il_jwt lib) cfg (j_time r) token of
       Inl err \<Rightarrow> Return (Inl err)
     | Inr claims \<Rightarrow>
         (let rt_key = build_rt_key (cl_user claims) (cl_jti claims) in
          Call (ICacheGet rt_key) (\<lambda>r. case j_text r of
            Inl _ \<Rightarrow> Return (Inl (unauthorized ''refresh token expired or reused''))
          | Inr _ \<Rightarrow> Call (ICacheDel [rt_key]) (\<lambda>_. reissue lib cfg (cl_user claims)))))"


definition fetch_google_profile ::
  "identity_lib \<Rightarrow> string \<Rightarrow> (goerr + google_user \<Rightarrow> (goerr + 'a) identity_prog) \<Rightarrow> (goerr + 'a) identity_prog" where
  "fetch_google_profile lib access_token k =
     Call (IHttpGet (''https://www.googleapis.com/oauth2/v2/userinfo?access_token='' @ access_token)) (\<lambda>r.
       case j_text r of Inl err \<Rightarrow> k (Inl err) | Inr body \<Rightarrow> k (il_decode_google lib body))"

text \<open>After the user is found or created; the role is left out of the response.\<close>

definition google_tokens :: "identity_lib \<Rightarrow> auth_config \<Rightarrow> user \<Rightarrow> (goerr + login_response) identity_prog" where
  "google_tokens lib cfg u =
     with_access_token lib cfg u (\<lambda>access.
     with_refresh_token lib cfg u (\<lambda>refresh _.
       Return (Inr \<lparr>lr_access = access, lr_refresh = refresh,
                   lr_user = (user_to_response u)\<lparr>ur_role := ''''\<rparr>\<rparr>)))"

definition login_with_google :: "identity_lib \<Rightarrow> auth_config \<Rightarrow> string \<Rightarrow> (goerr + login_response) identity_prog" where
  "login_with_google lib cfg code =
     Call (IExchange code) (\<lambda>r. case j_text r of
       Inl err \<Rightarrow> Return (Inl (Wrap ''google code exchange failed: '' err))
     | Inr google_token \<Rightarrow>
         fetch_google_profile lib google_token (\<lambda>r. case r of
           Inl err \<Rightarrow> Return (Inl err)
         | Inr gu \<Rightarrow>
             Call (IByEmail (gu_email gu)) (\<lambda>r. case j_user r of
               Inl _ \<Rightarrow>
                 Call (IUserCreate (blank_user\<lparr>usr_email := gu_email gu, usr_name := gu_name gu, usr_role := ''user''\<rparr>)) (\<lambda>r.
                   case j_user r of
                     Inl err \<Rightarrow> Return (Inl err)
                   | Inr u \<Rightarrow> google_tokens lib cfg u)
             | Inr u \<Rightarrow> google_tokens lib cfg u)))"

definition get_google_auth_url :: "identity_lib \<Rightarrow> string \<Rightarrow> string" where
  "get_google_auth_url lib state = il_auth_url lib state"

definition get_profile :: "string \<Rightarrow> (goerr + user_response) identity_prog" where
  "get_profile user_id =
     Call (IByID user_id) (\<lambda>r. case j_user r of
       Inl err \<Rightarrow> Return (Inl err)
     | Inr u \<Rightarrow> Return (Inr (user_to_response u)))"

text \<open>
  \<open>Logout\<close> from where the key of the refresh token has been deleted a first time. The error of the
  access token's verification was ignored, so its claims are nil when it is invalid;
  \<open>atClaims.ExpiresAt.Time\<close> then panics, as it does when the token has no expiry.
\<close>

definition blacklist_access :: "string \<Rightarrow> string \<Rightarrow> goerr + claims \<Rightarrow> goerr option outcome identity_prog" where
  "blacklist_access access rt_key at_claims =
     (case at_claims of
        Inl _ \<Rightarrow> Return (Panicked ''invalid memory address or nil pointer dereference'')
      | Inr c \<Rightarrow>
          (case cl_expires c of
             None \<Rightarrow> Return (Panicked ''invalid memory address or nil pointer dereference'')
           | Some expires_at \<Rightarrow>
               Call INow (\<lambda>r.
                 let remaining = expires_at - j_time r;
                     finish = Call (ICacheDel [rt_key]) (\<lambda>r. Return (Returned (j_error r)))
                 in if 0 < remaining
                    then Call (ICacheSet (build_blacklist_key access) ''revoked'' remaining) (\<lambda>_. finish)
                    else finish)))"

definition logout :: "identity_lib \<Rightarrow> auth_config \<Rightarrow> string \<Rightarrow> string \<Rightarrow> goerr option outcome identity_prog" where
  "logout lib cfg access refresh =
     Call INow (\<lambda>r. let at_claims = verify_token (il_jwt lib) cfg (j_time r) access in
     Call INow (\<lambda>r. case verify_token (il_jwt lib) cfg (j_time r) refresh of
       Inl err \<Rightarrow> Return (Returned (Some err))
     | Inr rt_claims \<Rightarrow>
         (let rt_key = build_rt_key (cl_user rt_claims) (cl_jti rt_claims) in
          Call (ICacheDel [rt_key]) (\<lambda>_. blacklist_access access rt_key at_claims))))"


end
