(* ===== verification/UserStream.thy ===== *)
theory UserStream
  imports Identity
begin

text \<open>
  services/identity/internal/grpc/user_service_server.go: the stream of users that the campaigns of the
  notification service read. The table may change between two pages, the client may cancel and
  every call may fail: page n is read from \<open>se_tables n\<close>. The loop has no bound of its own, so it is
  a partial function into \<open>option\<close> (\<open>None\<close> would be a stream that never ends).
\<close>

section \<open>StreamUsers\<close>

record user_record =
  rec_id :: string
  rec_email :: string
  rec_name :: string
  rec_role :: string

definition user_to_record :: "identity_lib \<Rightarrow> user \<Rightarrow> user_record" where
  "user_to_record lib u =
     \<lparr>rec_id = il_uuid_str lib (usr_id u), rec_email = usr_email u, rec_name = usr_name u, rec_role = usr_role u\<rparr>"

record stream_env =
  se_context :: "nat \<Rightarrow> goerr option"
  se_db_err :: "nat \<Rightarrow> goerr option"
  se_tables :: "nat \<Rightarrow> user list"
  se_send :: "nat \<Rightarrow> user_record \<Rightarrow> goerr option"

text \<open>One page is sent record by record; the first error ends the stream.\<close>

fun send_users :: "(user_record \<Rightarrow> goerr option) \<Rightarrow> user_record list \<Rightarrow> goerr option \<times> user_record list" where
  "send_users send [] = (None, [])"
| "send_users send (u # us) =
     (case send u of
        Some err \<Rightarrow> (Some err, [])
      | None \<Rightarrow> (case send_users send us of (err, sent) \<Rightarrow> (err, u # sent)))"

partial_function (option) stream_loop ::
  "identity_lib \<Rightarrow> stream_env \<Rightarrow> string \<Rightarrow> int \<Rightarrow> nat \<Rightarrow> string \<Rightarrow> (goerr option \<times> user_record list) option" where
  [code]: "stream_loop lib env role batch_size n cursor =
     (case se_context env n of
        Some err \<Rightarrow> Some (Some err, [])
      | None \<Rightarrow>
          (case (case se_db_err env n of
                   Some err \<Rightarrow> Inl err
                 | None \<Rightarrow> sql_list_users lib role cursor batch_size (se_tables env n)) of
             Inl err \<Rightarrow> Some (Some err, [])
           | Inr users \<Rightarrow>
               if users = [] then Some (None, [])
               else
                 (case send_users (se_send env n) (map (user_to_record lib) users) of
                    (Some err, sent) \<Rightarrow> Some (Some err, sent)
                  | (None, sent) \<Rightarrow>
                      if int (length users) < batch_size then Some (None, sent)
                      else
                        Option.bind (stream_loop lib env role batch_size (Suc n) (il_uuid_str lib (usr_id (last users))))
                          (\<lambda>(err, more). Some (err, sent @ more)))))"

definition stream_users ::
  "identity_lib \<Rightarrow> stream_env \<Rightarrow> string \<Rightarrow> string \<Rightarrow> int \<Rightarrow> (goerr option \<times> user_record list) option" where
  "stream_users lib env role cursor batch_size =
     stream_loop lib env role (if batch_size \<le> 0 then 500 else batch_size) 0 cursor"

definition grpc_count_users :: "string \<Rightarrow> (goerr + int) identity_prog" where
  "grpc_count_users role =
     Call (ICountUsers role) (\<lambda>r. case j_count r of Inl err \<Rightarrow> Return (Inl err) | Inr count \<Rightarrow> Return (Inr count))"

section \<open>Pages\<close>

definition above :: "uuid option \<Rightarrow> user \<Rightarrow> bool" where
  "above cur u = (case cur of None \<Rightarrow> True | Some c \<Rightarrow> c < usr_id u)"

definition cursor_text :: "identity_lib \<Rightarrow> uuid option \<Rightarrow> string" where
  "cursor_text lib cur = (case cur of None \<Rightarrow> '''' | Some c \<Rightarrow> il_uuid_str lib c)"

definition uuid_text_ok :: "identity_lib \<Rightarrow> bool" where
  "uuid_text_ok lib \<longleftrightarrow> (\<forall>u. il_uuid_cast lib (il_uuid_str lib u) = Some u \<and> il_uuid_str lib u \<noteq> '''')"

definition wanted :: "string \<Rightarrow> uuid option \<Rightarrow> user list \<Rightarrow> user list" where
  "wanted role cur us = sort_key usr_id (filter (\<lambda>u. user_selected role u \<and> above cur u) us)"

lemma list_users_wanted:
  "uuid_text_ok lib \<Longrightarrow>
   sql_list_users lib role (cursor_text lib cur) lim us = Inr (limit_rows lim (wanted role cur us))"
  by (cases cur) (auto simp: sql_list_users_def cursor_text_def uuid_text_ok_def above_def wanted_def)

lemma set_wanted: "u \<in> set (wanted role cur us) \<longleftrightarrow> u \<in> set us \<and> user_selected role u \<and> above cur u"
  by (auto simp: wanted_def)

lemma sorted_wanted:
  assumes "keyed usr_id us"
  shows "sorted_wrt (<) (map usr_id (wanted role cur us))"
proof -
  have "distinct (map usr_id (filter P us))" for P
    using assms by (simp add: keyed_def distinct_map_filter)
  then have "distinct (map usr_id (wanted role cur us))"
    unfolding wanted_def
    by (simp add: distinct_map)
  moreover have "sorted (map usr_id (wanted role cur us))" by (simp add: wanted_def)
  ultimately show ?thesis by (simp add: strict_sorted_iff)
qed

text \<open>A full page, and what is left for the pages behind it.\<close>

lemma page_split:
  assumes "sorted_wrt (<) (map usr_id ws)" and "0 < k" and "k \<le> length ws"
  shows "u \<in> set (take k ws) \<Longrightarrow> usr_id u \<le> usr_id (last (take k ws))"
    and "u \<in> set ws \<Longrightarrow> u \<in> set (take k ws) \<or> usr_id (last (take k ws)) < usr_id u"
proof -
  have last: "last (take k ws) = ws ! (k - 1)"
  proof -
    from assms(2,3) have "take k ws \<noteq> []" by auto
    then show ?thesis using assms(2,3) by (simp add: last_conv_nth)
  qed
  have lt: "i < j \<Longrightarrow> j < length ws \<Longrightarrow> usr_id (ws ! i) < usr_id (ws ! j)" for i j
    using assms(1) by (simp add: sorted_wrt_iff_nth_less)
  { assume "u \<in> set (take k ws)"
    then obtain i where i: "i < k" "u = ws ! i" using assms(3) by (auto simp: in_set_conv_nth)
    with lt [of i "k - 1"] assms(2,3) show "usr_id u \<le> usr_id (last (take k ws))"
      by (cases "i = k - 1") (auto simp: last intro: order_less_imp_le) }
  { assume "u \<in> set ws"
    then obtain i where i: "i < length ws" "u = ws ! i" by (auto simp: in_set_conv_nth)
    show "u \<in> set (take k ws) \<or> usr_id (last (take k ws)) < usr_id u"
    proof (cases "i < k")
      case True
      with i show ?thesis by (auto simp: in_set_conv_nth)
    next
      case False
      with lt [of "k - 1" i] i assms(2) show ?thesis by (simp add: last)
    qed }
qed

lemma send_users_prefix: "\<exists>m. snd (send_users send us) = take m us"
proof (induction us)
  case (Cons u us)
  then obtain m where "snd (send_users send us) = take m us" by blast
  then have "snd (send_users send (u # us)) = take (if send u = None then Suc m else 0) (u # us)"
    by (simp add: split_def split: option.splits)
  then show ?case by blast
qed simp

lemma send_users_all: "fst (send_users send us) = None \<Longrightarrow> snd (send_users send us) = us"
  by (induction us) (auto simp: split_def split: option.splits)


lemma send_users_ok: "(\<And>u. send u = None) \<Longrightarrow> send_users send us = (None, us)"
  by (induction us) auto

section \<open>The stream\<close>

definition fault_free :: "stream_env \<Rightarrow> bool" where
  "fault_free env \<longleftrightarrow> (\<forall>n. se_context env n = None \<and> se_db_err env n = None \<and> (\<forall>u. se_send env n u = None))"

text \<open>What a stream from page n behind the cursor delivers.\<close>

definition delivers ::
  "identity_lib \<Rightarrow> stream_env \<Rightarrow> string \<Rightarrow> nat \<Rightarrow> uuid option \<Rightarrow> (goerr option \<times> user_record list) option \<Rightarrow> bool" where
  "delivers lib env role n cur res \<longleftrightarrow>
     (\<exists>err us. res = Some (err, map (user_to_record lib) us)
        \<and> sorted_wrt (<) (map usr_id us)
        \<and> (\<forall>u\<in>set us. above cur u \<and> user_selected role u \<and> (\<exists>m\<ge>n. u \<in> set (se_tables env m)))
        \<and> (err = None \<longrightarrow> (\<forall>u. user_selected role u \<and> above cur u \<and> (\<forall>m\<ge>n. u \<in> set (se_tables env m)) \<longrightarrow> u \<in> set us))
        \<and> (fault_free env \<longrightarrow> err = None))"

definition room :: "uuid option \<Rightarrow> nat" where
  "room cur = (case cur of None \<Rightarrow> Suc (2 ^ 128) | Some c \<Rightarrow> 2 ^ 128 - unat c)"

lemma room_less: "above cur u \<Longrightarrow> room (Some (usr_id u)) < room cur"
proof (cases cur)
  case (Some c)
  assume "above cur u"
  with Some have "unat c < unat (usr_id u)" by (simp add: above_def word_less_nat_alt)
  moreover have "unat (usr_id u) < 2 ^ 128" using unsigned_less [of "usr_id u"] by simp
  ultimately show ?thesis by (simp add: room_def Some)
qed (simp add: room_def)

text \<open>A prefix of a page: users that are wanted, in order.\<close>

lemma page_users:
  "u \<in> set (take m (wanted role cur us)) \<Longrightarrow> above cur u \<and> user_selected role u \<and> u \<in> set us"
  "keyed usr_id us \<Longrightarrow> sorted_wrt (<) (map usr_id (take m (wanted role cur us)))"
  by (auto dest!: in_set_takeD simp: set_wanted take_map [symmetric] intro: sorted_wrt_take sorted_wanted)

text \<open>A full page, followed by what the stream delivers behind its last user.\<close>

lemma delivers_full_page:
  assumes "0 < batch" and keyed: "keyed usr_id (se_tables env n)"
    and p: "page = take (nat batch) (wanted role cur (se_tables env n))" "length page = nat batch"
    and more: "delivers lib env role (Suc n) (Some (usr_id (last page))) (Some (err, rs))"
  shows "delivers lib env role n cur (Some (err, map (user_to_record lib) page @ rs))"
proof -
  let ?ws = "wanted role cur (se_tables env n)" and ?cur = "Some (usr_id (last page))"
  have k: "0 < nat batch" "nat batch \<le> length ?ws" using assms(1) p by auto
  have sorted: "sorted_wrt (<) (map usr_id ?ws)" using keyed by (rule sorted_wanted)
  have in_page: "u \<in> set page \<Longrightarrow> above cur u \<and> user_selected role u \<and> u \<in> set (se_tables env n)" for u
    using page_users(1) unfolding p(1) .
  have "last page \<in> set page" using k(1) p(2) by (intro last_in_set) auto
  with in_page have last: "above cur (last page)" by blast
  from more obtain us where
    rs: "rs = map (user_to_record lib) us" and us: "sorted_wrt (<) (map usr_id us)"
      "\<forall>u\<in>set us. above ?cur u \<and> user_selected role u \<and> (\<exists>m\<ge>Suc n. u \<in> set (se_tables env m))"
      "err = None \<longrightarrow> (\<forall>u. user_selected role u \<and> above ?cur u \<and> (\<forall>m\<ge>Suc n. u \<in> set (se_tables env m)) \<longrightarrow> u \<in> set us)"
      "fault_free env \<longrightarrow> err = None"
    unfolding delivers_def by blast
  have le: "u \<in> set page \<Longrightarrow> usr_id u \<le> usr_id (last page)" for u
    using page_split(1) [OF sorted k] unfolding p(1) .
  have trans: "above cur u" if "above ?cur u" for u
    using last that by (auto simp: above_def split: option.splits)
  have "sorted_wrt (<) (map usr_id (page @ us))"
    using page_users(2) [OF keyed, of "nat batch" role cur, folded p(1)] us(1,2) le
    by (auto simp: sorted_wrt_append above_def intro: order_le_less_trans)
  moreover have "\<forall>u\<in>set (page @ us). above cur u \<and> user_selected role u \<and> (\<exists>m\<ge>n. u \<in> set (se_tables env m))"
    using in_page us(2) trans Suc_leD by (auto, blast)
  moreover have "u \<in> set (page @ us)"
    if "err = None" "user_selected role u" "above cur u" "\<forall>m\<ge>n. u \<in> set (se_tables env m)" for u
  proof -
    from that have "u \<in> set ?ws" by (simp add: set_wanted)
    from page_split(2) [OF sorted k this] that us(3) show ?thesis by (auto simp: above_def p(1))
  qed
  ultimately show ?thesis using us(4) rs unfolding delivers_def by (intro exI [of _ err] exI [of _ "page @ us"]) auto
qed

lemma send_fault: "fst (send_users (se_send env n) us) \<noteq> None \<Longrightarrow> \<not> fault_free env"
  using send_users_ok [of "se_send env n" us] by (metis fault_free_def fst_conv)

text \<open>The client is gone in the middle of a page: what it got is a prefix of the page.\<close>

lemma delivers_cut_page:
  assumes "keyed usr_id (se_tables env n)" and "page = take (nat batch) (wanted role cur (se_tables env n))"
    and "fst (send_users (se_send env n) (map (user_to_record lib) page)) = Some e"
  shows "delivers lib env role n cur (Some (Some e, snd (send_users (se_send env n) (map (user_to_record lib) page))))"
proof -
  from send_users_prefix [of "se_send env n" "map (user_to_record lib) page"] obtain m where
    m: "snd (send_users (se_send env n) (map (user_to_record lib) page)) = map (user_to_record lib) (take m page)"
    by (auto simp: take_map)
  have "take m page = take (min m (nat batch)) (wanted role cur (se_tables env n))" by (simp add: assms(2))
  moreover have "\<not> fault_free env" using assms(3) send_fault [of env n "map (user_to_record lib) page"] by simp
  ultimately show ?thesis
    using page_users(1) [where m = "min m (nat batch)" and role = role and cur = cur and us = "se_tables env n"]
      page_users(2) [OF assms(1), of "min m (nat batch)" role cur] unfolding delivers_def m
    by (intro exI [of _ "Some e"] exI [of _ "take m page"]) auto
qed

text \<open>A full page that was sent: the stream goes on behind its last user.\<close>

lemma delivers_next_page:
  assumes "0 < batch" and keyed: "keyed usr_id (se_tables env n)" and uuids: "uuid_text_ok lib"
    and more: "\<And>cur'. room cur' < room cur \<Longrightarrow>
           delivers lib env role (Suc n) cur' (stream_loop lib env role batch (Suc n) (cursor_text lib cur'))"
    and p: "page = take (nat batch) (wanted role cur (se_tables env n))" "length page = nat batch" "page \<noteq> []"
    and ok: "se_context env n = None" "se_db_err env n = None"
      "fst (send_users (se_send env n) (map (user_to_record lib) page)) = None"
  shows "delivers lib env role n cur (stream_loop lib env role batch n (cursor_text lib cur))"
proof -
  let ?cur = "Some (usr_id (last page))"
  have page: "sql_list_users lib role (cursor_text lib cur) batch (se_tables env n) = Inr page"
    using assms(1) by (simp add: list_users_wanted [OF uuids] limit_rows_def p(1))
  from p(3) have "last page \<in> set page" by (rule last_in_set)
  with page_users(1) have "above cur (last page)" unfolding p(1) by blast
  from more [OF room_less [OF this]] obtain err rs where
    m: "stream_loop lib env role batch (Suc n) (cursor_text lib ?cur) = Some (err, rs)"
      "delivers lib env role (Suc n) ?cur (Some (err, rs))"
    unfolding delivers_def by auto
  have "cursor_text lib ?cur = il_uuid_str lib (usr_id (last page))" by (simp add: cursor_text_def)
  then have "stream_loop lib env role batch n (cursor_text lib cur) = Some (err, map (user_to_record lib) page @ rs)"
    using ok p(2,3) send_users_all [of "se_send env n" "map (user_to_record lib) page"] m(1) assms(1)
    by (subst stream_loop.simps) (auto simp: page split: prod.splits)
  with delivers_full_page [OF assms(1) keyed p(1,2) m(2)] show ?thesis by simp
qed

lemma delivers_page:
  assumes "0 < batch" and "keyed usr_id (se_tables env n)" and "uuid_text_ok lib"
    and "\<And>cur'. room cur' < room cur \<Longrightarrow>
           delivers lib env role (Suc n) cur' (stream_loop lib env role batch (Suc n) (cursor_text lib cur'))"
  shows "delivers lib env role n cur (stream_loop lib env role batch n (cursor_text lib cur))"
proof -
  let ?ws = "wanted role cur (se_tables env n)"
  let ?page = "take (nat batch) ?ws"
  let ?send = "send_users (se_send env n) (map (user_to_record lib) ?page)"
  have page: "sql_list_users lib role (cursor_text lib cur) batch (se_tables env n) = Inr ?page"
    using assms(1) by (simp add: list_users_wanted [OF assms(3)] limit_rows_def)
  have sorted: "sorted_wrt (<) (map usr_id ?ws)" using assms(2) by (rule sorted_wanted)
  note step = stream_loop.simps [of lib env role batch n "cursor_text lib cur"]
  consider (ctx) e where "se_context env n = Some e" | (db) e where "se_context env n = None" "se_db_err env n = Some e"
    | (empty) "se_context env n = None" "se_db_err env n = None" "?page = []"
    | (send) e where "se_context env n = None" "se_db_err env n = None" "?page \<noteq> []" "fst ?send = Some e"
    | (short) "se_context env n = None" "se_db_err env n = None" "?page \<noteq> []" "fst ?send = None" "length ?page < nat batch"
    | (full) "se_context env n = None" "se_db_err env n = None" "?page \<noteq> []" "fst ?send = None" "length ?page = nat batch"
    by (metis option.exhaust length_take min.absorb_iff2 linorder_not_less min.commute order_le_less min_def)
  then show ?thesis
  proof cases
    case ctx
    then show ?thesis by (auto simp: step delivers_def fault_free_def)
  next
    case db
    then show ?thesis by (auto simp: step delivers_def fault_free_def)
  next
    case empty
    then have "?ws = []" using assms(1) by simp
    then have "\<not> (u \<in> set (se_tables env n) \<and> user_selected role u \<and> above cur u)" for u
      using set_wanted [of u role cur "se_tables env n"] by simp
    with empty show ?thesis by (auto simp: step page delivers_def)
  next
    case (send e)
    then have "stream_loop lib env role batch n (cursor_text lib cur) = Some (Some e, snd ?send)"
      by (auto simp: step page split: prod.splits)
    with delivers_cut_page [OF assms(2) refl send(4)] show ?thesis by simp

  next
    case short
    with send_users_all [of "se_send env n" "map (user_to_record lib) ?page"]
    have "stream_loop lib env role batch n (cursor_text lib cur) = Some (None, map (user_to_record lib) ?page)"
      by (auto simp: step page split: prod.splits)
    moreover have "?page = ?ws" using short(5) by simp
    ultimately show ?thesis
      using sorted unfolding delivers_def by (intro exI [of _ None] exI [of _ ?page]) (auto simp: set_wanted)
  next
    case full
    then show ?thesis by (intro delivers_next_page [OF assms refl]) auto

  qed
qed

lemma stream_delivers:
  assumes "0 < batch" and "\<And>n. keyed usr_id (se_tables env n)" and "uuid_text_ok lib"
  shows "delivers lib env role n cur (stream_loop lib env role batch n (cursor_text lib cur))"
proof (induction "room cur" arbitrary: n cur rule: less_induct)
  case less
  show ?case by (rule delivers_page) (use assms less in auto)
qed

text \<open>
  C17. The user stream ends and misses nobody. However the table changes between its pages, and
  whatever the page size asked for, \<open>StreamUsers\<close> returns; the records it sent are those of selected
  users behind the cursor, in strictly ascending order of id, hence without repetition; and when it
  returns without error they include every user who was in the table, selected, for the whole
  stream. If no call fails it returns without error.
\<close>
theorem stream_users_delivers:
  assumes "uuid_text_ok lib" and "\<forall>n. keyed usr_id (se_tables env n)"
  shows "\<exists>err us. stream_users lib env role (cursor_text lib cur) batch_size = Some (err, map (user_to_record lib) us)
    \<and> sorted_wrt (<) (map usr_id us)
    \<and> (\<forall>u\<in>set us. above cur u \<and> user_selected role u \<and> (\<exists>n. u \<in> set (se_tables env n)))
    \<and> (err = None \<longrightarrow> (\<forall>u. user_selected role u \<and> above cur u \<and> (\<forall>n. u \<in> set (se_tables env n)) \<longrightarrow> u \<in> set us))
    \<and> (fault_free env \<longrightarrow> err = None)"
proof -
  let ?batch = "if batch_size \<le> 0 then 500 else batch_size"
  have "delivers lib env role 0 cur (stream_loop lib env role ?batch 0 (cursor_text lib cur))"
    using assms by (intro stream_delivers) auto
  then show ?thesis unfolding delivers_def stream_users_def by auto
qed

definition stream_demo_lib :: identity_lib where
  "stream_demo_lib = \<lparr>il_jwt = table_jwt [], il_uuid_str = (\<lambda>u. replicate (Suc (unat u)) (CHR ''x'')),
     il_uuid_cast = (\<lambda>s. Some (word_of_nat (length s - 1))), il_compare = (\<lambda>_ _. None),
     il_decode_google = (\<lambda>_. Inl (Plain '''')), il_auth_url = (\<lambda>s. s), il_marshal = Inr, il_unmarshal = Inr\<rparr>"

definition stream_demo_env :: stream_env where
  "stream_demo_env = \<lparr>se_context = (\<lambda>_. None), se_db_err = (\<lambda>_. None),
     se_tables = (\<lambda>n. map (\<lambda>i. blank_user\<lparr>usr_id := i\<rparr>) (if n = 0 then [3, 1, 2] else [4, 1, 3])), se_send = (\<lambda>_ _. None)\<rparr>"

theorem stream_users_delivers_witness:
  "\<exists>us. stream_users stream_demo_lib stream_demo_env '''' '''' 2 = Some (None, map (user_to_record stream_demo_lib) us)
     \<and> blank_user\<lparr>usr_id := 3\<rparr> \<in> set us"
proof -
  have ok: "uuid_text_ok stream_demo_lib" by (simp add: uuid_text_ok_def stream_demo_lib_def)
  have keyed: "\<forall>n. keyed usr_id (se_tables stream_demo_env n)" by (simp add: stream_demo_env_def keyed_def)
  have free: "fault_free stream_demo_env" by (simp add: fault_free_def stream_demo_env_def)
  have u: "user_selected '''' (blank_user\<lparr>usr_id := 3\<rparr>) \<and> above None (blank_user\<lparr>usr_id := 3\<rparr>)
      \<and> (\<forall>n. blank_user\<lparr>usr_id := 3\<rparr> \<in> set (se_tables stream_demo_env n))"
    by (simp add: user_selected_def blank_user_def above_def stream_demo_env_def)
  have c: "cursor_text stream_demo_lib None = ''''" by (simp add: cursor_text_def)
  from stream_users_delivers [OF ok keyed, of "''''" None 2] free u show ?thesis unfolding c by blast
qed

section \<open>The rows of the table\<close>



end
