(* ===== verification/Tokens.thy ===== *)
theory Tokens
  imports Identity
begin

text \<open>
  The life of a refresh token (identity service). A typestate on the calls of all the requests shows
  that a refresh token that was used or revoked stays dead under any interleaving; schedules show
  what the two separate calls \<open>Get\<close> and \<open>Delete\<close> allow, and what is missing for Google's users.
\<close>

section \<open>The requests\<close>

text \<open>The interleaving does not look at the answers.\<close>

definition request :: "'x identity_prog \<Rightarrow> unit identity_prog" where
  "request p = bind p (\<lambda>_. Return ())"

definition auth_requests :: "identity_lib \<Rightarrow> auth_config \<Rightarrow> unit identity_prog set" where
  "auth_requests lib cfg =
     range (\<lambda>(email, password, name). request (register_user email password name)) \<union>
     range (\<lambda>(email, password). request (login lib cfg email password)) \<union>
     range (\<lambda>uid. request (get_user_by_id uid)) \<union>
     range (\<lambda>token. request (refresh_token lib cfg token)) \<union>
     range (\<lambda>code. request (login_with_google lib cfg code)) \<union>
     range (\<lambda>uid. request (get_profile uid)) \<union>
     range (\<lambda>(access, refresh). request (logout lib cfg access refresh))"

lemma follows_request: "follows al nx gr (request p) ph = follows al nx gr p ph"
  unfolding request_def by (induction p arbitrary: ph) auto

section \<open>A dead key stays dead\<close>

lemma generate_refresh_token_jti: "generate_refresh_token jl cfg jti now now' uid role = Inr (token, jti') \<Longrightarrow> jti' = jti"
  by (auto simp: generate_refresh_token_def split: sum.splits)

lemma rt_key_other:
  assumes "length jti = length jti'" and "jti \<noteq> jti'"
  shows "build_rt_key uid jti \<noteq> build_rt_key uid' jti'"
proof
  assume "build_rt_key uid jti = build_rt_key uid' jti'"
  then have "(uid @ '':'') @ jti = (uid' @ '':'') @ jti'" by (simp add: build_rt_key_def)
  with assms show False by (metis append_eq_append_conv)
qed

lemma blacklist_not_rt [simp]: "build_blacklist_key a \<noteq> build_rt_key uid jti"
  by (simp add: build_blacklist_key_def build_rt_key_def)

text \<open>Every call but a \<open>Set\<close> of the key is allowed; a fresh uuid is not the identifier of the token.\<close>

definition key_allows :: "string \<Rightarrow> unit \<Rightarrow> identity_call \<Rightarrow> bool" where
  "key_allows key ph c = (case c of ICacheSet k _ _ \<Rightarrow> k \<noteq> key | _ \<Rightarrow> True)"

definition key_next :: "unit \<Rightarrow> identity_call \<Rightarrow> identity_reply \<Rightarrow> unit" where
  "key_next ph c r = ()"

definition key_reply :: "identity_lib \<Rightarrow> string \<Rightarrow> identity_call \<Rightarrow> identity_reply \<Rightarrow> bool" where
  "key_reply lib jti c r = (c = INewUUID \<longrightarrow> il_uuid_str lib (j_uuid r) \<noteq> jti \<and> length (il_uuid_str lib (j_uuid r)) = length jti)"

definition key_dead :: "identity_lib \<Rightarrow> string \<Rightarrow> string \<Rightarrow> identity_world \<Rightarrow> unit list \<Rightarrow> bool" where
  "key_dead lib jti key w phs \<longleftrightarrow>
     iw_cache w key = None \<and> (\<forall>n. il_uuid_str lib (iw_random w n) \<noteq> jti \<and> length (il_uuid_str lib (iw_random w n)) = length jti)"

lemma random_unchanged [simp]: "iw_random (snd (identity_handle lib env c w)) = iw_random w"
  by (cases c) (auto simp: inow_def new_uuid_def sql_user_create_def sql_bulk_create_def sql_user_delete_def
      sql_user_save_def Let_def split: option.splits prod.splits)

lemma cache_get_err: "cache_get u f now k st = Inr v \<Longrightarrow> st k \<noteq> None"
  by (auto simp: cache_get_def rget_def split: option.splits)

lemma key_stays_dead:
  assumes "iw_cache w key = None" and "key_allows key ph c"
  shows "iw_cache (snd (identity_handle lib env c w)) key = None"
  using assms
  by (cases c) (auto simp: key_allows_def inow_def new_uuid_def sql_user_create_def sql_bulk_create_def sql_user_delete_def
      sql_user_save_def cache_set_def cache_delete_def rset_def rdel_def Let_def split: option.splits prod.splits sum.splits)

lemma uuid_reply: "key_dead lib jti key w phs \<Longrightarrow> identity_handle lib env c w = (r, w') \<Longrightarrow> key_reply lib jti c r"
  using spec [of "\<lambda>n. il_uuid_str lib (iw_random w n) \<noteq> jti \<and> length (il_uuid_str lib (iw_random w n)) = length jti"
    "iw_uuids w"]
  by (cases "c = INewUUID") (auto simp: key_reply_def key_dead_def new_uuid_def)

interpretation dead_token: typestate "identity_handle lib" "key_allows key" key_next "key_reply lib jti" "()" "key_dead lib jti key"
  for lib key jti
proof
  fix w phs i c e r w'
  assume d: "key_dead lib jti key w phs" and "i < length phs" and a: "key_allows key (phs ! i) c"
    and h: "identity_handle lib e c w = (r, w')"
  have "w' = snd (identity_handle lib e c w)" using h by simp
  with d a have "key_dead lib jti key w' (phs[i := key_next (phs ! i) c r])"
    by (simp add: key_dead_def key_stays_dead)
  with uuid_reply [OF d h] show "key_reply lib jti c r \<and> key_dead lib jti key w' (phs[i := key_next (phs ! i) c r])"
    by simp
qed (simp add: key_dead_def)

lemma follows_with_access:
  assumes "\<And>token. follows (key_allows key) key_next (key_reply lib jti) (k token) ()"
  shows "follows (key_allows key) key_next (key_reply lib jti) (with_access_token lib cfg u k) ()"
  using assms by (auto simp: with_access_token_def key_allows_def key_next_def split: sum.splits)

lemma follows_with_refresh:
  assumes "\<And>token jti'. jti' \<noteq> jti \<Longrightarrow> length jti' = length jti \<Longrightarrow>
      follows (key_allows key) key_next (key_reply lib jti) (k token jti') ()"
  shows "follows (key_allows key) key_next (key_reply lib jti) (with_refresh_token lib cfg u k) ()"
  using assms
  by (auto simp: with_refresh_token_def key_allows_def key_next_def key_reply_def split: sum.splits
      dest!: generate_refresh_token_jti)

lemma reissue_spares_key:
  assumes "key = build_rt_key uid jti"
  shows "follows (key_allows key) key_next (key_reply lib jti) (reissue lib cfg u) ()"
  using assms
  by (auto simp: reissue_def key_allows_def key_next_def rt_key_other split: sum.splits option.splits
      intro!: follows_with_access follows_with_refresh)

lemma blacklist_spares_key:
  assumes "key = build_rt_key uid jti"
  shows "follows (key_allows key) key_next (key_reply lib jti) (blacklist_access access k c) ()"
  using assms
  by (auto simp: blacklist_access_def key_allows_def key_next_def Let_def split: sum.splits option.splits)


lemma requests_spare_key:
  assumes "p \<in> auth_requests lib cfg" and "key = build_rt_key uid jti"
  shows "follows (key_allows key) key_next (key_reply lib jti) p ()"
proof -
  let ?F = "\<lambda>p. follows (key_allows key) key_next (key_reply lib jti) p ()"
  note key_simps = key_allows_def key_next_def assms(2) rt_key_other
  have reissue: "?F (reissue lib cfg u)" for u
    using assms(2) by (rule reissue_spares_key)
  have blacklist: "?F (blacklist_access access k c)" for access k c
    using assms(2) by (rule blacklist_spares_key)
  have google: "?F (google_tokens lib cfg u)" for u
    unfolding google_tokens_def by (intro follows_with_access follows_with_refresh) simp

  have "?F (register_user email password name)" "?F (get_user_by_id i)" "?F (get_profile i)" for email password name i
    by (auto simp: register_user_def get_user_by_id_def get_profile_def key_allows_def split: sum.splits)
  moreover have "?F (login lib cfg email password)" for email password
    by (auto simp: login_def key_simps split: sum.splits option.splits intro!: follows_with_access follows_with_refresh)
  moreover have "?F (refresh_token lib cfg token)" for token
    using reissue by (auto simp: refresh_token_def key_simps Let_def split: sum.splits)
  moreover have "?F (login_with_google lib cfg code)" for code
    using google by (auto simp: login_with_google_def fetch_google_profile_def key_allows_def split: sum.splits)
  moreover have "?F (logout lib cfg access refresh)" for access refresh
    using blacklist by (auto simp: logout_def key_simps Let_def split: sum.splits)
  ultimately show ?thesis
    using assms(1) by (auto simp: auth_requests_def follows_request)
qed

section \<open>A refresh token works once\<close>

text \<open>A request that runs alone keeps the key dead too.\<close>

lemma run_keeps_key_dead:
  assumes "follows (key_allows key) key_next (key_reply lib jti) p ()" and "key_dead lib jti key w []"
  shows "key_dead lib jti key (snd (run (identity_handle lib env) p w)) []"
  using assms
proof (induction p arbitrary: w)
  case (Call c k)
  obtain r w' where h: "identity_handle lib env c w = (r, w')" by (cases "identity_handle lib env c w")
  from Call.prems have a: "key_allows key () c" by simp
  have g: "key_reply lib jti c r" by (rule uuid_reply [OF Call.prems(2) h])
  have "w' = snd (identity_handle lib env c w)" using h by simp
  with a Call.prems(2) have "key_dead lib jti key w' []" by (simp add: key_dead_def key_stays_dead)
  with Call.IH [of "k r" w'] Call.prems(1) g h show ?case by (simp add: key_next_def)
qed simp

lemma dead_key_refused:
  assumes "iw_cache w (build_rt_key (cl_user c) (cl_jti c)) = None"
    and "\<And>now. verify_token (il_jwt lib) cfg now token = Inr c \<or> isl (verify_token (il_jwt lib) cfg now token)"
  shows "isl (fst (run (identity_handle lib env) (refresh_token lib cfg token) w))"
proof -
  have "rget now (build_rt_key (cl_user c) (cl_jti c)) (iw_cache w) = None" for now
    using assms(1) by (simp add: rget_def)
  with assms(2) [of "ie_clock env (iw_ticks w)"] show ?thesis
    by (auto simp: refresh_token_def inow_def Let_def isl_def cache_get_def split: option.splits)
qed

definition fresh_tape :: "identity_lib \<Rightarrow> string \<Rightarrow> identity_world \<Rightarrow> bool" where
  "fresh_tape lib jti w \<longleftrightarrow>
     (\<forall>n. il_uuid_str lib (iw_random w n) \<noteq> jti \<and> length (il_uuid_str lib (iw_random w n)) = length jti)"

text \<open>The claims a token carries, whenever the library accepts it.\<close>

definition token_claims :: "identity_lib \<Rightarrow> auth_config \<Rightarrow> string \<Rightarrow> claims \<Rightarrow> bool" where
  "token_claims lib cfg token c \<longleftrightarrow>
     (\<forall>now. verify_token (il_jwt lib) cfg now token = Inr c \<or> isl (verify_token (il_jwt lib) cfg now token))"

lemma consumed_key_dead:
  assumes "token_claims lib cfg token c" and "key = build_rt_key (cl_user c) (cl_jti c)"
    and "ie_cache_err env (ICacheDel [key]) = None" and "fresh_tape lib (cl_jti c) w"
    and "\<not> isl (fst (run (identity_handle lib env) (refresh_token lib cfg token) w))"
  shows "key_dead lib (cl_jti c) key (snd (run (identity_handle lib env) (refresh_token lib cfg token) w)) []"
proof -
  let ?h = "identity_handle lib env" and ?now = "ie_clock env (iw_ticks w)"
  from assms(1,5) have v: "verify_token (il_jwt lib) cfg ?now token = Inr c"
    by (auto simp: refresh_token_def inow_def isl_def token_claims_def)
  let ?w1 = "snd (?h (ICacheGet key) (snd (?h INow w)))"
  let ?w2 = "snd (?h (ICacheDel [key]) ?w1)"
  from v assms(2,5) have r: "run ?h (refresh_token lib cfg token) w = run ?h (reissue lib cfg (cl_user c)) ?w2"
    by (auto simp: refresh_token_def inow_def Let_def split: sum.splits)
  have "key_dead lib (cl_jti c) key ?w2 []"
    using assms(3,4) by (simp add: key_dead_def fresh_tape_def inow_def cache_delete_def rdel_def)
  then show ?thesis
    unfolding r by (rule run_keeps_key_dead [OF reissue_spares_key [OF assms(2)]])
qed

lemma logged_out_key_dead:
  assumes "token_claims lib cfg token c" and "key = build_rt_key (cl_user c) (cl_jti c)"
    and "ie_cache_err env (ICacheDel [key]) = None" and "fresh_tape lib (cl_jti c) w"
    and "\<forall>e. fst (run (identity_handle lib env) (logout lib cfg access token) w) \<noteq> Returned (Some e)"
  shows "key_dead lib (cl_jti c) key (snd (run (identity_handle lib env) (logout lib cfg access token) w)) []"
proof -
  let ?h = "identity_handle lib env"
  let ?w1 = "snd (?h INow (snd (?h INow w)))"
  let ?at = "verify_token (il_jwt lib) cfg (ie_clock env (iw_ticks w)) access"
  have v: "verify_token (il_jwt lib) cfg (ie_clock env (Suc (iw_ticks w))) token = Inr c"
  proof (rule ccontr)
    assume "verify_token (il_jwt lib) cfg (ie_clock env (Suc (iw_ticks w))) token \<noteq> Inr c"
    with assms(1) obtain e where "verify_token (il_jwt lib) cfg (ie_clock env (Suc (iw_ticks w))) token = Inl e"
      by (auto simp: token_claims_def isl_def)
    then have "fst (run ?h (logout lib cfg access token) w) = Returned (Some e)"
      by (simp add: logout_def inow_def Let_def)
    with assms(5) show False by simp
  qed
  let ?w2 = "snd (?h (ICacheDel [key]) ?w1)"
  from v assms(2) have r: "run ?h (logout lib cfg access token) w = run ?h (blacklist_access access key ?at) ?w2"
    by (simp add: logout_def inow_def Let_def)
  have "key_dead lib (cl_jti c) key ?w2 []"
    using assms(3,4) by (simp add: key_dead_def fresh_tape_def inow_def cache_delete_def rdel_def)
  then show ?thesis
    unfolding r by (rule run_keeps_key_dead [OF blacklist_spares_key [OF assms(2)]])
qed

text \<open>
  C14. A refresh token works once, and not after a logout: let \<open>RefreshToken\<close> succeed for a token, or
  \<open>Logout\<close> of it end in anything but an error (even in its panic), with no fault of the cache when the
  key is deleted. Then, whatever requests of the service arrive from there on and however they are
  interleaved, with whatever faults, the token's key is not in the cache again and presenting the
  token is refused. (uuids have one length, and the tape of random uuids does not repeat the
  token's own identifier.)
\<close>
theorem refresh_token_single_use:
  assumes "token_claims lib cfg token c" and "fresh_tape lib (cl_jti c) w"
    and "ie_cache_err env (ICacheDel [build_rt_key (cl_user c) (cl_jti c)]) = None"
    and "run (identity_handle lib env) (refresh_token lib cfg token) w = (Inr response, w0)
         \<or> run (identity_handle lib env) (logout lib cfg access token) w = (Returned None, w0)
         \<or> run (identity_handle lib env) (logout lib cfg access token) w = (Panicked msg, w0)"
    and "reachable (identity_handle lib) (auth_requests lib cfg) w0 (ts, w')"
  shows "iw_cache w' (build_rt_key (cl_user c) (cl_jti c)) = None
    \<and> isl (fst (run (identity_handle lib env') (refresh_token lib cfg token) w'))"
proof -
  let ?key = "build_rt_key (cl_user c) (cl_jti c)"
  have "key_dead lib (cl_jti c) ?key w0 []"
    using assms(4) consumed_key_dead [OF assms(1) refl assms(3,2)]
      logged_out_key_dead [OF assms(1) refl assms(3,2), of access]
    by (elim disjE) simp_all
  then have "\<exists>phs. length phs = length ts \<and> key_dead lib (cl_jti c) ?key w' phs"
    by (rule dead_token.reachable_inv [OF assms(5)]) (rule requests_spare_key [OF _ refl])
  then have "iw_cache w' ?key = None" by (auto simp: key_dead_def)
  moreover from this dead_key_refused [of w' c] assms(1)
  have "isl (fst (run (identity_handle lib env') (refresh_token lib cfg token) w'))"
    by (auto simp: token_claims_def)
  ultimately show ?thesis ..
qed

section \<open>Demonstration\<close>

definition demo_identity_lib :: identity_lib where
  "demo_identity_lib =
     \<lparr>il_jwt = table_jwt
        [(''at'', ''k'', access_claims (table_jwt []) demo_auth_config 0 0 ''u'' ''user''),
         (''rt'', ''k'', refresh_claims (table_jwt []) demo_auth_config ''j'' 0 0 ''u'' ''user''),
         (''r0'', ''k'', refresh_claims (table_jwt []) demo_auth_config ''0'' 0 0 ''u'' ''user''),
         (''r1'', ''k'', refresh_claims (table_jwt []) demo_auth_config ''1'' 0 0 ''u'' ''user'')],
      il_uuid_str = (\<lambda>u. [char_of (unat u)]),
      il_uuid_cast = (\<lambda>s. case s of [c] \<Rightarrow> Some (of_char c) | _ \<Rightarrow> None),
      il_compare = (\<lambda>hash password. if hash = password then None else Some (Plain ''mismatch'')),
      il_decode_google = (\<lambda>body. Inr \<lparr>gu_email = body, gu_name = body\<rparr>),
      il_auth_url = (\<lambda>s. s), il_marshal = Inr, il_unmarshal = Inr\<rparr>"

definition demo_user :: user where
  "demo_user = blank_user\<lparr>usr_id := 117, usr_email := ''a@b'', usr_role := ''user'', usr_hash := ''secret''\<rparr>"

definition demo_identity_world :: identity_world where
  "demo_identity_world = \<lparr>iw_users = [demo_user], iw_cache = [''rt:u:j'' \<mapsto> (''active'', None)],
     iw_random = (\<lambda>n. if n = 0 then 48 else 49), iw_uuids = 0, iw_ticks = 0\<rparr>"

definition demo_identity_env :: identity_env where
  "demo_identity_env = \<lparr>ie_db_err = (\<lambda>_. None), ie_cache_err = (\<lambda>_. None), ie_clock = (\<lambda>_. 0),
     ie_hash = Inr, ie_exchange = Inr, ie_http = (\<lambda>_. Inr ''a@b'')\<rparr>"

lemma demo_identity_jwt_ok: "jwt_ok (il_jwt demo_identity_lib)"
  unfolding demo_identity_lib_def identity_lib.select_convs by (rule jwt_ok_table) simp_all

lemma demo_token_claims:
  "token_claims demo_identity_lib demo_auth_config ''rt'' (refresh_claims (table_jwt []) demo_auth_config ''j'' 0 0 ''u'' ''user'')"
proof -
  have s: "jl_sign (il_jwt demo_identity_lib) (ac_secret demo_auth_config)
      (refresh_claims (table_jwt []) demo_auth_config ''j'' 0 0 ''u'' ''user'') = Inr ''rt''"
    by code_simp
  show ?thesis
    unfolding token_claims_def
    using jwt_ok_verify [OF demo_identity_jwt_ok s]
    by (metis (no_types) linorder_not_le refresh_claims_def claims.select_convs(4,5))
qed

lemma demo_fresh: "fresh_tape demo_identity_lib ''j'' demo_identity_world"
proof -
  have "char_of (48 :: nat) \<noteq> CHR ''j''" "char_of (49 :: nat) \<noteq> CHR ''j''" by code_simp+
  then show ?thesis by (simp add: fresh_tape_def demo_identity_lib_def demo_identity_world_def)
qed

theorem refresh_token_single_use_witness:
  "isl (fst (run (identity_handle demo_identity_lib demo_identity_env)
     (refresh_token demo_identity_lib demo_auth_config ''rt'')
     (snd (run (identity_handle demo_identity_lib demo_identity_env)
        (refresh_token demo_identity_lib demo_auth_config ''rt'') demo_identity_world))))"
proof -
  let ?h = "identity_handle demo_identity_lib"
  let ?r = "run (?h demo_identity_env) (refresh_token demo_identity_lib demo_auth_config ''rt'') demo_identity_world"
  have ok: "\<not> isl (fst ?r)" by code_simp
  then have "?r = (Inr (projr (fst ?r)), snd ?r)" by (simp add: prod_eq_iff)
  then show ?thesis
    using refresh_token_single_use [OF demo_token_claims _ _ _ reach_init, of demo_identity_world demo_identity_env
      "projr (fst ?r)" "snd ?r" "''at''" "''''" demo_identity_env] demo_fresh
    by (simp add: demo_identity_env_def refresh_claims_def)
qed

section \<open>Two refreshes at once\<close>

text \<open>
  The single use does not survive concurrency: \<open>RefreshToken\<close> reads the key and deletes it in two
  calls, so two requests with one refresh token that both read before either deletes both succeed;
  the client ends up with two live refresh tokens for the one it presented.
\<close>
theorem refresh_race:
  "\<exists>r r' w'.
     run_sched (identity_handle demo_identity_lib) (concat (replicate 10 [(0, demo_identity_env), (1, demo_identity_env)]))
       ([refresh_token demo_identity_lib demo_auth_config ''rt'', refresh_token demo_identity_lib demo_auth_config ''rt''],
        demo_identity_world) = ([Return (Inr r), Return (Inr r')], w')
     \<and> lr_refresh r \<noteq> lr_refresh r'
     \<and> iw_cache w' ''rt:u:j'' = None \<and> iw_cache w' ''rt:u:0'' \<noteq> None \<and> iw_cache w' ''rt:u:1'' \<noteq> None"
proof -
  let ?x = "run_sched (identity_handle demo_identity_lib) (concat (replicate 10 [(0, demo_identity_env), (1, demo_identity_env)]))
       ([refresh_token demo_identity_lib demo_auth_config ''rt'', refresh_token demo_identity_lib demo_auth_config ''rt''],
        demo_identity_world)"
  let ?resp = "\<lambda>token. \<lparr>lr_access = ''at'', lr_refresh = token, lr_user = user_to_response demo_user\<rparr>"
  have "map result_of (fst ?x) = map Some [Inr (?resp ''r0''), Inr (?resp ''r1'')]" by code_simp
  then have "fst ?x = map Return [Inr (?resp ''r0''), Inr (?resp ''r1'')]" by (rule all_returned)
  moreover have "iw_cache (snd ?x) ''rt:u:j'' = None" by code_simp
  moreover have "iw_cache (snd ?x) ''rt:u:0'' = Some (''active'', Some (24 * hour))" by code_simp
  moreover have "iw_cache (snd ?x) ''rt:u:1'' = Some (''active'', Some (24 * hour))" by code_simp
  ultimately show ?thesis
    by (intro exI [of _ "?resp ''r0''"] exI [of _ "?resp ''r1''"] exI [of _ "snd ?x"] conjI) (simp_all add: prod_eq_iff)
qed

section \<open>Google's users\<close>

lemma refresh_claims_simps:
  "cl_jti (refresh_claims jl cfg jti now now' uid role) = jti"
  "cl_issuer (refresh_claims jl cfg jti now now' uid role) = ac_issuer cfg"
  "\<exists>t. cl_expires (refresh_claims jl cfg jti now now' uid role) = Some t"
  by (simp_all add: refresh_claims_def)

lemma cache_unchanged:
  "iw_cache (snd (identity_handle lib env (IUserCreate u) w)) = iw_cache w"
  "iw_cache (snd (identity_handle lib env (IByEmail email) w)) = iw_cache w"
  "iw_cache (snd (identity_handle lib env (IExchange code) w)) = iw_cache w"
  "iw_cache (snd (identity_handle lib env (IHttpGet url) w)) = iw_cache w"
  by (auto simp: inow_def new_uuid_def sql_user_create_def Let_def split: option.splits)


lemma google_tokens_result:
  assumes "run (identity_handle lib env) (google_tokens lib cfg u) w = (Inr resp, w')"
  shows "iw_cache w' = iw_cache w
    \<and> (\<exists>n c. jl_sign (il_jwt lib) (ac_secret cfg) c = Inr (lr_refresh resp) \<and> cl_jti c = il_uuid_str lib (iw_random w n)
         \<and> cl_issuer c = ac_issuer cfg \<and> cl_expires c \<noteq> None)"
  using assms
  by (auto simp: google_tokens_def with_access_token_def with_refresh_token_def inow_def new_uuid_def
      generate_refresh_token_def split: sum.splits) (metis refresh_claims_simps)

lemma login_with_google_result:
  assumes "run (identity_handle lib env) (login_with_google lib cfg code) w = (Inr resp, w')"
  shows "\<exists>u w1. run (identity_handle lib env) (google_tokens lib cfg u) w1 = (Inr resp, w')
    \<and> iw_cache w1 = iw_cache w \<and> iw_random w1 = iw_random w"
  using assms
  by (auto simp: login_with_google_def fetch_google_profile_def simp del: identity_handle.simps split: sum.splits)
    (metis cache_unchanged random_unchanged)+

text \<open>
  The refresh token of a login with Google never works: \<open>LoginWithGoogle\<close> signs it but does not
  store its key, so presenting it is refused at once, whatever the environment, unless the key
  happens to be in the cache already.
\<close>
theorem google_refresh_token_dead:
  assumes "jwt_ok (il_jwt lib)"
    and "run (identity_handle lib env) (login_with_google lib cfg code) w = (Inr resp, w')"
    and "\<And>uid n. iw_cache w (build_rt_key uid (il_uuid_str lib (iw_random w n))) = None"
  shows "isl (fst (run (identity_handle lib env') (refresh_token lib cfg (lr_refresh resp)) w'))"
proof -
  from login_with_google_result [OF assms(2)] obtain u w1 where
    g: "run (identity_handle lib env) (google_tokens lib cfg u) w1 = (Inr resp, w')"
    and w1: "iw_cache w1 = iw_cache w" "iw_random w1 = iw_random w" by blast
  from google_tokens_result [OF g] obtain n c t where
    c: "jl_sign (il_jwt lib) (ac_secret cfg) c = Inr (lr_refresh resp)" "cl_jti c = il_uuid_str lib (iw_random w n)"
      "cl_issuer c = ac_issuer cfg" "cl_expires c = Some t" and w': "iw_cache w' = iw_cache w"
    using w1 by auto
  have "verify_token (il_jwt lib) cfg now (lr_refresh resp) = Inr c \<or> isl (verify_token (il_jwt lib) cfg now (lr_refresh resp))" for now
    using jwt_ok_verify [OF assms(1) c(1,3,4), of now] by (cases "now < t") auto
  moreover have "iw_cache w' (build_rt_key (cl_user c) (cl_jti c)) = None"
    using assms(3) [of "cl_user c" n] c(2) w' by simp
  ultimately show ?thesis by (intro dead_key_refused)
qed

theorem google_refresh_token_dead_witness:
  "isl (fst (run (identity_handle demo_identity_lib demo_identity_env)
     (refresh_token demo_identity_lib demo_auth_config ''r0'')
     (snd (run (identity_handle demo_identity_lib demo_identity_env)
        (login_with_google demo_identity_lib demo_auth_config ''code'') (demo_identity_world\<lparr>iw_cache := Map.empty\<rparr>)))))"
proof -
  let ?r = "run (identity_handle demo_identity_lib demo_identity_env)
        (login_with_google demo_identity_lib demo_auth_config ''code'') (demo_identity_world\<lparr>iw_cache := Map.empty\<rparr>)"
  have "\<not> isl (fst ?r)" and r0: "lr_refresh (projr (fst ?r)) = ''r0''" by code_simp+
  then have "?r = (Inr (projr (fst ?r)), snd ?r)" by (simp add: prod_eq_iff)
  from google_refresh_token_dead [OF demo_identity_jwt_ok this, of demo_identity_env] show ?thesis
    by (simp add: r0)
qed

section \<open>Logout\<close>

text \<open>
  A logout with an expired access token panics: when the refresh token is valid and the access
  token is not, \<open>Logout\<close> deletes the key of the refresh token and then dereferences the missing
  claims, so the request ends in a panic instead of the error or the success of its signature, and
  the access token is not blacklisted.
\<close>
theorem logout_panics:
  assumes "isl (verify_token (il_jwt lib) cfg (ie_clock env (iw_ticks w)) access)"
    and "verify_token (il_jwt lib) cfg (ie_clock env (Suc (iw_ticks w))) refresh = Inr c"
    and "ie_cache_err env (ICacheDel [build_rt_key (cl_user c) (cl_jti c)]) = None"
  shows "run (identity_handle lib env) (logout lib cfg access refresh) w =
    (Panicked ''invalid memory address or nil pointer dereference'',
     w\<lparr>iw_ticks := Suc (Suc (iw_ticks w)), iw_cache := rdel [build_rt_key (cl_user c) (cl_jti c)] (iw_cache w)\<rparr>)"
  using assms
  by (auto simp: logout_def blacklist_access_def inow_def cache_delete_def Let_def isl_def)

theorem logout_panics_witness:
  "\<exists>msg. fst (run (identity_handle demo_identity_lib demo_identity_env)
     (logout demo_identity_lib demo_auth_config ''expired'' ''rt'') demo_identity_world) = Panicked msg"
proof -
  have "isl (verify_token (il_jwt demo_identity_lib) demo_auth_config
      (ie_clock demo_identity_env (iw_ticks demo_identity_world)) ''expired'')"
    and "verify_token (il_jwt demo_identity_lib) demo_auth_config
      (ie_clock demo_identity_env (Suc (iw_ticks demo_identity_world))) ''rt'' =
      Inr (refresh_claims (table_jwt []) demo_auth_config ''j'' 0 0 ''u'' ''user'')"
    by code_simp+
  from logout_panics [OF this] show ?thesis by (simp add: demo_identity_env_def)
qed

end
