(* ===== verification/Seeding.thy ===== *)
theory Seeding
  imports Identity
begin

text \<open>
  services/identity/internal/service/seed_service.go: bulk creation of test users by a pool of
  workers that share a channel of batch numbers, two counters under a mutex and the context of the
  request. A worker is a function of the calls it makes (theory Program); the pool is the
  interleaving of any number of them. The rates and percentages of the progress events are not
  modelled, nor the buffer of the event channel.

  A worker's loop is given a fuel of one more than the number of batches; \<open>SStuck\<close>, the call of an
  exhausted worker, is never reached (\<open>seed_fuel_enough\<close>).
\<close>

section \<open>Data\<close>

record seed_request =
  sr_count :: int
  sr_prefix :: string
  sr_password :: string
  sr_batch_size :: int
  sr_worker_count :: int

record seed_event =
  sv_type :: string
  sv_seeded :: int
  sv_failed :: int
  sv_total :: int
  sv_message :: string

text \<open>What \<open>SeedUsers\<close> fixes before it starts its workers.\<close>

record seed_plan =
  sp_total :: int
  sp_batch :: int
  sp_workers :: int
  sp_batches :: int
  sp_prefix :: string
  sp_hash :: string

datatype seed_call =
    SRecv
  | SContext
  | SUuid
  | SBulk "user list" int
  | SAdd int bool
  | SEmit seed_event
  | SWgDone
  | SStuck

datatype seed_reply =
    SJob (s_job: "int option")
  | SCancelled (s_cancelled: bool)
  | SId (s_id: uuid)
  | SErr (s_err: "goerr option")
  | SCounts (s_seeded: int) (s_failed: int)
  | SSent (s_sent: bool)
  | SUnit

type_synonym 'a seed_prog = "(seed_call, seed_reply, 'a) prog"

record seed_world =
  sd_jobs :: "int list"
  sd_seeded :: int
  sd_failed :: int
  sd_cancelled :: bool
  sd_done :: nat
  sd_events :: "seed_event list"
  sd_db :: identity_world

section \<open>The workers\<close>

definition batch_start :: "seed_plan \<Rightarrow> int \<Rightarrow> int" where
  "batch_start plan i = int64 (i * sp_batch plan)"

definition batch_end :: "seed_plan \<Rightarrow> int \<Rightarrow> int" where
  "batch_end plan i =
     (let end_idx = int64 (batch_start plan i + sp_batch plan) in if end_idx > sp_total plan then sp_total plan else end_idx)"

definition seed_user :: "seed_plan \<Rightarrow> int \<Rightarrow> uuid \<Rightarrow> user" where
  "seed_user plan idx fresh =
     blank_user\<lparr>usr_id := fresh, usr_email := sp_prefix plan @ ''_'' @ dec idx @ ''@seed.local'',
       usr_name := ''Seed User '' @ dec idx, usr_hash := sp_hash plan, usr_role := ''user''\<rparr>"

fun make_users :: "seed_plan \<Rightarrow> nat \<Rightarrow> int \<Rightarrow> (user list \<Rightarrow> unit seed_prog) \<Rightarrow> unit seed_prog" where
  "make_users plan 0 idx k = k []"
| "make_users plan (Suc n) idx k =
     Call SUuid (\<lambda>r. make_users plan n (idx + 1) (\<lambda>us. k (seed_user plan idx (s_id r) # us)))"

definition wg_done :: "unit seed_prog" where
  "wg_done = Call SWgDone (\<lambda>_. Return ())"

fun seed_worker :: "seed_plan \<Rightarrow> nat \<Rightarrow> unit seed_prog" where
  "seed_worker plan 0 = Call SStuck (\<lambda>_. Return ())"
| "seed_worker plan (Suc fuel) =
     Call SRecv (\<lambda>r. case s_job r of
       None \<Rightarrow> wg_done
     | Some i \<Rightarrow>
         Call SContext (\<lambda>r.
           if s_cancelled r then wg_done
           else
             (let n = batch_end plan i - batch_start plan i in
              make_users plan (nat n) (batch_start plan i) (\<lambda>users.
                Call (SBulk users (sp_batch plan)) (\<lambda>r.
                  Call (SAdd n (s_err r = None)) (\<lambda>r.
                    Call (SEmit \<lparr>sv_type = ''progress'', sv_seeded = s_seeded r, sv_failed = s_failed r,
                                sv_total = sp_total plan, sv_message = ''''\<rparr>) (\<lambda>r.
                      if s_sent r then seed_worker plan fuel else wg_done)))))))"

section \<open>SeedUsers\<close>

text \<open>
  Before the workers: the password is hashed once; \<open>make(chan int, n)\<close> panics when n is negative,
  which \<open>(total + batchSize - 1)\<close> makes it when it exceeds the 64-bit range.
\<close>

definition seed_plan_of :: "int \<Rightarrow> seed_request \<Rightarrow> goerr + string \<Rightarrow> (seed_event + seed_plan) outcome" where
  "seed_plan_of num_cpu req hash =
     (case hash of
        Inl err \<Rightarrow> Returned (Inl \<lparr>sv_type = ''error'', sv_seeded = 0, sv_failed = 0, sv_total = 0,
                                 sv_message = ''Failed to hash password: '' @ error_text err\<rparr>)
      | Inr h \<Rightarrow>
          (let batch_size = (if sr_batch_size req \<le> 0 then 5000 else sr_batch_size req);
               worker_count = (if sr_worker_count req \<le> 0 then num_cpu * 2 else sr_worker_count req);
               num_batches = trunc_div (int64 (int64 (sr_count req + batch_size) - 1)) batch_size
           in if num_batches < 0 then Panicked ''makechan: size out of range''
              else Returned (Inr \<lparr>sp_total = sr_count req, sp_batch = batch_size, sp_workers = worker_count,
                                 sp_batches = num_batches, sp_prefix = sr_prefix req, sp_hash = h\<rparr>)))"

definition seed_jobs :: "seed_plan \<Rightarrow> int list" where
  "seed_jobs plan = map int [0 ..< nat (sp_batches plan)]"

text \<open>After \<open>wg.Wait()\<close>: the last event.\<close>

definition seed_last_event :: "seed_plan \<Rightarrow> seed_world \<Rightarrow> seed_event" where
  "seed_last_event plan w =
     (if sd_cancelled w
      then \<lparr>sv_type = ''error'', sv_seeded = 0, sv_failed = 0, sv_total = 0,
            sv_message = ''Seed process was cancelled by client''\<rparr>
      else \<lparr>sv_type = ''done'', sv_seeded = sd_seeded w, sv_failed = sd_failed w, sv_total = sp_total plan,
            sv_message = ''Seed completed successfully''\<rparr>)"

section \<open>What each call does\<close>

text \<open>
  \<open>cancel\<close>: the client goes away before this call (for good); \<open>db_err\<close>: the insert fails. The
  \<open>select\<close> that sends a progress event gives up only when the context is done.
\<close>

fun seed_handle :: "bool \<times> goerr option \<times> gotime \<times> bool \<Rightarrow> seed_call \<Rightarrow> seed_world \<Rightarrow> seed_reply \<times> seed_world" where
  "seed_handle (cancel, db_err, now, give_up) c w0 =
     (let w = w0\<lparr>sd_cancelled := sd_cancelled w0 \<or> cancel\<rparr> in
      case c of
        SRecv \<Rightarrow> (case sd_jobs w of [] \<Rightarrow> (SJob None, w) | i # is \<Rightarrow> (SJob (Some i), w\<lparr>sd_jobs := is\<rparr>))
      | SContext \<Rightarrow> (SCancelled (sd_cancelled w), w)
      | SUuid \<Rightarrow> (case new_uuid (sd_db w) of (u, db) \<Rightarrow> (SId u, w\<lparr>sd_db := db\<rparr>))
      | SBulk us n \<Rightarrow>
          (case db_err of
             Some e \<Rightarrow> (SErr (Some e), w)
           | None \<Rightarrow> (case sql_bulk_create now us (sd_db w) of (r, db) \<Rightarrow> (SErr r, w\<lparr>sd_db := db\<rparr>)))
      | SAdd n ok \<Rightarrow>
          (let w' = (if ok then w\<lparr>sd_seeded := sd_seeded w + n\<rparr> else w\<lparr>sd_failed := sd_failed w + n\<rparr>)
           in (SCounts (sd_seeded w') (sd_failed w'), w'))
      | SEmit ev \<Rightarrow>
          (if sd_cancelled w \<and> give_up then (SSent False, w) else (SSent True, w\<lparr>sd_events := sd_events w @ [ev]\<rparr>))
      | SWgDone \<Rightarrow> (SUnit, w\<lparr>sd_done := Suc (sd_done w)\<rparr>)
      | SStuck \<Rightarrow> (SUnit, w))"

section \<open>The typestate of a worker\<close>

datatype seed_phase =
    Waiting nat
  | Held int nat
  | Inserted int bool nat
  | Counted nat
  | Stopping int
  | Gone int
  | Impossible

definition job_size :: "seed_plan \<Rightarrow> int \<Rightarrow> int" where
  "job_size plan i = batch_end plan i - batch_start plan i"

fun seed_allows :: "seed_phase \<Rightarrow> seed_call \<Rightarrow> bool" where
  "seed_allows (Waiting f) c = (c = SRecv)"
| "seed_allows (Held n f) c = (c = SContext \<or> c = SUuid \<or> (\<exists>us b. c = SBulk us b \<and> int (length us) = max 0 n))"
| "seed_allows (Inserted n ok f) c = (c = SAdd n ok)"
| "seed_allows (Counted f) c = (\<exists>ev. c = SEmit ev)"
| "seed_allows (Stopping n) c = (c = SWgDone)"
| "seed_allows (Gone n) c = False"
| "seed_allows Impossible c = True"

fun seed_next :: "seed_plan \<Rightarrow> seed_phase \<Rightarrow> seed_call \<Rightarrow> seed_reply \<Rightarrow> seed_phase" where
  "seed_next plan (Waiting f) c r =
     (case s_job r of None \<Rightarrow> Stopping 0 | Some i \<Rightarrow> if f \<le> 1 then Impossible else Held (job_size plan i) (f - 1))"
| "seed_next plan (Held n f) SContext r = (if s_cancelled r then Stopping n else Held n f)"
| "seed_next plan (Held n f) (SBulk us b) r = Inserted n (s_err r = None) f"
| "seed_next plan (Held n f) c r = Held n f"
| "seed_next plan (Inserted n ok f) c r = Counted f"
| "seed_next plan (Counted f) c r = (if s_sent r then Waiting f else Stopping 0)"
| "seed_next plan (Stopping n) c r = Gone n"
| "seed_next plan ph c r = ph"

definition seed_reply_ok :: "seed_call \<Rightarrow> seed_reply \<Rightarrow> bool" where
  "seed_reply_ok c r = True"

lemma follows_impossible: "follows seed_allows (seed_next plan) seed_reply_ok p Impossible"
  by (induction p) auto

lemma follows_make_users:
  assumes "\<And>us. length us = n \<Longrightarrow> follows seed_allows (seed_next plan) seed_reply_ok (k us) (Held m f)"
  shows "follows seed_allows (seed_next plan) seed_reply_ok (make_users plan n idx k) (Held m f)"
  using assms by (induction n arbitrary: idx k) auto

lemma follows_worker: "1 \<le> f \<Longrightarrow> follows seed_allows (seed_next plan) seed_reply_ok (seed_worker plan f) (Waiting f)"
proof (induction f)
  case (Suc f)
  show ?case
  proof (cases "f = 0")
    case True
    then show ?thesis by (auto simp: wg_done_def follows_impossible split: option.splits)
  next
    case False
    with Suc.IH show ?thesis
      by (auto simp: wg_done_def job_size_def Let_def intro!: follows_make_users split: option.splits)
  qed
qed simp

fun held :: "seed_phase \<Rightarrow> int" where
  "held (Held n f) = n" | "held (Inserted n ok f) = n" | "held (Stopping n) = n" | "held (Gone n) = n" | "held _ = 0"

fun uncounted :: "seed_phase \<Rightarrow> int" where
  "uncounted (Inserted n ok f) = (if ok then n else 0)" | "uncounted _ = 0"

fun phase_ok :: "bool \<Rightarrow> int list \<Rightarrow> seed_phase \<Rightarrow> bool" where
  "phase_ok cancelled jobs (Waiting f) = (length jobs < f)"
| "phase_ok cancelled jobs (Held n f) = (length jobs < f \<and> 0 \<le> n)"
| "phase_ok cancelled jobs (Inserted n ok f) = (length jobs < f)"
| "phase_ok cancelled jobs (Counted f) = (length jobs < f)"
| "phase_ok cancelled jobs (Stopping n) = (cancelled \<or> n = 0 \<and> jobs = [])"
| "phase_ok cancelled jobs (Gone n) = (cancelled \<or> n = 0 \<and> jobs = [])"
| "phase_ok cancelled jobs Impossible = False"

definition seed_inv :: "seed_plan \<Rightarrow> nat \<Rightarrow> int \<Rightarrow> nat \<Rightarrow> seed_world \<Rightarrow> seed_phase list \<Rightarrow> bool" where
  "seed_inv plan f0 tot rows w phs \<longleftrightarrow>
     length (sd_jobs w) < f0
     \<and> list_all (\<lambda>i. 0 \<le> job_size plan i) (sd_jobs w)
     \<and> list_all (phase_ok (sd_cancelled w) (sd_jobs w)) phs
     \<and> sd_seeded w + sd_failed w + sum_list (map held phs) + sum_list (map (job_size plan) (sd_jobs w)) = tot
     \<and> int (length (iw_users (sd_db w))) = int rows + sd_seeded w + sum_list (map uncounted phs)
     \<and> sd_done w = length (filter (\<lambda>ph. \<exists>n. ph = Gone n) phs)"

lemma phase_ok_mono:
  assumes "phase_ok c jobs ph" and "c \<longrightarrow> c'" and "length jobs' \<le> length jobs"
  shows "phase_ok c' jobs' ph"
  using assms by (cases ph) auto

lemma sum_list_map_update:
  fixes f :: "'x \<Rightarrow> int"
  shows "i < length xs \<Longrightarrow> sum_list (map f (xs[i := y])) = sum_list (map f xs) - f (xs ! i) + f y"
  by (induction xs arbitrary: i) (auto simp: nth_Cons split: nat.splits)

lemma seed_inv_update:
  assumes "seed_inv plan f0 tot rows w phs" and "i < length phs"
    and "sd_cancelled w \<longrightarrow> sd_cancelled w'" and "length (sd_jobs w') \<le> length (sd_jobs w)"
    and "list_all (\<lambda>i. 0 \<le> job_size plan i) (sd_jobs w')"
    and "phase_ok (sd_cancelled w') (sd_jobs w') ph"
    and "sd_seeded w' + sd_failed w' + held ph + sum_list (map (job_size plan) (sd_jobs w')) =
         sd_seeded w + sd_failed w + held (phs ! i) + sum_list (map (job_size plan) (sd_jobs w))"
    and "int (length (iw_users (sd_db w'))) - sd_seeded w' - uncounted ph =
         int (length (iw_users (sd_db w))) - sd_seeded w - uncounted (phs ! i)"
    and "sd_done w' + (if \<exists>n. phs ! i = Gone n then 1 else 0) = sd_done w + (if \<exists>n. ph = Gone n then 1 else 0)"
  shows "seed_inv plan f0 tot rows w' (phs[i := ph])"
proof -
  from assms(1) have inv: "length (sd_jobs w) < f0" "list_all (phase_ok (sd_cancelled w) (sd_jobs w)) phs"
    "sd_seeded w + sd_failed w + sum_list (map held phs) + sum_list (map (job_size plan) (sd_jobs w)) = tot"
    "int (length (iw_users (sd_db w))) = int rows + sd_seeded w + sum_list (map uncounted phs)"
    "sd_done w = length (filter (\<lambda>ph. \<exists>n. ph = Gone n) phs)"
    by (auto simp: seed_inv_def)
  have all: "list_all (phase_ok (sd_cancelled w') (sd_jobs w')) (phs[i := ph])"
    unfolding list_all_length
  proof (intro allI impI)
    fix j
    assume j: "j < length (phs[i := ph])"
    with inv(2) have "phase_ok (sd_cancelled w) (sd_jobs w) (phs ! j)" by (simp add: list_all_length)
    from phase_ok_mono [OF this assms(3,4)] assms(6) j
    show "phase_ok (sd_cancelled w') (sd_jobs w') (phs[i := ph] ! j)" by (cases "i = j") simp_all
  qed
  have gone: "sd_done w' = length (filter (\<lambda>ph. \<exists>n. ph = Gone n) (phs[i := ph]))"
    using length_filter_update [OF assms(2), of "\<lambda>ph. \<exists>n. ph = Gone n" ph] inv(5) assms(9) by linarith
  have held_sum: "sum_list (map held (phs[i := ph])) = sum_list (map held phs) - held (phs ! i) + held ph"
    and unc_sum: "sum_list (map uncounted (phs[i := ph])) = sum_list (map uncounted phs) - uncounted (phs ! i) + uncounted ph"
    by (rule sum_list_map_update [OF assms(2)])+
  have "length (sd_jobs w') < f0" using inv(1) assms(4) by simp
  moreover have "sd_seeded w' + sd_failed w' + sum_list (map held (phs[i := ph])) + sum_list (map (job_size plan) (sd_jobs w')) = tot"
    unfolding held_sum using inv(3) assms(7) by linarith
  moreover have "int (length (iw_users (sd_db w'))) = int rows + sd_seeded w' + sum_list (map uncounted (phs[i := ph]))"
    unfolding unc_sum using inv(4) assms(8) by linarith
  ultimately show ?thesis
    unfolding seed_inv_def using all gone assms(5) by blast
qed


lemma bulk_rows:
  "sql_bulk_create now us w = (r, w') \<Longrightarrow>
   int (length (iw_users w')) = int (length (iw_users w)) + (if r = None then int (length us) else 0)"
  by (auto simp: sql_bulk_create_def Let_def split: if_splits)

lemma seed_step:
  assumes inv: "seed_inv plan f0 tot rows w phs" and i: "i < length phs" and a: "seed_allows (phs ! i) c"
    and h: "seed_handle e c w = (r, w')"
  shows "seed_inv plan f0 tot rows w' (phs[i := seed_next plan (phs ! i) c r])"
proof -
  obtain cancel db_err now give_up where e: "e = (cancel, db_err, now, give_up)" by (cases e)
  have ok: "phase_ok (sd_cancelled w) (sd_jobs w) (phs ! i)" and jobs: "list_all (\<lambda>i. 0 \<le> job_size plan i) (sd_jobs w)"
    using inv i by (auto simp: seed_inv_def list_all_length)
  show ?thesis
  proof (cases "phs ! i")
    case (Waiting f)
    with a h ok jobs show ?thesis
      by (intro seed_inv_update [OF inv i]) (auto simp: e Let_def split: list.splits)
  next
    case (Held n f)
    consider "c = SContext" | "c = SUuid" | us b where "c = SBulk us b" "int (length us) = n"
      using a Held ok by auto
    then show ?thesis
    proof cases
      case 3
      with Held h ok jobs show ?thesis
        by (intro seed_inv_update [OF inv i])
          (auto simp: e Let_def dest: bulk_rows split: option.splits prod.splits if_splits)
    qed (use Held h ok jobs in \<open>auto intro!: seed_inv_update [OF inv i] simp: e Let_def new_uuid_def\<close>)
  next
    case (Inserted n ok' f)
    with a h ok jobs show ?thesis
      by (intro seed_inv_update [OF inv i]) (auto simp: e Let_def)
  next
    case (Counted f)
    with a h ok jobs show ?thesis
      by (intro seed_inv_update [OF inv i]) (auto simp: e Let_def split: if_splits)
  next
    case (Stopping n)
    with a h ok jobs show ?thesis
      by (intro seed_inv_update [OF inv i]) (auto simp: e Let_def)
  qed (use a ok in simp_all)
qed

interpretation seed_pool: typestate seed_handle seed_allows "seed_next plan" seed_reply_ok "Waiting f0" "seed_inv plan f0 tot rows"
  for plan f0 tot rows
proof
  fix w phs
  assume "seed_inv plan f0 tot rows w phs"
  then show "seed_inv plan f0 tot rows w (phs @ [Waiting f0])" by (auto simp: seed_inv_def)
next
  fix w phs i c e r w'
  assume "seed_inv plan f0 tot rows w phs" "i < length phs" "seed_allows (phs ! i) c" "seed_handle e c w = (r, w')"
  then show "seed_reply_ok c r \<and> seed_inv plan f0 tot rows w' (phs[i := seed_next plan (phs ! i) c r])"
    by (simp only: seed_reply_ok_def simp_thms seed_step)
qed

text \<open>A worker's fuel is enough: no worker reaches \<open>SStuck\<close>.\<close>

definition seed_start :: "seed_plan \<Rightarrow> identity_world \<Rightarrow> seed_world" where
  "seed_start plan db = \<lparr>sd_jobs = seed_jobs plan, sd_seeded = 0, sd_failed = 0, sd_cancelled = False,
     sd_done = 0, sd_events = [], sd_db = db\<rparr>"

definition seed_pool_workers :: "seed_plan \<Rightarrow> unit seed_prog set" where
  "seed_pool_workers plan = {seed_worker plan (Suc (length (seed_jobs plan)))}"

section \<open>The batches cover the users\<close>

text \<open>So many batches that the last one is not empty.\<close>

lemma ceiling_batches:
  fixes t b :: int
  assumes "0 < b"
  shows "((t + b - 1) div b - 1) * b < t" and "t \<le> (t + b - 1) div b * b"
proof -
  have "(t + b - 1) div b * b + (t + b - 1) mod b = t + b - 1" by (rule div_mult_mod_eq)
  moreover have "0 \<le> (t + b - 1) mod b" "(t + b - 1) mod b < b" using assms by simp_all
  moreover have "((t + b - 1) div b - 1) * b = (t + b - 1) div b * b - b" by (simp add: left_diff_distrib)
  ultimately show "((t + b - 1) div b - 1) * b < t" "t \<le> (t + b - 1) div b * b" by linarith+
qed

lemma job_sizes:
  assumes "0 < sp_batch plan" and "0 < sp_total plan" and "sp_total plan + sp_batch plan < 2 ^ 63"
    and "sp_batches plan = trunc_div (int64 (int64 (sp_total plan + sp_batch plan) - 1)) (sp_batch plan)"
  shows "list_all (\<lambda>i. 0 \<le> job_size plan i) (seed_jobs plan)"
    and "sum_list (map (job_size plan) (seed_jobs plan)) = sp_total plan"
proof -
  let ?t = "sp_total plan" and ?b = "sp_batch plan"
  let ?n = "(?t + ?b - 1) div ?b"
  have n: "sp_batches plan = ?n"
    using assms by (simp add: int64_id trunc_div_nonneg)
  have n0: "0 \<le> ?n" using assms(1,2) by (simp add: pos_imp_zdiv_nonneg_iff)
  note nb = ceiling_batches [OF assms(1), of ?t]

  have size: "job_size plan (int i) = min ?b (?t - int i * ?b) \<and> 0 \<le> job_size plan (int i) \<and> int i * ?b < ?t"
    if "i < nat ?n" for i
  proof -
    have "int i * ?b \<le> (?n - 1) * ?b" using that n0 assms(1) by (intro mult_right_mono) auto
    then have lt: "int i * ?b < ?t" using nb(1) by linarith
    moreover have "0 \<le> int i * ?b" using assms(1) by simp
    ultimately have "int64 (int i * ?b) = int i * ?b" "int64 (int i * ?b + ?b) = int i * ?b + ?b"
      using assms(1,3) by (intro int64_id; linarith)+
    with lt assms(1) show ?thesis by (simp add: job_size_def batch_start_def batch_end_def Let_def)
  qed
  then have "0 \<le> job_size plan (int i)" if "i < nat ?n" for i using that by blast
  then show "list_all (\<lambda>i. 0 \<le> job_size plan i) (seed_jobs plan)"
    by (simp add: seed_jobs_def n list_all_length)
  have "(\<Sum>i\<leftarrow>[0 ..< k]. job_size plan (int i)) = min ?t (int k * ?b)" if "k \<le> nat ?n" for k
    using that
  proof (induction k)
    case 0
    then show ?case using assms(2) by simp
  next
    case (Suc k)
    then have "k < nat ?n" by simp
    from size [OF this] have s: "job_size plan (int k) = min ?b (?t - int k * ?b)" "int k * ?b < ?t" by blast+
    have "int (Suc k) * ?b = int k * ?b + ?b" by (simp add: algebra_simps)
    moreover have "(\<Sum>i\<leftarrow>[0 ..< Suc k]. job_size plan (int i)) = min ?t (int k * ?b) + job_size plan (int k)"
      using Suc by simp
    ultimately show ?case using s by (simp only: min_def) (simp split: if_splits)
  qed
  from this [of "nat ?n"] n0 nb(2) show "sum_list (map (job_size plan) (seed_jobs plan)) = ?t"
    by (simp add: seed_jobs_def n comp_def)
qed

lemma seed_inv_start:
  assumes "0 < sp_batch plan" and "0 < sp_total plan" and "sp_total plan + sp_batch plan < 2 ^ 63"
    and "sp_batches plan = trunc_div (int64 (int64 (sp_total plan + sp_batch plan) - 1)) (sp_batch plan)"
  shows "seed_inv plan (Suc (length (seed_jobs plan))) (sp_total plan) (length (iw_users db)) (seed_start plan db) []"
  using job_sizes [OF assms] by (simp add: seed_inv_def seed_start_def)

lemma seed_reachable:
  assumes "reachable seed_handle (seed_pool_workers plan) (seed_start plan db) (ts, w)"
    and "0 < sp_batch plan" and "0 < sp_total plan" and "sp_total plan + sp_batch plan < 2 ^ 63"
    and "sp_batches plan = trunc_div (int64 (int64 (sp_total plan + sp_batch plan) - 1)) (sp_batch plan)"
  shows "\<exists>phs. list_all2 (follows seed_allows (seed_next plan) seed_reply_ok) ts phs
    \<and> seed_inv plan (Suc (length (seed_jobs plan))) (sp_total plan) (length (iw_users db)) w phs"
proof -
  have "follows seed_allows (seed_next plan) seed_reply_ok p (Waiting (Suc (length (seed_jobs plan))))"
    if "p \<in> seed_pool_workers plan" for p
    using that by (simp add: seed_pool_workers_def follows_worker del: seed_worker.simps)
  from seed_pool.reachable_well_phased [OF assms(1) seed_inv_start [OF assms(2-5)] this]
  show ?thesis unfolding seed_pool.well_phased_def by simp
qed

text \<open>The fuel of the workers is enough: none of them ever runs out of it.\<close>

lemma seed_fuel_enough:
  assumes "reachable seed_handle (seed_pool_workers plan) (seed_start plan db) (ts, w)"
    and "0 < sp_batch plan" and "0 < sp_total plan" and "sp_total plan + sp_batch plan < 2 ^ 63"
    and "sp_batches plan = trunc_div (int64 (int64 (sp_total plan + sp_batch plan) - 1)) (sp_batch plan)"
    and "i < length ts"
  shows "ts ! i \<noteq> Call SStuck k"
proof
  assume stuck: "ts ! i = Call SStuck k"
  from seed_reachable [OF assms(1-5)] obtain phs where
    f: "list_all2 (follows seed_allows (seed_next plan) seed_reply_ok) ts phs"
    and inv: "seed_inv plan (Suc (length (seed_jobs plan))) (sp_total plan) (length (iw_users db)) w phs" by blast
  from f assms(6) have i: "i < length phs" by (simp add: list_all2_lengthD)
  from f assms(6) stuck have "follows seed_allows (seed_next plan) seed_reply_ok (Call SStuck k) (phs ! i)"
    by (metis list_all2_nthD)
  then have "seed_allows (phs ! i) SStuck" by simp
  then have "phs ! i = Impossible" by (cases "phs ! i") auto
  with inv i show False by (auto simp: seed_inv_def list_all_length)
qed

text \<open>
  C21. The counters add up: for every plan \<open>SeedUsers\<close> makes without overflow, any number of workers
  interleaved call by call, inserts that fail as they like and a client that may go away at any
  moment, once all the workers are done the last event is either the cancellation or reports
  seeded + failed = total, and exactly the seeded users were added to the table.
\<close>
theorem seed_counts_add_up:
  assumes "seed_plan_of num_cpu req hash = Returned (Inr plan)" and "1 \<le> sr_count req"
    and "sr_count req + sp_batch plan < 2 ^ 63"
    and "reachable seed_handle (seed_pool_workers plan) (seed_start plan db) (ts, w)"
    and "sd_done w = length ts" and "ts \<noteq> []"
  shows "sv_type (seed_last_event plan w) = ''error''
    \<or> sv_seeded (seed_last_event plan w) + sv_failed (seed_last_event plan w) = sr_count req
       \<and> int (length (iw_users (sd_db w))) = int (length (iw_users db)) + sv_seeded (seed_last_event plan w)"
proof (cases "sd_cancelled w")
  case False
  have plan: "sp_total plan = sr_count req" "0 < sp_batch plan"
    "sp_batches plan = trunc_div (int64 (int64 (sp_total plan + sp_batch plan) - 1)) (sp_batch plan)"
    using assms(1) by (auto simp: seed_plan_of_def Let_def split: sum.splits if_splits)
  from seed_reachable [OF assms(4) plan(2) _ _ plan(3)] plan assms(2,3) obtain phs where
    f: "list_all2 (follows seed_allows (seed_next plan) seed_reply_ok) ts phs"
    and inv: "seed_inv plan (Suc (length (seed_jobs plan))) (sp_total plan) (length (iw_users db)) w phs" by auto
  from f have len: "length phs = length ts" by (simp add: list_all2_lengthD)
  with inv assms(5) have "length (filter (\<lambda>ph. \<exists>n. ph = Gone n) phs) = length phs" by (simp add: seed_inv_def)
  then have gone: "\<forall>ph\<in>set phs. \<exists>n. ph = Gone n"
    using length_filter_less [of _ phs "\<lambda>ph. \<exists>n. ph = Gone n"] by fastforce
  have zero: "ph = Gone 0 \<and> sd_jobs w = []" if ph: "ph \<in> set phs" for ph
  proof -
    from ph gone obtain n where n: "ph = Gone n" by blast
    from inv ph have "phase_ok (sd_cancelled w) (sd_jobs w) ph" by (simp add: seed_inv_def list_all_iff)
    with n False show ?thesis by simp
  qed

  then have "phs = replicate (length phs) (Gone 0)" by (intro replicate_eqI) auto
  then have "sum_list (map held phs) = 0" "sum_list (map uncounted phs) = 0"
    by (metis map_replicate sum_list_replicate held.simps(4) uncounted.simps(6) mult_zero_right)+
  moreover have "sd_jobs w = []" using zero len assms(6) by (cases phs) auto
  ultimately show ?thesis
    using inv False plan(1) by (simp add: seed_inv_def seed_last_event_def)
qed (simp add: seed_last_event_def)

definition seed_demo_plan :: seed_plan where
  "seed_demo_plan = \<lparr>sp_total = 1, sp_batch = 1, sp_workers = 1, sp_batches = 1, sp_prefix = ''u'', sp_hash = ''h''\<rparr>"

definition seed_demo_db :: identity_world where
  "seed_demo_db = \<lparr>iw_users = [], iw_cache = Map.empty, iw_random = (\<lambda>_. 7), iw_uuids = 0, iw_ticks = 0\<rparr>"

theorem seed_counts_add_up_witness:
  "int (length (iw_users (sd_db (snd (run_sched seed_handle (replicate 8 (0, (False, None, 0, False)))
     ([seed_worker seed_demo_plan 2], seed_start seed_demo_plan seed_demo_db)))))) = 1"
proof -
  let ?x = "run_sched seed_handle (replicate 8 (0, (False, None, 0, False)))
     ([seed_worker seed_demo_plan 2], seed_start seed_demo_plan seed_demo_db)"
  have plan: "seed_plan_of 1 \<lparr>sr_count = 1, sr_prefix = ''u'', sr_password = ''p'', sr_batch_size = 1, sr_worker_count = 1\<rparr>
      (Inr ''h'') = Returned (Inr seed_demo_plan)" by code_simp
  have jobs: "length (seed_jobs seed_demo_plan) = 1" by (simp add: seed_jobs_def seed_demo_plan_def)
  have "reachable seed_handle (seed_pool_workers seed_demo_plan) (seed_start seed_demo_plan seed_demo_db) ?x"
    by (intro reachable_schedule) (simp_all add: list_all_iff seed_pool_workers_def jobs numeral_2_eq_2)
  then have r: "reachable seed_handle (seed_pool_workers seed_demo_plan) (seed_start seed_demo_plan seed_demo_db) (fst ?x, snd ?x)"
    by simp
  have d: "sd_done (snd ?x) = length (fst ?x)" "fst ?x \<noteq> []"
    "sv_type (seed_last_event seed_demo_plan (snd ?x)) \<noteq> ''error''"
    "sv_seeded (seed_last_event seed_demo_plan (snd ?x)) = 1" "length (iw_users seed_demo_db) = 0" by code_simp+
  from seed_counts_add_up [OF plan _ _ r d(1,2)] d(3-5) show ?thesis by (simp add: seed_demo_plan_def)
qed


text \<open>
  A batch size near the largest integer kills the seeding: when the count plus the batch size
  leaves the 64-bit range, \<open>SeedUsers\<close> panics in its own goroutine (and with it the process) for
  the smaller of those sizes and for the others queues no batch at all, so that it reports
  success with no user seeded. Nothing limits \<open>batch_size\<close> in the request.
\<close>
theorem seed_batch_overflow:
  assumes "1 \<le> sr_count req" and "sr_count req \<le> 10000000" and "0 < sr_batch_size req"
    and "sr_batch_size req < 2 ^ 63" and "2 ^ 63 < sr_count req + sr_batch_size req"
  shows "(2 * sr_batch_size req + sr_count req - 1 \<le> 2 ^ 64
            \<longrightarrow> seed_plan_of num_cpu req (Inr h) = Panicked ''makechan: size out of range'')
    \<and> (2 ^ 64 < 2 * sr_batch_size req + sr_count req - 1
            \<longrightarrow> (\<exists>plan. seed_plan_of num_cpu req (Inr h) = Returned (Inr plan) \<and> seed_jobs plan = []))"
proof -
  let ?b = "sr_batch_size req" and ?t = "sr_count req"
  have "int64 (?t + ?b) = ?t + ?b - 2 ^ 64"
    using assms by (subst int64_wrap [symmetric], intro int64_id) simp_all
  moreover have "int64 (?t + ?b - 2 ^ 64 - 1) = ?t + ?b - 2 ^ 64 - 1"
    using assms by (intro int64_id) simp_all
  ultimately have "int64 (int64 (?t + ?b) - 1) = ?t + ?b - 2 ^ 64 - 1" by simp
  moreover have "?t + ?b - 2 ^ 64 - 1 < 0" "\<bar>?t + ?b - 2 ^ 64 - 1\<bar> = 2 ^ 64 + 1 - ?t - ?b" "\<bar>?b\<bar> = ?b" "\<not> ?b < 0"
    using assms by simp_all
  ultimately have q: "trunc_div (int64 (int64 (?t + ?b) - 1)) ?b = - ((2 ^ 64 + 1 - ?t - ?b) div ?b)"
    by (simp only: trunc_div_def Let_def) simp
  have le: "1 \<le> (2 ^ 64 + 1 - ?t - ?b) div ?b \<longleftrightarrow> ?b \<le> 2 ^ 64 + 1 - ?t - ?b"
    using assms(3) zdiv_mono1 [of ?b "2 ^ 64 + 1 - ?t - ?b" ?b] by (auto simp: int_one_le_iff_zero_less pos_imp_zdiv_pos_iff)
  have ge: "0 \<le> (2 ^ 64 + 1 - ?t - ?b) div ?b"
    using assms by (intro div_int_pos_iff [THEN iffD2]) auto
  show ?thesis
    using assms(3) q le ge by (auto simp: seed_plan_of_def Let_def seed_jobs_def)
qed

theorem seed_batch_overflow_witness:
  "seed_plan_of 4 \<lparr>sr_count = 2, sr_prefix = ''u'', sr_password = ''p'', sr_batch_size = 9223372036854775807, sr_worker_count = 1\<rparr>
     (Inr ''h'') = Panicked ''makechan: size out of range''"
  using seed_batch_overflow [of "\<lparr>sr_count = 2, sr_prefix = ''u'', sr_password = ''p'',
     sr_batch_size = 9223372036854775807, sr_worker_count = 1\<rparr>" 4 "''h''"] by simp

end
