(* ===== verification/Http.thy ===== *)
theory Http
  imports Program AppErrors
begin

text \<open>
  What the HTTP handlers of the three services share: an argument that does not bind or parse ends
  the handler with an error response, otherwise the handler calls its service and answers with the
  result. A handler is a call tree that returns one response.
\<close>

definition or_error :: "goerr + 'x \<Rightarrow> ('x \<Rightarrow> ('c, 'r, 'd http_response) prog) \<Rightarrow> ('c, 'r, 'd http_response) prog" where
  "or_error r k = (case r of Inl err \<Rightarrow> Return (snd (response_error err)) | Inr x \<Rightarrow> k x)"

definition answer :: "('d \<Rightarrow> 'd http_response) \<Rightarrow> ('c, 'r, goerr + 'd) prog \<Rightarrow> ('c, 'r, 'd http_response) prog" where
  "answer ok p = bind p (\<lambda>r. Return (respond ok r))"

lemma run_answer:
  "run h (answer ok p) w = (respond ok (fst (run h p w)), snd (run h p w))"
  by (simp add: answer_def run_bind split_def)

lemma or_error_simps [simp]:
  "or_error (Inl err) k = Return (snd (response_error err))" "or_error (Inr x) k = k x"
  by (simp_all add: or_error_def)

text \<open>Gin's recovery answers a panic with a bare status 500.\<close>

definition recovered_panic :: "'d http_response" where
  "recovered_panic = \<lparr>http_status = 500,
     http_body = \<lparr>resp_success = False, resp_data = None, resp_meta = None, resp_error = None\<rparr>\<rparr>"

definition answer_outcome ::
  "('d \<Rightarrow> 'd http_response) \<Rightarrow> ('c, 'r, (goerr + 'd) outcome) prog \<Rightarrow> ('c, 'r, 'd http_response) prog" where
  "answer_outcome ok p = bind p (\<lambda>r. Return (case r of Panicked _ \<Rightarrow> recovered_panic | Returned x \<Rightarrow> respond ok x))"

text \<open>The status a request is answered with, and the state it leaves.\<close>

definition http_outcome :: "('c \<Rightarrow> 's \<Rightarrow> 'r \<times> 's) \<Rightarrow> 's \<Rightarrow> ('c, 'r, 'd http_response) prog \<Rightarrow> int \<times> 's" where
  "http_outcome h w p = (http_status (fst (run h p w)), snd (run h p w))"

lemma http_outcome_error [simp]:
  "http_outcome h w (Return (snd (response_error err))) = (app_code (as_app_error err), w)"
  by (simp add: http_outcome_def status_response_error)

end
