(* ===== verification/IdentityHandlers.thy ===== *)
theory IdentityHandlers
  imports Tokens Seeding Http
begin

text \<open>
  services/identity/internal/handler and route: the HTTP handlers of the identity service. The JSON
  body that Gin binds is an argument (the error of \<open>ShouldBindJSON\<close> or the request). The tags
  \<open>validate:"required,email"\<close> of the DTOs are not read by Gin, whose tag is \<open>binding\<close>, so an empty
  field binds. A panic of the service is answered by Gin's recovery with a bare status 500.
\<close>

section \<open>handler.go\<close>

definition h_register :: "goerr + (string \<times> string \<times> string) \<Rightarrow> uuid http_response identity_prog" where
  "h_register body = or_error body (\<lambda>(email, password, name). answer response_created (register_user email password name))"

definition h_login where
  "h_login lib cfg body = or_error body (\<lambda>(email, password). answer response_ok (login lib cfg email password))"

definition h_refresh_token where
  "h_refresh_token lib cfg body = or_error body (\<lambda>token. answer response_ok (refresh_token lib cfg token))"

text \<open>Google: the state of the OAuth exchange is a constant.\<close>

definition oauth_state :: string where "oauth_state = ''random_state_string''"

definition h_google_login :: "identity_lib \<Rightarrow> int \<times> string" where
  "h_google_login lib = (307, get_google_auth_url lib oauth_state)"

definition h_google_callback where
  "h_google_callback lib cfg code state =
     (if state \<noteq> oauth_state then Return (snd (response_error (Plain ''invalid oauth state'')))
      else answer response_ok (login_with_google lib cfg code))"

text \<open>The user whose profile is asked for is named in the body, not taken from the token.\<close>

definition h_get_profile where
  "h_get_profile body = or_error body (\<lambda>user_id. answer response_ok (get_profile user_id))"

definition h_logout :: "identity_lib \<Rightarrow> auth_config \<Rightarrow> goerr + (string \<times> string) \<Rightarrow> string http_response identity_prog" where
  "h_logout lib cfg body =
     or_error body (\<lambda>(access, refresh).
       bind (logout lib cfg access refresh) (\<lambda>r. Return (case r of
         Panicked _ \<Rightarrow> recovered_panic
       | Returned (Some err) \<Rightarrow> snd (response_error err)
       | Returned None \<Rightarrow> response_ok ''successfully logged out'')))"

section \<open>seed_handler.go\<close>

text \<open>Gin checks \<open>binding:"required,min=1,max=10000000"\<close> of the count.\<close>

definition seed_binding :: "goerr + seed_request \<Rightarrow> goerr + seed_request" where
  "seed_binding body =
     (case body of
        Inl err \<Rightarrow> Inl err
      | Inr req \<Rightarrow> if 1 \<le> sr_count req \<and> sr_count req \<le> 10000000 then Inr req
                    else Inl (Plain ''Field validation for 'Count' failed''))"

definition seed_defaults :: "seed_request \<Rightarrow> seed_request" where
  "seed_defaults req =
     req\<lparr>sr_prefix := (if sr_prefix req = '''' then ''user'' else sr_prefix req),
         sr_password := (if sr_password req = '''' then ''Seed@1234'' else sr_password req),
         sr_batch_size := (if sr_batch_size req = 0 then 5000 else sr_batch_size req)\<rparr>"

text \<open>The events forwarded to the client, given what the channel delivers before it is closed.\<close>

fun stream_sse :: "seed_event list \<Rightarrow> seed_event list" where
  "stream_sse [] = []"
| "stream_sse (ev # evs) = (if sv_type ev = ''done'' \<or> sv_type ev = ''error'' then [ev] else ev # stream_sse evs)"

definition h_seed_users :: "goerr + seed_request \<Rightarrow> (goerr \<times> int) + seed_request" where
  "h_seed_users body =
     (case seed_binding body of Inl err \<Rightarrow> Inl (err, 400) | Inr req \<Rightarrow> Inr (seed_defaults req))"

section \<open>route.go\<close>

text \<open>
  Whether a route stands behind \<open>GinRequireAuth\<close>. The group \<open>v1\<close> was created before the middleware
  was added to \<open>profile\<close>, so the logout route, registered inside the braces of \<open>profile\<close> but on
  \<open>v1\<close>, is not protected.
\<close>

datatype identity_route =
    RRegister | RLogin | RRefresh | RGoogleLogin | RGoogleCallback | RSeedUsers | RProfile | RLogout

fun route_group :: "identity_route \<Rightarrow> string" where
  "route_group RSeedUsers = ''/api/v1/admin''"
| "route_group RProfile = ''/api/v1/profile''"
| "route_group _ = ''/api/v1/auth''"

definition requires_auth :: "identity_route \<Rightarrow> bool" where
  "requires_auth r \<longleftrightarrow> route_group r = ''/api/v1/profile''"

section \<open>Logging in\<close>

lemma login_tokens:
  assumes "fst (run (identity_handle lib env) (login lib cfg email password) w) = Inr resp"
  shows "\<exists>u\<in>set (iw_users w). usr_email u = email \<and> il_compare lib (usr_hash u) password = None \<and> lr_user resp = user_to_response u"
  using assms
  by (auto simp: login_def check_password_def with_access_token_def with_refresh_token_def ie_read_def inow_def new_uuid_def
      split: sum.splits option.splits if_splits dest!: first_row_Inr) (metis login_response.select_convs(3))

text \<open>
  A login hands out tokens only for the password of the account, and tells which accounts exist:
  when the database answers, the response to a successful login is the one of a user with that
  e-mail whose stored hash matches; a wrong password for a known e-mail is answered 401, but an
  unknown e-mail 500, and neither changes the state.
\<close>
theorem login_answers:
  assumes "ie_db_err env (IByEmail email) = None" and "users_ok (iw_users w)"
  shows "(case find (\<lambda>u. usr_email u = email) (iw_users w) of
       None \<Rightarrow> http_outcome (identity_handle lib env) w (h_login lib cfg (Inr (email, password))) = (500, w)
     | Some u \<Rightarrow>
         (if il_compare lib (usr_hash u) password = None
          then (\<forall>resp. fst (run (identity_handle lib env) (login lib cfg email password) w) = Inr resp \<longrightarrow>
                  lr_user resp = user_to_response u)
          else http_outcome (identity_handle lib env) w (h_login lib cfg (Inr (email, password))) = (401, w)))"
proof (cases "find (\<lambda>u. usr_email u = email) (iw_users w)")
  case None
  then have "run (identity_handle lib env) (login lib cfg email password) w = (Inl (Sentinel ErrRecordNotFound), w)"
    using assms(1) by (simp add: login_def ie_read_def first_row_def)
  with None show ?thesis
    by (simp add: h_login_def http_outcome_def run_answer respond_simps status_response_error as_app_error_def app_error_defs)
next
  case (Some u)
  show ?thesis
  proof (cases "il_compare lib (usr_hash u) password = None")
    case True
    have "lr_user resp = user_to_response u"
      if "fst (run (identity_handle lib env) (login lib cfg email password) w) = Inr resp" for resp
    proof -
      from login_tokens [OF that] obtain u' where u': "u' \<in> set (iw_users w)" "usr_email u' = email" "lr_user resp = user_to_response u'"
        by blast
      from Some have "u \<in> set (iw_users w)" "usr_email u = email" by (auto dest: find_SomeD)
      with u' assms(2) have "u' = u" by (auto simp: users_ok_def keyed_def distinct_map inj_on_def)
      with u' show ?thesis by simp
    qed
    with Some True show ?thesis by simp
  next
    case False
    with Some have "run (identity_handle lib env) (login lib cfg email password) w = (Inl (unauthorized ''invalid credentials''), w)"
      using assms(1) by (simp add: login_def ie_read_def first_row_def check_password_def)
    with Some False show ?thesis
      by (simp add: h_login_def http_outcome_def run_answer respond_simps status_response_error as_app_error_def app_error_defs)
  qed
qed

theorem login_answers_witness:
  "http_outcome (identity_handle demo_identity_lib demo_identity_env) demo_identity_world
     (h_login demo_identity_lib demo_auth_config (Inr (''x@y'', ''secret''))) = (500, demo_identity_world)
   \<and> http_outcome (identity_handle demo_identity_lib demo_identity_env) demo_identity_world
     (h_login demo_identity_lib demo_auth_config (Inr (''a@b'', ''guess''))) = (401, demo_identity_world)"
proof -
  have e: "ie_db_err demo_identity_env c = None" for c by (simp add: demo_identity_env_def)
  have ok: "users_ok (iw_users demo_identity_world)" by (simp add: users_ok_def keyed_def demo_identity_world_def)
  from login_answers [OF e ok, where email = "''x@y''" and lib = demo_identity_lib and cfg = demo_auth_config
      and password = "''secret''"]
    login_answers [OF e ok, where email = "''a@b''" and lib = demo_identity_lib and cfg = demo_auth_config
      and password = "''guess''"]
  show ?thesis by (simp add: demo_identity_world_def demo_user_def blank_user_def demo_identity_lib_def)
qed

end
