(* ===== verification/RateLimit.thy ===== *)
theory RateLimit
  imports Redis
begin

text \<open>
  pkg/ratelimit: the Lua script \<open>luaFixedWindow\<close> (it runs atomically on the Redis server), the
  decision \<open>allow\<close> takes on its reply, the key functions and the Gin middleware. Counters and
  limits are unbounded integers here; they are \<open>int64\<close> in the code, where a counter would need
  more than nine quintillion requests in a window to wrap. \<open>int64(window.Seconds())\<close> goes through a
  \<open>float64\<close>; it is the integer division below for windows under 97 days, where the fraction is exact enough
  not to round up.
\<close>

section \<open>ratelimit.go\<close>

record rl_config =
  rl_limit :: int
  rl_window :: duration

record rl_result =
  rl_allowed :: bool
  rl_remaining :: int
  rl_reset_in :: duration

definition lua_fixed_window :: "gotime \<Rightarrow> string \<Rightarrow> int \<Rightarrow> int rstore \<Rightarrow> (int \<times> int) \<times> int rstore" where
  "lua_fixed_window now key window_secs st =
     (let (current, st1) = rincr now key st;
          st2 = (if current = 1 then rexpire now key window_secs st1 else st1);
          ttl = rttl now key st2
      in ((current, ttl), st2))"

text \<open>\<open>fault\<close> is the error of \<open>luaFixedWindow.Run\<close>; a script that fails changes nothing.\<close>

definition allow_request ::
  "goerr option \<Rightarrow> gotime \<Rightarrow> string \<Rightarrow> int \<Rightarrow> duration \<Rightarrow> int rstore \<Rightarrow> (goerr + rl_result) \<times> int rstore" where
  "allow_request fault now key limit window st =
     (let window_secs = trunc_div window second in
      case fault of
        Some e \<Rightarrow> (Inl (Wrap ''ratelimit: redis error: '' e), st)
      | None \<Rightarrow>
          (let ((current, ttl0), st') = lua_fixed_window now key window_secs st;
               ttl = (if ttl0 < 0 then window_secs else ttl0);
               remaining0 = limit - current;
               remaining = (if remaining0 < 0 then 0 else remaining0)
           in (Inr \<lparr>rl_allowed = (current \<le> limit), rl_remaining = remaining,
                    rl_reset_in = ttl * second\<rparr>, st')))"

definition rl_allow :: "rl_config \<Rightarrow> goerr option \<Rightarrow> gotime \<Rightarrow> string \<Rightarrow> int rstore \<Rightarrow> (goerr + rl_result) \<times> int rstore" where
  "rl_allow cfg fault now key st = allow_request fault now key (rl_limit cfg) (rl_window cfg) st"

section \<open>middleware.go\<close>

definition by_ip :: "string \<Rightarrow> string" where
  "by_ip client_ip = ''rl:ip:'' @ client_ip"

definition by_user_id :: "string option \<Rightarrow> string \<Rightarrow> string" where
  "by_user_id current_user client_ip =
     (case current_user of Some uid \<Rightarrow> ''rl:user:'' @ uid | None \<Rightarrow> ''rl:ip:'' @ client_ip)"

text \<open>The middleware passes the request on, or answers it and aborts the chain.\<close>

datatype 'd mw_outcome =
    MwNext "(string \<times> string) list"
  | MwAbort "(string \<times> string) list" "'d http_response"

definition gin_rate_limit ::
  "goerr option \<Rightarrow> gotime \<Rightarrow> string \<Rightarrow> int \<Rightarrow> duration \<Rightarrow> int rstore \<Rightarrow> 'd mw_outcome \<times> int rstore" where
  "gin_rate_limit fault now key limit window st =
     (case allow_request fault now key limit window st of
        (Inl _, st') \<Rightarrow> (MwNext [], st')
      | (Inr result, st') \<Rightarrow>
          (let reset_secs = dec (trunc_div (rl_reset_in result) second);
               headers = [(''X-RateLimit-Limit'', dec limit),
                          (''X-RateLimit-Remaining'', dec (rl_remaining result)),
                          (''X-RateLimit-Reset'', reset_secs)]
           in if \<not> rl_allowed result
              then (MwAbort (headers @ [(''Retry-After'', reset_secs)])
                      (snd (response_error (too_many_requests ''''))), st')
              else (MwNext headers, st')))"

section \<open>One window\<close>

text \<open>A run of requests: each at an instant and for a key, all with the same limit and window.\<close>

fun rl_run :: "int \<Rightarrow> duration \<Rightarrow> (gotime \<times> string) list \<Rightarrow> int rstore \<Rightarrow> (string \<times> bool) list \<times> int rstore" where
  "rl_run limit window [] st = ([], st)"
| "rl_run limit window ((now, key) # rs) st =
     (case allow_request None now key limit window st of
        (r, st') \<Rightarrow>
          (case rl_run limit window rs st' of
             (out, st'') \<Rightarrow> ((key, case r of Inr x \<Rightarrow> rl_allowed x | Inl _ \<Rightarrow> True) # out, st'')))"

lemma allow_request_other:
  "k \<noteq> key \<Longrightarrow> snd (allow_request None now key limit window st) k = st k"
  by (auto simp: allow_request_def lua_fixed_window_def rincr_def rexpire_def Let_def
      split: option.splits prod.splits)

lemma allow_request_counting:
  assumes "st key = Some (n, Some t)" and "now < t" and "1 \<le> n"
  shows "\<exists>r. allow_request None now key limit window st = (Inr r, st(key \<mapsto> (n + 1, Some t)))
             \<and> rl_allowed r = (n + 1 \<le> limit)"
  using assms by (simp add: allow_request_def lua_fixed_window_def rincr_def rget_def Let_def)

lemma allow_request_first:
  assumes "rget now key st = None" and "1 \<le> trunc_div window second"
  shows "\<exists>r. allow_request None now key limit window st =
               (Inr r, st(key \<mapsto> (1, Some (now + trunc_div window second * second))))
             \<and> rl_allowed r = (1 \<le> limit)"
  using assms
  by (auto simp: allow_request_def lua_fixed_window_def rincr_def rexpire_def rget_def rttl_def Let_def
      split: option.splits prod.splits)

text \<open>
  Counting from a live counter: of the requests for \<open>key\<close> that follow within the window, the
  first \<open>limit - n\<close> are allowed.
\<close>

lemma rl_run_counting:
  assumes "st key = Some (n, Some t)" and "1 \<le> n" and "list_all (\<lambda>(now, k). now < t) rs"
  shows "int (length (filter (\<lambda>(k, ok). k = key \<and> ok) (fst (rl_run limit window rs st)))) =
         max 0 (min (limit - n) (int (length (filter (\<lambda>(_, k). k = key) rs))))"
  using assms
proof (induction rs arbitrary: st n)
  case (Cons req rs)
  obtain now k where req: "req = (now, k)" by (cases req)
  obtain r st' where step: "allow_request None now k limit window st = (r, st')"
    by (cases "allow_request None now k limit window st")
  show ?case
  proof (cases "k = key")
    case True
    with allow_request_counting [of st key n t now limit window] Cons.prems req step
    obtain x where x: "r = Inr x" "st' = st(key \<mapsto> (n + 1, Some t))" "rl_allowed x = (n + 1 \<le> limit)"
      by auto
    have "int (length (filter (\<lambda>(k, ok). k = key \<and> ok) (fst (rl_run limit window rs st')))) =
        max 0 (min (limit - (n + 1)) (int (length (filter (\<lambda>(_, k). k = key) rs))))"
      using x Cons.prems by (intro Cons.IH) auto
    with x True req step show ?thesis by (auto split: prod.splits)
  next
    case False
    with allow_request_other [of key k now limit window st] step Cons.prems
    have "st' key = Some (n, Some t)" by simp
    with Cons.IH [of st' n] Cons.prems req step False show ?thesis
      by (auto split: prod.splits)
  qed
qed simp

text \<open>
  C28. In one window the limiter lets through exactly the first \<open>limit\<close> requests of a key,
  however the requests of other keys are interleaved: if no counter is live when the first
  request of the key arrives and all the requests fall within the window it opens, the number
  of allowed requests of the key is the smaller of the limit and the number of requests made.
\<close>
theorem rate_limit_window:
  assumes "rget t0 key st = None" and "0 \<le> limit" and "second \<le> window"
    and "list_all (\<lambda>(now, k). now < t0 + trunc_div window second * second) rs"
  shows "length (filter (\<lambda>(k, ok). k = key \<and> ok) (fst (rl_run limit window ((t0, key) # rs) st))) =
         min (nat limit) (Suc (length (filter (\<lambda>(_, k). k = key) rs)))"
proof -
  let ?w = "trunc_div window second"
  from assms(3) have "second div second \<le> window div second"
    by (intro zdiv_mono1) simp_all
  moreover have "second div second = 1" by (simp add: second_def)
  moreover have "0 \<le> window" using assms(3) duration_simps(1) by linarith
  ultimately have w: "1 \<le> ?w" by (simp add: trunc_div_nonneg)
  from allow_request_first [OF assms(1) w, of limit]
  obtain r where r: "allow_request None t0 key limit window st =
      (Inr r, st(key \<mapsto> (1, Some (t0 + ?w * second))))" "rl_allowed r = (1 \<le> limit)"
    by blast
  have "int (length (filter (\<lambda>(k, ok). k = key \<and> ok)
          (fst (rl_run limit window rs (st(key \<mapsto> (1, Some (t0 + ?w * second)))))))) =
        max 0 (min (limit - 1) (int (length (filter (\<lambda>(_, k). k = key) rs))))"
    using assms(4) by (intro rl_run_counting) auto
  with r assms(2) show ?thesis by (auto split: prod.splits simp: nat_eq_iff)
qed

theorem rate_limit_window_witness:
  "length (filter (\<lambda>(k, ok). k = ''a'' \<and> ok)
     (fst (rl_run 2 (60 * second) [(0, ''a''), (1, ''b''), (2, ''a''), (3, ''a'')] (\<lambda>_. None)))) = 2"
  using rate_limit_window [of 0 "''a''" "\<lambda>_. None" 2 "60 * second" "[(1, ''b''), (2, ''a''), (3, ''a'')]"]
  by (simp add: rget_def trunc_div_def second_def)

end
