(* ===== verification/Breaker.thy ===== *)
theory Breaker
  imports Prelude
begin

text \<open>
  services/notification/internal/worker/circuit_breaker.go. \<open>Execute\<close> holds the mutex of the breaker for
  its whole duration, the operation included, so it is one step on the state of the breaker and
  the state the operation acts on. \<open>since\<close> is the clock when \<open>time.Since\<close> is read, \<open>now\<close> the clock
  after the operation.
\<close>

section \<open>The breaker\<close>

datatype breaker_state = Closed | Open | HalfOpen

record breaker =
  cb_state :: breaker_state
  cb_failures :: int
  cb_open_duration :: duration
  cb_last_failure :: gotime
  cb_max_failures :: int

definition new_breaker :: "int \<Rightarrow> duration \<Rightarrow> breaker" where
  "new_breaker max_failures open_duration =
     \<lparr>cb_state = Closed, cb_failures = 0, cb_open_duration = open_duration, cb_last_failure = zero_time,
      cb_max_failures = max_failures\<rparr>"

definition cb_execute ::
  "('s \<Rightarrow> goerr option \<times> 's) \<Rightarrow> gotime \<Rightarrow> gotime \<Rightarrow> breaker \<Rightarrow> 's \<Rightarrow> goerr option \<times> breaker \<times> 's" where
  "cb_execute operation since now cb s =
     (case cb_state cb of
        Open \<Rightarrow>
          (if since - cb_last_failure cb > cb_open_duration cb
           then (None, cb\<lparr>cb_state := HalfOpen\<rparr>, s)
           else (Some (Sentinel ErrCircuitBreakerOpen), cb, s))
      | HalfOpen \<Rightarrow>
          (case operation s of
             (Some err, s') \<Rightarrow> (Some err, cb\<lparr>cb_state := Open, cb_last_failure := now\<rparr>, s')
           | (None, s') \<Rightarrow> (None, cb\<lparr>cb_state := Closed, cb_failures := 0\<rparr>, s'))
      | Closed \<Rightarrow>
          (case operation s of
             (Some err, s') \<Rightarrow>
               (let n = cb_failures cb + 1 in
                if n \<ge> cb_max_failures cb
                then (Some err, cb\<lparr>cb_failures := n, cb_state := Open, cb_last_failure := now\<rparr>, s')
                else (Some err, cb\<lparr>cb_failures := n\<rparr>, s'))
           | (None, s') \<Rightarrow> (None, cb\<lparr>cb_failures := 0\<rparr>, s')))"

text \<open>
  A run of executions: for each, the two readings of the clock and what the operation would answer.
  The log says which answers came from an operation that really ran.
\<close>

fun cb_run :: "(gotime \<times> gotime \<times> goerr option) list \<Rightarrow> breaker \<Rightarrow> (goerr option \<times> bool) list \<times> breaker" where
  "cb_run [] cb = ([], cb)"
| "cb_run ((since, now, ans) # xs) cb =
     (case cb_execute (\<lambda>did. (ans, True)) since now cb False of
        (r, cb1, did) \<Rightarrow> (case cb_run xs cb1 of (rs, cb2) \<Rightarrow> ((r, did) # rs, cb2)))"

section \<open>What it promises\<close>

text \<open>
  The abstract breaker: it counts consecutive failures, and after the last one that opened it
  remembers when it is due to try again. \<open>breaker_ok\<close> is the invariant of the counters.
\<close>

definition breaker_ok :: "breaker \<Rightarrow> bool" where
  "breaker_ok cb \<longleftrightarrow>
     0 \<le> cb_failures cb \<and> (cb_state cb = Closed \<longrightarrow> cb_failures cb < max 1 (cb_max_failures cb))"

lemma breaker_ok_execute: "breaker_ok cb \<Longrightarrow> breaker_ok (fst (snd (cb_execute f since now cb s)))"
  by (auto simp: breaker_ok_def cb_execute_def Let_def split: breaker_state.splits prod.splits option.splits)

lemma cb_run_append:
  "cb_run (xs @ ys) cb =
     (case cb_run xs cb of (rs, cb1) \<Rightarrow> (case cb_run ys cb1 of (rs', cb2) \<Rightarrow> (rs @ rs', cb2)))"
  by (induction xs arbitrary: cb) (auto split: prod.splits)

text \<open>Failures in a row on a closed breaker: counted until the last allowed one, which opens it.\<close>

lemma cb_run_failures:
  assumes "cb_state cb = Closed" and "list_all (\<lambda>(_, _, ans). ans \<noteq> None) xs"
    and "cb_failures cb + int (length xs) < cb_max_failures cb"
  shows "cb_run xs cb = (map (\<lambda>(_, _, ans). (ans, True)) xs, cb\<lparr>cb_failures := cb_failures cb + int (length xs)\<rparr>)"
  using assms
proof (induction xs arbitrary: cb)
  case (Cons x xs)
  obtain since now e where x: "x = (since, now, Some e)" using Cons.prems(2) by (cases x) auto
  have "cb_run xs (cb\<lparr>cb_failures := cb_failures cb + 1\<rparr>) =
      (map (\<lambda>(_, _, ans). (ans, True)) xs, cb\<lparr>cb_failures := cb_failures cb + 1 + int (length xs)\<rparr>)"
    using Cons.IH [of "cb\<lparr>cb_failures := cb_failures cb + 1\<rparr>"] Cons.prems by simp
  with x Cons.prems show ?case by (simp add: cb_execute_def Let_def algebra_simps)
qed simp

text \<open>While it is open and not yet due, nothing runs and every answer is the open error.\<close>

lemma cb_run_open:
  assumes "cb_state cb = Open" and "list_all (\<lambda>(since, _, _). since - cb_last_failure cb \<le> cb_open_duration cb) xs"
  shows "cb_run xs cb = (replicate (length xs) (Some (Sentinel ErrCircuitBreakerOpen), False), cb)"
  using assms(2)
proof (induction xs)
  case (Cons x xs)
  then show ?case using assms(1) by (cases x) (simp add: cb_execute_def)
qed simp

text \<open>
  The breaker opens after the configured number of consecutive failures and then fails fast, but
  its first trial reports a success that never happened. From a new breaker with n allowed failures:
  n failing executions run and return their own errors; all executions within the open period
  return \<open>ErrCircuitBreakerOpen\<close> without running the operation; and the first execution after the
  period returns nil, success, again without running it (only the next one would run it).
\<close>
theorem breaker_fails_fast_then_lies:
  assumes "0 < n" and "length fails = n" and "list_all (\<lambda>(_, _, ans). ans \<noteq> None) fails"
    and "fst (snd (last fails)) = t"
    and "list_all (\<lambda>(since, _, _). since - t \<le> d) early" and "d < since - t"
  shows "\<exists>cb. cb_run (fails @ early @ [(since, now, ans)]) (new_breaker (int n) d) =
      (map (\<lambda>(_, _, ans). (ans, True)) fails
       @ replicate (length early) (Some (Sentinel ErrCircuitBreakerOpen), False)
       @ [(None, False)], cb) \<and> cb_state cb = HalfOpen"
proof -
  obtain fs f where fs: "fails = fs @ [f]" using assms(1,2) by (metis length_0_conv less_nat_zero_code rev_exhaust)
  obtain s0 e where f: "f = (s0, t, Some e)" using assms(3,4) fs by (cases f) auto
  let ?cb0 = "new_breaker (int n) d"
  let ?cb1 = "?cb0\<lparr>cb_failures := int n, cb_state := Open, cb_last_failure := t\<rparr>"
  have "cb_run fs ?cb0 = (map (\<lambda>(_, _, ans). (ans, True)) fs, ?cb0\<lparr>cb_failures := int (length fs)\<rparr>)"
    using assms(2,3) fs by (subst cb_run_failures) (simp_all add: new_breaker_def)
  then have "cb_run fails ?cb0 = (map (\<lambda>(_, _, ans). (ans, True)) fails, ?cb1)"
    using assms(2) by (simp add: fs f cb_run_append cb_execute_def new_breaker_def Let_def)
  moreover have "cb_run early ?cb1 = (replicate (length early) (Some (Sentinel ErrCircuitBreakerOpen), False), ?cb1)"
    using assms(5) by (intro cb_run_open) (simp_all add: new_breaker_def)
  moreover have "cb_run [(since, now, ans)] ?cb1 = ([(None, False)], ?cb1\<lparr>cb_state := HalfOpen\<rparr>)"
    using assms(6) by (simp add: cb_execute_def new_breaker_def)
  ultimately show ?thesis by (simp add: cb_run_append)
qed

theorem breaker_fails_fast_then_lies_witness:
  "map snd (fst (cb_run ([(0, 1, Some (Plain ''x'')), (2, 3, Some (Plain ''x''))] @ [(5, 6, None)] @ [(14, 15, Some (Plain ''x''))])
     (new_breaker 2 10))) = [True, True, False, False]"
proof -
  let ?f = "[(0, 1, Some (Plain ''x'')), (2, 3, Some (Plain ''x''))]"
  from breaker_fails_fast_then_lies [of 2 ?f 3 10 "[(5, 6, None)]" 14 15 "Some (Plain ''x'')"]
  show ?thesis by auto
qed

end
