(* ===== verification/NotifyDomain.thy ===== *)
theory NotifyDomain
  imports Breaker Redis Tables GoTime GoNumbers
begin

text \<open>
  The data of the notification service: internal/domain, internal/dto, internal/config, the libraries
  it uses as parameters (\<open>notify_lib\<close>), its state (\<open>notify_world\<close>: tables, cache, circuit breaker, and
  what the broker and the mail server accepted), and the SQL of internal/repository on that state.
  Channels, event types and user ids are strings, as in the code, which takes them from requests.
\<close>

section \<open>internal/domain\<close>

definition event_promotion :: string where "event_promotion = ''promotion_campaign''"
definition channel_email :: string where "channel_email = ''email''"

datatype notif_status = NPending | NProcessing | NSent | NDelivering | NFailed

fun notif_status_str :: "notif_status \<Rightarrow> string" where
  "notif_status_str NPending = ''pending''"
| "notif_status_str NProcessing = ''processing''"
| "notif_status_str NSent = ''sent''"
| "notif_status_str NDelivering = ''delivering''"
| "notif_status_str NFailed = ''failed''"

record notification =
  nt_id :: uuid
  nt_created :: gotime
  nt_updated :: gotime
  nt_event_id :: string
  nt_event :: string
  nt_user :: string
  nt_channel :: string
  nt_recipient :: string
  nt_subject :: string
  nt_content :: string
  nt_status :: notif_status
  nt_retry :: int
  nt_next_retry :: "gotime option"
  nt_error :: string
  nt_metadata :: string
  nt_scheduled :: gotime
  nt_sent :: "gotime option"

record notif_template =
  tp_event :: string
  tp_channel :: string
  tp_subject :: string
  tp_content :: string

datatype outbox_status = OPending | OProcessing | OPublished | OFailed

record outbox_event =
  ob_id :: uuid
  ob_aggregate :: uuid
  ob_aggregate_type :: string
  ob_event_type :: string
  ob_payload :: string
  ob_key :: string
  ob_status :: outbox_status
  ob_retry :: int
  ob_last_error :: "string option"
  ob_published :: "gotime option"
  ob_created :: gotime

record preference =
  pf_id :: uuid
  pf_user :: string
  pf_event :: string
  pf_channel :: string
  pf_enabled :: bool
  pf_updated :: gotime

record schedule =
  sc_id :: uuid
  sc_created :: gotime
  sc_user :: string
  sc_event :: string
  sc_time :: string
  sc_zone :: string
  sc_enabled :: bool
  sc_payload :: string
  sc_last :: "gotime option"

datatype campaign_status = CPending | CDispatching | CCompleted | CFailed

fun campaign_status_str :: "campaign_status \<Rightarrow> string" where
  "campaign_status_str CPending = ''pending''"
| "campaign_status_str CDispatching = ''dispatching''"
| "campaign_status_str CCompleted = ''completed''"
| "campaign_status_str CFailed = ''failed''"

record campaign =
  cp_id :: uuid
  cp_title :: string
  cp_subject :: string
  cp_content :: string
  cp_channel :: string
  cp_event :: string
  cp_audience :: string
  cp_filter :: string
  cp_status :: campaign_status
  cp_scheduled :: gotime
  cp_total :: int
  cp_cursor :: string
  cp_dispatched :: int
  cp_sent :: int
  cp_failed :: int
  cp_updated :: gotime

record campaign_recipient =
  rp_campaign :: uuid
  rp_user :: string
  rp_recipient :: string
  rp_status :: string

datatype dlq_status = DPending | DReplayed | DIgnored

fun dlq_status_str :: "dlq_status \<Rightarrow> string" where
  "dlq_status_str DPending = ''pending''"
| "dlq_status_str DReplayed = ''replayed''"
| "dlq_status_str DIgnored = ''ignored''"

record dlq_message =
  dq_id :: uuid
  dq_created :: gotime
  dq_notification :: "uuid option"
  dq_queue :: string
  dq_payload :: string
  dq_error :: string
  dq_status :: dlq_status

section \<open>internal/dto\<close>

text \<open>A value of \<open>map[string]interface{}\<close>: a string, or anything else by its JSON text.\<close>

datatype json_value = JString string | JOther string

type_synonym json_map = "(string \<times> json_value) list"

record notification_task =
  nk_notification :: string
  nk_user :: string
  nk_event :: string
  nk_recipient :: string
  nk_channel :: string
  nk_data :: "(string \<times> string) list"
  nk_retry :: int

record campaign_task =
  ck_campaign :: string
  ck_user :: string
  ck_event :: string
  ck_recipient :: string
  ck_channel :: string
  ck_subject :: string
  ck_content :: string

text \<open>\<open>task.Data[k]\<close> is the empty string for a missing key.\<close>

definition data_get :: "string \<Rightarrow> (string \<times> string) list \<Rightarrow> string" where
  "data_get k d = (case map_of d k of None \<Rightarrow> '''' | Some v \<Rightarrow> v)"

record preference_item =
  pi_id :: string
  pi_event :: string
  pi_channel :: string
  pi_enabled :: bool
  pi_updated :: gotime

text \<open>A record of the identity service's user stream.\<close>

record stream_user =
  su_id :: string
  su_email :: string

section \<open>internal/config\<close>

record notify_config =
  nc_exchange :: string
  nc_webhook_queue :: string
  nc_max_retries :: int
  nc_campaign_batch :: int
  nc_outbox_batch :: int
  nc_outbox_max :: int
  nc_smtp_host :: string
  nc_smtp_port :: int
  nc_smtp_user :: string
  nc_smtp_from :: string
  nc_mailpit_url :: string

section \<open>Libraries\<close>

text \<open>
  A \<open>*time.Location\<close>: the offset in force at an instant, and \<open>time.Date\<close> for a whole minute.
\<close>

record location =
  loc_offset :: "gotime \<Rightarrow> duration"
  loc_date :: "int \<Rightarrow> int \<Rightarrow> int \<Rightarrow> int \<Rightarrow> int \<Rightarrow> gotime"

text \<open>
  uuid, encoding/json at the types used, text/template, net/mail, time zones, RFC 3339, base64, and
  the parts of an HTTP exchange with Mailpit.
\<close>

record notify_lib =
  nl_uuid_str :: "uuid \<Rightarrow> string"
  nl_uuid_parse :: "string \<Rightarrow> goerr + uuid"
  nl_task_json :: "notification_task \<Rightarrow> goerr + string"
  nl_task_parse :: "string \<Rightarrow> goerr + notification_task"
  nl_campaign_json :: "campaign_task \<Rightarrow> goerr + string"
  nl_campaign_parse :: "string \<Rightarrow> goerr + campaign_task"
  nl_webhook_json :: "string \<Rightarrow> goerr + string"
  nl_webhook_parse :: "string \<Rightarrow> goerr + string"
  nl_map_json :: "json_map \<Rightarrow> goerr + string"
  nl_map_parse :: "string \<Rightarrow> goerr + json_map"
  nl_filter_json :: "string \<Rightarrow> goerr + string"
  nl_filter_parse :: "string \<Rightarrow> goerr + string"
  nl_prefs_json :: "preference_item list \<Rightarrow> goerr + string"
  nl_prefs_parse :: "string \<Rightarrow> goerr + preference_item list"
  nl_cursor_json :: "gotime \<times> string \<Rightarrow> string"
  nl_cursor_parse :: "string \<Rightarrow> goerr + (gotime \<times> string)"
  nl_b64_encode :: "string \<Rightarrow> string"
  nl_b64_decode :: "string \<Rightarrow> goerr + string"
  nl_render :: "string \<Rightarrow> json_map \<Rightarrow> goerr + string"
  nl_parse_address :: "string \<Rightarrow> goerr option"
  nl_load_location :: "string \<Rightarrow> goerr + location"
  nl_time_parse :: "string \<Rightarrow> goerr + gotime"
  nl_headers_parse :: "string \<Rightarrow> goerr + (string \<times> string list) list"
  nl_json_valid :: "string \<Rightarrow> bool"
  nl_utc :: location

section \<open>The state\<close>

record notify_world =
  nw_notifications :: "notification list"
  nw_outbox :: "outbox_event list"
  nw_templates :: "notif_template list"
  nw_prefs :: "preference list"
  nw_schedules :: "schedule list"
  nw_campaigns :: "campaign list"
  nw_recipients :: "campaign_recipient list"
  nw_dlq :: "dlq_message list"
  nw_cache :: "string rstore"
  nw_breaker :: breaker
  nw_published :: "(string \<times> string \<times> string) list"
  nw_mails :: "(string \<times> string) list"
  nw_ticks :: nat
  nw_uuids :: nat

section \<open>internal/repository\<close>

text \<open>
  GORM replaces a zero value by the column's default when it creates a row: \<open>Enabled bool\<close> with
  \<open>default:true\<close> is stored as true whatever the struct says, and the struct is changed too.
\<close>

definition gorm_default_true :: "bool \<Rightarrow> bool" where
  "gorm_default_true b = (if b then b else True)"

subsection \<open>notification_repository.go\<close>

text \<open>\<open>event_id\<close> has a unique index on the rows where it is not empty.\<close>

definition sql_notification_create ::
  "gotime \<Rightarrow> uuid \<Rightarrow> notification \<Rightarrow> notify_world \<Rightarrow> (goerr + notification) \<times> notify_world" where
  "sql_notification_create now fresh n w =
     (let row = n\<lparr>nt_id := fresh, nt_created := now, nt_updated := now,
                  nt_scheduled := (if nt_scheduled n = zero_time then now else nt_scheduled n)\<rparr> in
      if nt_event_id n \<noteq> '''' \<and> list_ex (\<lambda>x. nt_event_id x = nt_event_id n) (nw_notifications w)
      then (Inl (Plain ''duplicate key value violates unique constraint''), w)
      else (Inr row, w\<lparr>nw_notifications := insert_row row (nw_notifications w)\<rparr>))"

definition sql_exists_event :: "string \<Rightarrow> notify_world \<Rightarrow> bool" where
  "sql_exists_event event_id w =
     (if event_id = '''' then False else list_ex (\<lambda>n. nt_event_id n = event_id) (nw_notifications w))"

definition sql_update_delivery ::
  "gotime \<Rightarrow> uuid \<Rightarrow> notif_status \<Rightarrow> string \<Rightarrow> gotime option \<Rightarrow> int option \<Rightarrow> notify_world \<Rightarrow> notify_world" where
  "sql_update_delivery now i status error_message sent_at retry_count w =
     w\<lparr>nw_notifications := update_rows (\<lambda>n. nt_id n = i)
         (\<lambda>n. n\<lparr>nt_status := status, nt_updated := now, nt_error := error_message, nt_sent := sent_at,
                nt_retry := (case retry_count of Some k \<Rightarrow> k | None \<Rightarrow> nt_retry n)\<rparr>)
         (nw_notifications w)\<rparr>"

definition sql_claim_notifications :: "gotime \<Rightarrow> int \<Rightarrow> notify_world \<Rightarrow> notification list \<times> notify_world" where
  "sql_claim_notifications now lim w =
     (let claimed = limit_rows lim (sort_key nt_scheduled (sort_key nt_created (filter (\<lambda>n.
            nt_status n = NPending \<and> nt_scheduled n \<le> now \<and>
            (case nt_next_retry n of None \<Rightarrow> True | Some t \<Rightarrow> t \<le> now)) (nw_notifications w))))
      in (claimed,
          w\<lparr>nw_notifications := update_rows (\<lambda>n. nt_id n \<in> set (map nt_id claimed))
              (\<lambda>n. n\<lparr>nt_status := NProcessing, nt_updated := now\<rparr>) (nw_notifications w)\<rparr>))"

definition sql_retry_notification :: "gotime \<Rightarrow> uuid \<Rightarrow> string \<Rightarrow> gotime \<Rightarrow> notify_world \<Rightarrow> notify_world" where
  "sql_retry_notification now i error_message next_retry_at w =
     w\<lparr>nw_notifications := update_rows (\<lambda>n. nt_id n = i)
         (\<lambda>n. n\<lparr>nt_status := NPending, nt_retry := nt_retry n + 1, nt_error := error_message,
                nt_next_retry := Some next_retry_at, nt_updated := now\<rparr>) (nw_notifications w)\<rparr>"

record notification_filter =
  nf_user :: string
  nf_status :: string
  nf_channel :: string
  nf_event :: string
  nf_from :: "gotime option"
  nf_to :: "gotime option"
  nf_cursor :: "(gotime \<times> uuid) option"
  nf_limit :: int

definition filter_matches :: "notification_filter \<Rightarrow> notification \<Rightarrow> bool" where
  "filter_matches f n \<longleftrightarrow>
     nt_user n = nf_user f
     \<and> (nf_status f = '''' \<or> notif_status_str (nt_status n) = nf_status f)
     \<and> (nf_channel f = '''' \<or> nt_channel n = nf_channel f)
     \<and> (nf_event f = '''' \<or> nt_event n = nf_event f)
     \<and> (case nf_from f of None \<Rightarrow> True | Some t \<Rightarrow> t \<le> nt_created n)
     \<and> (case nf_to f of None \<Rightarrow> True | Some t \<Rightarrow> nt_created n \<le> t)"

text \<open>\<open>(created_at, id) < (?, ?)\<close> and \<open>ORDER BY created_at DESC, id DESC\<close>.\<close>

definition before_cursor :: "(gotime \<times> uuid) option \<Rightarrow> notification \<Rightarrow> bool" where
  "before_cursor cur n =
     (case cur of None \<Rightarrow> True | Some (t, i) \<Rightarrow> nt_created n < t \<or> nt_created n = t \<and> nt_id n < i)"

definition sql_list_notifications :: "notification_filter \<Rightarrow> notify_world \<Rightarrow> notification list" where
  "sql_list_notifications f w =
     limit_rows (nf_limit f)
       (rev (sort_key nt_created (sort_key nt_id
          (filter (\<lambda>n. filter_matches f n \<and> before_cursor (nf_cursor f) n) (nw_notifications w)))))"

subsection \<open>outbox_repository.go\<close>

definition sql_outbox_create :: "gotime \<Rightarrow> uuid \<Rightarrow> outbox_event \<Rightarrow> notify_world \<Rightarrow> notify_world" where
  "sql_outbox_create now fresh e w =
     w\<lparr>nw_outbox := insert_row (e\<lparr>ob_id := fresh, ob_created := now\<rparr>) (nw_outbox w)\<rparr>"

definition sql_outbox_claim :: "int \<Rightarrow> notify_world \<Rightarrow> outbox_event list \<times> notify_world" where
  "sql_outbox_claim lim w =
     (let claimed = limit_rows lim (sort_key ob_created
            (filter (\<lambda>e. ob_published e = None \<and> ob_status e = OPending) (nw_outbox w)))
      in (claimed,
          w\<lparr>nw_outbox := update_rows (\<lambda>e. ob_id e \<in> set (map ob_id claimed))
              (\<lambda>e. e\<lparr>ob_status := OProcessing, ob_last_error := None\<rparr>) (nw_outbox w)\<rparr>))"

definition sql_outbox_published :: "gotime \<Rightarrow> uuid \<Rightarrow> notify_world \<Rightarrow> notify_world" where
  "sql_outbox_published now i w =
     w\<lparr>nw_outbox := update_rows (\<lambda>e. ob_id e = i) (\<lambda>e. e\<lparr>ob_status := OPublished, ob_published := Some now\<rparr>) (nw_outbox w)\<rparr>"

definition sql_outbox_retry :: "uuid \<Rightarrow> string \<Rightarrow> notify_world \<Rightarrow> notify_world" where
  "sql_outbox_retry i msg w =
     w\<lparr>nw_outbox := update_rows (\<lambda>e. ob_id e = i)
         (\<lambda>e. e\<lparr>ob_status := OPending, ob_retry := ob_retry e + 1, ob_last_error := Some msg\<rparr>) (nw_outbox w)\<rparr>"

definition sql_outbox_failed :: "uuid \<Rightarrow> string \<Rightarrow> notify_world \<Rightarrow> notify_world" where
  "sql_outbox_failed i msg w =
     w\<lparr>nw_outbox := update_rows (\<lambda>e. ob_id e = i) (\<lambda>e. e\<lparr>ob_status := OFailed, ob_last_error := Some msg\<rparr>) (nw_outbox w)\<rparr>"

subsection \<open>template_repository.go, preference_repository.go\<close>

definition sql_template_get :: "string \<Rightarrow> notify_world \<Rightarrow> goerr + notif_template" where
  "sql_template_get event w = first_row (\<lambda>t. tp_event t = event) (nw_templates w)"

definition sql_template_create :: "notif_template \<Rightarrow> notify_world \<Rightarrow> goerr option \<times> notify_world" where
  "sql_template_create t w =
     (if list_ex (\<lambda>x. tp_event x = tp_event t) (nw_templates w)
      then (Some (Plain ''duplicate key value violates unique constraint''), w)
      else (None, w\<lparr>nw_templates := insert_row t (nw_templates w)\<rparr>))"

definition pref_key :: "preference \<Rightarrow> string \<times> string \<times> string" where
  "pref_key p = (pf_user p, pf_event p, pf_channel p)"

definition sql_prefs_by_user :: "string \<Rightarrow> notify_world \<Rightarrow> preference list" where
  "sql_prefs_by_user user w = filter (\<lambda>p. pf_user p = user) (nw_prefs w)"

definition sql_pref_enabled :: "string \<Rightarrow> string \<Rightarrow> string \<Rightarrow> notify_world \<Rightarrow> bool" where
  "sql_pref_enabled user event channel w =
     (case by_key pref_key (user, event, channel) (nw_prefs w) of None \<Rightarrow> True | Some p \<Rightarrow> pf_enabled p)"

text \<open>
  \<open>INSERT ... ON CONFLICT (user_id, event_type, channel) DO UPDATE SET enabled, updated_at\<close> of the
  excluded row; the result is the struct, with the id the database returns.
\<close>

definition sql_pref_upsert :: "gotime \<Rightarrow> uuid \<Rightarrow> preference \<Rightarrow> notify_world \<Rightarrow> preference \<times> notify_world" where
  "sql_pref_upsert now fresh p w =
     (let row = p\<lparr>pf_id := fresh, pf_enabled := gorm_default_true (pf_enabled p), pf_updated := now\<rparr> in
      case by_key pref_key (pref_key p) (nw_prefs w) of
        None \<Rightarrow> (row, w\<lparr>nw_prefs := insert_row row (nw_prefs w)\<rparr>)
      | Some old \<Rightarrow>
          (row\<lparr>pf_id := pf_id old\<rparr>,
           w\<lparr>nw_prefs := update_rows (\<lambda>x. pref_key x = pref_key p)
               (\<lambda>x. x\<lparr>pf_enabled := pf_enabled row, pf_updated := now\<rparr>) (nw_prefs w)\<rparr>))"

subsection \<open>schedule_repository.go\<close>

text \<open>
  \<open>Where(struct).Assign(struct).FirstOrCreate(s)\<close>: zero fields of both structs are ignored, so an empty
  user or event is no condition, and on an existing row a false \<open>Enabled\<close> or an empty payload is not
  assigned; \<open>s\<close> becomes the row. A new row takes the fields of \<open>s\<close>, with the defaults for zero values.
  The second statement writes the fields of \<open>s\<close> as they are by then.
\<close>

definition assign_schedule :: "schedule \<Rightarrow> schedule \<Rightarrow> schedule" where
  "assign_schedule s r =
     r\<lparr>sc_time := (if sc_time s = '''' then sc_time r else sc_time s),
       sc_zone := (if sc_zone s = '''' then sc_zone r else sc_zone s),
       sc_enabled := (if sc_enabled s then True else sc_enabled r),
       sc_payload := (if sc_payload s = '''' then sc_payload r else sc_payload s)\<rparr>"

definition schedule_selected :: "schedule \<Rightarrow> schedule \<Rightarrow> bool" where
  "schedule_selected s r \<longleftrightarrow>
     (sc_user s = '''' \<or> sc_user r = sc_user s) \<and> (sc_event s = '''' \<or> sc_event r = sc_event s)"

definition first_by_id :: "schedule list \<Rightarrow> schedule option" where
  "first_by_id rs = (case sort_key sc_id rs of [] \<Rightarrow> None | r # _ \<Rightarrow> Some r)"

definition sql_schedule_upsert :: "gotime \<Rightarrow> uuid \<Rightarrow> schedule \<Rightarrow> notify_world \<Rightarrow> schedule \<times> notify_world" where
  "sql_schedule_upsert now fresh s w =
     (case first_by_id (filter (schedule_selected s) (nw_schedules w)) of
        None \<Rightarrow>
          (let row = s\<lparr>sc_id := fresh, sc_created := now, sc_enabled := gorm_default_true (sc_enabled s),
                       sc_zone := (if sc_zone s = '''' then ''UTC'' else sc_zone s)\<rparr>
           in (row, w\<lparr>nw_schedules := insert_row row (nw_schedules w)\<rparr>))
      | Some r \<Rightarrow>
          (let row = assign_schedule s r
           in (row, w\<lparr>nw_schedules := update_rows (\<lambda>x. sc_id x = sc_id r) (\<lambda>_. row) (nw_schedules w)\<rparr>)))"

definition sql_schedules_by_user :: "string \<Rightarrow> notify_world \<Rightarrow> schedule list" where
  "sql_schedules_by_user user w = filter (\<lambda>s. sc_user s = user) (nw_schedules w)"

definition sql_due_candidates :: "gotime \<Rightarrow> notify_world \<Rightarrow> schedule list" where
  "sql_due_candidates now w =
     filter (\<lambda>s. sc_enabled s \<and> (case sc_last s of None \<Rightarrow> True | Some t \<Rightarrow> t < now - 20 * hour)) (nw_schedules w)"

definition sql_schedule_sent :: "uuid \<Rightarrow> gotime \<Rightarrow> notify_world \<Rightarrow> notify_world" where
  "sql_schedule_sent i sent_at w =
     w\<lparr>nw_schedules := update_rows (\<lambda>s. sc_id s = i) (\<lambda>s. s\<lparr>sc_last := Some sent_at\<rparr>) (nw_schedules w)\<rparr>"

definition sql_schedule_delete :: "string \<Rightarrow> string \<Rightarrow> notify_world \<Rightarrow> notify_world" where
  "sql_schedule_delete user event w =
     w\<lparr>nw_schedules := filter (\<lambda>s. \<not> (sc_user s = user \<and> sc_event s = event)) (nw_schedules w)\<rparr>"

subsection \<open>campaign_repository.go\<close>

definition sql_campaign_create :: "gotime \<Rightarrow> uuid \<Rightarrow> campaign \<Rightarrow> notify_world \<Rightarrow> campaign \<times> notify_world" where
  "sql_campaign_create now fresh c w =
     (let row = c\<lparr>cp_id := fresh, cp_updated := now\<rparr> in (row, w\<lparr>nw_campaigns := insert_row row (nw_campaigns w)\<rparr>))"

definition sql_campaign_get :: "uuid \<Rightarrow> notify_world \<Rightarrow> goerr + campaign" where
  "sql_campaign_get i w = first_row (\<lambda>c. cp_id c = i) (nw_campaigns w)"

record campaign_stats =
  cs_total :: int
  cs_cursor :: string
  cs_dispatched :: int
  cs_sent :: int
  cs_failed :: int
  cs_pending :: int

definition stats_of :: "campaign \<Rightarrow> campaign_stats" where
  "stats_of c =
     (let pending = cp_total c - cp_sent c - cp_failed c in
      \<lparr>cs_total = cp_total c, cs_cursor = cp_cursor c, cs_dispatched = cp_dispatched c, cs_sent = cp_sent c,
       cs_failed = cp_failed c, cs_pending = (if pending < 0 then 0 else pending)\<rparr>)"

text \<open>\<open>SELECT ... FOR UPDATE SKIP LOCKED\<close> and the update in one transaction; the struct takes the new status.\<close>

definition sql_campaign_claim :: "gotime \<Rightarrow> notify_world \<Rightarrow> campaign option \<times> notify_world" where
  "sql_campaign_claim now w =
     (case sort_key cp_scheduled (filter (\<lambda>c. cp_status c = CPending \<and> cp_scheduled c \<le> now) (nw_campaigns w)) of
        [] \<Rightarrow> (None, w)
      | c # _ \<Rightarrow>
          (Some (c\<lparr>cp_status := CDispatching, cp_updated := now\<rparr>),
           w\<lparr>nw_campaigns := update_rows (\<lambda>x. cp_id x = cp_id c)
               (\<lambda>x. x\<lparr>cp_status := CDispatching, cp_updated := now\<rparr>) (nw_campaigns w)\<rparr>))"

definition update_campaign :: "uuid \<Rightarrow> (campaign \<Rightarrow> campaign) \<Rightarrow> notify_world \<Rightarrow> notify_world" where
  "update_campaign i f w = w\<lparr>nw_campaigns := update_rows (\<lambda>c. cp_id c = i) f (nw_campaigns w)\<rparr>"

definition sql_campaign_total :: "gotime \<Rightarrow> uuid \<Rightarrow> int \<Rightarrow> notify_world \<Rightarrow> notify_world" where
  "sql_campaign_total now i n = update_campaign i (\<lambda>c. c\<lparr>cp_total := n, cp_updated := now\<rparr>)"

definition sql_campaign_checkpoint :: "gotime \<Rightarrow> uuid \<Rightarrow> string \<Rightarrow> int \<Rightarrow> notify_world \<Rightarrow> notify_world" where
  "sql_campaign_checkpoint now i cursor n =
     update_campaign i (\<lambda>c. c\<lparr>cp_cursor := cursor, cp_dispatched := cp_dispatched c + n, cp_updated := now\<rparr>)"

definition sql_campaign_mark :: "gotime \<Rightarrow> uuid \<Rightarrow> campaign_status \<Rightarrow> notify_world \<Rightarrow> notify_world" where
  "sql_campaign_mark now i status = update_campaign i (\<lambda>c. c\<lparr>cp_status := status, cp_updated := now\<rparr>)"

definition sql_recipient_create :: "campaign_recipient \<Rightarrow> notify_world \<Rightarrow> notify_world" where
  "sql_recipient_create r w = w\<lparr>nw_recipients := insert_row r (nw_recipients w)\<rparr>"

definition sql_campaign_increment :: "gotime \<Rightarrow> uuid \<Rightarrow> string \<Rightarrow> notify_world \<Rightarrow> goerr option \<times> notify_world" where
  "sql_campaign_increment now i field w =
     (if field \<noteq> ''sent_count'' \<and> field \<noteq> ''failed_count''
      then (Some (Plain (''invalid counter field: '' @ field)), w)
      else (None, update_campaign i (\<lambda>c. if field = ''sent_count''
              then c\<lparr>cp_sent := cp_sent c + 1, cp_updated := now\<rparr>
              else c\<lparr>cp_failed := cp_failed c + 1, cp_updated := now\<rparr>) w))"

subsection \<open>dlq_repository.go\<close>

text \<open>
  The column \<open>payload\<close> is \<open>jsonb\<close>, which takes valid JSON only, and \<open>notification_id\<close> references the
  notifications.
\<close>

definition dlq_storable :: "notify_lib \<Rightarrow> dlq_message \<Rightarrow> notify_world \<Rightarrow> bool" where
  "dlq_storable lib m w \<longleftrightarrow>
     nl_json_valid lib (dq_payload m)
     \<and> (case dq_notification m of None \<Rightarrow> True | Some i \<Rightarrow> list_ex (\<lambda>n. nt_id n = i) (nw_notifications w))"

definition sql_dlq_save :: "gotime \<Rightarrow> uuid \<Rightarrow> dlq_message \<Rightarrow> notify_world \<Rightarrow> notify_world" where
  "sql_dlq_save now fresh m w = w\<lparr>nw_dlq := insert_row (m\<lparr>dq_id := fresh, dq_created := now\<rparr>) (nw_dlq w)\<rparr>"

definition sql_dlq_get :: "uuid \<Rightarrow> notify_world \<Rightarrow> goerr + dlq_message" where
  "sql_dlq_get i w = first_row (\<lambda>m. dq_id m = i) (nw_dlq w)"

definition dlq_matches :: "string \<Rightarrow> dlq_message \<Rightarrow> bool" where
  "dlq_matches status m \<longleftrightarrow> status = '''' \<or> dlq_status_str (dq_status m) = status"

definition sql_dlq_list :: "string \<Rightarrow> int \<Rightarrow> int \<Rightarrow> notify_world \<Rightarrow> dlq_message list \<times> int" where
  "sql_dlq_list status page lim w =
     (let rows = filter (dlq_matches status) (nw_dlq w); offset = int64 (int64 (page - 1) * lim) in
      (limit_rows lim (offset_rows offset (sort_key (\<lambda>m. - dq_created m) rows)), int (length rows)))"

definition sql_dlq_status :: "uuid \<Rightarrow> dlq_status \<Rightarrow> notify_world \<Rightarrow> notify_world" where
  "sql_dlq_status i status w = w\<lparr>nw_dlq := update_rows (\<lambda>m. dq_id m = i) (\<lambda>m. m\<lparr>dq_status := status\<rparr>) (nw_dlq w)\<rparr>"

end
