(* ===== verification/NotifyCalls.thy ===== *)
theory NotifyCalls
  imports NotifyDomain Program
begin

text \<open>
  The calls the functions of the notification service make, the environment that decides how they
  turn out, and \<open>notify_handle\<close>, which gives each call its meaning on the state. A repository method
  is one call (a transaction is one call too), so is a publication, a cache access, a reading of
  the clock, and \<open>sendEmail\<close>'s passage through the circuit breaker, which holds its mutex.
  \<open>NTxInsert\<close> is the insert of a transaction that is rolled back afterwards.
\<close>

section \<open>Calls and replies\<close>

datatype notify_call =
    NCreate notification
  | NCreateWithOutbox notification
  | NTxInsert notification
  | NExists string
  | NUpdateDelivery uuid notif_status string "gotime option" "int option"
  | NClaimNotifications int
  | NRetryNotification uuid string gotime
  | NList notification_filter
  | NTemplateGet string
  | NTemplateCreate notif_template
  | NPrefsByUser string
  | NPrefEnabled string string string
  | NPrefUpsert preference
  | NScheduleUpsert schedule
  | NSchedulesByUser string
  | NDueCandidates
  | NScheduleSent uuid gotime
  | NScheduleDelete string string
  | NCampaignCreate campaign
  | NCampaignGet uuid
  | NCampaignClaim
  | NCampaignTotal uuid int
  | NCampaignCheckpoint uuid string int
  | NCampaignMark uuid campaign_status
  | NRecipientCreate campaign_recipient
  | NCampaignIncrement uuid string
  | NOutboxClaim int
  | NOutboxPublished uuid
  | NOutboxRetry uuid string
  | NOutboxFailed uuid string uuid string
  | NDlqSave dlq_message
  | NDlqGet uuid
  | NDlqList string int int
  | NDlqStatus uuid dlq_status
  | NPublish string string string
  | NSendMail string string string
  | NCacheGet string
  | NCacheSet string string duration
  | NCacheDel "string list"
  | NCountUsers string
  | NStream string string int
  | NHttpGet string
  | NContextErr
  | NSleep duration
  | NNow

datatype notify_reply =
    NError (n_error: "goerr option")
  | NNotification (n_notification: "goerr + notification")
  | NNotifications (n_notifications: "goerr + notification list")
  | NBool (n_bool: "goerr + bool")
  | NTemplate (n_template: "goerr + notif_template")
  | NPref (n_pref: "goerr + preference")
  | NPrefs (n_prefs: "goerr + preference list")
  | NSchedule (n_schedule: "goerr + schedule")
  | NSchedules (n_schedules: "goerr + schedule list")
  | NCampaign (n_campaign: "goerr + campaign")
  | NClaimed (n_claimed: "goerr + campaign option")
  | NOutbox (n_outbox: "goerr + outbox_event list")
  | NDlq (n_dlq: "goerr + dlq_message")
  | NDlqs (n_dlqs: "goerr + (dlq_message list \<times> int)")
  | NText (n_text: "goerr + string")
  | NCount (n_count: "goerr + int")
  | NUsers (n_users: "goerr + (stream_user list \<times> goerr option)")
  | NHttp (n_http: "goerr + (int \<times> string)")
  | NTime (n_time: gotime)

type_synonym 'a notify_prog = "(notify_call, notify_reply, 'a) prog"

text \<open>
  What is decided outside. \<open>ne_db\<close>: whether a statement fails; \<open>ne_publish\<close>, \<open>ne_smtp\<close>: what the broker
  and the mail server answer; \<open>ne_stream\<close>: whether the identity service opens a stream, the users it
  streams, and how the stream ends.
\<close>

record notify_env =
  ne_db :: "notify_call \<Rightarrow> goerr option"
  ne_cache :: "notify_call \<Rightarrow> goerr option"
  ne_publish :: "string \<Rightarrow> string \<Rightarrow> string \<Rightarrow> goerr option"
  ne_smtp :: "string \<Rightarrow> string \<Rightarrow> goerr option"
  ne_clock :: "nat \<Rightarrow> gotime"
  ne_uuid :: "nat \<Rightarrow> uuid"
  ne_count :: "string \<Rightarrow> goerr + int"
  ne_stream :: "string \<Rightarrow> string \<Rightarrow> int \<Rightarrow> goerr + (stream_user list \<times> goerr option)"
  ne_http :: "string \<Rightarrow> goerr + (int \<times> string)"
  ne_context :: "goerr option"

definition nnow :: "notify_env \<Rightarrow> notify_world \<Rightarrow> gotime \<times> notify_world" where
  "nnow env w = (ne_clock env (nw_ticks w), w\<lparr>nw_ticks := Suc (nw_ticks w)\<rparr>)"

definition nuuid :: "notify_env \<Rightarrow> notify_world \<Rightarrow> uuid \<times> notify_world" where
  "nuuid env w = (ne_uuid env (nw_uuids w), w\<lparr>nw_uuids := Suc (nw_uuids w)\<rparr>)"

section \<open>The outbox event of a notification\<close>

text \<open>
  \<open>createWithOutbox\<close>, the body of its transaction after the insert: the payload is the task for the
  email worker, the routing key is the channel. The trace context is not modelled.
\<close>

definition outbox_task :: "notify_lib \<Rightarrow> notification \<Rightarrow> notification_task" where
  "outbox_task lib n =
     \<lparr>nk_notification = nl_uuid_str lib (nt_id n), nk_user = nt_user n, nk_event = nt_event n,
      nk_recipient = nt_recipient n, nk_channel = nt_channel n,
      nk_data = [(''subject'', nt_subject n), (''content'', nt_content n)], nk_retry = nt_retry n\<rparr>"

definition outbox_event_of :: "notify_lib \<Rightarrow> notification \<Rightarrow> goerr + outbox_event" where
  "outbox_event_of lib created =
     (case nl_task_json lib (outbox_task lib created) of
        Inl err \<Rightarrow> Inl err
      | Inr payload \<Rightarrow>
          Inr \<lparr>ob_id = 0, ob_aggregate = nt_id created, ob_aggregate_type = ''notification'',
               ob_event_type = ''notification.created'', ob_payload = payload, ob_key = nt_channel created,
               ob_status = OPending, ob_retry = 0, ob_last_error = None, ob_published = None, ob_created = zero_time\<rparr>)"

text \<open>
  The transaction. \<open>fault\<close> says whether one of its statements or the commit fails; every failure rolls
  back both inserts.
\<close>

definition tx_create_with_outbox ::
  "notify_lib \<Rightarrow> notify_env \<Rightarrow> goerr option \<Rightarrow> notification \<Rightarrow> notify_world \<Rightarrow> (goerr + notification) \<times> notify_world" where
  "tx_create_with_outbox lib env fault n w =
     (case nnow env w of (now, w1) \<Rightarrow>
      case nuuid env w1 of (fresh, w2) \<Rightarrow>
      case nuuid env w2 of (fresh', w3) \<Rightarrow>
        (case sql_notification_create now fresh n w3 of
           (Inl err, _) \<Rightarrow> (Inl err, w3)
         | (Inr created, w4) \<Rightarrow>
             (case outbox_event_of lib created of
                Inl err \<Rightarrow> (Inl err, w3)
              | Inr ev \<Rightarrow>
                  (case fault of
                     Some err \<Rightarrow> (Inl err, w3)
                   | None \<Rightarrow> (Inr created, sql_outbox_create now fresh' ev w4)))))"

section \<open>Sending a mail\<close>

definition mail_body :: "string \<Rightarrow> string \<Rightarrow> string \<Rightarrow> string \<Rightarrow> string" where
  "mail_body to subject i body =
     (let crlf = [CHR 0x0D, CHR 0x0A] in
      ''To: '' @ to @ crlf @ ''Subject: '' @ subject @ crlf @ ''X-Notification-ID: '' @ i @ crlf @ crlf @ body @ crlf)"

text \<open>The operation of the breaker: \<open>smtp.SendMail\<close>.\<close>

definition smtp_send :: "notify_env \<Rightarrow> string \<Rightarrow> string \<Rightarrow> notify_world \<Rightarrow> goerr option \<times> notify_world" where
  "smtp_send env to msg w =
     (case ne_smtp env to msg of
        Some err \<Rightarrow> (Some err, w)
      | None \<Rightarrow> (None, w\<lparr>nw_mails := nw_mails w @ [(to, msg)]\<rparr>))"

definition breaker_send :: "notify_env \<Rightarrow> string \<Rightarrow> string \<Rightarrow> notify_world \<Rightarrow> goerr option \<times> notify_world" where
  "breaker_send env to msg w =
     (case nnow env w of (since, w1) \<Rightarrow>
      case nnow env w1 of (now, w2) \<Rightarrow>
        (case cb_execute (smtp_send env to msg) since now (nw_breaker w2) w2 of
           (r, cb, w3) \<Rightarrow> (r, w3\<lparr>nw_breaker := cb\<rparr>)))"

section \<open>What each call does\<close>

text \<open>A statement that writes and one that reads; the clock is read for \<open>updated_at\<close> and \<open>NOW()\<close>.\<close>

definition nexec :: "notify_env \<Rightarrow> notify_call \<Rightarrow> (gotime \<Rightarrow> notify_world \<Rightarrow> notify_world) \<Rightarrow> notify_world
    \<Rightarrow> notify_reply \<times> notify_world" where
  "nexec env c f w =
     (case ne_db env c of
        Some e \<Rightarrow> (NError (Some e), w)
      | None \<Rightarrow> (case nnow env w of (now, w') \<Rightarrow> (NError None, f now w')))"

definition nread :: "notify_env \<Rightarrow> notify_call \<Rightarrow> (goerr + 'x) \<Rightarrow> goerr + 'x" where
  "nread env c r = (case ne_db env c of Some e \<Rightarrow> Inl e | None \<Rightarrow> r)"

text \<open>A statement with a result of its own, given the clock and a fresh uuid.\<close>

definition nstmt :: "notify_env \<Rightarrow> notify_call \<Rightarrow> (goerr + 'x \<Rightarrow> notify_reply)
    \<Rightarrow> (gotime \<Rightarrow> uuid \<Rightarrow> notify_world \<Rightarrow> (goerr + 'x) \<times> notify_world) \<Rightarrow> notify_world \<Rightarrow> notify_reply \<times> notify_world" where
  "nstmt env c reply f w =
     (case ne_db env c of
        Some e \<Rightarrow> (reply (Inl e), w)
      | None \<Rightarrow>
          (case nnow env w of (now, w1) \<Rightarrow> case nuuid env w1 of (fresh, w2) \<Rightarrow>
             (case f now fresh w2 of (r, w3) \<Rightarrow> (reply r, w3))))"

text \<open>The \<open>LIMIT\<close> of a raw statement is checked by Postgres.\<close>

definition raw_limit :: "int \<Rightarrow> (notify_world \<Rightarrow> 'x \<times> notify_world) \<Rightarrow> notify_world \<Rightarrow> (goerr + 'x) \<times> notify_world" where
  "raw_limit n f w =
     (if n < 0 then (Inl (Plain ''LIMIT must not be negative''), w) else (case f w of (r, w') \<Rightarrow> (Inr r, w')))"


fun notify_handle :: "notify_lib \<Rightarrow> notify_env \<Rightarrow> notify_call \<Rightarrow> notify_world \<Rightarrow> notify_reply \<times> notify_world" where
  "notify_handle lib env (NCreate n) w =
     nstmt env (NCreate n) NNotification (\<lambda>now fresh. sql_notification_create now fresh n) w"
| "notify_handle lib env (NCreateWithOutbox n) w =
     (case tx_create_with_outbox lib env (ne_db env (NCreateWithOutbox n)) n w of (r, w') \<Rightarrow> (NNotification r, w'))"
| "notify_handle lib env (NTxInsert n) w =
     nstmt env (NTxInsert n) NNotification (\<lambda>now fresh w. (fst (sql_notification_create now fresh n w), w)) w"
| "notify_handle lib env (NExists e) w = (NBool (nread env (NExists e) (Inr (sql_exists_event e w))), w)"
| "notify_handle lib env (NUpdateDelivery i st msg sent retry) w =
     nexec env (NUpdateDelivery i st msg sent retry) (\<lambda>now. sql_update_delivery now i st msg sent retry) w"
| "notify_handle lib env (NClaimNotifications n) w =
     nstmt env (NClaimNotifications n) NNotifications
       (\<lambda>now _ w. raw_limit n (sql_claim_notifications now n) w) w"
| "notify_handle lib env (NRetryNotification i msg t) w =
     nexec env (NRetryNotification i msg t) (\<lambda>now. sql_retry_notification now i msg t) w"
| "notify_handle lib env (NList f) w = (NNotifications (nread env (NList f) (Inr (sql_list_notifications f w))), w)"
| "notify_handle lib env (NTemplateGet e) w = (NTemplate (nread env (NTemplateGet e) (sql_template_get e w)), w)"
| "notify_handle lib env (NTemplateCreate t) w =
     (case ne_db env (NTemplateCreate t) of
        Some e \<Rightarrow> (NError (Some e), w)
      | None \<Rightarrow> (case sql_template_create t w of (r, w') \<Rightarrow> (NError r, w')))"
| "notify_handle lib env (NPrefsByUser u) w = (NPrefs (nread env (NPrefsByUser u) (Inr (sql_prefs_by_user u w))), w)"
| "notify_handle lib env (NPrefEnabled u e c) w =
     (NBool (nread env (NPrefEnabled u e c) (Inr (sql_pref_enabled u e c w))), w)"
| "notify_handle lib env (NPrefUpsert p) w =
     nstmt env (NPrefUpsert p) NPref (\<lambda>now fresh w. case sql_pref_upsert now fresh p w of (r, w') \<Rightarrow> (Inr r, w')) w"
| "notify_handle lib env (NScheduleUpsert s) w =
     nstmt env (NScheduleUpsert s) NSchedule
       (\<lambda>now fresh w. case sql_schedule_upsert now fresh s w of (r, w') \<Rightarrow> (Inr r, w')) w"
| "notify_handle lib env (NSchedulesByUser u) w =
     (NSchedules (nread env (NSchedulesByUser u) (Inr (sql_schedules_by_user u w))), w)"
| "notify_handle lib env NDueCandidates w =
     (case nnow env w of (now, w') \<Rightarrow> (NSchedules (nread env NDueCandidates (Inr (sql_due_candidates now w'))), w'))"
| "notify_handle lib env (NScheduleSent i t) w = nexec env (NScheduleSent i t) (\<lambda>_. sql_schedule_sent i t) w"
| "notify_handle lib env (NScheduleDelete u e) w = nexec env (NScheduleDelete u e) (\<lambda>_. sql_schedule_delete u e) w"
| "notify_handle lib env (NCampaignCreate c) w =
     nstmt env (NCampaignCreate c) NCampaign
       (\<lambda>now fresh w. case sql_campaign_create now fresh c w of (r, w') \<Rightarrow> (Inr r, w')) w"
| "notify_handle lib env (NCampaignGet i) w = (NCampaign (nread env (NCampaignGet i) (sql_campaign_get i w)), w)"
| "notify_handle lib env NCampaignClaim w =
     nstmt env NCampaignClaim NClaimed (\<lambda>now _ w. case sql_campaign_claim now w of (r, w') \<Rightarrow> (Inr r, w')) w"
| "notify_handle lib env (NCampaignTotal i n) w = nexec env (NCampaignTotal i n) (\<lambda>now. sql_campaign_total now i n) w"
| "notify_handle lib env (NCampaignCheckpoint i cur n) w =
     nexec env (NCampaignCheckpoint i cur n) (\<lambda>now. sql_campaign_checkpoint now i cur n) w"
| "notify_handle lib env (NCampaignMark i st) w = nexec env (NCampaignMark i st) (\<lambda>now. sql_campaign_mark now i st) w"
| "notify_handle lib env (NRecipientCreate r) w = nexec env (NRecipientCreate r) (\<lambda>_. sql_recipient_create r) w"
| "notify_handle lib env (NCampaignIncrement i f) w =
     (case ne_db env (NCampaignIncrement i f) of
        Some e \<Rightarrow> (NError (Some e), w)
      | None \<Rightarrow> (case nnow env w of (now, w1) \<Rightarrow> (case sql_campaign_increment now i f w1 of (r, w2) \<Rightarrow> (NError r, w2))))"
| "notify_handle lib env (NOutboxClaim n) w =
     nstmt env (NOutboxClaim n) NOutbox (\<lambda>_ _ w. raw_limit n (sql_outbox_claim n) w) w"
| "notify_handle lib env (NOutboxPublished i) w = nexec env (NOutboxPublished i) (\<lambda>now. sql_outbox_published now i) w"
| "notify_handle lib env (NOutboxRetry i msg) w = nexec env (NOutboxRetry i msg) (\<lambda>_. sql_outbox_retry i msg) w"
| "notify_handle lib env (NOutboxFailed i msg agg msg') w =
     nexec env (NOutboxFailed i msg agg msg')
       (\<lambda>now w. sql_update_delivery now agg NFailed msg' None None (sql_outbox_failed i msg w)) w"
| "notify_handle lib env (NDlqSave m) w =
     nstmt env (NDlqSave m) (\<lambda>r. NError (case r of Inl e \<Rightarrow> Some e | Inr () \<Rightarrow> None))
       (\<lambda>now fresh w. if dlq_storable lib m w then (Inr (), sql_dlq_save now fresh m w)
          else (Inl (Plain ''invalid dlq message''), w)) w"
| "notify_handle lib env (NDlqGet i) w = (NDlq (nread env (NDlqGet i) (sql_dlq_get i w)), w)"
| "notify_handle lib env (NDlqList st page lim) w =
     (NDlqs (nread env (NDlqList st page lim) (Inr (sql_dlq_list st page lim w))), w)"
| "notify_handle lib env (NDlqStatus i st) w = nexec env (NDlqStatus i st) (\<lambda>_. sql_dlq_status i st) w"
| "notify_handle lib env (NPublish ex key body) w =
     (case ne_publish env ex key body of
        Some e \<Rightarrow> (NError (Some e), w)
      | None \<Rightarrow> (NError None, w\<lparr>nw_published := nw_published w @ [(ex, key, body)]\<rparr>))"
| "notify_handle lib env (NSendMail to from_addr msg) w = (case breaker_send env to msg w of (r, w') \<Rightarrow> (NError r, w'))"
| "notify_handle lib env (NCacheGet k) w =
     (case nnow env w of (now, w1) \<Rightarrow> (NText (cache_get Inr (ne_cache env (NCacheGet k)) now k (nw_cache w1)), w1))"
| "notify_handle lib env (NCacheSet k v d) w =
     (case nnow env w of (now, w1) \<Rightarrow>
       (case cache_set Inr (ne_cache env (NCacheSet k v d)) now k v d (nw_cache w1) of
          (r, st) \<Rightarrow> (NError r, w1\<lparr>nw_cache := st\<rparr>)))"
| "notify_handle lib env (NCacheDel ks) w =
     (case cache_delete (ne_cache env (NCacheDel ks)) ks (nw_cache w) of (r, st) \<Rightarrow> (NError r, w\<lparr>nw_cache := st\<rparr>))"
| "notify_handle lib env (NCountUsers role) w = (NCount (ne_count env role), w)"
| "notify_handle lib env (NStream role cur n) w = (NUsers (ne_stream env role cur n), w)"
| "notify_handle lib env (NHttpGet url) w = (NHttp (ne_http env url), w)"
| "notify_handle lib env NContextErr w = (NError (ne_context env), w)"
| "notify_handle lib env (NSleep d) w = (NError (ne_context env), w)"
| "notify_handle lib env NNow w = (case nnow env w of (now, w1) \<Rightarrow> (NTime now, w1))"

lemmas notify_call_defs = nexec_def nread_def nstmt_def nnow_def nuuid_def raw_limit_def

section \<open>An instance\<close>

text \<open>
  Libraries, an environment and an empty state the witnesses start from: texts are written in unary or
  taken as they are, everything outside answers, and the clock advances by one.
\<close>

definition unary :: "int \<Rightarrow> string" where
  "unary k = (if 0 \<le> k then replicate (nat k) CHR ''+'' else replicate (nat (- k)) CHR ''-'')"

definition unary_parse :: "string \<Rightarrow> int" where
  "unary_parse s = (case s of [] \<Rightarrow> 0 | c # _ \<Rightarrow> if c = CHR ''+'' then int (length s) else - int (length s))"

lemma unary_parse_unary [simp]: "unary_parse (unary k) = k"
proof (cases "k = 0")
  case False
  then obtain m where "nat \<bar>k\<bar> = Suc m" by (cases "nat \<bar>k\<bar>") auto
  then show ?thesis by (cases "0 \<le> k") (auto simp: unary_def unary_parse_def split: list.splits)
qed (simp add: unary_def unary_parse_def)

definition demo_task :: notification_task where
  "demo_task = \<lparr>nk_notification = ''+'', nk_user = ''u'', nk_event = ''welcome'', nk_recipient = ''u@x'',
                nk_channel = ''email'', nk_data = [], nk_retry = 0\<rparr>"

definition demo_campaign_task :: campaign_task where
  "demo_campaign_task = \<lparr>ck_campaign = ''+'', ck_user = ''u'', ck_event = ''promotion_campaign'', ck_recipient = ''u@x'',
                         ck_channel = ''email'', ck_subject = ''s'', ck_content = ''c''\<rparr>"

definition demo_location :: location where
  "demo_location = \<lparr>loc_offset = (\<lambda>_. 0), loc_date = (\<lambda>y mo d h mi. h * hour + mi * minute)\<rparr>"

definition demo_nlib :: notify_lib where
  "demo_nlib =
     \<lparr>nl_uuid_str = (\<lambda>i. unary (uint i)), nl_uuid_parse = (\<lambda>s. Inr (word_of_int (unary_parse s))),
      nl_task_json = (\<lambda>t. Inr (unary (nk_retry t))), nl_task_parse = (\<lambda>s. Inr (demo_task\<lparr>nk_retry := unary_parse s\<rparr>)),
      nl_campaign_json = (\<lambda>t. Inr (ck_user t)), nl_campaign_parse = (\<lambda>s. Inr (demo_campaign_task\<lparr>ck_user := s\<rparr>)),
      nl_webhook_json = Inr, nl_webhook_parse = Inr,
      nl_map_json = (\<lambda>_. Inr ''{}''), nl_map_parse = (\<lambda>_. Inr []), nl_filter_json = Inr, nl_filter_parse = Inr,
      nl_prefs_json = (\<lambda>ps. Inr (unary (int (length ps)))),
      nl_prefs_parse = (\<lambda>s. Inr (replicate (nat (unary_parse s)) \<lparr>pi_id = '''', pi_event = '''', pi_channel = '''',
                                                           pi_enabled = True, pi_updated = 0\<rparr>)),
      nl_cursor_json = (\<lambda>(t, s). unary t @ ''/'' @ s),
      nl_cursor_parse = (\<lambda>s. Inr (unary_parse (takeWhile ((\<noteq>) CHR ''/'') s), tl (dropWhile ((\<noteq>) CHR ''/'') s))),
      nl_b64_encode = (\<lambda>s. s), nl_b64_decode = Inr, nl_render = (\<lambda>s _. Inr s), nl_parse_address = (\<lambda>_. None),
      nl_load_location = (\<lambda>_. Inr demo_location), nl_time_parse = (\<lambda>s. Inr (unary_parse s)),
      nl_headers_parse = (\<lambda>s. Inr [(''X-Notification-Id'', [s])]), nl_json_valid = (\<lambda>_. True), nl_utc = demo_location\<rparr>"

definition demo_nenv :: notify_env where
  "demo_nenv =
     \<lparr>ne_db = (\<lambda>_. None), ne_cache = (\<lambda>_. None), ne_publish = (\<lambda>_ _ _. None), ne_smtp = (\<lambda>_ _. None),
      ne_clock = int, ne_uuid = of_nat, ne_count = (\<lambda>_. Inr 0), ne_stream = (\<lambda>_ _ _. Inr ([], None)),
      ne_http = (\<lambda>_. Inr (200, '''')), ne_context = None\<rparr>"

definition demo_nworld :: notify_world where
  "demo_nworld =
     \<lparr>nw_notifications = [], nw_outbox = [], nw_templates = [], nw_prefs = [], nw_schedules = [], nw_campaigns = [],
      nw_recipients = [], nw_dlq = [], nw_cache = Map.empty, nw_breaker = new_breaker 5 minute,
      nw_published = [], nw_mails = [], nw_ticks = 1, nw_uuids = 1\<rparr>"

definition demo_nconfig :: notify_config where
  "demo_nconfig =
     \<lparr>nc_exchange = ''notifications'', nc_webhook_queue = ''webhook.mailpit'', nc_max_retries = 3, nc_campaign_batch = 2,
      nc_outbox_batch = 10, nc_outbox_max = 3, nc_smtp_host = ''h'', nc_smtp_port = 25, nc_smtp_user = '''',
      nc_smtp_from = ''n@x'', nc_mailpit_url = ''http://mailpit''\<rparr>"

definition demo_notification :: notification where
  "demo_notification =
     \<lparr>nt_id = 1, nt_created = 0, nt_updated = 0, nt_event_id = '''', nt_event = ''welcome'', nt_user = ''u'',
      nt_channel = ''email'', nt_recipient = ''u@x'', nt_subject = ''s'', nt_content = ''c'', nt_status = NPending,
      nt_retry = 0, nt_next_retry = None, nt_error = '''', nt_metadata = '''', nt_scheduled = 0, nt_sent = None\<rparr>"

lemmas demo_notify_defs =
  demo_task_def demo_campaign_task_def demo_location_def demo_nlib_def demo_nenv_def demo_nworld_def demo_nconfig_def
  demo_notification_def

end
