(* ===== verification/Preferences.thy ===== *)
theory Preferences
  imports NotifyCalls
begin

text \<open>
  services/notification/internal/service/preference_service.go: what a user wants to receive, cached in
  Redis for five minutes. Only promotions can be switched off.
\<close>

section \<open>The service\<close>

definition pref_cache_ttl :: duration where "pref_cache_ttl = 5 * minute"

definition pref_cache_key :: "string \<Rightarrow> string" where
  "pref_cache_key user_id = ''pref:'' @ user_id"

definition to_preference_items :: "notify_lib \<Rightarrow> preference list \<Rightarrow> preference_item list" where
  "to_preference_items lib rows =
     map (\<lambda>r. \<lparr>pi_id = nl_uuid_str lib (pf_id r), pi_event = pf_event r, pi_channel = pf_channel r,
              pi_enabled = pf_enabled r, pi_updated = pf_updated r\<rparr>) rows"

text \<open>\<open>cache.Get\<close> into a list of items: the text is read and unmarshalled.\<close>

definition cached_items :: "notify_lib \<Rightarrow> string \<Rightarrow> (preference_item list option \<Rightarrow> 'a notify_prog) \<Rightarrow> 'a notify_prog" where
  "cached_items lib user_id k =
     Call (NCacheGet (pref_cache_key user_id)) (\<lambda>r.
       case n_text r of
         Inl _ \<Rightarrow> k None
       | Inr text \<Rightarrow> (case nl_prefs_parse lib text of Inl _ \<Rightarrow> k None | Inr items \<Rightarrow> k (Some items)))"

definition cache_items :: "notify_lib \<Rightarrow> string \<Rightarrow> preference_item list \<Rightarrow> 'a notify_prog \<Rightarrow> 'a notify_prog" where
  "cache_items lib user_id items k =
     (case nl_prefs_json lib items of
        Inl _ \<Rightarrow> k
      | Inr text \<Rightarrow> Call (NCacheSet (pref_cache_key user_id) text pref_cache_ttl) (\<lambda>_. k))"

definition get_preferences :: "notify_lib \<Rightarrow> string \<Rightarrow> (goerr + (string \<times> preference_item list)) notify_prog" where
  "get_preferences lib user_id =
     cached_items lib user_id (\<lambda>cached.
       case cached of
         Some items \<Rightarrow> Return (Inr (user_id, items))
       | None \<Rightarrow>
           Call (NPrefsByUser user_id) (\<lambda>r.
             case n_prefs r of
               Inl err \<Rightarrow> Return (Inl (Wrap ''failed to get preferences: '' err))
             | Inr rows \<Rightarrow>
                 (let items = to_preference_items lib rows in
                  cache_items lib user_id items (Return (Inr (user_id, items))))))"

record upsert_preference_item =
  ui_event :: string
  ui_channel :: string
  ui_enabled :: bool

definition blank_preference :: "string \<Rightarrow> upsert_preference_item \<Rightarrow> preference" where
  "blank_preference user_id item =
     \<lparr>pf_id = 0, pf_user = user_id, pf_event = ui_event item, pf_channel = ui_channel item,
      pf_enabled = ui_enabled item, pf_updated = zero_time\<rparr>"

primrec upsert_each ::
  "string \<Rightarrow> upsert_preference_item list \<Rightarrow> preference list \<Rightarrow> (goerr + preference list \<Rightarrow> 'a notify_prog) \<Rightarrow> 'a notify_prog" where
  "upsert_each user_id [] upserted k = k (Inr upserted)"
| "upsert_each user_id (item # items) upserted k =
     Call (NPrefUpsert (blank_preference user_id item)) (\<lambda>r.
       case n_pref r of
         Inl err \<Rightarrow> k (Inl (Wrap ''failed to upsert preference: '' err))
       | Inr p \<Rightarrow> upsert_each user_id items (upserted @ [p]) k)"

definition upsert_preferences ::
  "notify_lib \<Rightarrow> string \<Rightarrow> upsert_preference_item list \<Rightarrow> (goerr + (string \<times> preference_item list)) notify_prog" where
  "upsert_preferences lib user_id items =
     (case find (\<lambda>item. ui_event item \<noteq> event_promotion) items of
        Some item \<Rightarrow>
          Return (Inl (bad_request None (''event_type '' @ quote (ui_event item) @ '' cannot be toggled; only ''
                                          @ quote event_promotion @ '' is user-configurable'')))
      | None \<Rightarrow>
          upsert_each user_id items [] (\<lambda>res.
            case res of
              Inl err \<Rightarrow> Return (Inl err)
            | Inr upserted \<Rightarrow>
                Call (NCacheDel [pref_cache_key user_id]) (\<lambda>_. Return (Inr (user_id, to_preference_items lib upserted)))))"

definition is_notification_enabled :: "notify_lib \<Rightarrow> string \<Rightarrow> string \<Rightarrow> string \<Rightarrow> (goerr + bool) notify_prog" where
  "is_notification_enabled lib user_id event channel =
     (if event \<noteq> event_promotion then Return (Inr True)
      else
        cached_items lib user_id (\<lambda>cached.
          case cached of
            Some items \<Rightarrow>
              (case find (\<lambda>item. pi_event item = event \<and> pi_channel item = channel) items of
                 Some item \<Rightarrow> Return (Inr (pi_enabled item))
               | None \<Rightarrow> Return (Inr True))
          | None \<Rightarrow> Call (NPrefEnabled user_id event channel) (\<lambda>r. Return (n_bool r))))"

section \<open>Nobody can opt out\<close>

text \<open>
  The requests of the API on preferences. Every preference ever stored, and so every cached one, is
  enabled: \<open>Upsert\<close> goes through the column's default.
\<close>

definition pref_requests :: "notify_lib \<Rightarrow> unit notify_prog set" where
  "pref_requests lib =
     {bind (get_preferences lib u) (\<lambda>_. Return ()) | u. True}
     \<union> {bind (upsert_preferences lib u items) (\<lambda>_. Return ()) | u items. True}
     \<union> {bind (is_notification_enabled lib u e c) (\<lambda>_. Return ()) | u e c. True}"

definition prefs_json_ok :: "notify_lib \<Rightarrow> bool" where
  "prefs_json_ok lib \<longleftrightarrow> (\<forall>items text. nl_prefs_json lib items = Inr text \<longrightarrow> nl_prefs_parse lib text = Inr items)"

definition text_enabled :: "notify_lib \<Rightarrow> string \<Rightarrow> bool" where
  "text_enabled lib text \<longleftrightarrow> (\<forall>items. nl_prefs_parse lib text = Inr items \<longrightarrow> (\<forall>x\<in>set items. pi_enabled x))"

definition all_enabled :: "notify_lib \<Rightarrow> notify_world \<Rightarrow> bool" where
  "all_enabled lib w \<longleftrightarrow>
     (\<forall>p\<in>set (nw_prefs w). pf_enabled p) \<and> (\<forall>key text t. nw_cache w key = Some (text, t) \<longrightarrow> text_enabled lib text)"

definition pref_allows :: "notify_lib \<Rightarrow> unit \<Rightarrow> notify_call \<Rightarrow> bool" where
  "pref_allows lib ph c \<longleftrightarrow>
     (case c of
        NCacheSet k text d \<Rightarrow> text_enabled lib text
      | NPrefUpsert p \<Rightarrow> True | NPrefsByUser u \<Rightarrow> True | NPrefEnabled u e ch \<Rightarrow> True
      | NCacheGet k \<Rightarrow> True | NCacheDel ks \<Rightarrow> True
      | _ \<Rightarrow> False)"

definition pref_next :: "unit \<Rightarrow> notify_call \<Rightarrow> notify_reply \<Rightarrow> unit" where
  "pref_next ph c r = ()"

definition pref_reply :: "notify_lib \<Rightarrow> notify_call \<Rightarrow> notify_reply \<Rightarrow> bool" where
  "pref_reply lib c r \<longleftrightarrow>
     (case c of
        NPrefsByUser u \<Rightarrow> (\<forall>rows. n_prefs r = Inr rows \<longrightarrow> (\<forall>p\<in>set rows. pf_enabled p))
      | NPrefUpsert p \<Rightarrow> (\<forall>p'. n_pref r = Inr p' \<longrightarrow> pf_enabled p')
      | NPrefEnabled u e ch \<Rightarrow> n_bool r \<noteq> Inr False
      | NCacheGet k \<Rightarrow> (\<forall>text. n_text r = Inr text \<longrightarrow> text_enabled lib text)
      | _ \<Rightarrow> True)"

lemma gorm_default_true [simp]: "gorm_default_true b"
  by (simp add: gorm_default_true_def)

lemma pref_upsert_enabled:
  assumes "\<forall>p\<in>set (nw_prefs v). pf_enabled p"
  shows "pf_enabled (fst (sql_pref_upsert now fresh p v))
    \<and> (\<forall>p\<in>set (nw_prefs (snd (sql_pref_upsert now fresh p v))). pf_enabled p)
    \<and> nw_cache (snd (sql_pref_upsert now fresh p v)) = nw_cache v"
proof (cases "by_key pref_key (pref_key p) (nw_prefs v)")
  case None
  with assms show ?thesis by (simp add: sql_pref_upsert_def Let_def insert_row_def)
next
  case (Some old)
  with assms show ?thesis by (auto simp: sql_pref_upsert_def Let_def update_rows_def)
qed

lemma pref_step:
  assumes "all_enabled lib w" and "pref_allows lib ph c" and "notify_handle lib e c w = (r, w')"
  shows "pref_reply lib c r \<and> all_enabled lib w'"
proof (cases c)
  case (NPrefUpsert p)
  show ?thesis
  proof (cases "ne_db e c")
    case None
    let ?v = "w\<lparr>nw_ticks := Suc (nw_ticks w), nw_uuids := Suc (nw_uuids w)\<rparr>"
    let ?u = "sql_pref_upsert (ne_clock e (nw_ticks w)) (ne_uuid e (nw_uuids w)) p ?v"
    from None assms(3) NPrefUpsert have "r = NPref (Inr (fst ?u))" "w' = snd ?u"
      by (simp_all add: notify_call_defs split_def)
    with pref_upsert_enabled [of ?v] assms(1) NPrefUpsert show ?thesis by (simp add: pref_reply_def all_enabled_def)
  qed (use assms NPrefUpsert in \<open>auto simp: notify_call_defs pref_reply_def\<close>)

next
  case (NPrefEnabled u ev ch)
  with assms show ?thesis
    by (auto simp: notify_call_defs pref_reply_def all_enabled_def sql_pref_enabled_def dest: by_key_Some split: option.splits)
next
  case (NCacheGet k)
  with assms show ?thesis
    by (auto simp: notify_call_defs pref_reply_def all_enabled_def cache_get_def rget_def split: option.splits prod.splits if_splits; blast)
next
  case (NCacheSet k v d)
  with assms show ?thesis
    by (auto simp: notify_call_defs pref_reply_def all_enabled_def pref_allows_def cache_set_def rset_def split: option.splits if_splits; blast)
next
  case (NCacheDel ks)
  with assms show ?thesis
    by (auto simp: pref_reply_def all_enabled_def cache_delete_def rdel_def split: option.splits if_splits; blast)
next
  case (NPrefsByUser u)
  with assms show ?thesis
    by (auto simp: notify_call_defs pref_reply_def all_enabled_def sql_prefs_by_user_def split: option.splits)
qed (use assms in \<open>auto simp: pref_allows_def\<close>)

interpretation prefs: typestate "notify_handle lib" "pref_allows lib" pref_next "pref_reply lib" "()" "\<lambda>w phs. all_enabled lib w"
  for lib
  by unfold_locales (auto dest: pref_step)

lemma follows_pref_requests:
  assumes "prefs_json_ok lib" and "p \<in> pref_requests lib"
  shows "follows (pref_allows lib) pref_next (pref_reply lib) p ()"
proof -
  let ?f = "\<lambda>p. follows (pref_allows lib) pref_next (pref_reply lib) p ()"
  have c: "?f (cached_items lib u k)" if "\<And>x. (\<And>items. x = Some items \<Longrightarrow> \<forall>i\<in>set items. pi_enabled i) \<Longrightarrow> ?f (k x)" for u and k :: "_ \<Rightarrow> 'a notify_prog"
    using that by (auto simp: cached_items_def pref_allows_def pref_reply_def text_enabled_def split: sum.splits)
  have items: "\<forall>i\<in>set (to_preference_items lib rows). pi_enabled i" if "\<forall>p\<in>set rows. pf_enabled p" for rows
    using that by (auto simp: to_preference_items_def)
  have s: "?f (cache_items lib u xs k)" if "\<forall>i\<in>set xs. pi_enabled i" "?f k" for u xs and k :: "'b notify_prog"
    using that assms(1) by (auto simp: cache_items_def pref_allows_def text_enabled_def prefs_json_ok_def split: sum.splits)
  have "?f (get_preferences lib u)" for u
    unfolding get_preferences_def
    by (rule c) (auto simp: Let_def pref_allows_def pref_reply_def intro!: s items split: option.splits sum.splits)
  moreover have e: "?f (upsert_each u its ups k)" if "\<And>res. ?f (k res)" for u its ups and k :: "_ \<Rightarrow> 'c notify_prog"
    using that by (induction its arbitrary: ups) (auto simp: pref_allows_def split: sum.splits)
  have "?f (upsert_preferences lib u its)" for u its
    unfolding upsert_preferences_def
    by (auto simp: pref_allows_def intro!: e split: option.splits sum.splits)
  moreover have "?f (is_notification_enabled lib u ev ch)" for u ev ch
    unfolding is_notification_enabled_def
    by (auto simp: pref_allows_def intro!: c split: option.splits)
  ultimately show ?thesis
    using assms(2) by (auto simp: pref_requests_def follows_ignore_result)
qed

lemma enabled_answer:
  assumes "all_enabled lib w"
  shows "fst (run (notify_handle lib env) (is_notification_enabled lib u ev ch) w) \<noteq> Inr False"
proof -
  obtain r w1 where h: "notify_handle lib env (NCacheGet (pref_cache_key u)) w = (r, w1)" by fastforce
  have a: "pref_reply lib (NCacheGet (pref_cache_key u)) r" "all_enabled lib w1"
    using pref_step [OF assms _ h, of "()"] by (simp_all add: pref_allows_def)
  have "n_bool (fst (notify_handle lib env (NPrefEnabled u ev ch) w1)) \<noteq> Inr False" for ev
    using pref_step [OF a(2) _ prod.collapse [symmetric], of "()" "NPrefEnabled u ev ch" env]
    by (simp add: pref_allows_def pref_reply_def del: notify_handle.simps)
  with a(1) show ?thesis
    by (auto simp: is_notification_enabled_def cached_items_def h pref_reply_def text_enabled_def
        simp del: notify_handle.simps dest: find_SomeD split: sum.splits option.splits)
qed

text \<open>
  C36. Nobody can opt out. Whatever requests to read and change preferences run, in whatever
  interleaving and with whatever failures, every stored preference stays enabled, although the
  requests may say otherwise, and \<open>IsNotificationEnabled\<close> never answers no.
\<close>
theorem opt_out_never_stored:
  assumes "prefs_json_ok lib" and "reachable (notify_handle lib) (pref_requests lib) w0 (ts, w)" and "all_enabled lib w0"
  shows "(\<forall>p\<in>set (nw_prefs w). pf_enabled p)
    \<and> fst (run (notify_handle lib env) (is_notification_enabled lib u ev ch) w) \<noteq> Inr False"
proof -
  have "all_enabled lib w"
    using prefs.reachable_inv [OF assms(2,3)] follows_pref_requests [OF assms(1)] by blast
  then show ?thesis using enabled_answer by (auto simp: all_enabled_def)
qed

text \<open>A library that can marshal the empty list, and a request to switch promotions off.\<close>

definition demo_pref_lib :: notify_lib where
  "demo_pref_lib = demo_nlib
     \<lparr>nl_prefs_json := (\<lambda>items. if items = [] then Inr ''[]'' else Inl (Plain ''unsupported'')),
      nl_prefs_parse := (\<lambda>s. if s = ''[]'' then Inr [] else Inl (Plain ''syntax''))\<rparr>"

theorem opt_out_never_stored_witness:
  "list_all pf_enabled (nw_prefs (snd (run_sched (notify_handle demo_pref_lib) [(0, demo_nenv), (0, demo_nenv)]
      ([bind (upsert_preferences demo_pref_lib ''u'' [\<lparr>ui_event = event_promotion, ui_channel = ''email'', ui_enabled = False\<rparr>])
          (\<lambda>_. Return ())], demo_nworld))))"
proof -
  let ?p = "bind (upsert_preferences demo_pref_lib ''u'' [\<lparr>ui_event = event_promotion, ui_channel = ''email'', ui_enabled = False\<rparr>])
          (\<lambda>_. Return ())"
  let ?x = "run_sched (notify_handle demo_pref_lib) [(0, demo_nenv), (0, demo_nenv)] ([?p], demo_nworld)"
  have j: "prefs_json_ok demo_pref_lib" by (simp add: prefs_json_ok_def demo_pref_lib_def)
  have r: "reachable (notify_handle demo_pref_lib) (pref_requests demo_pref_lib) demo_nworld (fst ?x, snd ?x)"
    unfolding prod.collapse by (rule reachable_schedule) (auto simp: pref_requests_def)
  have e: "all_enabled demo_pref_lib demo_nworld" by (simp add: all_enabled_def demo_nworld_def)
  from opt_out_never_stored [OF j r e] show ?thesis unfolding list_all_iff by blast
qed

end
