(* ===== verification/Outbox.thy ===== *)
theory Outbox
  imports NotifyCalls
begin

text \<open>
  services/notification/internal/worker/outbox_worker.go: one tick of the worker that publishes the
  outbox. Several pods run it against one table, so its safety is stated for every interleaving of
  any number of ticks, through a typestate: a worker owns the events it has claimed and has not yet
  published.
\<close>

section \<open>The worker\<close>

definition publish_event :: "notify_config \<Rightarrow> outbox_event \<Rightarrow> 'a notify_prog \<Rightarrow> 'a notify_prog" where
  "publish_event cfg event k =
     Call (NPublish (nc_exchange cfg) (ob_key event) (ob_payload event)) (\<lambda>r.
       case n_error r of
         Some err \<Rightarrow>
           if ob_retry event + 1 \<ge> nc_outbox_max cfg
           then Call (NOutboxFailed (ob_id event) (error_text err) (ob_aggregate event)
                       (''outbox publish failed: '' @ error_text err)) (\<lambda>_. k)
           else Call (NOutboxRetry (ob_id event) (error_text err)) (\<lambda>_. k)
       | None \<Rightarrow> Call (NOutboxPublished (ob_id event)) (\<lambda>_. k))"

primrec publish_events :: "notify_config \<Rightarrow> outbox_event list \<Rightarrow> unit notify_prog" where
  "publish_events cfg [] = Return ()"
| "publish_events cfg (e # es) = publish_event cfg e (publish_events cfg es)"

definition process_batch :: "notify_config \<Rightarrow> unit notify_prog" where
  "process_batch cfg =
     Call (NOutboxClaim (nc_outbox_batch cfg)) (\<lambda>r.
       case n_outbox r of
         Inl _ \<Rightarrow> Return ()
       | Inr events \<Rightarrow> publish_events cfg events)"

section \<open>Owning an event\<close>

datatype outbox_phase =
    Claiming
  | Holding "outbox_event list"
  | Accepted outbox_event "outbox_event list"
  | Refused outbox_event "outbox_event list"

primrec outbox_allows :: "outbox_phase \<Rightarrow> notify_call \<Rightarrow> bool" where
  "outbox_allows Claiming c \<longleftrightarrow> (\<exists>n. c = NOutboxClaim n)"
| "outbox_allows (Holding es) c \<longleftrightarrow>
     (case es of [] \<Rightarrow> False | e # _ \<Rightarrow> \<exists>ex. c = NPublish ex (ob_key e) (ob_payload e))"
| "outbox_allows (Accepted e es) c \<longleftrightarrow> c = NOutboxPublished (ob_id e)"
| "outbox_allows (Refused e es) c \<longleftrightarrow>
     (\<exists>msg. c = NOutboxRetry (ob_id e) msg) \<or> (\<exists>msg agg msg'. c = NOutboxFailed (ob_id e) msg agg msg')"

primrec outbox_next :: "outbox_phase \<Rightarrow> notify_call \<Rightarrow> notify_reply \<Rightarrow> outbox_phase" where
  "outbox_next Claiming c r = Holding (case n_outbox r of Inl _ \<Rightarrow> [] | Inr es \<Rightarrow> es)"
| "outbox_next (Holding es) c r =
     (case es of [] \<Rightarrow> Holding []
      | e # es' \<Rightarrow> (case n_error r of None \<Rightarrow> Accepted e es' | Some _ \<Rightarrow> Refused e es'))"
| "outbox_next (Accepted e es) c r = Holding es"
| "outbox_next (Refused e es) c r = Holding es"

abbreviation any_reply :: "notify_call \<Rightarrow> notify_reply \<Rightarrow> bool" where
  "any_reply c r \<equiv> True"

lemma follows_publish_events:
  "follows outbox_allows outbox_next any_reply (publish_events cfg es) (Holding es)"
  by (induction es) (auto simp: publish_event_def split: option.splits)

lemma follows_batch: "follows outbox_allows outbox_next any_reply (process_batch cfg) Claiming"
  using follows_publish_events by (auto simp: process_batch_def split: sum.splits)

text \<open>The events a worker still has to publish.\<close>

primrec outbox_pending :: "outbox_phase \<Rightarrow> outbox_event list" where
  "outbox_pending Claiming = []"
| "outbox_pending (Holding es) = es"
| "outbox_pending (Accepted e es) = es"
| "outbox_pending (Refused e es) = e # es"

definition held :: "uuid \<Rightarrow> outbox_phase list \<Rightarrow> nat" where
  "held i phs = sum_list (map (\<lambda>ph. count_list (map ob_id (outbox_pending ph)) i) phs)"

lemma held_update:
  assumes "j < length phs"
  shows "held i (phs[j := ph]) + count_list (map ob_id (outbox_pending (phs ! j))) i =
    held i phs + count_list (map ob_id (outbox_pending ph)) i"
  using assms
proof (induction phs arbitrary: j)
  case (Cons p phs)
  then show ?case by (cases j) (auto simp: held_def)
qed simp

text \<open>The messages of one event that the broker has accepted.\<close>

definition event_message :: "outbox_event \<Rightarrow> string \<times> string" where
  "event_message e = (ob_key e, ob_payload e)"

definition sent_count :: "string \<times> string \<Rightarrow> notify_world \<Rightarrow> nat" where
  "sent_count m w = count_list (map snd (nw_published w)) m"

text \<open>
  The event \<open>i\<close>, with message \<open>m\<close>: what was sent and what may still be sent are at most \<open>bound\<close> together,
  and less when the event may be claimed again.
\<close>

definition outbox_owned :: "uuid \<Rightarrow> string \<times> string \<Rightarrow> nat \<Rightarrow> notify_world \<Rightarrow> outbox_phase list \<Rightarrow> bool" where
  "outbox_owned i m bound w phs \<longleftrightarrow>
     keyed ob_id (nw_outbox w)
     \<and> (\<forall>e\<in>set (nw_outbox w). event_message e = m \<longleftrightarrow> ob_id e = i)
     \<and> (\<forall>ph\<in>set phs. \<forall>e\<in>set (outbox_pending ph). event_message e = m \<longleftrightarrow> ob_id e = i)
     \<and> sent_count m w + held i phs \<le> bound
     \<and> ((\<exists>e\<in>set (nw_outbox w). ob_id e = i \<and> ob_status e = OPending) \<longrightarrow> sent_count m w + held i phs < bound)"

lemma count_distinct: "distinct xs \<Longrightarrow> count_list xs x = (if x \<in> set xs then 1 else 0)"
  by (induction xs) auto

lemma claim_distinct:
  assumes "keyed ob_id t"
  shows "distinct (map ob_id (limit_rows n (sort_key ob_created (filter P t))))"
proof -
  have "distinct (map ob_id (sort_key ob_created (filter P t)))"
    using assms by (auto simp: keyed_def distinct_map intro: inj_on_subset)
  then show ?thesis by (simp add: limit_rows_def take_map [symmetric])
qed

lemma claim_counts:
  assumes "keyed ob_id t"
  shows "count_list (map ob_id (limit_rows n (sort_key ob_created (filter P t)))) i
    \<le> (if \<exists>e\<in>set t. P e \<and> ob_id e = i then 1 else 0)"
proof -
  have "set (limit_rows n (sort_key ob_created (filter P t))) \<subseteq> {e \<in> set t. P e}"
    using set_limit_rows [of n "sort_key ob_created (filter P t)"] by auto
  then show ?thesis using count_distinct [OF claim_distinct [OF assms], of n P i] by auto
qed


text \<open>What each allowed call does to the outbox and to what was sent.\<close>

definition outbox_update :: "notify_call \<Rightarrow> gotime \<Rightarrow> outbox_event \<Rightarrow> outbox_event" where
  "outbox_update c now e =
     (case c of
        NOutboxPublished i \<Rightarrow> e\<lparr>ob_status := OPublished, ob_published := Some now\<rparr>
      | NOutboxRetry i msg \<Rightarrow> e\<lparr>ob_status := OPending, ob_retry := ob_retry e + 1, ob_last_error := Some msg\<rparr>
      | NOutboxFailed i msg agg msg' \<Rightarrow> e\<lparr>ob_status := OFailed, ob_last_error := Some msg\<rparr>
      | _ \<Rightarrow> e)"

lemma outbox_status_call:
  assumes "c = NOutboxPublished j \<or> (\<exists>msg. c = NOutboxRetry j msg) \<or> (\<exists>msg agg msg'. c = NOutboxFailed j msg agg msg')"
    and "notify_handle lib env c w = (r, w')"
  shows "\<exists>P now. nw_outbox w' = update_rows P (outbox_update c now) (nw_outbox w) \<and> (\<forall>y. P y \<longrightarrow> ob_id y = j)
    \<and> nw_published w' = nw_published w"
proof (cases "ne_db env c")
  case (Some e)
  with assms have "w' = w" by (auto simp: nexec_def)
  then show ?thesis by (intro exI [of _ "\<lambda>_. False"]) (simp add: update_rows_def)
next
  case None
  with assms show ?thesis
    by (intro exI [of _ "\<lambda>y. ob_id y = j"] exI [of _ "ne_clock env (nw_ticks w)"])
       (auto simp: nexec_def nnow_def outbox_update_def [abs_def] sql_outbox_published_def sql_outbox_retry_def
          sql_outbox_failed_def sql_update_delivery_def)
qed


lemma outbox_update_keeps [simp]:
  "ob_id (outbox_update c now e) = ob_id e" "event_message (outbox_update c now e) = event_message e"
  by (auto simp: outbox_update_def event_message_def split: notify_call.splits)

lemma outbox_update_pending:
  "ob_status (outbox_update c now e) = OPending \<Longrightarrow> ob_status e = OPending \<or> (\<exists>j msg. c = NOutboxRetry j msg)"
  by (auto simp: outbox_update_def split: notify_call.splits)

text \<open>Changing rows of the outbox, and what a worker holds.\<close>

lemma outbox_owned_update:
  assumes "outbox_owned i m bound w phs" and t: "nw_outbox w' = update_rows P f (nw_outbox w)"
    and f: "\<And>e. ob_id (f e) = ob_id e \<and> event_message (f e) = event_message e"
    and ph: "\<And>e. e \<in> set (outbox_pending ph) \<Longrightarrow> event_message e = m \<longleftrightarrow> ob_id e = i"
    and le: "sent_count m w' + held i (phs[j := ph]) \<le> bound"
    and st: "\<And>e. e \<in> set (nw_outbox w) \<Longrightarrow> ob_id e = i \<Longrightarrow> ob_status (if P e then f e else e) = OPending
               \<Longrightarrow> sent_count m w' + held i (phs[j := ph]) < bound"
  shows "outbox_owned i m bound w' (phs[j := ph])"
proof -
  have "keyed ob_id (nw_outbox w')" using assms(1) f by (simp add: t outbox_owned_def keyed_update)
  moreover have "\<forall>e\<in>set (nw_outbox w'). event_message e = m \<longleftrightarrow> ob_id e = i"
  proof
    fix e assume "e \<in> set (nw_outbox w')"
    then obtain e0 where "e0 \<in> set (nw_outbox w)" "e = (if P e0 then f e0 else e0)"
      by (auto simp: t update_rows_def)
    with assms(1) f [of e0] show "event_message e = m \<longleftrightarrow> ob_id e = i" unfolding outbox_owned_def by (cases "P e0") simp_all
  qed
  moreover have "\<forall>p\<in>set (phs[j := ph]). \<forall>e\<in>set (outbox_pending p). event_message e = m \<longleftrightarrow> ob_id e = i"
  proof (intro ballI)
    fix p e assume "p \<in> set (phs[j := ph])" "e \<in> set (outbox_pending p)"
    then have "p = ph \<or> p \<in> set phs" using set_update_subset_insert [of phs j ph] by blast
    with \<open>e \<in> set (outbox_pending p)\<close> assms(1) ph show "event_message e = m \<longleftrightarrow> ob_id e = i"
      unfolding outbox_owned_def by blast
  qed
  moreover have "sent_count m w' + held i (phs[j := ph]) < bound"
    if e: "e \<in> set (nw_outbox w')" "ob_id e = i" "ob_status e = OPending" for e
  proof -
    from e(1) obtain e0 where "e0 \<in> set (nw_outbox w)" "e = (if P e0 then f e0 else e0)"
      by (auto simp: t update_rows_def)
    with e f st [of e0] show ?thesis by (auto split: if_splits)
  qed
  ultimately show ?thesis using le by (auto simp: outbox_owned_def)
qed


text \<open>A worker settles an event, and lets go of it if it held it.\<close>

lemma outbox_owned_settle:
  assumes o: "outbox_owned i m bound w phs" and j: "j < length phs"
    and c: "c = NOutboxPublished x \<or> (\<exists>msg. c = NOutboxRetry x msg) \<or> (\<exists>msg agg msg'. c = NOutboxFailed x msg agg msg')"
    and h: "notify_handle lib env c w = (r, w')"
    and p: "outbox_pending (phs ! j) = (if c = NOutboxPublished x then es else e # es)" and e: "ob_id e = x"
  shows "outbox_owned i m bound w' (phs[j := Holding es])"
proof -
  obtain P now where t: "nw_outbox w' = update_rows P (outbox_update c now) (nw_outbox w)"
      and P: "\<And>y. P y \<Longrightarrow> ob_id y = x" and s: "sent_count m w' = sent_count m w"
    using outbox_status_call [OF c h] by (force simp: sent_count_def)
  have hu: "held i (phs[j := Holding es]) + (if c \<noteq> NOutboxPublished x \<and> x = i then 1 else 0) = held i phs"
    using held_update [OF j, of i "Holding es"] p e by (auto split: if_splits)
  have ph: "event_message y = m \<longleftrightarrow> ob_id y = i" if "y \<in> set (outbox_pending (Holding es))" for y
    using o nth_mem [OF j] p that by (auto simp: outbox_owned_def split: if_splits)
  have st: "sent_count m w' + held i (phs[j := Holding es]) < bound"
    if "y \<in> set (nw_outbox w)" "ob_id y = i" "ob_status (if P y then outbox_update c now y else y) = OPending" for y
  proof (cases "ob_status y = OPending")
    case True
    with o that(1,2) s hu show ?thesis by (auto simp: outbox_owned_def)
  next
    case False
    then have "P y" "c \<noteq> NOutboxPublished x" using that(3) outbox_update_pending by (auto split: if_splits)
    with P that(2) hu have "held i (phs[j := Holding es]) + 1 = held i phs" by auto
    with o s show ?thesis by (simp add: outbox_owned_def)
  qed
  show ?thesis
    using o s hu by (intro outbox_owned_update [OF o t _ ph _ st]) (auto simp: outbox_owned_def split: if_splits)
qed

text \<open>Claiming takes pending events only, so what is held and what is sent stay within the bound.\<close>

lemma claim_keeps_owned:
  assumes o: "outbox_owned i m bound w phs" and j: "j < length phs" and Claiming: "phs ! j = Claiming"
    and c: "c = NOutboxClaim n" and h: "notify_handle lib env c w = (r, w')"
  shows "outbox_owned i m bound w' (phs[j := outbox_next (phs ! j) c r])"
proof -
  let ?P = "\<lambda>e. ob_published e = None \<and> ob_status e = OPending"
  let ?cl = "limit_rows n (sort_key ob_created (filter ?P (nw_outbox w)))"
  have hu: "held i (phs[j := ph]) = held i phs + count_list (map ob_id (outbox_pending ph)) i" for ph
    using held_update [OF j, of i ph] Claiming by simp
  show ?thesis
  proof (cases "ne_db env c = None \<and> 0 \<le> n")
    case False
    with c h have r: "\<exists>e. r = NOutbox (Inl e)" "nw_outbox w' = nw_outbox w" "nw_published w' = nw_published w"
      by (auto simp: notify_call_defs split: option.splits)
    then have "outbox_next (phs ! j) c r = Holding []" using Claiming by auto
    then show ?thesis
      using o r(2,3) hu [of "Holding []"]
      by (simp only:) (rule outbox_owned_update [OF o, of w' "\<lambda>_. False" "\<lambda>e. e"],
          auto simp: outbox_owned_def sent_count_def update_rows_def)
  next
    case True
    with c h have r: "r = NOutbox (Inr ?cl)" "nw_published w' = nw_published w"
        "nw_outbox w' = update_rows (\<lambda>e. ob_id e \<in> set (map ob_id ?cl)) (\<lambda>e. e\<lparr>ob_status := OProcessing, ob_last_error := None\<rparr>) (nw_outbox w)"
      by (auto simp: notify_call_defs sql_outbox_claim_def Let_def)
    then have nx: "outbox_next (phs ! j) c r = Holding ?cl" using Claiming by simp
    have sub: "set ?cl \<subseteq> {e \<in> set (nw_outbox w). ?P e}"
      using set_limit_rows [of n "sort_key ob_created (filter ?P (nw_outbox w))"] by auto
    have cnt: "count_list (map ob_id ?cl) i \<le> (if \<exists>e\<in>set (nw_outbox w). ?P e \<and> ob_id e = i then 1 else 0)"
      using o by (intro claim_counts) (simp add: outbox_owned_def)
    have le: "sent_count m w' + held i (phs[j := Holding ?cl]) \<le> bound"
      using o cnt hu [of "Holding ?cl"] r(2) by (auto simp: outbox_owned_def sent_count_def split: if_splits)
    have st: "sent_count m w' + held i (phs[j := Holding ?cl]) < bound"
      if "e \<in> set (nw_outbox w)" "ob_id e = i"
        "ob_status (if ob_id e \<in> set (map ob_id ?cl) then e\<lparr>ob_status := OProcessing, ob_last_error := None\<rparr> else e) = OPending" for e
    proof -
      have "i \<notin> set (map ob_id ?cl)" "ob_status e = OPending" using that by (auto split: if_splits)
      then have "held i (phs[j := Holding ?cl]) = held i phs" using hu [of "Holding ?cl"] by (simp add: count_list_0_iff)
      then show ?thesis using o that(1,2) \<open>ob_status e = OPending\<close> r(2) by (auto simp: outbox_owned_def sent_count_def)
    qed
    have ph: "event_message e = m \<longleftrightarrow> ob_id e = i" if "e \<in> set (outbox_pending (Holding ?cl))" for e
      using that sub o by (auto simp: outbox_owned_def)
    show ?thesis unfolding nx
      by (rule outbox_owned_update [OF o r(3) _ ph le st]) (auto simp: event_message_def)
  qed
qed

text \<open>A publication passes an event from the held to the sent, or keeps it held.\<close>

lemma publish_keeps_owned:
  assumes o: "outbox_owned i m bound w phs" and j: "j < length phs" and Holding: "phs ! j = Holding es" and es: "es = e # es'"
    and c: "c = NPublish ex (ob_key e) (ob_payload e)" and h: "notify_handle lib env c w = (r, w')"
  shows "outbox_owned i m bound w' (phs[j := outbox_next (phs ! j) c r])"
proof -
  have e: "event_message e = m \<longleftrightarrow> ob_id e = i"
    and es': "\<And>x. x \<in> set es' \<Longrightarrow> event_message x = m \<longleftrightarrow> ob_id x = i"
  proof -
    have "\<forall>x\<in>set (outbox_pending (phs ! j)). event_message x = m \<longleftrightarrow> ob_id x = i"
      using o nth_mem [OF j] by (simp add: outbox_owned_def)
    then show "event_message e = m \<longleftrightarrow> ob_id e = i" "\<And>x. x \<in> set es' \<Longrightarrow> event_message x = m \<longleftrightarrow> ob_id x = i"
      using Holding es by simp_all
  qed
  have hu: "held i (phs[j := ph]) + (if ob_id e = i then 1 else 0) + count_list (map ob_id es') i
      = held i phs + count_list (map ob_id (outbox_pending ph)) i" for ph
    using held_update [OF j, of i ph] Holding es by (simp split: if_splits)
  have ob: "nw_outbox w' = update_rows (\<lambda>_. False) (\<lambda>e. e) (nw_outbox w)"
    using c h by (auto simp: update_rows_def split: option.splits)
  show ?thesis
  proof (cases "ne_publish env ex (ob_key e) (ob_payload e)")
    case None
    with c h have r: "r = NError None" "nw_published w' = nw_published w @ [(ex, event_message e)]"
      by (auto simp: event_message_def)
    then have s: "sent_count m w' = sent_count m w + (if ob_id e = i then 1 else 0)"
      using e by (simp add: sent_count_def)
    have nx: "outbox_next (phs ! j) c r = Accepted e es'" using Holding es r by simp
    show ?thesis unfolding nx
      using o s hu [of "Accepted e es'"] es'
      by (intro outbox_owned_update [OF o ob]) (auto simp: outbox_owned_def split: if_splits)
  next
    case (Some err)
    with c h have r: "r = NError (Some err)" "w' = w" by auto
    have nx: "outbox_next (phs ! j) c r = Refused e es'" using Holding es r by simp
    show ?thesis unfolding nx
      using o hu [of "Refused e es'"] es' e r(2)
      by (intro outbox_owned_update [OF o ob]) (auto simp: outbox_owned_def split: if_splits)
  qed
qed

lemma outbox_owned_step:
  assumes o: "outbox_owned i m bound w phs" and j: "j < length phs" and a: "outbox_allows (phs ! j) c"
    and h: "notify_handle lib env c w = (r, w')"
  shows "outbox_owned i m bound w' (phs[j := outbox_next (phs ! j) c r])"
proof (cases "phs ! j")
  case Claiming
  then obtain n where "c = NOutboxClaim n" using a by auto
  from claim_keeps_owned [OF o j Claiming this h] show ?thesis .
next
  case (Holding es)
  then obtain e es' ex where es: "es = e # es'" and c: "c = NPublish ex (ob_key e) (ob_payload e)"
    using a by (auto split: list.splits)
  from publish_keeps_owned [OF o j Holding es c h] show ?thesis .
next
  case (Accepted e es)
  then have c: "c = NOutboxPublished (ob_id e)" using a by simp
  have nx: "outbox_next (phs ! j) c r = Holding es" and b: "outbox_pending (phs ! j) = es" using Accepted by simp_all
  show ?thesis unfolding nx using outbox_owned_settle [OF o j _ h, of "ob_id e" es] c b by auto
next
  case (Refused e es)
  then have c: "(\<exists>msg. c = NOutboxRetry (ob_id e) msg) \<or> (\<exists>msg agg msg'. c = NOutboxFailed (ob_id e) msg agg msg')"
    using a by simp
  have nx: "outbox_next (phs ! j) c r = Holding es" and b: "outbox_pending (phs ! j) = e # es" using Refused by simp_all
  show ?thesis unfolding nx using outbox_owned_settle [OF o j _ h, of "ob_id e" es] c b by auto
qed


interpretation outbox: typestate "notify_handle lib" outbox_allows outbox_next any_reply Claiming "outbox_owned i m bound"
  for lib i m bound
proof
  fix w phs
  assume "outbox_owned i m bound w phs"
  then show "outbox_owned i m bound w (phs @ [Claiming])" by (auto simp: outbox_owned_def held_def)
next
  fix w phs j c e r w'
  assume "outbox_owned i m bound w phs" "j < length phs" "outbox_allows (phs ! j) c" "notify_handle lib e c w = (r, w')"
  then show "any_reply c r \<and> outbox_owned i m bound w' (phs[j := outbox_next (phs ! j) c r])"
    by (simp add: outbox_owned_step)
qed

lemma reachable_sent:
  assumes "reachable (notify_handle lib) (range process_batch) w0 (ts, w)" and "outbox_owned i m bound w0 []"
  shows "sent_count m w \<le> bound"
  using outbox.reachable_inv [OF assms] follows_batch by (force simp: outbox_owned_def)

text \<open>
  C2. However many workers poll one outbox, in whatever interleaving and whatever fails, an event that
  is pending is published at most once: a worker that claims it owns it, and gives it back only
  when the broker refused it. (Provided that no other event has its routing key and payload;
  the payload holds the notification's id.)
\<close>
theorem outbox_at_most_once:
  assumes "reachable (notify_handle lib) (range process_batch) w0 (ts, w)"
    and "keyed ob_id (nw_outbox w0)" and "ev \<in> set (nw_outbox w0)"
    and "\<forall>e\<in>set (nw_outbox w0). event_message e = event_message ev \<longrightarrow> e = ev"
    and "sent_count (event_message ev) w0 = 0"
  shows "sent_count (event_message ev) w \<le> 1"
proof -
  have "outbox_owned (ob_id ev) (event_message ev) 1 w0 []"
    using assms(2-5) by (auto simp: outbox_owned_def held_def keyed_def distinct_map inj_on_def)
  with assms(1) show ?thesis by (rule reachable_sent)
qed

text \<open>
  An event whose worker died after claiming it is lost: an event that is processing when no
  worker holds it is never published again, by any number of workers in any interleaving, because
  only pending events are claimed.
\<close>
theorem outbox_abandoned:
  assumes "reachable (notify_handle lib) (range process_batch) w0 (ts, w)"
    and "keyed ob_id (nw_outbox w0)" and "ev \<in> set (nw_outbox w0)" and "ob_status ev = OProcessing"
    and "\<forall>e\<in>set (nw_outbox w0). event_message e = event_message ev \<longrightarrow> e = ev"
    and "sent_count (event_message ev) w0 = 0"
  shows "sent_count (event_message ev) w = 0"
proof -
  have "outbox_owned (ob_id ev) (event_message ev) 0 w0 []"
    using assms(2-6) by (auto simp: outbox_owned_def held_def keyed_def distinct_map inj_on_def)
  from reachable_sent [OF assms(1) this] show ?thesis by simp
qed

section \<open>A tick that goes through\<close>

definition event_outcome :: "notify_config \<Rightarrow> notify_env \<Rightarrow> outbox_event \<Rightarrow> outbox_status \<times> int" where
  "event_outcome cfg env e =
     (case ne_publish env (nc_exchange cfg) (ob_key e) (ob_payload e) of
        None \<Rightarrow> (OPublished, ob_retry e)
      | Some _ \<Rightarrow> if ob_retry e + 1 \<ge> nc_outbox_max cfg then (OFailed, ob_retry e) else (OPending, ob_retry e + 1))"

definition accepts :: "notify_config \<Rightarrow> notify_env \<Rightarrow> outbox_event \<Rightarrow> bool" where
  "accepts cfg env e \<longleftrightarrow> ne_publish env (nc_exchange cfg) (ob_key e) (ob_payload e) = None"

text \<open>One event.\<close>

lemma run_publish_event:
  assumes "\<And>c. ne_db env c = None"
  shows "\<exists>w1. run (notify_handle lib env) (publish_event cfg e k) w = run (notify_handle lib env) k w1
    \<and> nw_published w1 = nw_published w @ (if accepts cfg env e then [(nc_exchange cfg, ob_key e, ob_payload e)] else [])
    \<and> (\<forall>j. j \<noteq> ob_id e \<longrightarrow> by_key ob_id j (nw_outbox w1) = by_key ob_id j (nw_outbox w))
    \<and> (\<forall>row. by_key ob_id (ob_id e) (nw_outbox w) = Some row \<longrightarrow> ob_retry row = ob_retry e \<longrightarrow>
          map_option (\<lambda>r. (ob_status r, ob_retry r)) (by_key ob_id (ob_id e) (nw_outbox w1)) = Some (event_outcome cfg env e))
    \<and> (\<forall>a n. by_key nt_id a (nw_notifications w1) = Some n \<longrightarrow> nt_status n = NFailed
          \<or> (\<not> (a = ob_aggregate e \<and> fst (event_outcome cfg env e) = OFailed) \<and> by_key nt_id a (nw_notifications w) = Some n))"
proof (cases "ne_publish env (nc_exchange cfg) (ob_key e) (ob_payload e)")
  case None
  with assms show ?thesis
    by (intro exI [of _ "snd (notify_handle lib env (NOutboxPublished (ob_id e))
                              (snd (notify_handle lib env (NPublish (nc_exchange cfg) (ob_key e) (ob_payload e)) w)))"])
       (auto simp: publish_event_def event_outcome_def accepts_def notify_call_defs sql_outbox_published_def
          by_key_update_other by_key_update_same)
next
  case (Some err)
  let ?c = "if ob_retry e + 1 \<ge> nc_outbox_max cfg
            then NOutboxFailed (ob_id e) (error_text err) (ob_aggregate e) (''outbox publish failed: '' @ error_text err)
            else NOutboxRetry (ob_id e) (error_text err)"
  from Some assms show ?thesis
    by (intro exI [of _ "snd (notify_handle lib env ?c w)"])
       (auto simp: publish_event_def event_outcome_def accepts_def notify_call_defs sql_outbox_failed_def sql_outbox_retry_def
          sql_update_delivery_def by_key_update_other by_key_update_same dest!: by_key_update_cases)
qed


lemma run_publish_events:
  assumes "\<And>c. ne_db env c = None" and "distinct (map ob_id es)"
    and "\<And>e. e \<in> set es \<Longrightarrow> \<exists>row. by_key ob_id (ob_id e) (nw_outbox w) = Some row \<and> ob_retry row = ob_retry e"
  shows "case run (notify_handle lib env) (publish_events cfg es) w of (u, w') \<Rightarrow>
    nw_published w' = nw_published w @ map (\<lambda>e. (nc_exchange cfg, ob_key e, ob_payload e)) (filter (accepts cfg env) es)
    \<and> (\<forall>j. j \<notin> ob_id ` set es \<longrightarrow> by_key ob_id j (nw_outbox w') = by_key ob_id j (nw_outbox w))
    \<and> (\<forall>e\<in>set es. map_option (\<lambda>r. (ob_status r, ob_retry r)) (by_key ob_id (ob_id e) (nw_outbox w')) = Some (event_outcome cfg env e))
    \<and> (\<forall>a n. by_key nt_id a (nw_notifications w') = Some n \<longrightarrow> nt_status n = NFailed
          \<or> (\<forall>e\<in>set es. a = ob_aggregate e \<longrightarrow> fst (event_outcome cfg env e) \<noteq> OFailed)
             \<and> by_key nt_id a (nw_notifications w) = Some n)"
  using assms(2,3)
proof (induction es arbitrary: w)
  case (Cons e es)
  obtain w1 where r: "run (notify_handle lib env) (publish_event cfg e (publish_events cfg es)) w =
        run (notify_handle lib env) (publish_events cfg es) w1"
    and p: "nw_published w1 = nw_published w @ (if accepts cfg env e then [(nc_exchange cfg, ob_key e, ob_payload e)] else [])"
    and o: "\<And>j. j \<noteq> ob_id e \<Longrightarrow> by_key ob_id j (nw_outbox w1) = by_key ob_id j (nw_outbox w)"
    and s: "\<And>row. by_key ob_id (ob_id e) (nw_outbox w) = Some row \<Longrightarrow> ob_retry row = ob_retry e \<Longrightarrow>
          map_option (\<lambda>r. (ob_status r, ob_retry r)) (by_key ob_id (ob_id e) (nw_outbox w1)) = Some (event_outcome cfg env e)"
    and n: "\<And>a n. by_key nt_id a (nw_notifications w1) = Some n \<Longrightarrow> nt_status n = NFailed
          \<or> (\<not> (a = ob_aggregate e \<and> fst (event_outcome cfg env e) = OFailed) \<and> by_key nt_id a (nw_notifications w) = Some n)"
    using run_publish_event [OF assms(1), where lib = lib and cfg = cfg and e = e and w = w] by blast
  have ex: "\<exists>row. by_key ob_id (ob_id x) (nw_outbox w1) = Some row \<and> ob_retry row = ob_retry x" if "x \<in> set es" for x
    using Cons.prems that o [of "ob_id x"] by (force simp: image_iff)
  obtain w' where r': "run (notify_handle lib env) (publish_events cfg es) w1 = ((), w')"
    by (cases "run (notify_handle lib env) (publish_events cfg es) w1") simp
  from Cons.IH [OF _ ex] Cons.prems(1) r' have
    p': "nw_published w' = nw_published w1 @ map (\<lambda>e. (nc_exchange cfg, ob_key e, ob_payload e)) (filter (accepts cfg env) es)"
    and o': "\<And>j. j \<notin> ob_id ` set es \<Longrightarrow> by_key ob_id j (nw_outbox w') = by_key ob_id j (nw_outbox w1)"
    and s': "\<And>x. x \<in> set es \<Longrightarrow> map_option (\<lambda>r. (ob_status r, ob_retry r)) (by_key ob_id (ob_id x) (nw_outbox w')) = Some (event_outcome cfg env x)"
    and n': "\<And>a n. by_key nt_id a (nw_notifications w') = Some n \<Longrightarrow> nt_status n = NFailed
          \<or> (\<forall>e\<in>set es. a = ob_aggregate e \<longrightarrow> fst (event_outcome cfg env e) \<noteq> OFailed)
             \<and> by_key nt_id a (nw_notifications w1) = Some n"
    by simp_all
  have se: "map_option (\<lambda>r. (ob_status r, ob_retry r)) (by_key ob_id (ob_id e) (nw_outbox w')) = Some (event_outcome cfg env e)"
    using Cons.prems o' [of "ob_id e"] s by force
  show ?case
    using r r' p p' o o' s' se n n' by (simp) (metis (no_types, lifting))
qed simp

definition claimed_events :: "notify_config \<Rightarrow> notify_world \<Rightarrow> outbox_event list" where
  "claimed_events cfg w = fst (sql_outbox_claim (nc_outbox_batch cfg) w)"

lemma claimed_distinct: "keyed ob_id (nw_outbox w) \<Longrightarrow> distinct (map ob_id (claimed_events cfg w))"
  by (simp add: claimed_events_def sql_outbox_claim_def Let_def claim_distinct)

lemma claimed_subset: "set (claimed_events cfg w) \<subseteq> {e \<in> set (nw_outbox w). ob_status e = OPending}"
  using set_limit_rows [of "nc_outbox_batch cfg" "sort_key ob_created (filter (\<lambda>e. ob_published e = None \<and> ob_status e = OPending) (nw_outbox w))"]
  by (auto simp: claimed_events_def sql_outbox_claim_def Let_def)

text \<open>
  C15. A tick whose statements go through settles every event it claims, in the order in which they were
  created: what the broker accepts is published once and its event published; what it refuses is
  pending again with one more retry, or, on the last one, failed together with its
  notification. No other event changes.
\<close>
theorem outbox_batch_settles:
  assumes "keyed ob_id (nw_outbox w)" and "\<And>c. ne_db env c = None" and "0 \<le> nc_outbox_batch cfg"
  shows "case run (notify_handle lib env) (process_batch cfg) w of (u, w') \<Rightarrow>
    nw_published w' = nw_published w @
      map (\<lambda>e. (nc_exchange cfg, ob_key e, ob_payload e)) (filter (accepts cfg env) (claimed_events cfg w))
    \<and> (\<forall>e\<in>set (claimed_events cfg w).
          map_option (\<lambda>r. (ob_status r, ob_retry r)) (by_key ob_id (ob_id e) (nw_outbox w')) = Some (event_outcome cfg env e)
          \<and> (\<forall>n. fst (event_outcome cfg env e) = OFailed \<longrightarrow>
                by_key nt_id (ob_aggregate e) (nw_notifications w') = Some n \<longrightarrow> nt_status n = NFailed))
    \<and> (\<forall>j. j \<notin> ob_id ` set (claimed_events cfg w) \<longrightarrow> by_key ob_id j (nw_outbox w') = by_key ob_id j (nw_outbox w))"
proof -
  let ?cl = "claimed_events cfg w"
  define w1 where "w1 = snd (sql_outbox_claim (nc_outbox_batch cfg)
      (w\<lparr>nw_ticks := Suc (nw_ticks w), nw_uuids := Suc (nw_uuids w)\<rparr>))"
  have t: "nw_outbox w1 = update_rows (\<lambda>e. ob_id e \<in> set (map ob_id ?cl))
        (\<lambda>e. e\<lparr>ob_status := OProcessing, ob_last_error := None\<rparr>) (nw_outbox w)"
    "nw_published w1 = nw_published w" "nw_notifications w1 = nw_notifications w"
    by (simp_all add: w1_def claimed_events_def sql_outbox_claim_def Let_def)
  have r: "run (notify_handle lib env) (process_batch cfg) w = run (notify_handle lib env) (publish_events cfg ?cl) w1"
    using assms(2,3)
    by (simp add: process_batch_def notify_call_defs w1_def claimed_events_def sql_outbox_claim_def Let_def)
  have row: "by_key ob_id j (nw_outbox w1) = map_option
      (\<lambda>e. if ob_id e \<in> set (map ob_id ?cl) then e\<lparr>ob_status := OProcessing, ob_last_error := None\<rparr> else e)
      (by_key ob_id j (nw_outbox w))" for j
    unfolding t by (rule by_key_update_rows) simp
  have ex: "\<exists>row. by_key ob_id (ob_id e) (nw_outbox w1) = Some row \<and> ob_retry row = ob_retry e" if "e \<in> set ?cl" for e
    using that claimed_subset [of cfg w] by_key_keyed [OF assms(1)] unfolding row by force
  have other: "by_key ob_id j (nw_outbox w1) = by_key ob_id j (nw_outbox w)" if "j \<notin> ob_id ` set ?cl" for j
    using that unfolding row by (cases "by_key ob_id j (nw_outbox w)") (auto dest: by_key_Some)
  show ?thesis
    using run_publish_events [where lib = lib and cfg = cfg and es = "?cl" and w = w1, OF assms(2) claimed_distinct [OF assms(1)] ex] other
    unfolding r t(2,3) by (auto split: prod.splits; blast)
qed

section \<open>Instances\<close>

definition demo_event :: outbox_event where
  "demo_event =
     \<lparr>ob_id = 1, ob_aggregate = 1, ob_aggregate_type = ''notification'', ob_event_type = ''notification.created'',
      ob_payload = ''p'', ob_key = ''email'', ob_status = OPending, ob_retry = 0, ob_last_error = None,
      ob_published = None, ob_created = 0\<rparr>"

text \<open>Two workers: both poll, one after the other, and the first one publishes.\<close>

theorem outbox_at_most_once_witness:
  "sent_count (''email'', ''p'') (snd (run_sched (notify_handle demo_nlib)
     [(0, demo_nenv), (1, demo_nenv), (0, demo_nenv)]
     ([process_batch demo_nconfig, process_batch demo_nconfig], demo_nworld\<lparr>nw_outbox := [demo_event]\<rparr>))) \<le> 1"
proof -
  let ?x = "run_sched (notify_handle demo_nlib) [(0, demo_nenv), (1, demo_nenv), (0, demo_nenv)]
     ([process_batch demo_nconfig, process_batch demo_nconfig], demo_nworld\<lparr>nw_outbox := [demo_event]\<rparr>)"
  have "reachable (notify_handle demo_nlib) (range process_batch) (demo_nworld\<lparr>nw_outbox := [demo_event]\<rparr>) (fst ?x, snd ?x)"
    unfolding prod.collapse by (rule reachable_schedule) auto
  from outbox_at_most_once [OF this, of demo_event] show ?thesis
    by (simp add: keyed_def demo_event_def demo_nworld_def sent_count_def event_message_def)
qed

theorem outbox_abandoned_witness:
  "sent_count (''email'', ''p'') (snd (run_sched (notify_handle demo_nlib) [(0, demo_nenv)]
     ([process_batch demo_nconfig], demo_nworld\<lparr>nw_outbox := [demo_event\<lparr>ob_status := OProcessing\<rparr>]\<rparr>))) = 0"
proof -
  let ?w = "demo_nworld\<lparr>nw_outbox := [demo_event\<lparr>ob_status := OProcessing\<rparr>]\<rparr>"
  let ?x = "run_sched (notify_handle demo_nlib) [(0, demo_nenv)] ([process_batch demo_nconfig], ?w)"
  have "reachable (notify_handle demo_nlib) (range process_batch) ?w (fst ?x, snd ?x)"
    unfolding prod.collapse by (rule reachable_schedule) auto
  from outbox_abandoned [OF this, of "demo_event\<lparr>ob_status := OProcessing\<rparr>"] show ?thesis
    by (simp add: keyed_def demo_event_def demo_nworld_def sent_count_def event_message_def)
qed

theorem outbox_batch_settles_witness:
  "map ob_status (nw_outbox (snd (run (notify_handle demo_nlib (demo_nenv\<lparr>ne_publish := \<lambda>_ _ _. Some (Plain ''down'')\<rparr>))
     (process_batch demo_nconfig) (demo_nworld\<lparr>nw_outbox := [demo_event]\<rparr>)))) = [OPending]
   \<and> (case run (notify_handle demo_nlib (demo_nenv\<lparr>ne_publish := \<lambda>_ _ _. Some (Plain ''down'')\<rparr>))
        (process_batch demo_nconfig) (demo_nworld\<lparr>nw_outbox := [demo_event]\<rparr>) of (u, w') \<Rightarrow> nw_published w' = [])"
proof -
  let ?env = "demo_nenv\<lparr>ne_publish := \<lambda>_ _ _. Some (Plain ''down'')\<rparr>"
  let ?w = "demo_nworld\<lparr>nw_outbox := [demo_event]\<rparr>"
  have k: "keyed ob_id (nw_outbox ?w)" by (simp add: keyed_def)
  have d: "ne_db ?env c = None" for c by (simp add: demo_nenv_def)
  have b: "0 \<le> nc_outbox_batch demo_nconfig" by (simp add: demo_nconfig_def)
  have c: "claimed_events demo_nconfig ?w = [demo_event]"
    by (simp add: claimed_events_def sql_outbox_claim_def limit_rows_def demo_nconfig_def demo_event_def Let_def)
  have a: "\<not> accepts demo_nconfig ?env demo_event" by (simp add: accepts_def demo_nenv_def)
  have "map ob_status (nw_outbox (snd (run (notify_handle demo_nlib ?env) (process_batch demo_nconfig) ?w))) = [OPending]"
    by (simp add: process_batch_def publish_event_def notify_call_defs sql_outbox_claim_def sql_outbox_retry_def
        limit_rows_def update_rows_def demo_nconfig_def demo_event_def demo_nenv_def)
  with outbox_batch_settles [OF k d b, of demo_nlib] show ?thesis
    unfolding c by (auto simp: a demo_nworld_def split: prod.splits)
qed

end
