(* ===== verification/NotifyService.thy ===== *)
theory NotifyService
  imports Preferences Outbox
begin

text \<open>
  services/notification/internal/service/notification_service.go and seeder.go. The service is built with
  some of its parts missing in the worker processes (cmd/main.go passes nil): \<open>notify_wiring\<close> says
  which are there. Spans are not modelled; of a Mailpit webhook only the id is.
\<close>

section \<open>Creating a notification\<close>

record notify_wiring =
  nv_outbox :: bool
  nv_prefs :: bool

definition api_wiring :: notify_wiring where
  "api_wiring = \<lparr>nv_outbox = True, nv_prefs = True\<rparr>"

text \<open>What \<open>runSchedulerWorker\<close> passes.\<close>

definition scheduler_wiring :: notify_wiring where
  "scheduler_wiring = \<lparr>nv_outbox = False, nv_prefs = False\<rparr>"

record send_request =
  sq_user :: string
  sq_event :: string
  sq_payload :: json_map
  sq_metadata :: "json_map option"

record send_response =
  sp_notification :: string
  sp_message :: string

definition payload_recipient :: "json_map \<Rightarrow> string" where
  "payload_recipient p = (case map_of p ''recipient'' of Some (JString v) \<Rightarrow> v | _ \<Rightarrow> '''')"

text \<open>A nil \<open>outboxRepo\<close> panics inside the transaction, after the insert, which is rolled back.\<close>

definition create_with_outbox ::
  "notify_lib \<Rightarrow> notify_wiring \<Rightarrow> notification \<Rightarrow> (goerr + notification) outcome notify_prog" where
  "create_with_outbox lib wiring n =
     (if nv_outbox wiring then Call (NCreateWithOutbox n) (\<lambda>r. Return (Returned (n_notification r)))
      else
        Call (NTxInsert n) (\<lambda>r.
          case n_notification r of
            Inl err \<Rightarrow> Return (Returned (Inl err))
          | Inr created \<Rightarrow>
              (case outbox_event_of lib created of
                 Inl err \<Rightarrow> Return (Returned (Inl err))
               | Inr _ \<Rightarrow> Return (Panicked ''invalid memory address or nil pointer dereference''))))"

definition checked_recipient :: "notify_lib \<Rightarrow> string \<Rightarrow> string \<Rightarrow> goerr option" where
  "checked_recipient lib channel recipient =
     (if channel = channel_email then
        (if recipient = '''' then Some (Plain ''recipient is required for email channel'')
         else map_option (Wrap (''invalid recipient email address '' @ quote recipient @ '': '')) (nl_parse_address lib recipient))
      else None)"

text \<open>The notification, once nothing stands in its way.\<close>

definition build_notification :: "notify_lib \<Rightarrow> send_request \<Rightarrow> notif_template \<Rightarrow> goerr + notification" where
  "build_notification lib event tmpl =
     (case nl_render lib (tp_subject tmpl) (sq_payload event) of
        Inl err \<Rightarrow> Inl (Wrap ''failed to render title: '' err)
      | Inr title \<Rightarrow>
          (case nl_render lib (tp_content tmpl) (sq_payload event) of
             Inl err \<Rightarrow> Inl (Wrap ''failed to render content: '' err)
           | Inr content \<Rightarrow>
               (case (case sq_metadata event of None \<Rightarrow> Inr '''' | Some m \<Rightarrow> nl_map_json lib m) of
                  Inl err \<Rightarrow> Inl (Wrap ''failed to marshal metadata: '' err)
                | Inr metadata \<Rightarrow>
                    (let recipient = payload_recipient (sq_payload event) in
                     case checked_recipient lib (tp_channel tmpl) recipient of
                       Some err \<Rightarrow> Inl err
                     | None \<Rightarrow>
                         Inr \<lparr>nt_id = 0, nt_created = zero_time, nt_updated = zero_time, nt_event_id = '''',
                              nt_event = tp_event tmpl, nt_user = sq_user event, nt_channel = tp_channel tmpl,
                              nt_recipient = recipient, nt_subject = title, nt_content = content, nt_status = NPending,
                              nt_retry = 0, nt_next_retry = None, nt_error = '''', nt_metadata = metadata,
                              nt_scheduled = zero_time, nt_sent = None\<rparr>))))"

definition send_notification ::
  "notify_lib \<Rightarrow> notify_wiring \<Rightarrow> send_request \<Rightarrow> notif_template \<Rightarrow> (goerr + send_response) outcome notify_prog" where
  "send_notification lib wiring event tmpl =
     (case build_notification lib event tmpl of
        Inl err \<Rightarrow> Return (Returned (Inl err))
      | Inr n \<Rightarrow>
          bind (create_with_outbox lib wiring n) (\<lambda>res.
            case res of
              Panicked msg \<Rightarrow> Return (Panicked msg)
            | Returned (Inl err) \<Rightarrow> Return (Returned (Inl err))
            | Returned (Inr created) \<Rightarrow>
                Return (Returned (Inr \<lparr>sp_notification = nl_uuid_str lib (nt_id created),
                                       sp_message = ''notification sent successfully''\<rparr>))))"

definition create_from_template ::
  "notify_lib \<Rightarrow> notify_wiring \<Rightarrow> send_request \<Rightarrow> notif_template \<Rightarrow> (goerr + send_response) outcome notify_prog" where
  "create_from_template lib wiring event tmpl =
     (if nv_prefs wiring then
        bind (is_notification_enabled lib (sq_user event) (tp_event tmpl) (tp_channel tmpl)) (\<lambda>enabled.
          if enabled = Inr False
          then Return (Returned (Inr \<lparr>sp_notification = '''', sp_message = ''notification skipped - user opted out''\<rparr>))
          else send_notification lib wiring event tmpl)
      else send_notification lib wiring event tmpl)"

text \<open>What the scheduler calls.\<close>

abbreviation create_notification_with_template ::
  "notify_lib \<Rightarrow> notify_wiring \<Rightarrow> send_request \<Rightarrow> notif_template \<Rightarrow> (goerr + send_response) outcome notify_prog" where
  "create_notification_with_template \<equiv> create_from_template"


definition create_notification ::
  "notify_lib \<Rightarrow> notify_wiring \<Rightarrow> send_request \<Rightarrow> (goerr + send_response) outcome notify_prog" where
  "create_notification lib wiring event =
     Call (NTemplateGet (sq_event event)) (\<lambda>r.
       case n_template r of
         Inl err \<Rightarrow> Return (Returned (Inl (Wrap (''failed to get template for event '' @ sq_event event @ '': '') err)))
       | Inr tmpl \<Rightarrow> create_from_template lib wiring event tmpl)"

section \<open>Webhooks\<close>

definition update_status ::
  "notify_lib \<Rightarrow> string \<Rightarrow> notif_status \<Rightarrow> string \<Rightarrow> gotime option \<Rightarrow> goerr option notify_prog" where
  "update_status lib notification_id status error_message sent_at =
     (case nl_uuid_parse lib notification_id of
        Inl err \<Rightarrow> Return (Some err)
      | Inr i \<Rightarrow> Call (NUpdateDelivery i status error_message sent_at None) (\<lambda>r. Return (n_error r)))"

definition handle_mailpit_webhook :: "notify_lib \<Rightarrow> notify_config \<Rightarrow> string \<Rightarrow> goerr option notify_prog" where
  "handle_mailpit_webhook lib cfg webhook_id =
     Call (NHttpGet (nc_mailpit_url cfg @ ''/api/v1/message/'' @ webhook_id @ ''/headers'')) (\<lambda>r.
       case n_http r of
         Inl err \<Rightarrow> Return (Some (Wrap ''failed to fetch message headers from mailpit: '' err))
       | Inr (status, body) \<Rightarrow>
           if status \<noteq> 200 then
             Return (Some (Plain (''mailpit returned status '' @ dec status @ '' for message headers'')))
           else
             (case nl_headers_parse lib body of
                Inl err \<Rightarrow> Return (Some (Wrap ''failed to decode mailpit headers response: '' err))
              | Inr headers \<Rightarrow>
                  (case map_of headers ''X-Notification-Id'' of
                     Some (notification_id # _) \<Rightarrow>
                       Call NNow (\<lambda>r. update_status lib notification_id NSent '''' (Some (n_time r)))
                   | _ \<Rightarrow>
                       Return (Some (Plain (''X-Notification-Id header not found in mailpit message '' @ webhook_id))))))"

definition publish_webhook_response :: "notify_lib \<Rightarrow> notify_config \<Rightarrow> string \<Rightarrow> goerr option notify_prog" where
  "publish_webhook_response lib cfg webhook_id =
     (case nl_webhook_json lib webhook_id of
        Inl err \<Rightarrow> Return (Some (Wrap ''failed to marshal message: '' err))
      | Inr body \<Rightarrow> Call (NPublish (nc_exchange cfg) (nc_webhook_queue cfg) body) (\<lambda>r. Return (n_error r)))"

text \<open>internal/worker/webhook_worker.go, \<open>HandleMessage\<close>.\<close>

definition handle_webhook_message :: "notify_lib \<Rightarrow> notify_config \<Rightarrow> string \<Rightarrow> goerr option notify_prog" where
  "handle_webhook_message lib cfg body =
     (case nl_webhook_parse lib body of
        Inl _ \<Rightarrow> Return (Some (Sentinel ErrRejectToDLQ))
      | Inr webhook_id \<Rightarrow> handle_mailpit_webhook lib cfg webhook_id)"

section \<open>Listing\<close>

record list_request =
  lq_user :: string
  lq_status :: string
  lq_channel :: string
  lq_event :: string
  lq_from :: string
  lq_to :: string
  lq_cursor :: string
  lq_limit :: int

record notification_item =
  ni_id :: string
  ni_event :: string
  ni_channel :: string
  ni_status :: notif_status
  ni_subject :: string
  ni_recipient :: string
  ni_retry :: int
  ni_error :: string
  ni_sent :: "gotime option"
  ni_created :: gotime

record list_response =
  lr_items :: "notification_item list"
  lr_cursor :: string
  lr_more :: bool

definition encode_cursor :: "notify_lib \<Rightarrow> gotime \<Rightarrow> string \<Rightarrow> string" where
  "encode_cursor lib created_at i = nl_b64_encode lib (nl_cursor_json lib (created_at, i))"

definition decode_cursor :: "notify_lib \<Rightarrow> string \<Rightarrow> goerr + (gotime \<times> string)" where
  "decode_cursor lib s = (case nl_b64_decode lib s of Inl err \<Rightarrow> Inl err | Inr b \<Rightarrow> nl_cursor_parse lib b)"

definition to_notification_item :: "notify_lib \<Rightarrow> notification \<Rightarrow> notification_item" where
  "to_notification_item lib n =
     \<lparr>ni_id = nl_uuid_str lib (nt_id n), ni_event = nt_event n, ni_channel = nt_channel n, ni_status = nt_status n,
      ni_subject = nt_subject n, ni_recipient = nt_recipient n, ni_retry = nt_retry n, ni_error = nt_error n,
      ni_sent = nt_sent n, ni_created = nt_created n\<rparr>"

definition list_limit :: "int \<Rightarrow> int" where
  "list_limit n = (let n' = (if n \<le> 0 then 20 else n) in if n' > 100 then 100 else n')"

definition optional_time :: "notify_lib \<Rightarrow> string \<Rightarrow> string \<Rightarrow> goerr + gotime option" where
  "optional_time lib name s =
     (if s = '''' then Inr None
      else (case nl_time_parse lib s of Inl err \<Rightarrow> Inl (Wrap (''invalid '' @ name @ '': '') err) | Inr t \<Rightarrow> Inr (Some t)))"

definition parsed_cursor :: "notify_lib \<Rightarrow> string \<Rightarrow> goerr + (gotime \<times> uuid) option" where
  "parsed_cursor lib s =
     (if s = '''' then Inr None
      else
        (case decode_cursor lib s of
           Inl err \<Rightarrow> Inl (Wrap ''invalid cursor: '' err)
         | Inr (t, i) \<Rightarrow>
             (case nl_uuid_parse lib i of
                Inl err \<Rightarrow> Inl (Wrap ''invalid cursor id: '' err)
              | Inr u \<Rightarrow> Inr (Some (t, u)))))"

definition list_filter :: "notify_lib \<Rightarrow> list_request \<Rightarrow> goerr + notification_filter" where
  "list_filter lib req =
     (case optional_time lib ''from'' (lq_from req) of
        Inl err \<Rightarrow> Inl err
      | Inr from \<Rightarrow>
          (case optional_time lib ''to'' (lq_to req) of
             Inl err \<Rightarrow> Inl err
           | Inr to \<Rightarrow>
               (case parsed_cursor lib (lq_cursor req) of
                  Inl err \<Rightarrow> Inl err
                | Inr cursor \<Rightarrow>
                    Inr \<lparr>nf_user = lq_user req, nf_status = lq_status req, nf_channel = lq_channel req,
                         nf_event = lq_event req, nf_from = from, nf_to = to, nf_cursor = cursor,
                         nf_limit = list_limit (lq_limit req) + 1\<rparr>)))"

definition list_page :: "notify_lib \<Rightarrow> int \<Rightarrow> notification list \<Rightarrow> list_response" where
  "list_page lib lim rows =
     (let has_more = int (length rows) > lim;
          rows' = (if has_more then take (nat lim) rows else rows)
      in \<lparr>lr_items = map (to_notification_item lib) rows',
          lr_cursor = (if has_more \<and> rows' \<noteq> [] then encode_cursor lib (nt_created (last rows')) (nl_uuid_str lib (nt_id (last rows')))
                       else ''''),
          lr_more = has_more\<rparr>)"

definition list_notifications :: "notify_lib \<Rightarrow> list_request \<Rightarrow> (goerr + list_response) notify_prog" where
  "list_notifications lib req =
     (case list_filter lib req of
        Inl err \<Rightarrow> Return (Inl err)
      | Inr f \<Rightarrow>
          Call (NList f) (\<lambda>r.
            case n_notifications r of
              Inl err \<Rightarrow> Return (Inl err)
            | Inr rows \<Rightarrow> Return (Inr (list_page lib (list_limit (lq_limit req)) rows))))"

section \<open>internal/service/seeder.go\<close>

definition seed_templates_list :: "notif_template list" where
  "seed_templates_list =
     [\<lparr>tp_event = ''auth_otp'', tp_channel = channel_email, tp_subject = ''Your OTP Verification Code'',
       tp_content = ''Hello, your OTP code is: {{.otp}}. This code is valid for 5 minutes.''\<rparr>,
      \<lparr>tp_event = ''auth_login_alert'', tp_channel = channel_email, tp_subject = ''New Login Security Alert'',
       tp_content = ''Your account was just logged in from device {{.device}} at {{.location}}. If this wasn'' @ [CHR 0x27]
         @ ''t you, please secure your account immediately.''\<rparr>,
      \<lparr>tp_event = ''order_created'', tp_channel = channel_email, tp_subject = ''Order Confirmation - #{{.order_id}}'',
       tp_content = ''Hi {{.name}}, your order #{{.order_id}} has been successfully placed and is currently being processed.''\<rparr>,
      \<lparr>tp_event = ''payment_success'', tp_channel = channel_email, tp_subject = ''Payment Successful - Order #{{.order_id}}'',
       tp_content = ''Thank you {{.name}}, your payment of {{.amount}} {{.currency}} for order #{{.order_id}} has been processed successfully.''\<rparr>,
      \<lparr>tp_event = event_promotion, tp_channel = channel_email, tp_subject = ''Exclusive Offer: {{.campaign_name}}'',
       tp_content = ''Hello {{.name}}, you'' @ [CHR 0x27]
         @ ''ve just received a special discount! Use code {{.discount_code}} to get {{.discount_value}} off your next purchase.''\<rparr>]"

primrec seed_each :: "notif_template list \<Rightarrow> goerr option notify_prog" where
  "seed_each [] = Return None"
| "seed_each (t # ts) =
     Call (NTemplateGet (tp_event t)) (\<lambda>r.
       case n_template r of
         Inr _ \<Rightarrow> seed_each ts
       | Inl _ \<Rightarrow>
           Call (NTemplateCreate t) (\<lambda>r.
             case n_error r of
               Some err \<Rightarrow> Return (Some err)
             | None \<Rightarrow> seed_each ts))"

definition seed_templates :: "goerr option notify_prog" where
  "seed_templates = seed_each seed_templates_list"

section \<open>A notification and its event\<close>

text \<open>What a request leaves in the two tables: nothing, or a notification with its outbox event.\<close>

definition created_both :: "notify_lib \<Rightarrow> notify_world \<Rightarrow> notify_world \<Rightarrow> notification \<Rightarrow> outbox_event \<Rightarrow> bool" where
  "created_both lib w w' n ev \<longleftrightarrow>
     nw_notifications w' = nw_notifications w @ [n] \<and> nw_outbox w' = nw_outbox w @ [ev]
     \<and> nt_status n = NPending \<and> ob_status ev = OPending \<and> ob_published ev = None
     \<and> ob_aggregate ev = nt_id n \<and> ob_key ev = nt_channel n
     \<and> nl_task_json lib (outbox_task lib n) = Inr (ob_payload ev)"

definition untouched :: "notify_world \<Rightarrow> notify_world \<Rightarrow> bool" where
  "untouched w w' \<longleftrightarrow> nw_notifications w' = nw_notifications w \<and> nw_outbox w' = nw_outbox w"

lemma untouched_refl [simp]: "untouched w w" by (simp add: untouched_def)

lemma tx_creates_both:
  assumes "tx_create_with_outbox lib env fault n w = (r, w')" and "nt_status n = NPending"
  shows "(\<exists>err. r = Inl err) \<and> untouched w w' \<or> (\<exists>m ev. r = Inr m \<and> created_both lib w w' m ev)"
  using assms
  by (auto simp: tx_create_with_outbox_def nnow_def nuuid_def sql_notification_create_def outbox_event_of_def sql_outbox_create_def
      created_both_def untouched_def insert_row_def Let_def split: sum.splits option.splits if_splits)

lemma built_pending: "build_notification lib event tmpl = Inr n \<Longrightarrow> nt_status n = NPending"
  by (auto simp: build_notification_def Let_def split: sum.splits option.splits)

lemma untouched_trans: "untouched w w1 \<Longrightarrow> untouched w1 w2 \<Longrightarrow> untouched w w2"
  by (simp add: untouched_def)

lemma created_after: "untouched w w1 \<Longrightarrow> created_both lib w1 w2 n ev \<Longrightarrow> created_both lib w w2 n ev"
  by (simp add: untouched_def created_both_def)

lemma run_send_notification:
  assumes "nv_outbox wiring"
  shows "case run (notify_handle lib env) (send_notification lib wiring event tmpl) w of (res, w') \<Rightarrow>
    (\<exists>err. res = Returned (Inl err)) \<and> untouched w w'
    \<or> (\<exists>n ev resp. created_both lib w w' n ev \<and> res = Returned (Inr resp) \<and> sp_notification resp = nl_uuid_str lib (nt_id n))"
proof (cases "build_notification lib event tmpl")
  case (Inr n)
  obtain r w' where t: "tx_create_with_outbox lib env (ne_db env (NCreateWithOutbox n)) n w = (r, w')" by fastforce
  from tx_creates_both [OF t built_pending [OF Inr]] assms Inr t show ?thesis
    by (auto simp: send_notification_def create_with_outbox_def split: sum.splits)
qed (simp add: send_notification_def)

lemma calls_keep_tables:
  assumes "notify_handle lib env c w = (r, w')" and "(\<exists>k. c = NCacheGet k) \<or> (\<exists>u e ch. c = NPrefEnabled u e ch) \<or> (\<exists>e. c = NTemplateGet e)"
  shows "untouched w w'"
  using assms by (auto simp: untouched_def notify_call_defs)

lemma run_enabled_untouched:
  "untouched w (snd (run (notify_handle lib env) (is_notification_enabled lib u e ch) w))"
proof (rule run_invariant [of "\<lambda>c. (\<exists>k. c = NCacheGet k) \<or> (\<exists>u e ch. c = NPrefEnabled u e ch)"])
  show "calls_in (\<lambda>c. (\<exists>k. c = NCacheGet k) \<or> (\<exists>u e ch. c = NPrefEnabled u e ch)) (is_notification_enabled lib u e ch)"
    by (auto simp: is_notification_enabled_def cached_items_def split: sum.splits option.splits)
next
  fix c v
  assume "(\<exists>k. c = NCacheGet k) \<or> (\<exists>u e ch. c = NPrefEnabled u e ch)" "untouched w v"
  then show "untouched w (snd (notify_handle lib env c v))"
    using calls_keep_tables [of lib env c v "fst (notify_handle lib env c v)" "snd (notify_handle lib env c v)"] untouched_trans
    by (simp del: notify_handle.simps) blast
qed simp

text \<open>
  C12. The outbox is transactional: whatever fails, a request to send either leaves both tables as they were,
  or adds exactly one pending notification and one pending event for it, addressed to its channel,
  whose payload is its task; and the id it answers with is that notification's. An error answer
  and an opted-out user always mean that nothing was added.
\<close>
theorem outbox_transactional:
  "case run (notify_handle lib env) (create_notification lib api_wiring event) w of (res, w') \<Rightarrow>
    untouched w w' \<and> (\<forall>resp. res = Returned (Inr resp) \<longrightarrow> sp_notification resp = '''')
    \<or> (\<exists>n ev resp. created_both lib w w' n ev \<and> res = Returned (Inr resp) \<and> sp_notification resp = nl_uuid_str lib (nt_id n))"
proof -
  obtain r w1 where h: "notify_handle lib env (NTemplateGet (sq_event event)) w = (r, w1)" by fastforce
  have u1: "untouched w w1" using calls_keep_tables [OF h] by blast
  show ?thesis
  proof (cases "n_template r")
    case (Inl err)
    with h u1 show ?thesis by (simp add: create_notification_def del: notify_handle.simps)
  next
    case (Inr tmpl)
    let ?en = "run (notify_handle lib env) (is_notification_enabled lib (sq_user event) (tp_event tmpl) (tp_channel tmpl)) w1"
    define w2 where "w2 = snd ?en"
    have u2: "untouched w w2" unfolding w2_def by (rule untouched_trans [OF u1 run_enabled_untouched])
    show ?thesis
    proof (cases "fst ?en = Inr False")
      case True
      with h Inr u2 show ?thesis
        by (simp add: create_notification_def create_from_template_def api_wiring_def run_bind split_def w2_def
            del: notify_handle.simps)
    next
      case False
      then have r: "run (notify_handle lib env) (create_notification lib api_wiring event) w =
          run (notify_handle lib env) (send_notification lib api_wiring event tmpl) w2"
        using h Inr
        by (simp add: create_notification_def create_from_template_def api_wiring_def run_bind split_def w2_def
            del: notify_handle.simps)
      have "nv_outbox api_wiring" by (simp add: api_wiring_def)
      from run_send_notification [OF this, where lib = lib and env = env and event = event and tmpl = tmpl and w = w2]
      show ?thesis unfolding r
        by (auto split: prod.splits dest: untouched_trans [OF u2] created_after [OF u2])

    qed
  qed
qed

definition demo_request :: send_request where
  "demo_request = \<lparr>sq_user = ''u'', sq_event = ''welcome'', sq_payload = [(''recipient'', JString ''u@x'')], sq_metadata = None\<rparr>"

definition demo_template :: notif_template where
  "demo_template = \<lparr>tp_event = ''welcome'', tp_channel = ''email'', tp_subject = ''s'', tp_content = ''c''\<rparr>"

theorem outbox_transactional_witness:
  "\<exists>n ev. created_both demo_nlib (demo_nworld\<lparr>nw_templates := [demo_template]\<rparr>)
     (snd (run (notify_handle demo_nlib demo_nenv) (create_notification demo_nlib api_wiring demo_request)
        (demo_nworld\<lparr>nw_templates := [demo_template]\<rparr>))) n ev"
proof -
  let ?w = "demo_nworld\<lparr>nw_templates := [demo_template]\<rparr>"
  have "nw_notifications (snd (run (notify_handle demo_nlib demo_nenv) (create_notification demo_nlib api_wiring demo_request) ?w)) \<noteq> []"
    by (simp add: create_notification_def create_from_template_def api_wiring_def is_notification_enabled_def nread_def
        cached_items_def send_notification_def create_with_outbox_def tx_create_with_outbox_def nnow_def nuuid_def
        sql_notification_create_def outbox_event_of_def sql_outbox_create_def insert_row_def Let_def build_notification_def
        checked_recipient_def payload_recipient_def sql_template_get_def first_row_def demo_request_def demo_template_def
        sql_pref_enabled_def channel_email_def event_promotion_def demo_notify_defs split: sum.splits option.splits)
  then show ?thesis
    using outbox_transactional [where lib = demo_nlib and env = demo_nenv and event = demo_request and w = ?w]
    by (auto simp: untouched_def demo_nworld_def split: prod.splits)
qed


section \<open>Pages\<close>

text \<open>Sorting by a second key and then, stably, by a first one orders the rows lexicographically.\<close>

definition lex_le :: "('r \<Rightarrow> 'a::linorder) \<Rightarrow> ('r \<Rightarrow> 'b::linorder) \<Rightarrow> 'r \<Rightarrow> 'r \<Rightarrow> bool" where
  "lex_le f g x y \<longleftrightarrow> f x < f y \<or> f x = f y \<and> g x \<le> g y"

lemma insort_lex:
  "sorted_wrt (lex_le f g) ys \<Longrightarrow> \<forall>y\<in>set ys. g x \<le> g y \<Longrightarrow> sorted_wrt (lex_le f g) (insort_key f x ys)"
  by (induction ys) (auto simp: lex_le_def set_insort_key)

lemma sort_lex: "sorted (map g xs) \<Longrightarrow> sorted_wrt (lex_le f g) (sort_key f xs)"
  by (induction xs) (auto intro!: insort_lex)

lemma sorted_wrt_distinct:
  "sorted_wrt P xs \<Longrightarrow> distinct (map f xs) \<Longrightarrow> sorted_wrt (\<lambda>x y. P x y \<and> f x \<noteq> f y) xs"
  by (induction xs) (auto simp: image_iff)

definition newest_first :: "notification list \<Rightarrow> notification list" where
  "newest_first t = rev (sort_key nt_created (sort_key nt_id t))"

definition older :: "notification \<Rightarrow> notification \<Rightarrow> bool" where
  "older x y \<longleftrightarrow> nt_created x < nt_created y \<or> nt_created x = nt_created y \<and> nt_id x < nt_id y"

lemma newest_first_sorted:
  assumes "keyed nt_id t"
  shows "sorted_wrt (\<lambda>x y. older y x) (newest_first t)"
proof -
  let ?s = "sort_key nt_created (sort_key nt_id t)"
  have d: "distinct (map nt_id ?s)" using assms by (auto simp: keyed_def distinct_map)
  have "sorted_wrt (\<lambda>x y. lex_le nt_created nt_id x y \<and> nt_id x \<noteq> nt_id y) ?s"
    by (rule sorted_wrt_distinct [OF sort_lex d]) simp
  then have "sorted_wrt older ?s" by (rule sorted_wrt_mono_rel [rotated]) (auto simp: lex_le_def older_def)
  then show ?thesis by (simp add: newest_first_def sorted_wrt_rev)

qed

lemma filter_newest: "filter P (newest_first t) = newest_first (filter P t)"
  by (simp add: newest_first_def filter_sort rev_filter [symmetric])

text \<open>The rows before a cursor are those after the row it was made from.\<close>

lemma sorted_wrt_after:
  assumes "sorted_wrt (\<lambda>x y. older y x) xs" and "k < length xs"
  shows "filter (\<lambda>x. older x (xs ! k)) xs = drop (Suc k) xs"
  using assms
proof (induction xs arbitrary: k)
  case (Cons x xs)
  show ?case
  proof (cases k)
    case 0
    have "filter (\<lambda>y. older y x) xs = xs" using Cons.prems(1) by simp
    then show ?thesis using 0 by (simp add: older_def)
  next
    case (Suc j)
    then have "xs ! j \<in> set xs" using Cons.prems(2) by simp
    then have "older (xs ! j) x" using Cons.prems(1) by auto
    then have "\<not> older x (xs ! j)" by (auto simp: older_def)
    with Suc Cons show ?thesis by simp
  qed
qed simp

lemma before_cursor_older: "before_cursor (Some (nt_created m, nt_id m)) = (\<lambda>n. older n m)"
  by (rule ext) (simp add: before_cursor_def older_def)

text \<open>The statement of a page that starts after the first \<open>k\<close> rows.\<close>

definition cursor_after :: "notification list \<Rightarrow> nat \<Rightarrow> (gotime \<times> uuid) option" where
  "cursor_after xs k = (if k = 0 then None else Some (nt_created (xs ! (k - 1)), nt_id (xs ! (k - 1))))"

lemma sql_list_after:
  assumes "keyed nt_id (nw_notifications w)" and "nf_cursor f = cursor_after xs k"
    and "xs = newest_first (filter (filter_matches f) (nw_notifications w))" and "k \<le> length xs"
  shows "sql_list_notifications f w = limit_rows (nf_limit f) (drop k xs)"
proof -
  have "keyed nt_id (filter (filter_matches f) (nw_notifications w))"
    using assms(1) by (auto simp: keyed_def intro: distinct_map_filter)
  note s = newest_first_sorted [OF this]
  have "newest_first (filter (\<lambda>n. filter_matches f n \<and> before_cursor (nf_cursor f) n) (nw_notifications w)) =
      filter (before_cursor (nf_cursor f)) xs"
    by (simp add: assms(3) filter_newest conj_commute)
  also have "\<dots> = drop k xs"
  proof (cases k)
    case 0
    then show ?thesis using assms(2) by (simp add: cursor_after_def before_cursor_def)
  next
    case (Suc j)
    then show ?thesis
      using assms(2-4) s sorted_wrt_after [of xs j]
      by (simp add: cursor_after_def before_cursor_older)
  qed
  finally show ?thesis by (simp add: sql_list_notifications_def newest_first_def)
qed

text \<open>A client that follows the cursors.\<close>

fun collect_pages :: "notify_lib \<Rightarrow> notify_env \<Rightarrow> list_request \<Rightarrow> nat \<Rightarrow> string \<Rightarrow> notify_world \<Rightarrow> notification_item list" where
  "collect_pages lib env req 0 cursor w = []"
| "collect_pages lib env req (Suc fuel) cursor w =
     (case run (notify_handle lib env) (list_notifications lib (req\<lparr>lq_cursor := cursor\<rparr>)) w of
        (Inl _, _) \<Rightarrow> []
      | (Inr page, w') \<Rightarrow>
          lr_items page @ (if lr_more page then collect_pages lib env req fuel (lr_cursor page) w' else []))"

text \<open>Cursors and ids survive their encoding.\<close>

definition cursors_ok :: "notify_lib \<Rightarrow> bool" where
  "cursors_ok lib \<longleftrightarrow>
     (\<forall>t i. encode_cursor lib t (nl_uuid_str lib i) \<noteq> ''''
        \<and> decode_cursor lib (encode_cursor lib t (nl_uuid_str lib i)) = Inr (t, nl_uuid_str lib i)
        \<and> nl_uuid_parse lib (nl_uuid_str lib i) = Inr i)"

definition text_after :: "notify_lib \<Rightarrow> notification list \<Rightarrow> nat \<Rightarrow> string" where
  "text_after lib xs k =
     (if k = 0 then '''' else encode_cursor lib (nt_created (xs ! (k - 1))) (nl_uuid_str lib (nt_id (xs ! (k - 1)))))"

lemma list_limit_pos: "1 \<le> list_limit n"
  by (auto simp: list_limit_def Let_def)

lemma list_filter_after:
  assumes "cursors_ok lib" and "list_filter lib (req\<lparr>lq_cursor := ''''\<rparr>) = Inr f"
  shows "list_filter lib (req\<lparr>lq_cursor := text_after lib xs k\<rparr>) = Inr (f\<lparr>nf_cursor := cursor_after xs k\<rparr>)"
  using assms
  by (auto simp: list_filter_def parsed_cursor_def text_after_def cursor_after_def cursors_ok_def split: sum.splits)

lemma list_page_after:
  assumes "k \<le> length xs" and "1 \<le> L"
  shows "list_page lib L (limit_rows (L + 1) (drop k xs)) =
    \<lparr>lr_items = map (to_notification_item lib) (take (nat L) (drop k xs)),
     lr_cursor = (if k + nat L < length xs then text_after lib xs (k + nat L) else ''''),
     lr_more = (k + nat L < length xs)\<rparr>"
proof -
  have L: "nat (L + 1) = Suc (nat L)" "0 < nat L" using assms(2) by simp_all
  have r: "limit_rows (L + 1) (drop k xs) = take (Suc (nat L)) (drop k xs)" using assms(2) L by (simp add: limit_rows_def)
  have m: "L < int (length (take (Suc (nat L)) (drop k xs))) \<longleftrightarrow> k + nat L < length xs"
    using assms by auto
  show ?thesis
  proof (cases "k + nat L < length xs")
    case True
    have "last (take (nat L) (drop k xs)) = xs ! (k + nat L - 1)"
      using True L(2) by (simp add: last_conv_nth min_def)
    with True L m show ?thesis unfolding r list_page_def Let_def by (simp add: text_after_def min_def)
  next
    case False
    with m show ?thesis unfolding r list_page_def Let_def by simp
  qed
qed


lemma unary_chars: "c \<in> set (unary k) \<Longrightarrow> c = CHR ''+'' \<or> c = CHR ''-''"
  by (auto simp: unary_def split: if_splits)

lemma demo_cursors_ok: "cursors_ok demo_nlib"
proof -
  have t: "takeWhile ((\<noteq>) CHR ''/'') (unary k @ CHR ''/'' # s) = unary k"
    "dropWhile ((\<noteq>) CHR ''/'') (unary k @ CHR ''/'' # s) = CHR ''/'' # s" for k s
    using unary_chars by (subst takeWhile_append2 dropWhile_append2; fastforce)+
  show ?thesis
    by (simp add: cursors_ok_def encode_cursor_def decode_cursor_def demo_nlib_def t)
qed

definition demo_list_request :: list_request where
  "demo_list_request =
     \<lparr>lq_user = ''u'', lq_status = '''', lq_channel = '''', lq_event = '''', lq_from = '''', lq_to = '''', lq_cursor = '''', lq_limit = 1\<rparr>"


end
