(* ===== verification/Broker.thy ===== *)
theory Broker
  imports Program AppErrors GoTime
begin

text \<open>
  pkg/broker: the RabbitMQ client. The operations of the AMQP library are calls (theory Program)
  whose replies the environment decides; the state is what the server and the client keep: the open
  channels, the queues and their bindings, the consumers, what was published. Modelled are the
  life of the connection, publishing, the declaration of queues and exchanges, subscribing, the
  consumer loop and the reconnection loop. The trace headers are in theory Tracing.
\<close>

section \<open>Data\<close>

datatype amqp_arg = AStr string | AInt int

record queue_options =
  qo_prefetch :: int
  qo_args :: "(string \<times> amqp_arg) list"

record subscription =
  sub_queue :: string
  sub_exchange :: string
  sub_key :: string
  sub_opts :: queue_options
  sub_broadcast :: bool

text \<open>The calls on the AMQP connection and its channels. The reply is an error or a queue name.\<close>

datatype amqp_call =
    AChannel
  | AClose
  | APublish string string string
  | AQueueDeclare string bool "(string \<times> amqp_arg) list"
  | AExchangeDeclare string string
  | AQueueBind string string string
  | AQos int
  | AConsume string bool
  | ADeliver string

type_synonym 'a amqp_prog = "(amqp_call, goerr + string, 'a) prog"

record amqp_world =
  aw_channels :: int
  aw_published :: "(string \<times> string \<times> string) list"
  aw_consumers :: "string list"
  aw_queues :: "(string \<times> (string \<times> amqp_arg) list) list"
  aw_bindings :: "(string \<times> string \<times> string) list"

text \<open>
  \<open>answer\<close> is the reply of the server; a channel that was opened stays open until \<open>ch.Close()\<close>,
  which the model lets always succeed, or until its consumer loop ends. A declaration that the server
  accepts creates the queue if there is none of that name; a binding is the exchange, the key and
  the queue.
\<close>

fun amqp_handle :: "(amqp_call \<Rightarrow> goerr + string) \<Rightarrow> amqp_call \<Rightarrow> amqp_world \<Rightarrow> (goerr + string) \<times> amqp_world" where
  "amqp_handle answer AChannel w =
     (answer AChannel, if isl (answer AChannel) then w else w\<lparr>aw_channels := aw_channels w + 1\<rparr>)"
| "amqp_handle answer AClose w = (Inr '''', w\<lparr>aw_channels := aw_channels w - 1\<rparr>)"
| "amqp_handle answer (APublish ex key body) w =
     (answer (APublish ex key body),
      if isl (answer (APublish ex key body)) then w
      else w\<lparr>aw_published := aw_published w @ [(ex, key, body)]\<rparr>)"
| "amqp_handle answer (ADeliver topic) w = (Inr '''', w\<lparr>aw_consumers := aw_consumers w @ [topic]\<rparr>)"
| "amqp_handle answer (AQueueDeclare queue exclusive args) w =
     (answer (AQueueDeclare queue exclusive args),
      (case answer (AQueueDeclare queue exclusive args) of
         Inl _ \<Rightarrow> w
       | Inr q \<Rightarrow> if map_of (aw_queues w) q = None then w\<lparr>aw_queues := aw_queues w @ [(q, args)]\<rparr> else w))"
| "amqp_handle answer (AQueueBind queue key ex) w =
     (answer (AQueueBind queue key ex),
      if isl (answer (AQueueBind queue key ex)) then w
      else w\<lparr>aw_bindings := List.insert (ex, key, queue) (aw_bindings w)\<rparr>)"
| "amqp_handle answer c w = (answer c, w)"

definition not_open :: goerr where
  "not_open = Plain ''broker: connection is not open''"

section \<open>Publish\<close>

text \<open>\<open>data\<close> is \<open>json.Marshal(body)\<close>; the deferred close runs on every return after the channel is open.\<close>

definition broker_publish :: "bool \<Rightarrow> string \<Rightarrow> string \<Rightarrow> goerr + string \<Rightarrow> goerr option amqp_prog" where
  "broker_publish conn_open exchange routing_key data =
     (if \<not> conn_open then Return (Some not_open)
      else
        Call AChannel (\<lambda>r. case r of
          Inl err \<Rightarrow> Return (Some err)
        | Inr _ \<Rightarrow>
            (case data of
               Inl err \<Rightarrow> Call AClose (\<lambda>_. Return (Some (Wrap ''failed to marshal message: '' err)))
             | Inr body \<Rightarrow>
                 Call (APublish exchange routing_key body) (\<lambda>r. Call AClose (\<lambda>_. case r of
                   Inl err \<Rightarrow> Return (Some (Wrap ''failed to publish message: '' err))
                 | Inr _ \<Rightarrow> Return None)))))"

section \<open>Queues and exchanges\<close>

definition declare_queue_and_exchange ::
  "string \<Rightarrow> string \<Rightarrow> string \<Rightarrow> queue_options \<Rightarrow> (goerr + string) amqp_prog" where
  "declare_queue_and_exchange queue_name exchange routing_key opts =
     Call (AQueueDeclare queue_name False (qo_args opts)) (\<lambda>r. case r of
       Inl err \<Rightarrow> Return (Inl err)
     | Inr q \<Rightarrow>
         if exchange \<noteq> '''' then
           Call (AExchangeDeclare exchange ''direct'') (\<lambda>r. case r of
             Inl err \<Rightarrow> Return (Inl (Wrap ''failed to declare exchange: '' err))
           | Inr _ \<Rightarrow>
               Call (AQueueBind q routing_key exchange) (\<lambda>r. case r of
                 Inl err \<Rightarrow> Return (Inl (Wrap ''failed to bind queue to exchange: '' err))
               | Inr _ \<Rightarrow> Return (Inr q)))
         else Return (Inr q))"

definition broker_queue_declare :: "bool \<Rightarrow> string \<Rightarrow> string \<Rightarrow> string \<Rightarrow> queue_options \<Rightarrow> goerr option amqp_prog" where
  "broker_queue_declare conn_open queue_name exchange routing_key opts =
     (if \<not> conn_open then Return (Some not_open)
      else
        Call AChannel (\<lambda>r. case r of
          Inl err \<Rightarrow> Return (Some err)
        | Inr _ \<Rightarrow>
            bind (declare_queue_and_exchange queue_name exchange routing_key opts) (\<lambda>r.
              Call AClose (\<lambda>_. Return (case r of Inl err \<Rightarrow> Some err | Inr _ \<Rightarrow> None)))))"

section \<open>Subscriptions\<close>

definition subscribe_queue :: "bool \<Rightarrow> string \<Rightarrow> string \<Rightarrow> string \<Rightarrow> queue_options \<Rightarrow> goerr option amqp_prog" where
  "subscribe_queue conn_open queue_name exchange routing_key opts =
     (if \<not> conn_open then Return (Some not_open)
      else
        Call AChannel (\<lambda>r. case r of
          Inl err \<Rightarrow> Return (Some err)
        | Inr _ \<Rightarrow>
            bind (declare_queue_and_exchange queue_name exchange routing_key opts) (\<lambda>r. case r of
              Inl err \<Rightarrow> Call AClose (\<lambda>_. Return (Some err))
            | Inr q \<Rightarrow>
                (let prefetch = (if qo_prefetch opts \<le> 0 then 1 else qo_prefetch opts) in
                 Call (AQos prefetch) (\<lambda>r. case r of
                   Inl err \<Rightarrow> Call AClose (\<lambda>_. Return (Some err))
                 | Inr _ \<Rightarrow>
                     Call (AConsume q False) (\<lambda>r. case r of
                       Inl err \<Rightarrow> Call AClose (\<lambda>_. Return (Some err))
                     | Inr _ \<Rightarrow> Call (ADeliver queue_name) (\<lambda>_. Return None)))))))"

definition subscribe_broadcast :: "bool \<Rightarrow> string \<Rightarrow> goerr option amqp_prog" where
  "subscribe_broadcast conn_open exchange_name =
     (if \<not> conn_open then Return (Some not_open)
      else
        Call AChannel (\<lambda>r. case r of
          Inl err \<Rightarrow> Return (Some err)
        | Inr _ \<Rightarrow>
            Call (AExchangeDeclare exchange_name ''fanout'') (\<lambda>r. case r of
              Inl err \<Rightarrow> Return (Some err)
            | Inr _ \<Rightarrow>
                Call (AQueueDeclare '''' True []) (\<lambda>r. case r of
                  Inl err \<Rightarrow> Return (Some err)
                | Inr q \<Rightarrow>
                    Call (AQueueBind q '''' exchange_name) (\<lambda>r. case r of
                      Inl err \<Rightarrow> Return (Some err)
                    | Inr _ \<Rightarrow>
                        Call (AConsume q True) (\<lambda>r. case r of
                          Inl err \<Rightarrow> Return (Some err)
                        | Inr _ \<Rightarrow> Call (ADeliver exchange_name) (\<lambda>_. Return None)))))))"

text \<open>A subscription is recorded before it is made, so that a reconnection restores it even if it failed.\<close>

definition queue_subscribe_with_options ::
  "bool \<Rightarrow> subscription list \<Rightarrow> string \<Rightarrow> string \<Rightarrow> string \<Rightarrow> queue_options
     \<Rightarrow> subscription list \<times> goerr option amqp_prog" where
  "queue_subscribe_with_options conn_open subs queue_name exchange routing_key opts =
     (subs @ [\<lparr>sub_queue = queue_name, sub_exchange = exchange, sub_key = routing_key, sub_opts = opts,
               sub_broadcast = False\<rparr>],
      subscribe_queue conn_open queue_name exchange routing_key opts)"

definition queue_subscribe where
  "queue_subscribe conn_open subs queue_name exchange routing_key =
     queue_subscribe_with_options conn_open subs queue_name exchange routing_key \<lparr>qo_prefetch = 1, qo_args = []\<rparr>"

definition broadcast_subscribe ::
  "bool \<Rightarrow> subscription list \<Rightarrow> string \<Rightarrow> subscription list \<times> goerr option amqp_prog" where
  "broadcast_subscribe conn_open subs exchange_name =
     (subs @ [\<lparr>sub_queue = '''', sub_exchange = exchange_name, sub_key = '''',
               sub_opts = \<lparr>qo_prefetch = 0, qo_args = []\<rparr>, sub_broadcast = True\<rparr>],
      subscribe_broadcast conn_open exchange_name)"

section \<open>The connection\<close>

text \<open>
  What the client keeps of its connection; \<open>dial\<close> is the result of \<open>amqp.Dial\<close>, \<open>close_err\<close> that of
  closing the connection. \<open>NewRabbitMQ\<close> also starts \<open>handleReconnect\<close>, below.
\<close>

record client =
  cl_conn :: "bool option"
  cl_closed :: bool
  cl_subs :: "subscription list"

definition connect :: "goerr option \<Rightarrow> client \<Rightarrow> goerr option \<times> client" where
  "connect dial cl =
     (case dial of
        Some err \<Rightarrow> (Some err, cl)
      | None \<Rightarrow> (None, cl\<lparr>cl_conn := Some True\<rparr>))"

definition new_rabbitmq :: "goerr option \<Rightarrow> goerr + client" where
  "new_rabbitmq dial =
     (case connect dial \<lparr>cl_conn = None, cl_closed = False, cl_subs = []\<rparr> of
        (Some err, _) \<Rightarrow> Inl (Wrap ''failed to connect to RabbitMQ: '' err)
      | (None, cl) \<Rightarrow> Inr cl)"

definition broker_close :: "goerr option \<Rightarrow> client \<Rightarrow> goerr option \<times> client" where
  "broker_close close_err cl =
     (case cl_conn cl of
        None \<Rightarrow> (None, cl\<lparr>cl_closed := True\<rparr>)
      | Some _ \<Rightarrow> (close_err, cl\<lparr>cl_closed := True, cl_conn := Some False\<rparr>))"


section \<open>Reconnection\<close>

definition resubscribe :: "subscription \<Rightarrow> goerr option amqp_prog" where
  "resubscribe sub =
     (if sub_broadcast sub then subscribe_broadcast True (sub_exchange sub)
      else subscribe_queue True (sub_queue sub) (sub_exchange sub) (sub_key sub) (sub_opts sub))"

text \<open>Every subscription is restored; one that fails is logged and skipped.\<close>

fun restore_subs :: "subscription list \<Rightarrow> (subscription \<times> goerr option) list amqp_prog" where
  "restore_subs [] = Return []"
| "restore_subs (sub # subs) =
     bind (resubscribe sub) (\<lambda>err. bind (restore_subs subs) (\<lambda>rs. Return ((sub, err) # rs)))"

definition next_backoff :: "duration \<Rightarrow> duration" where
  "next_backoff backoff = (let b = backoff * 2; max_backoff = 60 * second in if b > max_backoff then max_backoff else b)"

text \<open>
  \<open>reestablish\<close>, given what each iteration sees: whether the client was closed, and the result of
  its attempt to connect. The result is the list of the delays slept, and whether it connected.
\<close>

fun reestablish :: "(bool \<times> goerr option) list \<Rightarrow> duration \<Rightarrow> duration list \<times> bool" where
  "reestablish [] backoff = ([], False)"
| "reestablish ((closed, err) # attempts) backoff =
     (if closed then ([], False)
      else
        (case err of
           None \<Rightarrow> ([backoff], True)
         | Some _ \<Rightarrow>
             (case reestablish attempts (next_backoff backoff) of (ds, ok) \<Rightarrow> (backoff # ds, ok))))"

definition first_backoff :: duration where "first_backoff = 2 * second"

text \<open>\<open>handleReconnect\<close>: nothing to do when the close was asked for.\<close>

definition handle_reconnect :: "bool \<Rightarrow> bool \<Rightarrow> (bool \<times> goerr option) list \<Rightarrow> duration list \<times> bool" where
  "handle_reconnect received closed attempts =
     (if \<not> received \<and> closed then ([], False) else reestablish attempts first_backoff)"

section \<open>The consumer loop\<close>

datatype delivery_outcome = Ack | NackDrop | NackRequeue

definition settle :: "goerr option \<Rightarrow> delivery_outcome" where
  "settle err =
     (case err of
        None \<Rightarrow> Ack
      | Some e \<Rightarrow> if errors_is e ErrRejectToDLQ then NackDrop else NackRequeue)"

text \<open>
  \<open>handleMessages\<close>: what the \<open>select\<close> picks at each turn, a delivery or the end of the context or of
  the channel. \<open>handler\<close> is the subscriber, with its state.
\<close>

datatype turn = Delivery string | Stopped

fun handle_messages ::
  "(string \<Rightarrow> 's \<Rightarrow> goerr option \<times> 's) \<Rightarrow> turn list \<Rightarrow> 's \<Rightarrow> (string \<times> delivery_outcome) list \<times> 's" where
  "handle_messages handler [] s = ([], s)"
| "handle_messages handler (Stopped # ts) s = ([], s)"
| "handle_messages handler (Delivery body # ts) s =
     (case handler body s of (err, s1) \<Rightarrow>
       (case handle_messages handler ts s1 of (out, s2) \<Rightarrow> ((body, settle err) # out, s2)))"

section \<open>Channels are not leaked\<close>

lemma run_declare_channels [simp]:
  "aw_channels (snd (run (amqp_handle a) (declare_queue_and_exchange q ex key opts) w)) = aw_channels w"
  by (auto simp: declare_queue_and_exchange_def split: sum.splits)

lemma run_declare_consumers [simp]:
  "aw_consumers (snd (run (amqp_handle a) (declare_queue_and_exchange q ex key opts) w)) = aw_consumers w"
  by (auto simp: declare_queue_and_exchange_def split: sum.splits)

lemma subscribe_queue_channels:
  "(let (err, w') = run (amqp_handle a) (subscribe_queue co q ex key opts) w in
     if err = None then aw_channels w' = aw_channels w + 1 \<and> aw_consumers w' = aw_consumers w @ [q]
     else aw_channels w' = aw_channels w \<and> aw_consumers w' = aw_consumers w)"
  by (auto simp: subscribe_queue_def run_bind split_def Let_def split: sum.splits)

text \<open>
  The client opens as many channels as it needs: whatever the server answers, \<open>Publish\<close> and
  \<open>QueueDeclare\<close> leave no channel open, \<open>subscribeQueue\<close> leaves one open exactly when it started a
  consumer, and a message is handed to the server exactly when \<open>Publish\<close> reports no error. (The same
  is not true of \<open>subscribeBroadcast\<close>: see \<open>broadcast_leaks_channel\<close>.)
\<close>
theorem channels_balanced:
  "(let (err, w') = run (amqp_handle a) (broker_publish co ex key data) w in
      aw_channels w' = aw_channels w \<and>
      aw_published w' = aw_published w @ (if err = None then [(ex, key, projr data)] else []))
   \<and> aw_channels (snd (run (amqp_handle a) (broker_queue_declare co q ex key opts) w)) = aw_channels w
   \<and> (let (err, w') = run (amqp_handle a) (subscribe_queue co q ex key opts) w in
       aw_channels w' = aw_channels w + (if err = None then 1 else 0) \<and>
       aw_consumers w' = aw_consumers w @ (if err = None then [q] else []))"
proof (intro conjI)
  show "let (err, w') = run (amqp_handle a) (broker_publish co ex key data) w in
      aw_channels w' = aw_channels w \<and>
      aw_published w' = aw_published w @ (if err = None then [(ex, key, projr data)] else [])"
    by (auto simp: broker_publish_def split: sum.splits)
  show "aw_channels (snd (run (amqp_handle a) (broker_queue_declare co q ex key opts) w)) = aw_channels w"
    by (auto simp: broker_queue_declare_def run_bind split_def split: sum.splits)
  show "let (err, w') = run (amqp_handle a) (subscribe_queue co q ex key opts) w in
       aw_channels w' = aw_channels w + (if err = None then 1 else 0) \<and>
       aw_consumers w' = aw_consumers w @ (if err = None then [q] else [])"
    using subscribe_queue_channels [of a co q ex key opts w] by (auto simp: Let_def split: if_splits)
qed

text \<open>A broadcast subscription that fails after its channel was opened leaves the channel open.\<close>

lemma broadcast_leaks_channel:
  assumes "a AChannel = Inr c" and "a (AExchangeDeclare ex ''fanout'') = Inl e"
  shows "run (amqp_handle a) (subscribe_broadcast True ex) w = (Some e, w\<lparr>aw_channels := aw_channels w + 1\<rparr>)"
  using assms by (simp add: subscribe_broadcast_def)

section \<open>Delays\<close>

fun backoffs :: "nat \<Rightarrow> duration" where
  "backoffs 0 = first_backoff"
| "backoffs (Suc n) = next_backoff (backoffs n)"

lemma backoffs_closed: "backoffs n = min (2 ^ Suc n * second) (60 * second)"
proof (induction n)
  case 0
  have "2 * second \<le> 60 * second" using duration_simps(1) by linarith
  then show ?case by (simp add: first_backoff_def)
next
  case (Suc n)
  then show ?case using duration_simps(1)
    by (auto simp: next_backoff_def Let_def min_def)
qed

lemma reestablish_delays:
  "list_all (\<lambda>(closed, err). \<not> closed \<and> err \<noteq> None) fails \<Longrightarrow>
   reestablish (fails @ (False, None) # rest) (backoffs n) = (map backoffs [n ..< n + Suc (length fails)], True)"
proof (induction fails arbitrary: n)
  case (Cons x fails)
  obtain closed err where x: "x = (closed, err)" by (cases x)
  with Cons.prems obtain e where e: "closed = False" "err = Some e" by auto
  have "reestablish (fails @ (False, None) # rest) (next_backoff (backoffs n)) =
      (map backoffs [Suc n ..< Suc n + Suc (length fails)], True)"
    using Cons.IH [of "Suc n"] Cons.prems by (simp del: upt_Suc)
  moreover have "map backoffs [n ..< n + Suc (length (x # fails))] =
      backoffs n # map backoffs [Suc n ..< Suc n + Suc (length fails)]"
    by (subst upt_conv_Cons) (simp_all del: upt_Suc)
  ultimately show ?case using x e by (simp del: upt_Suc)
qed simp


text \<open>
  Reconnection backs off exponentially and without giving up: if the first n attempts fail and
  the next succeeds while the client is not closed, it slept before attempt k for the smaller of
  2^(k+1) seconds and 60 seconds, made exactly n + 1 attempts, and is connected.
\<close>
theorem reconnect_backoff:
  assumes "list_all (\<lambda>(closed, err). \<not> closed \<and> err \<noteq> None) fails"
  shows "handle_reconnect True closed (fails @ (False, None) # rest) =
    (map (\<lambda>k. min (2 ^ Suc k * second) (60 * second)) [0 ..< Suc (length fails)], True)"
  using reestablish_delays [OF assms, of rest 0]
  by (simp add: handle_reconnect_def backoffs_closed [symmetric] del: upt_Suc power_Suc)

theorem reconnect_backoff_witness:
  "fst (handle_reconnect True False (replicate 6 (False, Some (Plain ''refused'')) @ [(False, None)])) =
     map (\<lambda>s. s * second) [2, 4, 8, 16, 32, 60, 60]"
  using reconnect_backoff [of "replicate 6 (False, Some (Plain ''refused''))" False "[]"]
  by (simp add: eval_nat_numeral second_def)

section \<open>Acknowledgement\<close>

text \<open>
  Every delivery the consumer loop takes is settled once, in order: acknowledged when the handler
  returns no error, dropped to the dead letter queue when its error is or wraps \<open>ErrRejectToDLQ\<close>, and
  requeued on any other error; nothing is settled after the context ended or the channel closed.
\<close>
theorem consumer_settles_each:
  "map fst (fst (handle_messages handler (map Delivery bodies @ Stopped # ts) s)) = bodies
   \<and> length (fst (handle_messages handler (map Delivery bodies @ Stopped # ts) s)) = length bodies
   \<and> (settle err = Ack) = (err = None)
   \<and> (settle (Some e) = NackDrop) = errors_is e ErrRejectToDLQ
   \<and> (settle (Some e) = NackRequeue) = (\<not> errors_is e ErrRejectToDLQ)
   \<and> settle (Some (Wrap m (Sentinel ErrRejectToDLQ))) = NackDrop"
proof -
  have "map fst (fst (handle_messages handler (map Delivery bodies @ Stopped # ts) s)) = bodies" for s
    by (induction bodies arbitrary: s) (simp_all add: split_def)
  moreover from this have "length (fst (handle_messages handler (map Delivery bodies @ Stopped # ts) s)) = length bodies"
    by (metis length_map)
  ultimately show ?thesis by (auto simp: settle_def split: option.splits)
qed

end
