(* ===== verification/Emails.thy ===== *)
theory Emails
  imports NotifyCalls Broker
begin

text \<open>
  services/notification/internal/worker/email_worker.go: the consumers of the email and campaign.email
  queues. A handler returns the error the consumer loop of theory Broker settles its message with.
  The metrics are added in theory Metrics.
\<close>

section \<open>The worker\<close>

definition retry_delay :: "int \<Rightarrow> duration" where
  "retry_delay retry_count =
     (let delays = [1 * minute, 5 * minute, 15 * minute] in
      if retry_count < int (length delays) then delays ! nat retry_count else last delays)"

text \<open>\<open>broker.Publish\<close> of a value: it is marshalled first.\<close>

definition npublish :: "string \<Rightarrow> string \<Rightarrow> goerr + string \<Rightarrow> (goerr option \<Rightarrow> 'a notify_prog) \<Rightarrow> 'a notify_prog" where
  "npublish exchange key json k =
     (case json of
        Inl err \<Rightarrow> k (Some (Wrap ''failed to marshal message: '' err))
      | Inr body \<Rightarrow> Call (NPublish exchange key body) (\<lambda>r. k (n_error r)))"

definition send_email :: "notify_config \<Rightarrow> string \<Rightarrow> string \<Rightarrow> string \<Rightarrow> string \<Rightarrow> goerr option notify_prog" where
  "send_email cfg i to subject body =
     (if to = '''' then Return (Some (Plain ''recipient email address is empty''))
      else Call (NSendMail to (nc_smtp_from cfg) (mail_body to subject i body)) (\<lambda>r. Return (n_error r)))"

text \<open>\<open>id, _ := uuid.Parse(s)\<close>: the nil uuid when it does not parse.\<close>

definition uuid_or_nil :: "notify_lib \<Rightarrow> string \<Rightarrow> uuid" where
  "uuid_or_nil lib s = (case nl_uuid_parse lib s of Inl _ \<Rightarrow> 0 | Inr i \<Rightarrow> i)"

definition handle_email :: "notify_lib \<Rightarrow> notify_config \<Rightarrow> string \<Rightarrow> goerr option notify_prog" where
  "handle_email lib cfg body =
     (case nl_task_parse lib body of
        Inl _ \<Rightarrow> Return (Some (Sentinel ErrRejectToDLQ))
      | Inr task \<Rightarrow>
          bind (send_email cfg (nk_notification task) (nk_recipient task)
                  (data_get ''subject'' (nk_data task)) (data_get ''content'' (nk_data task))) (\<lambda>err.
            case err of
              Some e \<Rightarrow>
                if errors_is e ErrCircuitBreakerOpen then Return (Some e)
                else if nk_retry task < nc_max_retries cfg then
                  (let task' = task\<lparr>nk_retry := nk_retry task + 1\<rparr> in
                   npublish (nc_exchange cfg @ ''.retry'') (channel_email @ ''.retry'') (nl_task_json lib task') (\<lambda>publish_err.
                     case publish_err of Some _ \<Rightarrow> Return (Some e) | None \<Rightarrow> Return None))
                else
                  Call (NUpdateDelivery (uuid_or_nil lib (nk_notification task)) NFailed (error_text e) None (Some (nk_retry task)))
                    (\<lambda>_. Return (Some (Sentinel ErrRejectToDLQ)))
            | None \<Rightarrow>
                Call (NUpdateDelivery (uuid_or_nil lib (nk_notification task)) NDelivering
                        ''Waiting for webhook confirmation'' None (Some (nk_retry task)))
                  (\<lambda>_. Return None)))"

definition insert_campaign_audit :: "campaign_task \<Rightarrow> notif_status \<Rightarrow> string \<Rightarrow> 'a notify_prog \<Rightarrow> 'a notify_prog" where
  "insert_campaign_audit task status err_msg k =
     Call NNow (\<lambda>r.
     Call (NCreate \<lparr>nt_id = 0, nt_created = zero_time, nt_updated = zero_time, nt_event_id = '''',
                    nt_event = ck_event task, nt_user = ck_user task, nt_channel = ck_channel task,
                    nt_recipient = ck_recipient task, nt_subject = ck_subject task, nt_content = ck_content task,
                    nt_status = status, nt_retry = 0, nt_next_retry = None, nt_error = err_msg,
                    nt_metadata = ''{'' @ [CHR 0x22] @ ''campaign_id'' @ [CHR 0x22] @ '':'' @ [CHR 0x22] @ ck_campaign task
                                  @ [CHR 0x22] @ ''}'',
                    nt_scheduled = zero_time,
                    nt_sent = (if status = NSent then Some (n_time r) else None)\<rparr>) (\<lambda>_. k))"

definition insert_campaign_recipient :: "uuid \<Rightarrow> string \<Rightarrow> string \<Rightarrow> string \<Rightarrow> 'a notify_prog \<Rightarrow> 'a notify_prog" where
  "insert_campaign_recipient campaign_id user_id recipient status k =
     Call (NRecipientCreate \<lparr>rp_campaign = campaign_id, rp_user = user_id, rp_recipient = recipient, rp_status = status\<rparr>) (\<lambda>_. k)"

definition handle_campaign_email :: "notify_lib \<Rightarrow> notify_config \<Rightarrow> string \<Rightarrow> goerr option notify_prog" where
  "handle_campaign_email lib cfg body =
     (case nl_campaign_parse lib body of
        Inl err \<Rightarrow> Return (Some err)
      | Inr task \<Rightarrow>
          bind (send_email cfg (''campaign:'' @ ck_campaign task @ '':'' @ ck_user task) (ck_recipient task)
                  (ck_subject task) (ck_content task)) (\<lambda>send_err.
            let campaign_id = uuid_or_nil lib (ck_campaign task) in
            case send_err of
              Some e \<Rightarrow>
                if errors_is e ErrCircuitBreakerOpen then Return (Some e)
                else
                  insert_campaign_audit task NFailed (error_text e)
                    (insert_campaign_recipient campaign_id (ck_user task) (ck_recipient task) ''failed''
                      (Call (NCampaignIncrement campaign_id ''failed_count'') (\<lambda>_. Return (Some e))))
            | None \<Rightarrow>
                Call NNow (\<lambda>_.
                  insert_campaign_audit task NSent ''''
                    (insert_campaign_recipient campaign_id (ck_user task) (ck_recipient task) ''sent''
                      (Call (NCampaignIncrement campaign_id ''sent_count'') (\<lambda>_. Return None))))))"

section \<open>Sending through the breaker\<close>

lemma run_send_email:
  "to \<noteq> '''' \<Longrightarrow> run (notify_handle lib env) (send_email cfg i to subject body) w =
     breaker_send env to (mail_body to subject i body) w"
  by (simp add: send_email_def split: prod.splits)

lemma breaker_send_due:
  assumes "cb_state (nw_breaker w) = Open" and "ne_clock env (nw_ticks w) - cb_last_failure (nw_breaker w) > cb_open_duration (nw_breaker w)"
  shows "breaker_send env to msg w =
    (None, w\<lparr>nw_ticks := Suc (Suc (nw_ticks w)), nw_breaker := (nw_breaker w)\<lparr>cb_state := HalfOpen\<rparr>\<rparr>)"
  using assms by (simp add: breaker_send_def nnow_def cb_execute_def)

lemma breaker_send_accepted:
  assumes "cb_state (nw_breaker w) = Closed" and "ne_smtp env to msg = None"
  shows "breaker_send env to msg w =
    (None, w\<lparr>nw_ticks := Suc (Suc (nw_ticks w)), nw_mails := nw_mails w @ [(to, msg)],
              nw_breaker := (nw_breaker w)\<lparr>cb_failures := 0\<rparr>\<rparr>)"
  using assms by (simp add: breaker_send_def nnow_def cb_execute_def smtp_send_def)

lemma breaker_send_refused:
  assumes "cb_state (nw_breaker w) = Closed" and "cb_failures (nw_breaker w) + 1 < cb_max_failures (nw_breaker w)"
    and "ne_smtp env to msg = Some e"
  shows "breaker_send env to msg w =
    (Some e, w\<lparr>nw_ticks := Suc (Suc (nw_ticks w)),
               nw_breaker := (nw_breaker w)\<lparr>cb_failures := cb_failures (nw_breaker w) + 1\<rparr>\<rparr>)"
  using assms by (simp add: breaker_send_def nnow_def cb_execute_def smtp_send_def Let_def)

section \<open>A message that is lost\<close>

text \<open>
  C24. A notification can be lost at the breaker: the first message handled after the breaker's open
  period is acknowledged although no mail was handed to the mail server, nothing was published for
  a retry, and its row, if the update goes through, says it is being delivered.
\<close>
theorem email_lost:
  assumes "nl_task_parse lib body = Inr task" and "nk_recipient task \<noteq> ''''"
    and "nl_uuid_parse lib (nk_notification task) = Inr i" and "by_key nt_id i (nw_notifications w) = Some n"
    and "cb_state (nw_breaker w) = Open"
    and "ne_clock env (nw_ticks w) - cb_last_failure (nw_breaker w) > cb_open_duration (nw_breaker w)"
    and "\<forall>c. ne_db env c = None"
  shows "case run (notify_handle lib env) (handle_email lib cfg body) w of (err, w') \<Rightarrow>
    settle err = Ack \<and> nw_mails w' = nw_mails w \<and> nw_published w' = nw_published w
    \<and> map_option nt_status (by_key nt_id i (nw_notifications w')) = Some NDelivering"
  using assms by_key_Some [OF assms(4)]
  by (simp add: handle_email_def run_bind run_send_email breaker_send_due notify_call_defs settle_def uuid_or_nil_def
      sql_update_delivery_def by_key_update_rows)

theorem email_lost_witness:
  "case run (notify_handle demo_nlib demo_nenv) (handle_email demo_nlib demo_nconfig ''+'')
      (demo_nworld\<lparr>nw_notifications := [demo_notification], nw_ticks := nat (2 * minute),
                   nw_breaker := (new_breaker 5 minute)\<lparr>cb_state := Open\<rparr>\<rparr>) of (err, w') \<Rightarrow>
    settle err = Ack \<and> nw_mails w' = [] \<and> nw_published w' = []
    \<and> map_option nt_status (by_key nt_id 1 (nw_notifications w')) = Some NDelivering"
proof -
  let ?w = "demo_nworld\<lparr>nw_notifications := [demo_notification], nw_ticks := nat (2 * minute),
                   nw_breaker := (new_breaker 5 minute)\<lparr>cb_state := Open\<rparr>\<rparr>"
  have p: "nl_task_parse demo_nlib ''+'' = Inr (demo_task\<lparr>nk_retry := 1\<rparr>)"
    "nl_uuid_parse demo_nlib ''+'' = Inr 1" by (simp_all add: demo_nlib_def unary_parse_def)
  have b: "by_key nt_id 1 (nw_notifications ?w) = Some demo_notification" by (simp add: by_key_def demo_notification_def)
  have d: "ne_clock demo_nenv (nw_ticks ?w) - cb_last_failure (nw_breaker ?w) > cb_open_duration (nw_breaker ?w)"
    by (simp add: demo_nenv_def new_breaker_def minute_def second_def zero_time_def)
  have l: "nl_uuid_parse demo_nlib (nk_notification (demo_task\<lparr>nk_retry := 1\<rparr>)) = Inr 1"
    "nk_recipient (demo_task\<lparr>nk_retry := 1\<rparr>) \<noteq> ''''" "cb_state (nw_breaker ?w) = Open" "\<forall>c. ne_db demo_nenv c = None"
    using p(2) by (simp_all add: demo_task_def demo_nenv_def)
  have e: "nw_mails ?w = []" "nw_published ?w = []" by (simp_all add: demo_nworld_def)
  from email_lost [OF p(1) l(2) l(1) b l(3) d l(4), of demo_nconfig] show ?thesis unfolding e .
qed


section \<open>A message that cannot be sent\<close>

text \<open>
  The life of a message on the email queue: each delivery is handled and settled; one that was
  acknowledged and published to the retry queue comes back (that queue dead-letters to the email
  queue), at most \<open>fuel\<close> times.
\<close>

fun email_life ::
  "notify_lib \<Rightarrow> notify_env \<Rightarrow> notify_config \<Rightarrow> nat \<Rightarrow> string \<Rightarrow> notify_world \<Rightarrow> delivery_outcome list \<times> notify_world" where
  "email_life lib env cfg 0 body w = ([], w)"
| "email_life lib env cfg (Suc fuel) body w =
     (case run (notify_handle lib env) (handle_email lib cfg body) w of
        (err, w') \<Rightarrow>
          if err = None \<and> length (nw_published w) < length (nw_published w')
          then (case email_life lib env cfg fuel (snd (snd (last (nw_published w')))) w' of
                  (outs, w'') \<Rightarrow> (settle err # outs, w''))
          else ([settle err], w'))"

text \<open>JSON round-trips a task, whatever its retry count.\<close>

definition task_json_ok :: "notify_lib \<Rightarrow> notification_task \<Rightarrow> bool" where
  "task_json_ok lib task \<longleftrightarrow>
     (\<forall>k. \<exists>body. nl_task_json lib (task\<lparr>nk_retry := k\<rparr>) = Inr body
                \<and> nl_task_parse lib body = Inr (task\<lparr>nk_retry := k\<rparr>))"

text \<open>The last delivery: the notification is marked as failed and the message is dropped.\<close>

lemma run_email_exhausted:
  assumes "nl_task_parse lib body = Inr task" and "nk_recipient task \<noteq> ''''"
    and "nk_retry task = nc_max_retries cfg" and "nl_uuid_parse lib (nk_notification task) = Inr i"
    and "\<And>c. ne_db env c = None" and "\<And>to msg. ne_smtp env to msg = Some (Plain m)"
    and "by_key nt_id i (nw_notifications w) = Some n"
    and "cb_state (nw_breaker w) = Closed" and "cb_failures (nw_breaker w) + 1 < cb_max_failures (nw_breaker w)"
  shows "case run (notify_handle lib env) (handle_email lib cfg body) w of (err, w') \<Rightarrow>
    err = Some (Sentinel ErrRejectToDLQ) \<and> nw_mails w' = nw_mails w \<and> nw_published w' = nw_published w
    \<and> (\<exists>n'. by_key nt_id i (nw_notifications w') = Some n' \<and> nt_status n' = NFailed \<and> nt_retry n' = nc_max_retries cfg)"
  using assms by_key_Some [OF assms(7)]
  by (simp add: handle_email_def run_bind run_send_email breaker_send_refused notify_call_defs
      uuid_or_nil_def sql_update_delivery_def by_key_update_rows)


lemma email_life_refused:
  assumes "task_json_ok lib task" and "nk_recipient task \<noteq> ''''"
    and "nl_uuid_parse lib (nk_notification task) = Inr i"
    and "\<forall>c. ne_db env c = None" and "\<forall>ex key b. ne_publish env ex key b = None"
    and "\<forall>to msg. ne_smtp env to msg = Some (Plain m)"
  shows "nl_task_parse lib body = Inr (task\<lparr>nk_retry := nc_max_retries cfg - int k\<rparr>) \<Longrightarrow>
    by_key nt_id i (nw_notifications w) = Some n \<Longrightarrow>
    cb_state (nw_breaker w) = Closed \<Longrightarrow>
    cb_failures (nw_breaker w) + int k + 1 < cb_max_failures (nw_breaker w) \<Longrightarrow> k < fuel \<Longrightarrow>
    case email_life lib env cfg fuel body w of (outs, w') \<Rightarrow>
      outs = replicate k Ack @ [NackDrop] \<and> nw_mails w' = nw_mails w
      \<and> (\<exists>n'. by_key nt_id i (nw_notifications w') = Some n' \<and> nt_status n' = NFailed \<and> nt_retry n' = nc_max_retries cfg)"
proof (induction k arbitrary: body w fuel)
  case 0
  then obtain f where f: "fuel = Suc f" by (cases fuel) auto
  have "case run (notify_handle lib env) (handle_email lib cfg body) w of (err, w') \<Rightarrow>
      err = Some (Sentinel ErrRejectToDLQ) \<and> nw_mails w' = nw_mails w \<and> nw_published w' = nw_published w
      \<and> (\<exists>n'. by_key nt_id i (nw_notifications w') = Some n' \<and> nt_status n' = NFailed \<and> nt_retry n' = nc_max_retries cfg)"
    using 0 assms(2-6) by (intro run_email_exhausted [of _ _ "task\<lparr>nk_retry := nc_max_retries cfg\<rparr>"]) simp_all
  then show ?case by (auto simp: f settle_def split: prod.splits)
next
  case (Suc k)
  then obtain f where f: "fuel = Suc f" "k < f" by (cases fuel) auto
  let ?task' = "task\<lparr>nk_retry := nc_max_retries cfg - int k\<rparr>"
  obtain body' where body': "nl_task_json lib ?task' = Inr body'" "nl_task_parse lib body' = Inr ?task'"
    using assms(1) by (auto simp: task_json_ok_def)
  let ?w' = "w\<lparr>nw_ticks := Suc (Suc (nw_ticks w)),
               nw_breaker := (nw_breaker w)\<lparr>cb_failures := cb_failures (nw_breaker w) + 1\<rparr>,
               nw_published := nw_published w @ [(nc_exchange cfg @ ''.retry'', channel_email @ ''.retry'', body')]\<rparr>"
  have r: "run (notify_handle lib env) (handle_email lib cfg body) w = (None, ?w')"
    using Suc.prems assms(2,5,6) body'(1)
    by (simp add: handle_email_def run_bind run_send_email breaker_send_refused npublish_def Let_def algebra_simps)
  have "case email_life lib env cfg f body' ?w' of (outs, w') \<Rightarrow>
      outs = replicate k Ack @ [NackDrop] \<and> nw_mails w' = nw_mails ?w'
      \<and> (\<exists>n'. by_key nt_id i (nw_notifications w') = Some n' \<and> nt_status n' = NFailed \<and> nt_retry n' = nc_max_retries cfg)"
    using Suc.prems f(2) body'(2) by (intro Suc.IH) simp_all
  with r show ?case by (auto simp: f(1) settle_def)
qed



end
