(* ===== verification/Campaigns.thy ===== *)
theory Campaigns
  imports Emails
begin

text \<open>
  Campaigns: services/notification/internal/service/campaign_service.go, the dispatcher
  internal/worker/campaign_worker.go, and the client of the identity service's user stream,
  internal/grpc/identity_client.go. Metrics, spans and logs are not modelled; \<open>float64\<close> progress is
  left as the fraction it is computed from.
\<close>

section \<open>internal/service/campaign_service.go\<close>

record create_campaign_request =
  cq_title :: string
  cq_subject :: string
  cq_content :: string
  cq_channel :: string
  cq_event :: string
  cq_scheduled :: gotime
  cq_audience :: string
  cq_role :: string

record create_campaign_response =
  cr_campaign :: string
  cr_total :: int
  cr_scheduled :: gotime
  cr_message :: string

record campaign_stats_response =
  sr_campaign :: string
  sr_status :: campaign_status
  sr_total :: int
  sr_cursor :: string
  sr_dispatched :: int
  sr_sent :: int
  sr_failed :: int
  sr_pending :: int
  sr_progress :: "int \<times> int"

definition create_campaign :: "notify_lib \<Rightarrow> create_campaign_request \<Rightarrow> (goerr + create_campaign_response) notify_prog" where
  "create_campaign lib req =
     Call NNow (\<lambda>r.
       if \<not> n_time r < cq_scheduled req then Return (Inl (Plain ''scheduled_at must be in the future''))
       else
         (let target_audience = (if cq_audience req = '''' then ''all_users'' else cq_audience req) in
          case nl_filter_json lib (cq_role req) of
            Inl err \<Rightarrow> Return (Inl (Wrap ''invalid filter: '' err))
          | Inr filter_json \<Rightarrow>
              Call (NCampaignCreate
                \<lparr>cp_id = 0, cp_title = cq_title req, cp_subject = cq_subject req, cp_content = cq_content req,
                 cp_channel = cq_channel req, cp_event = cq_event req, cp_audience = target_audience,
                 cp_filter = filter_json, cp_status = CPending, cp_scheduled = cq_scheduled req,
                 cp_total = 0, cp_cursor = '''', cp_dispatched = 0, cp_sent = 0, cp_failed = 0, cp_updated = zero_time\<rparr>)
                (\<lambda>r. case n_campaign r of
                   Inl err \<Rightarrow> Return (Inl err)
                 | Inr campaign \<Rightarrow>
                     Return (Inr \<lparr>cr_campaign = nl_uuid_str lib (cp_id campaign), cr_total = 0,
                                  cr_scheduled = cp_scheduled campaign, cr_message = ''campaign created successfully''\<rparr>))))"

definition get_campaign_stats :: "notify_lib \<Rightarrow> string \<Rightarrow> (goerr + campaign_stats_response) notify_prog" where
  "get_campaign_stats lib campaign_id =
     (case nl_uuid_parse lib campaign_id of
        Inl err \<Rightarrow> Return (Inl (Wrap ''invalid campaign id: '' err))
      | Inr i \<Rightarrow>
          Call (NCampaignGet i) (\<lambda>r. case n_campaign r of
            Inl err \<Rightarrow> Return (Inl err)
          | Inr campaign \<Rightarrow>
              Call (NCampaignGet i) (\<lambda>r. case map_sum id stats_of (n_campaign r) of
                Inl err \<Rightarrow> Return (Inl err)
              | Inr stats \<Rightarrow>
                  Return (Inr
                    \<lparr>sr_campaign = nl_uuid_str lib (cp_id campaign), sr_status = cp_status campaign,
                     sr_total = cs_total stats, sr_cursor = cs_cursor stats, sr_dispatched = cs_dispatched stats,
                     sr_sent = cs_sent stats, sr_failed = cs_failed stats, sr_pending = cs_pending stats,
                     sr_progress = (if cs_total stats > 0 then (cs_sent stats + cs_failed stats, cs_total stats) else (0, 1))\<rparr>))))"

section \<open>internal/grpc/identity_client.go\<close>

text \<open>
  \<open>StreamUsers\<close> hands every user it receives to the callback \<open>fn\<close>, which has a state \<open>s\<close> of its own, and
  stops at its first error. \<open>NStream\<close> answers with the users the stream delivers and how it ends.
\<close>

primrec stream_each ::
  "(stream_user \<Rightarrow> 's \<Rightarrow> (goerr option \<times> 's) notify_prog) \<Rightarrow> stream_user list \<Rightarrow> goerr option \<Rightarrow> 's
     \<Rightarrow> (goerr option \<times> 's) notify_prog" where
  "stream_each fn [] end_err s = Return (map_option (Wrap ''StreamUsers recv: '') end_err, s)"
| "stream_each fn (u # us) end_err s =
     bind (fn u s) (\<lambda>(err, s'). case err of Some e \<Rightarrow> Return (Some e, s') | None \<Rightarrow> stream_each fn us end_err s')"

definition client_stream_users where
  "client_stream_users role cursor batch_size fn s =
     Call (NStream role cursor batch_size) (\<lambda>r.
       case n_users r of
         Inl err \<Rightarrow> Return (Some (Wrap ''open StreamUsers: '' err), s)
       | Inr (us, end_err) \<Rightarrow> stream_each fn us end_err s)"

section \<open>internal/worker/campaign_worker.go\<close>

definition campaign_email_routing_key :: string where
  "campaign_email_routing_key = ''campaign.email''"

definition campaign_task_for :: "notify_lib \<Rightarrow> campaign \<Rightarrow> stream_user \<Rightarrow> campaign_task" where
  "campaign_task_for lib campaign u =
     \<lparr>ck_campaign = nl_uuid_str lib (cp_id campaign), ck_user = su_id u, ck_event = cp_event campaign,
      ck_recipient = su_email u, ck_channel = cp_channel campaign, ck_subject = cp_subject campaign,
      ck_content = cp_content campaign\<rparr>"

primrec try_publish_batch :: "notify_lib \<Rightarrow> notify_config \<Rightarrow> campaign \<Rightarrow> stream_user list \<Rightarrow> goerr option notify_prog" where
  "try_publish_batch lib cfg campaign [] = Return None"
| "try_publish_batch lib cfg campaign (u # us) =
     npublish (nc_exchange cfg) campaign_email_routing_key (nl_campaign_json lib (campaign_task_for lib campaign u))
       (\<lambda>err. case err of Some e \<Rightarrow> Return (Some e) | None \<Rightarrow> try_publish_batch lib cfg campaign us)"

definition max_publish_retries :: nat where "max_publish_retries = 5"

text \<open>The loop of \<open>publishBatch\<close>, with the attempts that are left.\<close>

primrec publish_attempts ::
  "notify_lib \<Rightarrow> notify_config \<Rightarrow> campaign \<Rightarrow> stream_user list \<Rightarrow> nat \<Rightarrow> goerr option notify_prog" where
  "publish_attempts lib cfg campaign users 0 =
     Return (Some (Plain (''failed to publish batch after '' @ dec (int max_publish_retries) @ '' retries'')))"
| "publish_attempts lib cfg campaign users (Suc n) =
     (let attempt = int max_publish_retries - int (Suc n) in
      bind (try_publish_batch lib cfg campaign users) (\<lambda>err.
        case err of
          None \<Rightarrow> Return None
        | Some e \<Rightarrow>
            if errors_is e ErrQueueFull then
              Call (NSleep ((attempt + 1) * 5 * second)) (\<lambda>r.
                case n_error r of
                  Some ctx_err \<Rightarrow> Return (Some ctx_err)
                | None \<Rightarrow> publish_attempts lib cfg campaign users n)
            else Return (Some e)))"

definition publish_batch :: "notify_lib \<Rightarrow> notify_config \<Rightarrow> campaign \<Rightarrow> stream_user list \<Rightarrow> goerr option notify_prog" where
  "publish_batch lib cfg campaign users = publish_attempts lib cfg campaign users max_publish_retries"

text \<open>The callback of \<open>dispatchCampaign\<close>: its state is \<open>batch\<close> and \<open>cursor\<close>.\<close>

definition dispatch_user ::
  "notify_lib \<Rightarrow> notify_config \<Rightarrow> campaign \<Rightarrow> int \<Rightarrow> stream_user \<Rightarrow> stream_user list \<times> string
     \<Rightarrow> (goerr option \<times> stream_user list \<times> string) notify_prog" where
  "dispatch_user lib cfg campaign batch_size u s =
     Call NContextErr (\<lambda>r.
       case n_error r of
         Some e \<Rightarrow> Return (Some e, s)
       | None \<Rightarrow>
           (let batch = fst s @ [u]; cursor = su_id u in
            if int (length batch) < batch_size then Return (None, batch, cursor)
            else
              bind (publish_batch lib cfg campaign batch) (\<lambda>err.
                case err of
                  Some e \<Rightarrow> Return (Some e, batch, cursor)
                | None \<Rightarrow>
                    Call (NCampaignCheckpoint (cp_id campaign) cursor (int (length batch))) (\<lambda>_. Return (None, [], cursor)))))"

definition campaign_role :: "notify_lib \<Rightarrow> campaign \<Rightarrow> string" where
  "campaign_role lib campaign =
     (if cp_filter campaign \<noteq> '''' \<and> cp_filter campaign \<noteq> ''{}''
      then (case nl_filter_parse lib (cp_filter campaign) of Inl _ \<Rightarrow> '''' | Inr role \<Rightarrow> role)
      else '''')"

definition campaign_batch_size :: "notify_config \<Rightarrow> int" where
  "campaign_batch_size cfg = (if nc_campaign_batch cfg \<le> 0 then 1000 else nc_campaign_batch cfg)"

definition flush_remaining ::
  "notify_lib \<Rightarrow> notify_config \<Rightarrow> campaign \<Rightarrow> goerr option \<Rightarrow> stream_user list \<Rightarrow> string \<Rightarrow> goerr option notify_prog" where
  "flush_remaining lib cfg campaign stream_err batch cursor =
     (if stream_err = None \<and> batch \<noteq> [] then
        bind (publish_batch lib cfg campaign batch) (\<lambda>err.
          case err of
            Some e \<Rightarrow> Return (Some e)
          | None \<Rightarrow> Call (NCampaignCheckpoint (cp_id campaign) cursor (int (length batch))) (\<lambda>_. Return None))
      else Return stream_err)"

definition dispatch_campaign :: "notify_lib \<Rightarrow> notify_config \<Rightarrow> campaign \<Rightarrow> unit notify_prog" where
  "dispatch_campaign lib cfg campaign =
     (let role = campaign_role lib campaign in
      Call (NCountUsers role) (\<lambda>r.
        case n_count r of
          Inl _ \<Rightarrow> Call (NCampaignMark (cp_id campaign) CFailed) (\<lambda>_. Return ())
        | Inr count \<Rightarrow>
            Call (NCampaignTotal (cp_id campaign) count) (\<lambda>_.
              let batch_size = campaign_batch_size cfg in
              bind (client_stream_users role (cp_cursor campaign) (int32 batch_size)
                      (dispatch_user lib cfg campaign batch_size) ([], cp_cursor campaign))
                (\<lambda>(stream_err, batch, cursor).
                  bind (flush_remaining lib cfg campaign stream_err batch cursor) (\<lambda>err.
                    case err of
                      Some e \<Rightarrow>
                        if errors_is e ErrContextCanceled then Return ()
                        else Call (NCampaignMark (cp_id campaign) CFailed) (\<lambda>_. Return ())
                    | None \<Rightarrow> Call (NCampaignMark (cp_id campaign) CCompleted) (\<lambda>_. Return ()))))))"

definition dispatch_pending_campaigns :: "notify_lib \<Rightarrow> notify_config \<Rightarrow> unit notify_prog" where
  "dispatch_pending_campaigns lib cfg =
     Call NCampaignClaim (\<lambda>r.
       case n_claimed r of
         Inl _ \<Rightarrow> Return ()
       | Inr None \<Rightarrow> Return ()
       | Inr (Some campaign) \<Rightarrow> dispatch_campaign lib cfg campaign)"

section \<open>A dispatch that goes through\<close>

text \<open>What the broker holds for a campaign: one task per user, on the campaign.email queue.\<close>

definition campaign_messages :: "notify_lib \<Rightarrow> notify_config \<Rightarrow> campaign \<Rightarrow> stream_user list \<Rightarrow> (string \<times> string \<times> string) list" where
  "campaign_messages lib cfg campaign us =
     map (\<lambda>u. (nc_exchange cfg, campaign_email_routing_key, projr (nl_campaign_json lib (campaign_task_for lib campaign u)))) us"

definition calm :: "notify_env \<Rightarrow> bool" where
  "calm env \<longleftrightarrow> (\<forall>c. ne_db env c = None) \<and> (\<forall>ex key b. ne_publish env ex key b = None) \<and> ne_context env = None"

definition publishes :: "(string \<times> string \<times> string) list \<Rightarrow> notify_world \<Rightarrow> notify_world" where
  "publishes ms w = w\<lparr>nw_published := nw_published w @ ms\<rparr>"

lemma publishes_simps [simp]:
  "publishes [] w = w" "publishes ms (publishes ns w) = publishes (ns @ ms) w"
  by (simp_all add: publishes_def)

lemma run_npublish:
  assumes "calm env"
  shows "run (notify_handle lib env) (npublish ex key (Inr body) k) w =
    run (notify_handle lib env) (k None) (publishes [(ex, key, body)] w)"
  using assms by (simp add: npublish_def calm_def publishes_def)

lemma run_try_publish:
  assumes "calm env" and "\<And>u. u \<in> set us \<Longrightarrow> \<exists>b. nl_campaign_json lib (campaign_task_for lib campaign u) = Inr b"
  shows "run (notify_handle lib env) (try_publish_batch lib cfg campaign us) w =
    (None, publishes (campaign_messages lib cfg campaign us) w)"
  using assms(2)
proof (induction us arbitrary: w)
  case (Cons u us)
  then obtain b where "nl_campaign_json lib (campaign_task_for lib campaign u) = Inr b" by auto
  with Cons assms(1) show ?case by (simp add: run_npublish campaign_messages_def)
qed (simp add: campaign_messages_def)

lemma run_publish_batch:
  assumes "calm env" and "\<And>u. u \<in> set us \<Longrightarrow> \<exists>b. nl_campaign_json lib (campaign_task_for lib campaign u) = Inr b"
  shows "run (notify_handle lib env) (publish_batch lib cfg campaign us) w =
    (None, publishes (campaign_messages lib cfg campaign us) w)"
proof -
  have "run (notify_handle lib env) (publish_attempts lib cfg campaign us (Suc n)) w =
      (None, publishes (campaign_messages lib cfg campaign us) w)" for n
    using run_try_publish [OF assms, of us cfg w] by (simp add: run_bind Let_def)
  from this [of 4] show ?thesis by (simp add: publish_batch_def max_publish_retries_def eval_nat_numeral)
qed

text \<open>
  The row of the campaign after \<open>n\<close> more users were recorded as dispatched, the last one \<open>cursor\<close>; the
  messages \<open>ms\<close> were published meanwhile.
\<close>

definition dispatched_to :: "uuid \<Rightarrow> (string \<times> string \<times> string) list \<Rightarrow> nat \<Rightarrow> string \<Rightarrow> notify_world \<Rightarrow> notify_world \<Rightarrow> bool" where
  "dispatched_to i ms n cursor w w' \<longleftrightarrow>
     nw_published w' = nw_published w @ ms
     \<and> (\<forall>c. by_key cp_id i (nw_campaigns w) = Some c \<longrightarrow>
          (\<exists>c'. by_key cp_id i (nw_campaigns w') = Some c' \<and> cp_status c' = cp_status c \<and> cp_total c' = cp_total c
             \<and> cp_sent c' = cp_sent c \<and> cp_failed c' = cp_failed c \<and> cp_dispatched c' = cp_dispatched c + int n \<and> cp_cursor c' = (if n = 0 then cp_cursor c else cursor)))"

lemma dispatched_none: "dispatched_to i [] 0 cur w w"
  by (simp add: dispatched_to_def)

lemma dispatched_trans:
  assumes "dispatched_to i ms m cur w w1" and "dispatched_to i ns n cur' w1 w2"
  shows "dispatched_to i (ms @ ns) (m + n) (if n = 0 then cur else cur') w w2"
  using assms unfolding dispatched_to_def by fastforce

lemma dispatched_checkpoint:
  assumes "\<And>c. ne_db env c = None"
  shows "dispatched_to i ms n cursor w
    (snd (notify_handle lib env (NCampaignCheckpoint i cursor (int n)) (publishes ms w))) \<or> n = 0"
  using assms
  by (auto simp: dispatched_to_def notify_call_defs publishes_def sql_campaign_checkpoint_def update_campaign_def by_key_update_same)

text \<open>The user that completes a batch: it is published and recorded.\<close>

lemma dispatch_full_batch:
  assumes env: "calm env" and bs: "0 < bs" "length (batch @ [u]) = bs"
    and json: "\<And>u. \<exists>b. nl_campaign_json lib (campaign_task_for lib campaign u) = Inr b"
  shows "\<exists>w1. run (notify_handle lib env) (dispatch_user lib cfg campaign (int bs) u (batch, cur)) w = ((None, [], su_id u), w1)
    \<and> dispatched_to (cp_id campaign) (campaign_messages lib cfg campaign (batch @ [u])) bs (su_id u) w w1"
proof -
  have ctx: "notify_handle lib env NContextErr w = (NError None, w)" using env by (simp add: calm_def)
  define w1 where "w1 = snd (notify_handle lib env (NCampaignCheckpoint (cp_id campaign) (su_id u) (int bs))
      (publishes (campaign_messages lib cfg campaign (batch @ [u])) w))"
  have "run (notify_handle lib env) (dispatch_user lib cfg campaign (int bs) u (batch, cur)) w = ((None, [], su_id u), w1)"
    using bs run_publish_batch [OF env json, where us = "batch @ [u]" and cfg = cfg]
    by (simp add: dispatch_user_def ctx Let_def run_bind w1_def del: notify_handle.simps)
  moreover have "dispatched_to (cp_id campaign) (campaign_messages lib cfg campaign (batch @ [u])) bs (su_id u) w w1"
    using dispatched_checkpoint [of env "cp_id campaign" "campaign_messages lib cfg campaign (batch @ [u])" bs "su_id u" w lib] env bs
    by (simp add: w1_def calm_def del: notify_handle.simps)
  ultimately show ?thesis by blast
qed

lemma run_dispatch_users:
  assumes env: "calm env" and bs: "0 < bs"
    and json: "\<And>u. \<exists>b. nl_campaign_json lib (campaign_task_for lib campaign u) = Inr b"
  shows "length batch < bs \<Longrightarrow>
    \<exists>w'. run (notify_handle lib env) (stream_each (dispatch_user lib cfg campaign (int bs)) us end_err (batch, cur)) w =
        ((map_option (Wrap ''StreamUsers recv: '') end_err,
          drop (length (batch @ us) div bs * bs) (batch @ us), if us = [] then cur else su_id (last us)), w')
      \<and> dispatched_to (cp_id campaign) (campaign_messages lib cfg campaign (take (length (batch @ us) div bs * bs) (batch @ us)))
          (length (batch @ us) div bs * bs) (su_id ((batch @ us) ! (length (batch @ us) div bs * bs - 1))) w w'"
proof (induction us arbitrary: batch cur w)
  case Nil
  then show ?case using dispatched_none by (auto simp: campaign_messages_def)
next
  case (Cons u us)
  have ctx: "notify_handle lib env NContextErr w = (NError None, w)" using env by (simp add: calm_def)
  let ?b = "batch @ [u]"
  show ?case
  proof (cases "length ?b < bs")
    case True
    then have "run (notify_handle lib env) (dispatch_user lib cfg campaign (int bs) u (batch, cur)) w = ((None, ?b, su_id u), w)"
      by (simp add: dispatch_user_def ctx Let_def del: notify_handle.simps)
    then have r: "run (notify_handle lib env) (stream_each (dispatch_user lib cfg campaign (int bs)) (u # us) end_err (batch, cur)) w =
        run (notify_handle lib env) (stream_each (dispatch_user lib cfg campaign (int bs)) us end_err (?b, su_id u)) w"
      by (simp add: run_bind)
    have split: "batch @ u # us = ?b @ us" by simp
    have last: "(if u # us = [] then cur else su_id (last (u # us))) = (if us = [] then su_id u else su_id (last us))" by simp
    show ?thesis unfolding r split last by (rule Cons.IH [OF True])
  next
    case False
    then have len: "length ?b = bs" using Cons.prems by simp
    from dispatch_full_batch [OF env bs this json] obtain w1 where
      u: "run (notify_handle lib env) (dispatch_user lib cfg campaign (int bs) u (batch, cur)) w = ((None, [], su_id u), w1)"
      and d: "dispatched_to (cp_id campaign) (campaign_messages lib cfg campaign ?b) bs (su_id u) w w1" by blast
    from u have r: "run (notify_handle lib env) (stream_each (dispatch_user lib cfg campaign (int bs)) (u # us) end_err (batch, cur)) w =
        run (notify_handle lib env) (stream_each (dispatch_user lib cfg campaign (int bs)) us end_err ([], su_id u)) w1"
      by (simp add: run_bind)

    let ?k = "length us div bs * bs"
    have k: "length (batch @ u # us) div bs * bs = bs + ?k"
    proof -
      have "length (batch @ u # us) = bs + length us" using len by simp
      then show ?thesis using bs by (simp only:) (simp add: div_add_self1)
    qed
    obtain w' where w': "run (notify_handle lib env) (stream_each (dispatch_user lib cfg campaign (int bs)) us end_err ([], su_id u)) w1 =
        ((map_option (Wrap ''StreamUsers recv: '') end_err, drop ?k us, if us = [] then su_id u else su_id (last us)), w')"
      and d': "dispatched_to (cp_id campaign) (campaign_messages lib cfg campaign (take ?k us)) ?k (su_id (us ! (?k - 1))) w1 w'"
      using Cons.IH [of "[]" "su_id u" w1] bs by auto
    have split: "batch @ u # us = ?b @ us" by simp
    have t: "take (bs + ?k) (batch @ u # us) = ?b @ take ?k us" "drop (bs + ?k) (batch @ u # us) = drop ?k us"
      unfolding split using len by (simp_all del: append_assoc)
    have n: "su_id ((batch @ u # us) ! (bs + ?k - 1)) = (if ?k = 0 then su_id u else su_id (us ! (?k - 1)))"
      unfolding split using len bs by (auto simp: nth_append simp del: append_assoc)
    have m: "campaign_messages lib cfg campaign (?b @ take ?k us) =
        campaign_messages lib cfg campaign ?b @ campaign_messages lib cfg campaign (take ?k us)"
      by (simp add: campaign_messages_def)
    show ?thesis
      unfolding k t n m r w' using dispatched_trans [OF d d'] by simp
  qed
qed


text \<open>How many users a dispatch reaches: all of them, or, when the stream breaks, those of the full batches.\<close>

definition reached :: "notify_config \<Rightarrow> stream_user list \<Rightarrow> goerr option \<Rightarrow> nat" where
  "reached cfg us end_err =
     (let b = nat (campaign_batch_size cfg) in if end_err = None then length us else length us div b * b)"

text \<open>Streaming and then flushing the last batch reaches just these users.\<close>

lemma stream_and_flush:
  assumes "calm env" and bs: "0 < bs" "campaign_batch_size cfg = int bs"
    and json: "\<And>u. \<exists>b. nl_campaign_json lib (campaign_task_for lib campaign u) = Inr b"
  shows "\<exists>w2 w3. run (notify_handle lib env)
        (stream_each (dispatch_user lib cfg campaign (int bs)) us end_err ([], cp_cursor campaign)) w1 =
        ((map_option (Wrap ''StreamUsers recv: '') end_err, drop (length us div bs * bs) us,
          if us = [] then cp_cursor campaign else su_id (last us)), w2)
      \<and> run (notify_handle lib env) (flush_remaining lib cfg campaign (map_option (Wrap ''StreamUsers recv: '') end_err)
          (drop (length us div bs * bs) us) (if us = [] then cp_cursor campaign else su_id (last us))) w2 =
        (map_option (Wrap ''StreamUsers recv: '') end_err, w3)
      \<and> dispatched_to (cp_id campaign) (campaign_messages lib cfg campaign (take (reached cfg us end_err) us))
          (reached cfg us end_err) (su_id (us ! (reached cfg us end_err - 1))) w1 w3"
proof -
  let ?i = "cp_id campaign" and ?k = "length us div bs * bs"
  have db: "\<And>c. ne_db env c = None" using assms(1) by (simp add: calm_def)
  have rk: "reached cfg us e = (if e = None then length us else ?k)" for e using bs(2) by (simp add: reached_def)
  obtain w2 where r2: "run (notify_handle lib env)
        (stream_each (dispatch_user lib cfg campaign (int bs)) us end_err ([], cp_cursor campaign)) w1 =
        ((map_option (Wrap ''StreamUsers recv: '') end_err, drop ?k us, if us = [] then cp_cursor campaign else su_id (last us)), w2)"
      and d2: "dispatched_to ?i (campaign_messages lib cfg campaign (take ?k us)) ?k (su_id (us ! (?k - 1))) w1 w2"
    using run_dispatch_users [OF assms(1) bs(1) json, of "[]" cfg us end_err "cp_cursor campaign" w1] bs(1) by auto
  have "\<exists>w3. run (notify_handle lib env) (flush_remaining lib cfg campaign (map_option (Wrap ''StreamUsers recv: '') end_err)
          (drop ?k us) (if us = [] then cp_cursor campaign else su_id (last us))) w2 =
        (map_option (Wrap ''StreamUsers recv: '') end_err, w3)
      \<and> dispatched_to ?i (campaign_messages lib cfg campaign (take (reached cfg us end_err) us)) (reached cfg us end_err)
          (su_id (us ! (reached cfg us end_err - 1))) w1 w3"
  proof (cases "end_err = None \<and> drop ?k us \<noteq> []")
    case False
    then have "reached cfg us end_err = ?k"
      using bs(1) div_times_less_eq_dividend [of "length us" bs]
      by (auto simp: rk simp del: div_times_less_eq_dividend)
    with False d2 show ?thesis by (auto simp: flush_remaining_def)
  next
    case True
    let ?rest = "drop ?k us" and ?cur = "if us = [] then cp_cursor campaign else su_id (last us)"
    define w3 where "w3 = snd (notify_handle lib env (NCampaignCheckpoint ?i ?cur (int (length ?rest)))
        (publishes (campaign_messages lib cfg campaign ?rest) w2))"
    have "run (notify_handle lib env) (flush_remaining lib cfg campaign None ?rest ?cur) w2 = (None, w3)"
      using True run_publish_batch [OF assms(1) json, where us = ?rest and cfg = cfg]
      by (simp add: flush_remaining_def run_bind w3_def del: notify_handle.simps)
    moreover have "dispatched_to ?i (campaign_messages lib cfg campaign ?rest) (length ?rest) ?cur w2 w3"
      using dispatched_checkpoint [OF db, of ?i "campaign_messages lib cfg campaign ?rest" "length ?rest" ?cur w2 lib] True
      unfolding w3_def by (simp del: notify_handle.simps)
    note dispatched_trans [OF d2 this]
    moreover have "reached cfg us end_err = length us" "?k + length ?rest = length us"
      "campaign_messages lib cfg campaign (take ?k us) @ campaign_messages lib cfg campaign ?rest = campaign_messages lib cfg campaign us"
      "su_id (us ! (length us - 1)) = ?cur"
      using True by (auto simp: rk campaign_messages_def map_append [symmetric] last_conv_nth simp del: map_append)
    ultimately show ?thesis using True by auto
  qed
  with r2 show ?thesis by blast
qed

text \<open>The end of a dispatch: a stream that broke because the context was cancelled leaves the status as it is.\<close>

definition final_status :: "goerr option \<Rightarrow> campaign_status option" where
  "final_status end_err = (case end_err of None \<Rightarrow> Some CCompleted
     | Some e \<Rightarrow> if errors_is e ErrContextCanceled then None else Some CFailed)"

definition marked :: "notify_lib \<Rightarrow> notify_env \<Rightarrow> uuid \<Rightarrow> campaign_status option \<Rightarrow> notify_world \<Rightarrow> notify_world" where
  "marked lib env i st w = (case st of None \<Rightarrow> w | Some s \<Rightarrow> snd (notify_handle lib env (NCampaignMark i s) w))"

lemma dispatch_run:
  assumes "calm env" and json: "\<And>u. \<exists>b. nl_campaign_json lib (campaign_task_for lib campaign u) = Inr b"
    and "ne_count env (campaign_role lib campaign) = Inr count"
    and "ne_stream env (campaign_role lib campaign) (cp_cursor campaign) (int32 (campaign_batch_size cfg)) = Inr (us, end_err)"
  shows "\<exists>w3. dispatched_to (cp_id campaign) (campaign_messages lib cfg campaign (take (reached cfg us end_err) us))
        (reached cfg us end_err) (su_id (us ! (reached cfg us end_err - 1)))
        (snd (notify_handle lib env (NCampaignTotal (cp_id campaign) count) w)) w3
      \<and> run (notify_handle lib env) (dispatch_campaign lib cfg campaign) w =
          ((), marked lib env (cp_id campaign) (final_status end_err) w3)"
proof -
  let ?i = "cp_id campaign"
  define bs where "bs = nat (campaign_batch_size cfg)"
  have bs: "0 < bs" "campaign_batch_size cfg = int bs" by (auto simp: bs_def campaign_batch_size_def)
  let ?k = "length us div bs * bs"
  define w1 where "w1 = snd (notify_handle lib env (NCampaignTotal ?i count) w)"
  obtain w2 w3 where r2: "run (notify_handle lib env)
        (stream_each (dispatch_user lib cfg campaign (int bs)) us end_err ([], cp_cursor campaign)) w1 =
        ((map_option (Wrap ''StreamUsers recv: '') end_err, drop ?k us, if us = [] then cp_cursor campaign else su_id (last us)), w2)"
      and r3: "run (notify_handle lib env) (flush_remaining lib cfg campaign (map_option (Wrap ''StreamUsers recv: '') end_err)
          (drop ?k us) (if us = [] then cp_cursor campaign else su_id (last us))) w2 =
        (map_option (Wrap ''StreamUsers recv: '') end_err, w3)"
      and d3: "dispatched_to ?i (campaign_messages lib cfg campaign (take (reached cfg us end_err) us)) (reached cfg us end_err)
          (su_id (us ! (reached cfg us end_err - 1))) w1 w3"
    using stream_and_flush [OF assms(1) bs json] by blast
  have h: "notify_handle lib env (NCountUsers (campaign_role lib campaign)) w = (NCount (Inr count), w)"
    "notify_handle lib env (NStream (campaign_role lib campaign) (cp_cursor campaign) (int32 (int bs))) w1 = (NUsers (Inr (us, end_err)), w1)"
    using assms(3,4) bs(2) by simp_all
  have "run (notify_handle lib env) (dispatch_campaign lib cfg campaign) w = ((), marked lib env ?i (final_status end_err) w3)"
    using r2 r3
    by (simp add: dispatch_campaign_def Let_def h bs(2) run_bind client_stream_users_def marked_def final_status_def w1_def [symmetric]
        del: notify_handle.simps split: option.splits)
  with d3 show ?thesis unfolding w1_def by blast
qed

text \<open>The row of the campaign after its dispatch.\<close>

lemma dispatch_row:
  assumes "calm env" and "by_key cp_id i (nw_campaigns w) = Some row"
    and "dispatched_to i ms n cursor (snd (notify_handle lib env (NCampaignTotal i count) w)) w3"
  shows "nw_published (marked lib env i st w3) = nw_published w @ ms"
    and "\<exists>row'. by_key cp_id i (nw_campaigns (marked lib env i st w3)) = Some row'
        \<and> cp_total row' = count \<and> cp_sent row' = cp_sent row \<and> cp_failed row' = cp_failed row
        \<and> cp_dispatched row' = cp_dispatched row + int n \<and> cp_cursor row' = (if n = 0 then cp_cursor row else cursor)
        \<and> cp_status row' = (case st of None \<Rightarrow> cp_status row | Some s \<Rightarrow> s)"
proof -
  have db: "\<And>c. ne_db env c = None" using assms(1) by (simp add: calm_def)
  have w1: "by_key cp_id i (nw_campaigns (snd (notify_handle lib env (NCampaignTotal i count) w))) =
      Some (row\<lparr>cp_total := count, cp_updated := ne_clock env (nw_ticks w)\<rparr>)"
    "nw_published (snd (notify_handle lib env (NCampaignTotal i count) w)) = nw_published w"
    using assms(2) db by (simp_all add: notify_call_defs sql_campaign_total_def update_campaign_def by_key_update_same)
  from assms(3) w1 db show "nw_published (marked lib env i st w3) = nw_published w @ ms"
    by (auto simp: marked_def dispatched_to_def notify_call_defs sql_campaign_mark_def update_campaign_def split: option.splits)
  from assms(3) w1 obtain r3 where r3: "by_key cp_id i (nw_campaigns w3) = Some r3" "cp_status r3 = cp_status row" "cp_total r3 = count"
      "cp_sent r3 = cp_sent row" "cp_failed r3 = cp_failed row"
      "cp_dispatched r3 = cp_dispatched row + int n" "cp_cursor r3 = (if n = 0 then cp_cursor row else cursor)"
    unfolding dispatched_to_def by auto
  then show "\<exists>row'. by_key cp_id i (nw_campaigns (marked lib env i st w3)) = Some row'
        \<and> cp_total row' = count \<and> cp_sent row' = cp_sent row \<and> cp_failed row' = cp_failed row
        \<and> cp_dispatched row' = cp_dispatched row + int n \<and> cp_cursor row' = (if n = 0 then cp_cursor row else cursor)
        \<and> cp_status row' = (case st of None \<Rightarrow> cp_status row | Some s \<Rightarrow> s)"
    using db
    by (auto simp: marked_def notify_call_defs sql_campaign_mark_def update_campaign_def by_key_update_same split: option.splits)
qed

text \<open>
  C11. A campaign reaches the users the identity service streams, each once and in order, whatever the batch
  size. If the stream ends well, every user's task is on the campaign.email queue and the campaign
  is completed; if it breaks, exactly the users of the full batches were published, the partial
  batch is dropped, and the campaign is failed (or left dispatching, if the error is the
  cancellation of the context itself). The counter, the cursor and the total say so.
\<close>
theorem campaign_dispatches:
  assumes "calm env" and json: "\<And>u. \<exists>b. nl_campaign_json lib (campaign_task_for lib campaign u) = Inr b"
    and "ne_count env (campaign_role lib campaign) = Inr count"
    and "ne_stream env (campaign_role lib campaign) (cp_cursor campaign) (int32 (campaign_batch_size cfg)) = Inr (us, end_err)"
    and "by_key cp_id (cp_id campaign) (nw_campaigns w) = Some row"
  shows "case run (notify_handle lib env) (dispatch_campaign lib cfg campaign) w of (u, w') \<Rightarrow>
    nw_published w' = nw_published w @ campaign_messages lib cfg campaign (take (reached cfg us end_err) us)
    \<and> (\<exists>row'. by_key cp_id (cp_id campaign) (nw_campaigns w') = Some row'
        \<and> cp_total row' = count \<and> cp_dispatched row' = cp_dispatched row + int (reached cfg us end_err)
        \<and> cp_cursor row' = (if reached cfg us end_err = 0 then cp_cursor row else su_id (us ! (reached cfg us end_err - 1)))
        \<and> cp_status row' = (case end_err of None \<Rightarrow> CCompleted
             | Some e \<Rightarrow> if errors_is e ErrContextCanceled then cp_status row else CFailed))"
proof -
  obtain w3 where d: "dispatched_to (cp_id campaign) (campaign_messages lib cfg campaign (take (reached cfg us end_err) us))
        (reached cfg us end_err) (su_id (us ! (reached cfg us end_err - 1)))
        (snd (notify_handle lib env (NCampaignTotal (cp_id campaign) count) w)) w3"
      and r: "run (notify_handle lib env) (dispatch_campaign lib cfg campaign) w =
          ((), marked lib env (cp_id campaign) (final_status end_err) w3)"
    using dispatch_run [OF assms(1) json assms(3,4)] by blast
  show ?thesis
    unfolding r using dispatch_row [OF assms(1,5) d, of "final_status end_err"]
    by (auto simp: final_status_def split: option.splits if_splits)
qed


text \<open>A demonstration: three users and batches of two; then the stream breaks after the third.\<close>

definition demo_campaign :: campaign where
  "demo_campaign =
     \<lparr>cp_id = 1, cp_title = ''t'', cp_subject = ''s'', cp_content = ''c'', cp_channel = ''email'',
      cp_event = ''promotion_campaign'', cp_audience = ''all_users'', cp_filter = ''{}'', cp_status = CDispatching,
      cp_scheduled = 0, cp_total = 0, cp_cursor = '''', cp_dispatched = 0, cp_sent = 0, cp_failed = 0, cp_updated = 0\<rparr>"

definition demo_users :: "stream_user list" where
  "demo_users = [\<lparr>su_id = ''a'', su_email = ''a@x''\<rparr>, \<lparr>su_id = ''b'', su_email = ''b@x''\<rparr>, \<lparr>su_id = ''c'', su_email = ''c@x''\<rparr>]"

theorem campaign_dispatches_witness:
  "nw_published (snd (run (notify_handle demo_nlib (demo_nenv\<lparr>ne_stream := \<lambda>_ _ _. Inr (demo_users, Some (Plain ''eof''))\<rparr>))
      (dispatch_campaign demo_nlib demo_nconfig demo_campaign) (demo_nworld\<lparr>nw_campaigns := [demo_campaign]\<rparr>)))
   = [(''notifications'', ''campaign.email'', ''a''), (''notifications'', ''campaign.email'', ''b'')]"
proof -
  let ?env = "demo_nenv\<lparr>ne_stream := \<lambda>_ _ _. Inr (demo_users, Some (Plain ''eof''))\<rparr>"
  let ?w = "demo_nworld\<lparr>nw_campaigns := [demo_campaign]\<rparr>"
  have c: "calm ?env" by (simp add: calm_def demo_nenv_def)
  have j: "\<exists>b. nl_campaign_json demo_nlib (campaign_task_for demo_nlib demo_campaign u) = Inr b" for u
    by (simp add: demo_nlib_def)
  have n: "ne_count ?env (campaign_role demo_nlib demo_campaign) = Inr 0" by (simp add: demo_nenv_def)
  have s: "ne_stream ?env (campaign_role demo_nlib demo_campaign) (cp_cursor demo_campaign) (int32 (campaign_batch_size demo_nconfig))
      = Inr (demo_users, Some (Plain ''eof''))" by simp
  have r: "by_key cp_id (cp_id demo_campaign) (nw_campaigns ?w) = Some demo_campaign" by (simp add: by_key_def)
  have k: "reached demo_nconfig demo_users (Some (Plain ''eof'')) = 2"
    by (simp add: reached_def campaign_batch_size_def demo_nconfig_def demo_users_def)
  have m: "nw_published ?w @ campaign_messages demo_nlib demo_nconfig demo_campaign (take 2 demo_users) =
      [(''notifications'', ''campaign.email'', ''a''), (''notifications'', ''campaign.email'', ''b'')]"
    by (simp add: demo_users_def campaign_messages_def campaign_email_routing_key_def demo_nworld_def demo_nconfig_def
        demo_nlib_def campaign_task_for_def numeral_2_eq_2)
  from campaign_dispatches [where cfg = demo_nconfig, OF c j n s r] show ?thesis
    unfolding k m by (simp split: prod.splits)
qed

section \<open>Who works on a campaign\<close>

text \<open>
  A worker that has claimed a campaign writes to that campaign only, and never counts back; one that has
  claimed none writes to none. The phase is what it has claimed.
\<close>

definition campaign_allows :: "uuid option \<Rightarrow> notify_call \<Rightarrow> bool" where
  "campaign_allows ph c \<longleftrightarrow>
     (case c of
        NCampaignClaim \<Rightarrow> ph = None
      | NCampaignTotal i _ \<Rightarrow> ph = Some i
      | NCampaignCheckpoint i _ n \<Rightarrow> ph = Some i \<and> 0 \<le> n
      | NCampaignMark i _ \<Rightarrow> ph = Some i
      | NCountUsers _ \<Rightarrow> True
      | NStream _ _ _ \<Rightarrow> True
      | NPublish _ _ _ \<Rightarrow> True
      | NContextErr \<Rightarrow> True
      | NSleep _ \<Rightarrow> True
      | _ \<Rightarrow> False)"

definition campaign_next :: "uuid option \<Rightarrow> notify_call \<Rightarrow> notify_reply \<Rightarrow> uuid option" where
  "campaign_next ph c r =
     (if c = NCampaignClaim then (case n_claimed r of Inr (Some x) \<Rightarrow> Some (cp_id x) | _ \<Rightarrow> None) else ph)"

lemma campaign_allows_simps [simp]:
  "campaign_allows ph NCampaignClaim = (ph = None)"
  "campaign_allows ph (NCampaignTotal i n) = (ph = Some i)"
  "campaign_allows ph (NCampaignCheckpoint i cur n) = (ph = Some i \<and> 0 \<le> n)"
  "campaign_allows ph (NCampaignMark i st) = (ph = Some i)"
  "campaign_allows ph (NCountUsers x)" "campaign_allows ph (NStream x y n)" "campaign_allows ph (NPublish x y z)"
  "campaign_allows ph NContextErr" "campaign_allows ph (NSleep d)"
  by (simp_all add: campaign_allows_def)

abbreviation any_answer :: "notify_call \<Rightarrow> notify_reply \<Rightarrow> bool" where
  "any_answer c r \<equiv> True"

lemma calls_publish_batch: "calls_in (campaign_allows ph) (publish_batch lib cfg campaign us)"
proof -
  have t: "calls_in (campaign_allows ph) (try_publish_batch lib cfg campaign us)"
    by (induction us) (auto simp: npublish_def split: sum.splits option.splits)
  have "calls_in (campaign_allows ph) (publish_attempts lib cfg campaign us n)" for n
    by (induction n) (auto simp: Let_def t intro!: calls_in_bind split: option.splits)

  then show ?thesis by (simp add: publish_batch_def)
qed

lemma calls_stream_each:
  assumes "\<And>u s. calls_in C (fn u s)"
  shows "calls_in C (stream_each fn us end_err s)"
  by (induction us arbitrary: s) (auto intro!: calls_in_bind assms split: option.splits)

lemma calls_dispatch_campaign: "calls_in (campaign_allows (Some (cp_id campaign))) (dispatch_campaign lib cfg campaign)"
proof -
  let ?C = "campaign_allows (Some (cp_id campaign))"
  have u: "calls_in ?C (dispatch_user lib cfg campaign n u s)" for n u s
    by (auto simp: dispatch_user_def Let_def intro!: calls_in_bind calls_publish_batch split: option.splits)
  have s: "calls_in ?C (stream_each (dispatch_user lib cfg campaign n) us e st)" for n us e st
    by (rule calls_stream_each) (rule u)
  have f: "calls_in ?C (flush_remaining lib cfg campaign e b cur)" for e b cur
    by (auto simp: flush_remaining_def intro!: calls_in_bind calls_publish_batch split: option.splits)

  show ?thesis
    by (auto simp: dispatch_campaign_def client_stream_users_def Let_def intro!: calls_in_bind s f
        split: sum.splits prod.splits option.splits)
qed

lemma follows_dispatch:
  "follows campaign_allows campaign_next any_answer (dispatch_pending_campaigns lib cfg) None"
proof -
  have "follows campaign_allows campaign_next any_answer (dispatch_campaign lib cfg x) (Some (cp_id x))" for x
    by (rule follows_stay [where allowed = campaign_allows and ph = "Some (cp_id x)", OF calls_dispatch_campaign])
       (auto simp: campaign_next_def)
  then show ?thesis
    by (auto simp: dispatch_pending_campaigns_def campaign_next_def split: sum.splits option.splits)

qed

definition campaign_frozen :: "campaign \<Rightarrow> notify_world \<Rightarrow> uuid option list \<Rightarrow> bool" where
  "campaign_frozen row w phs \<longleftrightarrow>
     (\<forall>c\<in>set (nw_campaigns w). cp_id c = cp_id row \<longrightarrow> c = row) \<and> row \<in> set (nw_campaigns w) \<and> cp_status row \<noteq> CPending
     \<and> Some (cp_id row) \<notin> set phs"

lemma campaign_frozen_update:
  assumes "campaign_frozen row w phs" and "nw_campaigns w' = update_rows P f (nw_campaigns w)"
    and "\<And>c. cp_id (f c) = cp_id c" and "\<not> P row" and "ph \<noteq> Some (cp_id row)"
  shows "campaign_frozen row w' (phs[i := ph])"
  using assms set_update_subset_insert [of phs i ph]
  by (auto simp: campaign_frozen_def update_rows_def image_iff split: if_splits)

lemma campaign_claim_step:
  assumes "c = NCampaignClaim" and h: "notify_handle lib e c w = (r, w')"
  obtains (idle) "nw_campaigns w' = nw_campaigns w" "campaign_next ph c r = None"
    | (claimed) x f where "x \<in> set (nw_campaigns w)" "cp_status x = CPending" "\<And>y. cp_id (f y) = cp_id y"
          "nw_campaigns w' = update_rows (\<lambda>y. cp_id y = cp_id x) f (nw_campaigns w)" "campaign_next ph c r = Some (cp_id x)"
proof -
  let ?now = "ne_clock e (nw_ticks w)"
  let ?l = "sort_key cp_scheduled (filter (\<lambda>c. cp_status c = CPending \<and> cp_scheduled c \<le> ?now) (nw_campaigns w))"
  show ?thesis
  proof (cases "ne_db e c \<noteq> None \<or> ?l = []")
    case True
    with assms have "nw_campaigns w' = nw_campaigns w \<and> campaign_next ph c r = None"
      by (cases "ne_db e c") (auto simp: notify_call_defs sql_campaign_claim_def campaign_next_def)
    then show ?thesis using idle by blast
  next
    case False
    then obtain x xs where l: "?l = x # xs" by (auto simp: neq_Nil_conv)
    have "x \<in> set ?l" unfolding l by simp
    then have x: "x \<in> set (nw_campaigns w)" "cp_status x = CPending" by auto
    from False assms l have u: "nw_campaigns w' = update_rows (\<lambda>y. cp_id y = cp_id x)
        (\<lambda>y. y\<lparr>cp_status := CDispatching, cp_updated := ?now\<rparr>) (nw_campaigns w)" and n: "campaign_next ph c r = Some (cp_id x)"
      by (auto simp: notify_call_defs sql_campaign_claim_def campaign_next_def)
    show ?thesis by (rule claimed [OF x _ u n]) simp
  qed
qed

lemma campaign_write_step:
  assumes h: "notify_handle lib e c w = (r, w')" and "campaign_allows ph c" and "c \<noteq> NCampaignClaim"
    and "nw_campaigns w' \<noteq> nw_campaigns w"
  obtains j f where "ph = Some j" "\<And>y. cp_id (f y) = cp_id y"
    "nw_campaigns w' = update_rows (\<lambda>y. cp_id y = j) f (nw_campaigns w)"
proof -
  have "\<exists>j f. ph = Some j \<and> (\<forall>y. cp_id (f y) = cp_id y) \<and> nw_campaigns w' = update_rows (\<lambda>y. cp_id y = j) f (nw_campaigns w)"
  proof (cases c)
    case (NCampaignTotal j n)
    with assms show ?thesis
      by (intro exI [of _ j] exI [of _ "\<lambda>c. c\<lparr>cp_total := n, cp_updated := ne_clock e (nw_ticks w)\<rparr>"])
         (auto simp: notify_call_defs sql_campaign_total_def update_campaign_def split: option.splits)
  next
    case (NCampaignCheckpoint j cur n)
    with assms show ?thesis
      by (intro exI [of _ j]
            exI [of _ "\<lambda>c. c\<lparr>cp_cursor := cur, cp_dispatched := cp_dispatched c + n, cp_updated := ne_clock e (nw_ticks w)\<rparr>"])
         (auto simp: notify_call_defs sql_campaign_checkpoint_def update_campaign_def split: option.splits)
  next
    case (NCampaignMark j st)
    with assms show ?thesis
      by (intro exI [of _ j] exI [of _ "\<lambda>c. c\<lparr>cp_status := st, cp_updated := ne_clock e (nw_ticks w)\<rparr>"])
         (auto simp: notify_call_defs sql_campaign_mark_def update_campaign_def split: option.splits)
  qed (use assms in \<open>auto simp: campaign_allows_def nnow_def split: option.splits\<close>)
  then show ?thesis using that by blast
qed

lemma campaign_frozen_step:
  assumes f: "campaign_frozen row w phs" and i: "i < length phs" and a: "campaign_allows (phs ! i) c"
    and h: "notify_handle lib e c w = (r, w')"
  shows "campaign_frozen row w' (phs[i := campaign_next (phs ! i) c r])"
proof -
  have ph: "phs ! i \<noteq> Some (cp_id row)" using f i nth_mem by (metis campaign_frozen_def)
  have same: ?thesis if "nw_campaigns w' = nw_campaigns w" "campaign_next (phs ! i) c r = phs ! i"
    unfolding that(2) using that(1) ph
    by (intro campaign_frozen_update [OF f, of _ "\<lambda>_. False" "\<lambda>c. c"]) (simp_all add: update_rows_def)
  show ?thesis
  proof (cases "c = NCampaignClaim")
    case True
    with a have none: "phs ! i = None" by simp
    show ?thesis
    proof (rule campaign_claim_step [OF True h, of "phs ! i"])
      assume "nw_campaigns w' = nw_campaigns w" "campaign_next (phs ! i) c r = None"
      then show ?thesis using none by (intro same) simp_all
    next
      fix x g
      assume x: "x \<in> set (nw_campaigns w)" "cp_status x = CPending" "\<And>y. cp_id (g y) = cp_id y"
        and u: "nw_campaigns w' = update_rows (\<lambda>y. cp_id y = cp_id x) g (nw_campaigns w)"
        and n: "campaign_next (phs ! i) c r = Some (cp_id x)"
      have "cp_id x \<noteq> cp_id row" using x f by (auto simp: campaign_frozen_def)
      then show ?thesis using x n by (intro campaign_frozen_update [OF f u]) auto
    qed

  next
    case False
    then have n: "campaign_next (phs ! i) c r = phs ! i" by (simp add: campaign_next_def)
    show ?thesis
    proof (cases "nw_campaigns w' = nw_campaigns w")
      case True
      then show ?thesis using n by (rule same)
    next
      case changed: False
      show ?thesis
      proof (rule campaign_write_step [OF h a False changed])
        fix j g
        assume "phs ! i = Some j" "\<And>y. cp_id (g y) = cp_id y"
          and u: "nw_campaigns w' = update_rows (\<lambda>y. cp_id y = j) g (nw_campaigns w)"
        with n ph show ?thesis by (intro campaign_frozen_update [OF f u]) auto
      qed

    qed
  qed
qed

interpretation campaigns: typestate "notify_handle lib" campaign_allows campaign_next any_answer None "campaign_frozen row"
  for lib row
proof
  fix w phs
  assume "campaign_frozen row w phs"
  then show "campaign_frozen row w (phs @ [None])" by (simp add: campaign_frozen_def)
next
  fix w phs i c e r w'
  assume "campaign_frozen row w phs" "i < length phs" "campaign_allows (phs ! i) c" "notify_handle lib e c w = (r, w')"
  then show "any_answer c r \<and> campaign_frozen row w' (phs[i := campaign_next (phs ! i) c r])"
    by (simp add: campaign_frozen_step)
qed

text \<open>
  A dispatch that stops is never resumed: a campaign that is not pending and that no dispatcher is
  working on keeps its row, its status, cursor and counters, whatever any number of dispatchers do
  in any interleaving. In particular one that was left dispatching by a shutdown stays so.
\<close>
theorem campaign_never_resumed:
  assumes "reachable (notify_handle lib) (range (dispatch_pending_campaigns lib)) w0 (ts, w)"
    and "keyed cp_id (nw_campaigns w0)" and "row \<in> set (nw_campaigns w0)" and "cp_status row \<noteq> CPending"
  shows "row \<in> set (nw_campaigns w)"
proof -
  have "campaign_frozen row w0 []"
    using assms(2-4) by (auto simp: campaign_frozen_def keyed_def distinct_map inj_on_def)
  from campaigns.reachable_inv [OF assms(1) this] follows_dispatch show ?thesis by (force simp: campaign_frozen_def)
qed

theorem campaign_never_resumed_witness:
  "demo_campaign \<in> set (nw_campaigns (snd (run_sched (notify_handle demo_nlib) [(0, demo_nenv), (1, demo_nenv), (0, demo_nenv)]
     ([dispatch_pending_campaigns demo_nlib demo_nconfig, dispatch_pending_campaigns demo_nlib demo_nconfig],
      demo_nworld\<lparr>nw_campaigns := [demo_campaign, demo_campaign\<lparr>cp_id := 2, cp_status := CPending\<rparr>]\<rparr>))))"
proof -
  let ?w = "demo_nworld\<lparr>nw_campaigns := [demo_campaign, demo_campaign\<lparr>cp_id := 2, cp_status := CPending\<rparr>]\<rparr>"
  let ?x = "run_sched (notify_handle demo_nlib) [(0, demo_nenv), (1, demo_nenv), (0, demo_nenv)]
     ([dispatch_pending_campaigns demo_nlib demo_nconfig, dispatch_pending_campaigns demo_nlib demo_nconfig], ?w)"
  have "reachable (notify_handle demo_nlib) (range (dispatch_pending_campaigns demo_nlib)) ?w (fst ?x, snd ?x)"
    unfolding prod.collapse by (rule reachable_schedule) auto
  then show ?thesis by (rule campaign_never_resumed) (simp_all add: keyed_def demo_campaign_def)
qed

end
