(* ===== verification/DeadLetters.thy ===== *)
theory DeadLetters
  imports NotifyService Campaigns
begin

text \<open>
  Dead letters: internal/worker/dlq_worker.go stores what ends in the dead letter queues in a table,
  internal/service/dlq_service.go lists and replays it.
\<close>

section \<open>internal/worker/dlq_worker.go\<close>

definition dlq_notification :: "notify_lib \<Rightarrow> string \<Rightarrow> uuid option" where
  "dlq_notification lib body =
     (case nl_task_parse lib body of
        Inl _ \<Rightarrow> None
      | Inr task \<Rightarrow>
          if nk_notification task = '''' then None
          else (case nl_uuid_parse lib (nk_notification task) of Inl _ \<Rightarrow> None | Inr i \<Rightarrow> Some i))"

definition save_to_dlq :: "notify_lib \<Rightarrow> string \<Rightarrow> string \<Rightarrow> goerr option notify_prog" where
  "save_to_dlq lib queue_name body =
     Call (NDlqSave \<lparr>dq_id = 0, dq_created = zero_time, dq_notification = dlq_notification lib body, dq_queue = queue_name,
                     dq_payload = body, dq_error = ''Failed after max retries or invalid template payload'',
                     dq_status = DPending\<rparr>)
       (\<lambda>r. Return (n_error r))"

definition handle_email_dlq :: "notify_lib \<Rightarrow> string \<Rightarrow> goerr option notify_prog" where
  "handle_email_dlq lib body = save_to_dlq lib ''email'' body"

definition handle_webhook_dlq :: "notify_lib \<Rightarrow> string \<Rightarrow> goerr option notify_prog" where
  "handle_webhook_dlq lib body = save_to_dlq lib ''webhook'' body"

section \<open>internal/service/dlq_service.go\<close>

record dlq_response =
  dr_id :: string
  dr_notification :: string
  dr_queue :: string
  dr_payload :: string
  dr_error :: string
  dr_status :: string
  dr_created :: gotime

definition to_dlq_response :: "notify_lib \<Rightarrow> dlq_message \<Rightarrow> dlq_response" where
  "to_dlq_response lib m =
     \<lparr>dr_id = nl_uuid_str lib (dq_id m),
      dr_notification = (case dq_notification m of None \<Rightarrow> '''' | Some i \<Rightarrow> nl_uuid_str lib i),
      dr_queue = dq_queue m, dr_payload = dq_payload m, dr_error = dq_error m,
      dr_status = dlq_status_str (dq_status m), dr_created = dq_created m\<rparr>"

definition list_dlq_messages :: "notify_lib \<Rightarrow> string \<Rightarrow> int \<Rightarrow> int \<Rightarrow> (goerr + (dlq_response list \<times> int)) notify_prog" where
  "list_dlq_messages lib status page lim =
     Call (NDlqList status page lim) (\<lambda>r.
       Return (map_sum id (\<lambda>(msgs, total). (map (to_dlq_response lib) msgs, total)) (n_dlqs r)))"

text \<open>The queue the message came from is the routing key of its replay.\<close>

definition replay_dlq_message :: "notify_lib \<Rightarrow> notify_config \<Rightarrow> string \<Rightarrow> goerr option notify_prog" where
  "replay_dlq_message lib cfg id_str =
     (case nl_uuid_parse lib id_str of
        Inl err \<Rightarrow> Return (Some (Wrap ''invalid message id: '' err))
      | Inr i \<Rightarrow>
          Call (NDlqGet i) (\<lambda>r.
            case n_dlq r of
              Inl err \<Rightarrow> Return (Some (Wrap ''dlq message not found: '' err))
            | Inr msg \<Rightarrow>
                if dq_status msg = DReplayed then Return (Some (Plain ''message has already been replayed''))
                else
                  (case nl_task_parse lib (dq_payload msg) of
                     Inl err \<Rightarrow> Return (Some (Wrap ''failed to parse payload: '' err))
                   | Inr task \<Rightarrow>
                       npublish (nc_exchange cfg) (dq_queue msg) (nl_task_json lib (task\<lparr>nk_retry := 0\<rparr>)) (\<lambda>err.
                         case err of
                           Some e \<Rightarrow> Return (Some (Wrap ''failed to republish message: '' e))
                         | None \<Rightarrow>
                             Call (NDlqStatus i DReplayed) (\<lambda>r.
                               case n_error r of
                                 Some e \<Rightarrow> Return (Some (Wrap ''failed to update status to replayed: '' e))
                               | None \<Rightarrow>
                                   (case dq_notification msg of
                                      None \<Rightarrow> Return None
                                    | Some n \<Rightarrow>
                                        Call (NUpdateDelivery n NPending ''Replayed from DLQ'' None None)
                                          (\<lambda>_. Return None)))))))"

section \<open>Poison\<close>

text \<open>
  A message that is not JSON can never leave the dead letter queue: the e-mail worker rejects it there,
  and whatever the state and whatever else fails, the dead letter worker cannot store it and
  requeues it on every delivery.
\<close>
theorem dlq_poison:
  assumes "nl_task_parse lib body = Inl e" and "\<not> nl_json_valid lib body"
    and "\<And>c x. ne_db env c = Some x \<Longrightarrow> \<not> errors_is x ErrRejectToDLQ"
  shows "(\<lambda>(err, w'). (settle err, w')) (run (notify_handle lib env) (handle_email lib cfg body) w) = (NackDrop, w)
    \<and> (case run (notify_handle lib env) (handle_email_dlq lib body) w of (err, w') \<Rightarrow>
         settle err = NackRequeue \<and> nw_dlq w' = nw_dlq w)"
  using assms
  by (auto simp: handle_email_def handle_email_dlq_def save_to_dlq_def notify_call_defs dlq_storable_def settle_def
      split: option.splits)

section \<open>Replaying\<close>

lemma run_replay:
  assumes "calm env" and "nl_uuid_parse lib id_str = Inr i"
    and "by_key dq_id i (nw_dlq w) = Some msg" and "dq_status msg \<noteq> DReplayed"
    and "nl_task_parse lib (dq_payload msg) = Inr task" and "nl_task_json lib (task\<lparr>nk_retry := 0\<rparr>) = Inr body"
  obtains w' where "run (notify_handle lib env) (replay_dlq_message lib cfg id_str) w = (None, w')"
    and "nw_published w' = nw_published w @ [(nc_exchange cfg, dq_queue msg, body)]"
    and "by_key dq_id i (nw_dlq w') = Some (msg\<lparr>dq_status := DReplayed\<rparr>)"
    and "\<And>n row. dq_notification msg = Some n \<Longrightarrow> by_key nt_id n (nw_notifications w') = Some row \<Longrightarrow> nt_status row = NPending"
proof -
  have db: "\<And>c. ne_db env c = None" and pub: "\<And>ex key b. ne_publish env ex key b = None"
    using assms(1) by (simp_all add: calm_def)
  have get: "sql_dlq_get i w = Inr msg" using assms(3) by (simp add: sql_dlq_get_def first_row_by_key)
  define w1 where "w1 = publishes [(nc_exchange cfg, dq_queue msg, body)] w"
  define w2 where "w2 = snd (notify_handle lib env (NDlqStatus i DReplayed) w1)"
  define w3 where "w3 = (case dq_notification msg of None \<Rightarrow> w2
     | Some n \<Rightarrow> snd (notify_handle lib env (NUpdateDelivery n NPending ''Replayed from DLQ'' None None) w2))"
  have "run (notify_handle lib env) (replay_dlq_message lib cfg id_str) w = (None, w3)"
    using assms(2,4,5,6) db pub get
    by (auto simp: replay_dlq_message_def nread_def npublish_def w1_def w2_def w3_def publishes_def nexec_def nnow_def
        split: option.splits)
  moreover have "by_key dq_id i (nw_dlq w3) = Some (msg\<lparr>dq_status := DReplayed\<rparr>)"
      "nw_published w3 = nw_published w @ [(nc_exchange cfg, dq_queue msg, body)]"
    using db assms(3)
    by (auto simp: w3_def w2_def w1_def publishes_def notify_call_defs sql_dlq_status_def sql_update_delivery_def by_key_update_same
        split: option.splits)
  moreover have "nt_status row = NPending"
    if "dq_notification msg = Some x" "by_key nt_id x (nw_notifications w3) = Some row" for x row
    using that db by (auto simp: w3_def notify_call_defs sql_update_delivery_def by_key_update_same)
  ultimately show ?thesis using that by blast
qed


theorem dlq_poison_witness:
  "settle (fst (run (notify_handle (demo_nlib\<lparr>nl_task_parse := \<lambda>_. Inl (Plain ''syntax''), nl_json_valid := \<lambda>_. False\<rparr>) demo_nenv)
     (handle_email_dlq (demo_nlib\<lparr>nl_task_parse := \<lambda>_. Inl (Plain ''syntax''), nl_json_valid := \<lambda>_. False\<rparr>) ''{'') demo_nworld)) = NackRequeue"
proof -
  let ?lib = "demo_nlib\<lparr>nl_task_parse := \<lambda>_. Inl (Plain ''syntax''), nl_json_valid := \<lambda>_. False\<rparr>"
  have "nl_task_parse ?lib ''{'' = Inl (Plain ''syntax'')" "\<not> nl_json_valid ?lib ''{''" by simp_all
  from dlq_poison [OF this, of demo_nenv demo_nconfig demo_nworld] show ?thesis by (simp add: demo_nenv_def split_def)
qed

definition demo_letter :: dlq_message where
  "demo_letter =
     \<lparr>dq_id = 1, dq_created = 0, dq_notification = Some 1, dq_queue = ''email'', dq_payload = ''+++'', dq_error = '''',
      dq_status = DPending\<rparr>"


end
