(* ===== verification/Scheduler.thy ===== *)
theory Scheduler
  imports NotifyService
begin

text \<open>
  services/notification/internal/service/scheduler_service.go: daily reminders at a local time. Time zones are
  parameters (\<open>location\<close>). \<open>process_due_schedules\<close> is one run of the scheduler worker
  (internal/worker/scheduler_worker.go), which recovers no panic.
\<close>

section \<open>When a schedule is due\<close>

definition local_date :: "location \<Rightarrow> gotime \<Rightarrow> int \<times> int \<times> int" where
  "local_date loc t = civil_of_days ((t + loc_offset loc t) div day_length)"

definition schedule_location :: "notify_lib \<Rightarrow> schedule \<Rightarrow> location" where
  "schedule_location lib s = (case nl_load_location lib (sc_zone s) of Inl _ \<Rightarrow> nl_utc lib | Inr loc \<Rightarrow> loc)"

definition is_due :: "notify_lib \<Rightarrow> schedule \<Rightarrow> gotime \<Rightarrow> bool" where
  "is_due lib s now =
     (let loc = schedule_location lib s in
      case split_n2 (CHR '':'') (sc_time s) of
        [h, m] \<Rightarrow>
          (case (atoi h, atoi m) of
             (Some hr, Some mi) \<Rightarrow>
               (case local_date loc now of (y, mo, d) \<Rightarrow>
                  if now < loc_date loc y mo d hr mi then False
                  else (case sc_last s of None \<Rightarrow> True | Some sent \<Rightarrow> local_date loc sent \<noteq> (y, mo, d)))
           | _ \<Rightarrow> False)
      | _ \<Rightarrow> False)"

definition validate_send_time :: "string \<Rightarrow> goerr option" where
  "validate_send_time t =
     (case split_n2 (CHR '':'') t of
        [h, m] \<Rightarrow>
          (case (atoi h, atoi m) of
             (Some hr, Some mi) \<Rightarrow>
               if hr < 0 \<or> hr > 23 \<or> mi < 0 \<or> mi > 59
               then Some (Plain ''send_time must be a valid time in HH:MM format (e.g. 09:00)'') else None
           | _ \<Rightarrow> Some (Plain ''send_time must be a valid time in HH:MM format (e.g. 09:00)''))
      | _ \<Rightarrow> Some (Plain ''send_time must be in HH:MM format''))"

section \<open>A run\<close>

text \<open>The templates of the batch: one query for each event type, a missing one is remembered as such.\<close>

primrec fetch_templates ::
  "schedule list \<Rightarrow> (string \<rightharpoonup> notif_template option) \<Rightarrow> ((string \<rightharpoonup> notif_template option) \<Rightarrow> 'a notify_prog) \<Rightarrow> 'a notify_prog" where
  "fetch_templates [] found k = k found"
| "fetch_templates (sc # scs) found k =
     (if found (sc_event sc) \<noteq> None then fetch_templates scs found k
      else
        Call (NTemplateGet (sc_event sc)) (\<lambda>r.
          case n_template r of
            Inl _ \<Rightarrow> fetch_templates scs (found(sc_event sc \<mapsto> None)) k
          | Inr tmpl \<Rightarrow> fetch_templates scs (found(sc_event sc \<mapsto> Some tmpl)) k))"

definition schedule_payload :: "notify_lib \<Rightarrow> schedule \<Rightarrow> json_map" where
  "schedule_payload lib s =
     (if sc_payload s = '''' then []
      else (case nl_map_parse lib (sc_payload s) of Inl _ \<Rightarrow> [] | Inr m \<Rightarrow> m))"

definition schedule_request :: "notify_lib \<Rightarrow> schedule \<Rightarrow> send_request" where
  "schedule_request lib s =
     \<lparr>sq_user = sc_user s, sq_event = sc_event s, sq_payload = schedule_payload lib s, sq_metadata = None\<rparr>"

primrec process_each ::
  "notify_lib \<Rightarrow> notify_wiring \<Rightarrow> (string \<rightharpoonup> notif_template option) \<Rightarrow> gotime \<Rightarrow> schedule list \<Rightarrow> goerr option outcome notify_prog" where
  "process_each lib wiring templates now [] = Return (Returned None)"
| "process_each lib wiring templates now (s # ss) =
     (if \<not> is_due lib s now then process_each lib wiring templates now ss
      else
        (case templates (sc_event s) of
           Some (Some tmpl) \<Rightarrow>
             bind (create_notification_with_template lib wiring (schedule_request lib s) tmpl) (\<lambda>res.
               case res of
                 Panicked msg \<Rightarrow> Return (Panicked msg)
               | Returned (Inl _) \<Rightarrow> process_each lib wiring templates now ss
               | Returned (Inr _) \<Rightarrow>
                   Call (NScheduleSent (sc_id s) now) (\<lambda>_. process_each lib wiring templates now ss))
         | _ \<Rightarrow> process_each lib wiring templates now ss))"

definition process_due_schedules :: "notify_lib \<Rightarrow> notify_wiring \<Rightarrow> goerr option outcome notify_prog" where
  "process_due_schedules lib wiring =
     Call NDueCandidates (\<lambda>r.
       case n_schedules r of
         Inl err \<Rightarrow> Return (Returned (Some (Wrap ''find due candidates: '' err)))
       | Inr candidates \<Rightarrow>
           Call NNow (\<lambda>r.
             fetch_templates candidates (\<lambda>_. None) (\<lambda>templates.
               process_each lib wiring templates (n_time r) candidates)))"

section \<open>Requests\<close>

record upsert_schedule_request =
  us_user :: string
  us_event :: string
  us_time :: string
  us_zone :: string
  us_enabled :: bool
  us_payload :: "json_map option"

record schedule_item =
  si_id :: string
  si_event :: string
  si_time :: string
  si_zone :: string
  si_enabled :: bool
  si_last :: "gotime option"
  si_created :: gotime

definition to_schedule_item :: "notify_lib \<Rightarrow> schedule \<Rightarrow> schedule_item" where
  "to_schedule_item lib s =
     \<lparr>si_id = nl_uuid_str lib (sc_id s), si_event = sc_event s, si_time = sc_time s, si_zone = sc_zone s,
      si_enabled = sc_enabled s, si_last = sc_last s, si_created = sc_created s\<rparr>"

definition upsert_schedule :: "notify_lib \<Rightarrow> upsert_schedule_request \<Rightarrow> (goerr + schedule_item) notify_prog" where
  "upsert_schedule lib req =
     (case validate_send_time (us_time req) of
        Some err \<Rightarrow> Return (Inl err)
      | None \<Rightarrow>
          (case nl_load_location lib (us_zone req) of
             Inl err \<Rightarrow> Return (Inl (Wrap (''invalid timezone '' @ quote (us_zone req) @ '': '') err))
           | Inr _ \<Rightarrow>
               (case (case us_payload req of None \<Rightarrow> Inr '''' | Some m \<Rightarrow> nl_map_json lib m) of
                  Inl err \<Rightarrow> Return (Inl (Wrap ''failed to marshal payload: '' err))
                | Inr payload \<Rightarrow>
                    Call (NScheduleUpsert
                      \<lparr>sc_id = 0, sc_created = zero_time, sc_user = us_user req, sc_event = us_event req, sc_time = us_time req,
                       sc_zone = us_zone req, sc_enabled = us_enabled req, sc_payload = payload, sc_last = None\<rparr>)
                      (\<lambda>r. Return (map_sum id (to_schedule_item lib) (n_schedule r))))))"

definition get_schedules :: "notify_lib \<Rightarrow> string \<Rightarrow> (goerr + (string \<times> schedule_item list)) notify_prog" where
  "get_schedules lib user_id =
     Call (NSchedulesByUser user_id) (\<lambda>r.
       Return (map_sum id (\<lambda>ss. (user_id, map (to_schedule_item lib) ss)) (n_schedules r)))"

definition delete_schedule :: "string \<Rightarrow> string \<Rightarrow> goerr option notify_prog" where
  "delete_schedule user_id event = Call (NScheduleDelete user_id event) (\<lambda>r. Return (n_error r))"

section \<open>Validation\<close>

text \<open>A time that was validated is one \<open>isDue\<close> can read.\<close>

lemma validated_time:
  assumes "validate_send_time t = None"
  shows "\<exists>h m hr mi. split_n2 (CHR '':'') t = [h, m] \<and> atoi h = Some hr \<and> atoi m = Some mi
    \<and> 0 \<le> hr \<and> hr \<le> 23 \<and> 0 \<le> mi \<and> mi \<le> 59"
  using assms by (auto simp: validate_send_time_def split: list.splits option.splits if_splits)

text \<open>
  A schedule that was sent late is skipped: it can be due again the next morning, but is no candidate
  before 20 hours have passed.
\<close>

lemma schedule_delayed:
  assumes "sc_last s = Some t" and "now \<le> t + 20 * hour"
  shows "s \<notin> set (sql_due_candidates now w)"
  using assms by (auto simp: sql_due_candidates_def)

section \<open>Once a day\<close>

lemma not_due_same_day:
  "sc_last s = Some t \<Longrightarrow> local_date (schedule_location lib s) t = local_date (schedule_location lib s) now \<Longrightarrow> \<not> is_due lib s now"
  by (auto simp: is_due_def Let_def split: list.splits option.splits prod.splits)

text \<open>What creating a notification does to the tables, schedules included.\<close>

definition keeps_schedules :: "notify_call \<Rightarrow> bool" where
  "keeps_schedules c \<longleftrightarrow>
     (\<exists>k. c = NCacheGet k) \<or> (\<exists>u e ch. c = NPrefEnabled u e ch) \<or> (\<exists>n. c = NCreateWithOutbox n) \<or> (\<exists>n. c = NTxInsert n)
     \<or> (\<exists>e. c = NTemplateGet e)"

lemma keeps_schedules_call:
  "keeps_schedules c \<Longrightarrow> nw_schedules (snd (notify_handle lib env c w)) = nw_schedules w"
  by (auto simp: keeps_schedules_def notify_call_defs tx_create_with_outbox_def sql_notification_create_def sql_outbox_create_def
      Let_def split: option.splits prod.splits sum.splits)

lemma run_keeps_schedules:
  assumes "calls_in keeps_schedules p"
  shows "nw_schedules (snd (run (notify_handle lib env) p w)) = nw_schedules w"
  using run_invariant [OF assms, of "\<lambda>v. nw_schedules v = nw_schedules w" "notify_handle lib env" w] keeps_schedules_call by force

lemma calls_create: "calls_in keeps_schedules (create_notification_with_template lib wiring event tmpl)"
proof -
  have s: "calls_in keeps_schedules (send_notification lib wiring event tmpl)"
    by (auto simp: send_notification_def create_with_outbox_def keeps_schedules_def split: sum.splits outcome.splits)
  have "calls_in keeps_schedules (is_notification_enabled lib u e ch)" for u e ch
    by (auto simp: is_notification_enabled_def cached_items_def keeps_schedules_def split: sum.splits option.splits)
  with s show ?thesis by (auto simp: create_from_template_def intro!: calls_in_bind)
qed

lemma send_counts:
  "case run (notify_handle lib env) (send_notification lib wiring event tmpl) w of (res, w') \<Rightarrow>
     untouched w w' \<and> (\<forall>resp. res \<noteq> Returned (Inr resp)) \<or> length (nw_notifications w') = Suc (length (nw_notifications w))
       \<and> (\<exists>resp. res = Returned (Inr resp))"
proof (cases "nv_outbox wiring")
  case True
  from run_send_notification [OF this, where lib = lib and env = env and event = event and tmpl = tmpl and w = w] show ?thesis
    by (auto simp: created_both_def split: prod.splits)
next
  case False
  then show ?thesis
    by (auto simp: send_notification_def create_with_outbox_def notify_call_defs untouched_def run_bind
        split: sum.splits option.splits prod.splits outcome.splits)
qed

lemma create_counts:
  "case run (notify_handle lib env) (create_notification_with_template lib wiring event tmpl) w of (res, w') \<Rightarrow>
     untouched w w' \<or> length (nw_notifications w') = Suc (length (nw_notifications w)) \<and> (\<exists>resp. res = Returned (Inr resp))"
proof -
  let ?en = "run (notify_handle lib env) (is_notification_enabled lib (sq_user event) (tp_event tmpl) (tp_channel tmpl)) w"
  have u: "untouched w (snd ?en)" by (rule run_enabled_untouched)
  show ?thesis
    using send_counts [where lib = lib and env = env and wiring = wiring and event = event and tmpl = tmpl and w = w]
      send_counts [where lib = lib and env = env and wiring = wiring and event = event and tmpl = tmpl and w = "snd ?en"] u
    by (auto simp: create_from_template_def run_bind split_def untouched_def)
qed

text \<open>The templates that are fetched; fetching changes nothing.\<close>

primrec fetched ::
  "notify_env \<Rightarrow> notify_world \<Rightarrow> schedule list \<Rightarrow> (string \<rightharpoonup> notif_template option) \<Rightarrow> (string \<rightharpoonup> notif_template option)" where
  "fetched env w [] found = found"
| "fetched env w (s # ss) found =
     fetched env w ss
       (if found (sc_event s) \<noteq> None then found
        else found(sc_event s \<mapsto>
          (case nread env (NTemplateGet (sc_event s)) (sql_template_get (sc_event s) w) of Inl _ \<Rightarrow> None | Inr t \<Rightarrow> Some t)))"

lemma run_fetch_templates:
  "run (notify_handle lib env) (fetch_templates ss found k) w = run (notify_handle lib env) (k (fetched env w ss found)) w"
  by (induction ss arbitrary: found) (auto split: sum.splits)

lemma fetched_keeps: "found e = Some x \<Longrightarrow> fetched env w ss found e = Some x"
proof (induction ss arbitrary: found)
  case (Cons s ss)
  show ?case unfolding fetched.simps by (rule Cons.IH) (use Cons.prems in auto)
qed simp

lemma fetched_template:
  assumes "\<And>c. ne_db env c = None" and "sql_template_get e w = Inr t"
  shows "s \<in> set ss \<Longrightarrow> sc_event s = e \<Longrightarrow> found e = None \<or> found e = Some (Some t) \<Longrightarrow> fetched env w ss found e = Some (Some t)"
proof (induction ss arbitrary: found)
  case (Cons x ss)
  show ?case
  proof (cases "sc_event x = e")
    case True
    with Cons.prems assms show ?thesis by (auto simp: nread_def intro!: fetched_keeps)
  next
    case False
    with Cons.prems have "s \<in> set ss" by auto
    with False Cons show ?thesis by simp
  qed
qed simp


text \<open>One schedule: at most one notification is created for it while the day lasts.\<close>

definition sent_today :: "notify_lib \<Rightarrow> int \<times> int \<times> int \<Rightarrow> schedule \<Rightarrow> bool" where
  "sent_today lib day s \<longleftrightarrow> (\<exists>t. sc_last s = Some t \<and> local_date (schedule_location lib s) t = day)"

definition at_most_once :: "notify_lib \<Rightarrow> int \<times> int \<times> int \<Rightarrow> string \<Rightarrow> nat \<Rightarrow> notify_world \<Rightarrow> bool" where
  "at_most_once lib day zone c w \<longleftrightarrow>
     (\<exists>s. nw_schedules w = [s] \<and> sc_zone s = zone
        \<and> (length (nw_notifications w) = c \<or> length (nw_notifications w) = Suc c \<and> sent_today lib day s))"

lemma at_most_once_same:
  "at_most_once lib day zone c w \<Longrightarrow> nw_schedules w' = nw_schedules w \<Longrightarrow> nw_notifications w' = nw_notifications w
     \<Longrightarrow> at_most_once lib day zone c w'"
  by (simp add: at_most_once_def)

lemma process_one:
  assumes "at_most_once lib day zone c w" and "nw_schedules w = [s]" and "ss = [] \<or> ss = [s]"
    and "local_date (schedule_location lib s) now = day" and "\<And>i t. ne_db env (NScheduleSent i t) = None"
  shows "at_most_once lib day zone c (snd (run (notify_handle lib env) (process_each lib wiring templates now ss) w))"
proof (cases "ss = [s] \<and> is_due lib s now \<and> (\<exists>tmpl. templates (sc_event s) = Some (Some tmpl))")
  case False
  then have "run (notify_handle lib env) (process_each lib wiring templates now ss) w = (Returned None, w)"
    using assms(3) by (auto split: option.splits)
  with assms(1) show ?thesis by simp
next
  case True
  then obtain tmpl where t: "templates (sc_event s) = Some (Some tmpl)" by blast
  let ?create = "create_notification_with_template lib wiring (schedule_request lib s) tmpl"
  obtain res w1 where r: "run (notify_handle lib env) ?create w = (res, w1)" by fastforce
  have sch: "nw_schedules w1 = [s]"
    using run_keeps_schedules [OF calls_create, of lib env lib wiring "schedule_request lib s" tmpl w] r assms(2) by simp
  have "\<not> sent_today lib day s" using True assms(4) not_due_same_day by (auto simp: sent_today_def)
  then have c: "length (nw_notifications w) = c" using assms(1,2) by (auto simp: at_most_once_def)
  from create_counts [where lib = lib and env = env and wiring = wiring and event = "schedule_request lib s" and tmpl = tmpl and w = w] r
  have n: "untouched w w1 \<or> length (nw_notifications w1) = Suc (length (nw_notifications w)) \<and> (\<exists>resp. res = Returned (Inr resp))"
    by simp
  have p: "run (notify_handle lib env) (process_each lib wiring templates now ss) w =
      (case res of
         Panicked msg \<Rightarrow> (Panicked msg, w1)
       | Returned (Inl _) \<Rightarrow> (Returned None, w1)
       | Returned (Inr _) \<Rightarrow> (Returned None, snd (notify_handle lib env (NScheduleSent (sc_id s) now) w1)))"
    using True t r by (auto simp: run_bind simp del: notify_handle.simps split: outcome.splits sum.splits)
  show ?thesis
  proof (cases "\<exists>resp. res = Returned (Inr resp)")
    case True
    then obtain resp where res: "res = Returned (Inr resp)" by blast
    have "nw_schedules (snd (notify_handle lib env (NScheduleSent (sc_id s) now) w1)) = [s\<lparr>sc_last := Some now\<rparr>]"
      "nw_notifications (snd (notify_handle lib env (NScheduleSent (sc_id s) now) w1)) = nw_notifications w1"
      using sch assms(5) by (simp_all add: notify_call_defs sql_schedule_sent_def update_rows_def)
    moreover have "sc_zone s = zone" using assms(1,2) by (auto simp: at_most_once_def)
    moreover have "sent_today lib day (s\<lparr>sc_last := Some now\<rparr>)"
      using assms(4) by (simp add: sent_today_def schedule_location_def)
    ultimately show ?thesis using n c unfolding p res by (auto simp: at_most_once_def untouched_def)
  next
    case False
    then have "untouched w w1" using n by blast
    then have "at_most_once lib day zone c w1"
      using at_most_once_same [OF assms(1)] sch assms(2) by (simp add: untouched_def)
    with False show ?thesis unfolding p by (auto split: outcome.splits sum.splits)
  qed
qed

lemma process_keeps_at_most_once:
  assumes "at_most_once lib day zone c w"
    and "\<And>k s. sc_zone s = zone \<Longrightarrow> local_date (schedule_location lib s) (ne_clock env k) = day"
    and "\<And>i t. ne_db env (NScheduleSent i t) = None"
  shows "at_most_once lib day zone c (snd (run (notify_handle lib env) (process_due_schedules lib wiring) w))"
proof (cases "ne_db env NDueCandidates")
  case (Some e)
  with assms(1) show ?thesis
    by (simp add: process_due_schedules_def notify_call_defs at_most_once_def)
next
  case None
  obtain s where s: "nw_schedules w = [s]" "sc_zone s = zone" using assms(1) by (auto simp: at_most_once_def)
  define w1 where "w1 = w\<lparr>nw_ticks := Suc (Suc (nw_ticks w))\<rparr>"
  let ?now = "ne_clock env (Suc (nw_ticks w))"
  let ?c = "sql_due_candidates (ne_clock env (nw_ticks w)) (w\<lparr>nw_ticks := Suc (nw_ticks w)\<rparr>)"
  have r: "run (notify_handle lib env) (process_due_schedules lib wiring) w =
      run (notify_handle lib env) (process_each lib wiring (fetched env w1 ?c (\<lambda>_. None)) ?now ?c) w1"
    using None by (simp add: process_due_schedules_def notify_call_defs run_fetch_templates w1_def)
  have "?c = [] \<or> ?c = [s]" using s(1) by (simp add: sql_due_candidates_def)
  moreover have "at_most_once lib day zone c w1" by (rule at_most_once_same [OF assms(1)]) (simp_all add: w1_def)
  ultimately show ?thesis
    unfolding r using s assms(2,3) by (intro process_one) (simp_all add: w1_def)
qed

text \<open>Runs of the worker, each in its own environment.\<close>

definition run_scheduler :: "notify_lib \<Rightarrow> notify_wiring \<Rightarrow> notify_env list \<Rightarrow> notify_world \<Rightarrow> notify_world" where
  "run_scheduler lib wiring envs w = fold (\<lambda>env w. snd (run (notify_handle lib env) (process_due_schedules lib wiring) w)) envs w"


text \<open>The demonstration of a day with two runs; every instant of it is on the first day of the epoch.\<close>

definition demo_schedule :: schedule where
  "demo_schedule =
     \<lparr>sc_id = 1, sc_created = 0, sc_user = ''u'', sc_event = ''welcome'', sc_time = ''0:0'', sc_zone = ''UTC'',
      sc_enabled = True, sc_payload = '''', sc_last = None\<rparr>"


section \<open>The scheduler worker as it is built\<close>

lemma send_without_outbox:
  "case run (notify_handle lib env) (send_notification lib scheduler_wiring event tmpl) w of (res, w') \<Rightarrow>
     untouched w w' \<and> nw_schedules w' = nw_schedules w \<and> (\<forall>resp. res \<noteq> Returned (Inr resp))
     \<and> ((\<forall>c. ne_db env c = None) \<and> (\<forall>task. \<exists>b. nl_task_json lib task = Inr b) \<and> (\<exists>n. build_notification lib event tmpl = Inr n)
          \<longrightarrow> (\<exists>msg. res = Panicked msg))"
proof (cases "build_notification lib event tmpl")
  case (Inr n)
  then have e: "nt_event_id n = ''''" by (auto simp: build_notification_def Let_def split: sum.splits option.splits)
  show ?thesis
  proof (cases "ne_db env (NTxInsert n)")
    case (Some err)
    with Inr show ?thesis
      by (auto simp: send_notification_def create_with_outbox_def scheduler_wiring_def notify_call_defs)
  next
    case None
    define m where "m = n\<lparr>nt_id := ne_uuid env (nw_uuids w), nt_created := ne_clock env (nw_ticks w),
       nt_updated := ne_clock env (nw_ticks w),
       nt_scheduled := (if nt_scheduled n = zero_time then ne_clock env (nw_ticks w) else nt_scheduled n)\<rparr>"
    from None e have r: "run (notify_handle lib env) (create_with_outbox lib scheduler_wiring n) w =
        ((case outbox_event_of lib m of
            Inl err \<Rightarrow> Returned (Inl err) | Inr _ \<Rightarrow> Panicked ''invalid memory address or nil pointer dereference''),
         w\<lparr>nw_ticks := Suc (nw_ticks w), nw_uuids := Suc (nw_uuids w)\<rparr>)"
      by (simp add: create_with_outbox_def scheduler_wiring_def notify_call_defs sql_notification_create_def Let_def
          m_def [symmetric] split: sum.splits)
    have j: "\<exists>ev. outbox_event_of lib m = Inr ev" if ok: "\<forall>task. \<exists>b. nl_task_json lib task = Inr b"
    proof -
      obtain b where "nl_task_json lib (outbox_task lib m) = Inr b" using ok by blast
      then show ?thesis by (simp add: outbox_event_of_def)
    qed
    show ?thesis
      using Inr j by (auto simp: send_notification_def run_bind r untouched_def split: sum.splits)

  qed
qed (simp add: send_notification_def)

definition ready :: "notify_lib \<Rightarrow> (string \<rightharpoonup> notif_template option) \<Rightarrow> gotime \<Rightarrow> schedule \<Rightarrow> bool" where
  "ready lib templates now s \<longleftrightarrow>
     is_due lib s now \<and> (\<exists>tmpl n. templates (sc_event s) = Some (Some tmpl)
        \<and> build_notification lib (schedule_request lib s) tmpl = Inr n)"

lemma process_without_outbox:
  assumes "\<And>c. ne_db env c = None" and "\<And>task. \<exists>b. nl_task_json lib task = Inr b"
  shows "case run (notify_handle lib env) (process_each lib scheduler_wiring templates now ss) w of (res, w') \<Rightarrow>
    untouched w w' \<and> nw_schedules w' = nw_schedules w \<and> ((\<exists>s\<in>set ss. ready lib templates now s) \<longrightarrow> (\<exists>msg. res = Panicked msg))"
proof (induction ss arbitrary: w)
  case (Cons s ss)
  show ?case
  proof (cases "is_due lib s now \<and> (\<exists>tmpl. templates (sc_event s) = Some (Some tmpl))")
    case False
    then have "\<not> ready lib templates now s" by (auto simp: ready_def)
    moreover have "run (notify_handle lib env) (process_each lib scheduler_wiring templates now (s # ss)) w =
        run (notify_handle lib env) (process_each lib scheduler_wiring templates now ss) w"
      using False by (auto split: option.splits)
    ultimately show ?thesis using Cons.IH [of w] by simp
  next
    case True
    then obtain tmpl where t: "templates (sc_event s) = Some (Some tmpl)" by blast
    have c: "create_from_template lib scheduler_wiring ev tmpl = send_notification lib scheduler_wiring ev tmpl" for ev
      by (simp add: create_from_template_def scheduler_wiring_def)
    obtain res w1 where r: "run (notify_handle lib env) (send_notification lib scheduler_wiring (schedule_request lib s) tmpl) w = (res, w1)"
      by fastforce
    have u: "untouched w w1" "nw_schedules w1 = nw_schedules w" "\<And>resp. res \<noteq> Returned (Inr resp)"
      and p: "ready lib templates now s \<Longrightarrow> \<exists>msg. res = Panicked msg"
      using send_without_outbox [where lib = lib and env = env and event = "schedule_request lib s" and tmpl = tmpl and w = w] r assms t
      by (auto simp: ready_def)
    show ?thesis
    proof (cases res)
      case (Panicked msg)
      with True t r u show ?thesis by (simp add: c run_bind)
    next
      case (Returned x)
      with u(3) obtain err where x: "x = Inl err" by (cases x) auto
      with True t r Returned have "run (notify_handle lib env) (process_each lib scheduler_wiring templates now (s # ss)) w =
          run (notify_handle lib env) (process_each lib scheduler_wiring templates now ss) w1"
        by (simp add: c run_bind)
      moreover have "\<not> ready lib templates now s" using p Returned by auto
      ultimately show ?thesis using Cons.IH [of w1] u untouched_trans by (auto split: prod.splits)
    qed
  qed
qed simp

text \<open>
  The scheduler worker as \<open>cmd/main.go\<close> builds it, without an outbox repository, never sends anything: as
  soon as one schedule is due, with a template and a valid recipient, the run panics, and nothing
  recovers it. No notification is created and no schedule is marked, so it happens on every start.
\<close>
theorem scheduler_panics:
  assumes "\<And>c. ne_db env c = None" and "\<And>task. \<exists>b. nl_task_json lib task = Inr b"
    and "s \<in> set (sql_due_candidates (ne_clock env (nw_ticks w)) w)" and "is_due lib s (ne_clock env (Suc (nw_ticks w)))"
    and "sql_template_get (sc_event s) w = Inr tmpl" and "build_notification lib (schedule_request lib s) tmpl = Inr n"
  shows "case run (notify_handle lib env) (process_due_schedules lib scheduler_wiring) w of (res, w') \<Rightarrow>
    (\<exists>msg. res = Panicked msg) \<and> untouched w w' \<and> nw_schedules w' = nw_schedules w"
proof -
  define w1 where "w1 = w\<lparr>nw_ticks := Suc (Suc (nw_ticks w))\<rparr>"
  let ?now = "ne_clock env (Suc (nw_ticks w))"
  let ?c = "sql_due_candidates (ne_clock env (nw_ticks w)) w"
  let ?t = "fetched env w1 ?c (\<lambda>_. None)"
  have same: "sql_due_candidates t (w\<lparr>nw_ticks := k\<rparr>) = sql_due_candidates t w" for t k
    by (simp add: sql_due_candidates_def)
  have r: "run (notify_handle lib env) (process_due_schedules lib scheduler_wiring) w =
      run (notify_handle lib env) (process_each lib scheduler_wiring ?t ?now ?c) w1"
    using assms(1) by (simp add: process_due_schedules_def notify_call_defs run_fetch_templates w1_def same)
  have "sql_template_get (sc_event s) w1 = Inr tmpl" using assms(5) by (simp add: sql_template_get_def w1_def)
  then have "?t (sc_event s) = Some (Some tmpl)"
    using fetched_template [OF assms(1) _ assms(3) refl] by simp
  then have "\<exists>x\<in>set ?c. ready lib ?t ?now x"
    using assms(3,4,6) by (auto simp: ready_def)
  moreover have "untouched w w1" "nw_schedules w1 = nw_schedules w" by (simp_all add: untouched_def w1_def)
  ultimately show ?thesis
    using process_without_outbox [OF assms(1,2), where templates = ?t and now = ?now and ss = ?c and w = w1]
    unfolding r by (auto split: prod.splits dest: untouched_trans)
qed

theorem scheduler_panics_witness:
  "\<exists>msg. fst (run (notify_handle (demo_nlib\<lparr>nl_map_parse := \<lambda>_. Inr [(''recipient'', JString ''u@x'')]\<rparr>) demo_nenv)
     (process_due_schedules (demo_nlib\<lparr>nl_map_parse := \<lambda>_. Inr [(''recipient'', JString ''u@x'')]\<rparr>) scheduler_wiring)
     (demo_nworld\<lparr>nw_schedules := [demo_schedule\<lparr>sc_payload := ''{}''\<rparr>],
                  nw_templates := [\<lparr>tp_event = ''welcome'', tp_channel = ''email'', tp_subject = ''s'', tp_content = ''c''\<rparr>]\<rparr>))
   = Panicked msg"
proof -
  let ?lib = "demo_nlib\<lparr>nl_map_parse := \<lambda>_. Inr [(''recipient'', JString ''u@x'')]\<rparr>"
  let ?s = "demo_schedule\<lparr>sc_payload := ''{}''\<rparr>"
  let ?tmpl = "\<lparr>tp_event = ''welcome'', tp_channel = ''email'', tp_subject = ''s'', tp_content = ''c''\<rparr>"
  let ?w = "demo_nworld\<lparr>nw_schedules := [?s], nw_templates := [?tmpl]\<rparr>"
  have db: "ne_db demo_nenv c = None" for c by (simp add: demo_nenv_def)
  have j: "\<exists>b. nl_task_json ?lib task = Inr b" for task by (simp add: demo_nlib_def)
  have c: "?s \<in> set (sql_due_candidates (ne_clock demo_nenv (nw_ticks ?w)) ?w)"
    by (simp add: sql_due_candidates_def demo_schedule_def)
  have due: "is_due ?lib ?s (ne_clock demo_nenv (Suc (nw_ticks ?w)))"
    by (simp add: is_due_def schedule_location_def demo_nlib_def demo_location_def demo_schedule_def demo_nenv_def demo_nworld_def
        split_n2_def local_date_def Let_def split_def parse_digits_def in_int64_def is_digit_def digits_val_def digit_val_def
        int64_min_def int64_max_def)
  have t: "sql_template_get (sc_event ?s) ?w = Inr ?tmpl"
    by (simp add: sql_template_get_def first_row_def demo_schedule_def)
  obtain n where n: "build_notification ?lib (schedule_request ?lib ?s) ?tmpl = Inr n"
    by (simp add: build_notification_def checked_recipient_def payload_recipient_def schedule_request_def schedule_payload_def
        demo_schedule_def demo_nlib_def channel_email_def)
  from scheduler_panics [OF db j c due t n] show ?thesis by (auto split: prod.splits)
qed

end
