(* ===== verification/NotifyHandlers.thy ===== *)
theory NotifyHandlers
  imports DeadLetters Scheduler Http
begin

text \<open>
  services/notification/internal/handler/handler.go and route/route.go: the HTTP handlers of the notification
  service. The body that Gin binds is an argument: the error of \<open>ShouldBindJSON\<close> or
  \<open>ShouldBindQuery\<close>, or the request.
\<close>

section \<open>handler.go\<close>

text \<open>A service call whose only result is its error, answered with a fixed message.\<close>

definition answer_message :: "string \<Rightarrow> goerr option notify_prog \<Rightarrow> string http_response notify_prog" where
  "answer_message msg p =
     answer response_ok (bind p (\<lambda>err. Return (case err of Some e \<Rightarrow> Inl e | None \<Rightarrow> Inr msg)))"

definition required :: "string \<Rightarrow> string \<Rightarrow> goerr + unit" where
  "required what value = (if value = '''' then Inl (Plain (what @ '' is required'')) else Inr ())"

definition h_create_campaign where
  "h_create_campaign lib body = or_error body (\<lambda>req. answer response_created (create_campaign lib req))"

definition h_get_campaign_stats where
  "h_get_campaign_stats lib campaign_id =
     or_error (required ''campaign id'' campaign_id) (\<lambda>_. answer response_ok (get_campaign_stats lib campaign_id))"

definition h_health :: "(string \<times> string) http_response" where
  "h_health = response_ok (''notification-service'', ''ok'')"

definition h_send_notification where
  "h_send_notification lib wiring body =
     or_error body (\<lambda>req. answer_outcome response_ok (create_notification lib wiring req))"

definition h_list_notifications where
  "h_list_notifications lib body =
     or_error body (\<lambda>req.
       or_error (required ''user_id'' (lq_user req)) (\<lambda>_. answer response_ok (list_notifications lib req)))"

definition h_mailpit_webhook where
  "h_mailpit_webhook lib cfg body =
     or_error body (\<lambda>webhook_id.
       answer_message ''webhook accepted for processing'' (publish_webhook_response lib cfg webhook_id))"

definition h_get_preferences where
  "h_get_preferences lib user_id =
     or_error (required ''user id'' user_id) (\<lambda>_. answer response_ok (get_preferences lib user_id))"

definition h_upsert_preferences where
  "h_upsert_preferences lib user_id body =
     or_error (required ''user id'' user_id) (\<lambda>_.
       or_error body (\<lambda>items. answer response_ok (upsert_preferences lib user_id items)))"

text \<open>The user of the path replaces that of the body.\<close>

definition h_upsert_schedule where
  "h_upsert_schedule lib user_id body =
     or_error (required ''user id'' user_id) (\<lambda>_.
       or_error body (\<lambda>req. answer response_ok (upsert_schedule lib (req\<lparr>us_user := user_id\<rparr>))))"

definition h_get_schedules where
  "h_get_schedules lib user_id =
     or_error (required ''user id'' user_id) (\<lambda>_. answer response_ok (get_schedules lib user_id))"

definition h_delete_schedule where
  "h_delete_schedule user_id body =
     or_error (required ''user id'' user_id) (\<lambda>_.
       or_error body (\<lambda>event. answer_message ''schedule deleted'' (delete_schedule user_id event)))"

text \<open>\<open>strconv.Atoi(c.DefaultQuery(name, def))\<close>: 0 when the text is no number; the default only when it is absent.\<close>

definition query_int :: "string option \<Rightarrow> string \<Rightarrow> int" where
  "query_int arg def = (case atoi (case arg of None \<Rightarrow> def | Some s \<Rightarrow> s) of None \<Rightarrow> 0 | Some n \<Rightarrow> n)"

definition h_list_dlq where
  "h_list_dlq lib status page lim =
     (let p = query_int page ''1''; l = query_int lim ''10'' in
      answer response_ok
        (bind (list_dlq_messages lib status p l) (\<lambda>r. Return (map_sum (\<lambda>e. e) (\<lambda>(msgs, total). (msgs, total, p, l)) r))))"

definition h_replay_dlq where
  "h_replay_dlq lib cfg i =
     or_error (required ''message id'' i) (\<lambda>_. answer_message ''Message replayed successfully'' (replay_dlq_message lib cfg i))"

section \<open>route.go\<close>

text \<open>
  Every route stands behind the limiter by IP, \<open>send\<close> behind one of its own too; no route asks for a
  token.
\<close>

datatype notify_route =
    RtList | RtHealth | RtSend | RtMailpit | RtGetPrefs | RtPutPrefs | RtGetSchedules | RtPutSchedules | RtDeleteSchedules
  | RtCreateCampaign | RtCampaignStats | RtDlqList | RtDlqReplay

fun route_path :: "notify_route \<Rightarrow> string \<times> string" where
  "route_path RtList = (''GET'', ''/api/v1/notifications'')"
| "route_path RtHealth = (''GET'', ''/api/v1/notifications/health'')"
| "route_path RtSend = (''POST'', ''/api/v1/notifications/send'')"
| "route_path RtMailpit = (''POST'', ''/api/v1/notifications/webhooks/mailpit'')"
| "route_path RtGetPrefs = (''GET'', ''/api/v1/users/:id/notification-preferences'')"
| "route_path RtPutPrefs = (''PUT'', ''/api/v1/users/:id/notification-preferences'')"
| "route_path RtGetSchedules = (''GET'', ''/api/v1/users/:id/notification-schedules'')"
| "route_path RtPutSchedules = (''PUT'', ''/api/v1/users/:id/notification-schedules'')"
| "route_path RtDeleteSchedules = (''DELETE'', ''/api/v1/users/:id/notification-schedules'')"
| "route_path RtCreateCampaign = (''POST'', ''/api/v1/notifications/admin/campaigns'')"
| "route_path RtCampaignStats = (''GET'', ''/api/v1/notifications/admin/campaigns/:id/stats'')"
| "route_path RtDlqList = (''GET'', ''/api/v1/notifications/admin/dlq/messages'')"
| "route_path RtDlqReplay = (''POST'', ''/api/v1/notifications/admin/dlq/replay/:id'')"

section \<open>Only one error is the client's\<close>

lemma notify_error_status:
  "http_status (fst (run h (answer ok p) w)) = http_status (respond ok (fst (run h p w)))"
  by (simp add: run_answer)

text \<open>
  A rejected request is answered 500: only the opt-out of an event that cannot be switched off is an
  \<open>AppError\<close>. For instance a campaign in the past, or a malformed schedule.
\<close>

lemma past_campaign_answers_500:
  assumes "\<not> ne_clock env (nw_ticks w) < cq_scheduled req"
  shows "http_status (fst (run (notify_handle lib env) (h_create_campaign lib (Inr req)) w)) = 500"
  using assms
  by (simp add: h_create_campaign_def notify_error_status create_campaign_def nnow_def respond_simps status_response_error
      as_app_error_def)

lemma bad_send_time_answers_500:
  assumes "user \<noteq> ''''" and "validate_send_time (us_time req) = Some err"
  shows "http_status (fst (run (notify_handle lib env) (h_upsert_schedule lib user (Inr req)) w)) = 500"
proof -
  have "\<exists>t. err = Plain t" using assms(2) by (auto simp: validate_send_time_def split: list.splits option.splits if_splits)
  with assms show ?thesis
    by (auto simp: h_upsert_schedule_def required_def notify_error_status upsert_schedule_def respond_simps status_response_error
        as_app_error_def)
qed

end
