(* ===== verification/UploadHandlers.thy ===== *)
theory UploadHandlers
  imports SessionService Http
begin

text \<open>
  services/upload/internal/handler: the HTTP handlers of the upload service. Gin's binding of the
  body or of the query is an argument (the error of \<open>ShouldBindJSON\<close> or the request); a path
  parameter is its text. Each handler ends in one JSON response.
\<close>

definition parse_uuid_param :: "upload_lib \<Rightarrow> string \<Rightarrow> goerr + uuid" where
  "parse_uuid_param lib raw = (case ul_uuid_parse lib raw of Inl err \<Rightarrow> Inl err | Inr i \<Rightarrow> Inr i)"

definition parse_part_number :: "string \<Rightarrow> goerr + int" where
  "parse_part_number raw =
     (case atoi raw of
        Some n \<Rightarrow> if n < 1 then Inl (bad_request None ''part number must be a positive integer'') else Inr n
      | None \<Rightarrow> Inl (bad_request None ''part number must be a positive integer''))"

section \<open>handler.go\<close>

definition h_init_upload where
  "h_init_upload lib store cfg body = or_error body (\<lambda>req. answer response_created (init_upload lib store cfg req))"

definition h_complete_upload where
  "h_complete_upload lib raw = or_error (parse_uuid_param lib raw) (\<lambda>i. answer response_ok (complete_upload lib i))"

definition h_abort_upload where
  "h_abort_upload lib raw = or_error (parse_uuid_param lib raw) (\<lambda>i. answer response_ok (abort_upload lib i))"

definition h_get_video where
  "h_get_video lib raw = or_error (parse_uuid_param lib raw) (\<lambda>i. answer response_ok (get_video lib i))"

definition h_list_videos where
  "h_list_videos lib query = or_error query (\<lambda>req. answer response_ok (list_videos lib req))"

section \<open>upload_session_handler.go\<close>

definition h_init_chunked where
  "h_init_chunked lib cfg body = or_error body (\<lambda>req. answer response_created (init_chunked_upload lib cfg req))"

definition h_get_session where
  "h_get_session lib raw = or_error (parse_uuid_param lib raw) (\<lambda>i. answer response_ok (get_session lib i))"

definition h_get_part_url where
  "h_get_part_url lib cfg raw raw_number =
     or_error (parse_uuid_param lib raw) (\<lambda>i.
     or_error (parse_part_number raw_number) (\<lambda>n. answer response_ok (get_part_url lib cfg i n)))"

definition h_confirm_part where
  "h_confirm_part lib raw raw_number body =
     or_error (parse_uuid_param lib raw) (\<lambda>i.
     or_error (parse_part_number raw_number) (\<lambda>n.
     or_error body (\<lambda>etag. answer response_ok (confirm_part lib i n etag))))"

definition h_complete_session where
  "h_complete_session lib raw = or_error (parse_uuid_param lib raw) (\<lambda>i. answer response_ok (complete_session lib i))"

definition h_abort_session where
  "h_abort_session lib raw = or_error (parse_uuid_param lib raw) (\<lambda>i. answer response_ok (abort_session lib i))"

section \<open>Statuses\<close>

lemma parse_part_number_range: "parse_part_number raw = Inr n \<Longrightarrow> 1 \<le> n \<and> n \<le> int64_max"
  by (cases raw)
    (auto simp: parse_part_number_def in_int64_def split: option.splits if_splits bind_splits)

text \<open>
  A request on a video or an upload session whose id does not parse never reaches the service:
  it is answered at once with status 500 and the generic text (the parser's error is not an
  \<open>AppError\<close>), where the API documentation announces 400, and the state is unchanged. With a valid
  id, a part number that is not a positive decimal number is answered 400, also without a call.
\<close>
theorem malformed_id_answers_500:
  assumes "ul_uuid_parse lib raw = Inl (Plain m)" and "ul_uuid_parse lib good = Inr i"
    and "atoi raw_number = None \<or> (\<exists>n. atoi raw_number = Some n \<and> n < 1)"
  shows "http_outcome (upload_handle env) w (h_complete_upload lib raw) = (500, w)
    \<and> http_outcome (upload_handle env) w (h_abort_upload lib raw) = (500, w)
    \<and> http_outcome (upload_handle env) w (h_get_video lib raw) = (500, w)
    \<and> http_outcome (upload_handle env) w (h_get_session lib raw) = (500, w)
    \<and> http_outcome (upload_handle env) w (h_get_part_url lib cfg raw raw_number) = (500, w)
    \<and> http_outcome (upload_handle env) w (h_confirm_part lib raw raw_number body) = (500, w)
    \<and> http_outcome (upload_handle env) w (h_complete_session lib raw) = (500, w)
    \<and> http_outcome (upload_handle env) w (h_abort_session lib raw) = (500, w)
    \<and> http_outcome (upload_handle env) w (h_get_part_url lib cfg good raw_number) = (400, w)
    \<and> http_outcome (upload_handle env) w (h_confirm_part lib good raw_number body) = (400, w)"
proof -
  have "parse_part_number raw_number = Inl (bad_request None ''part number must be a positive integer'')"
    using assms(3) by (auto simp: parse_part_number_def)
  with assms(1,2) show ?thesis
    by (simp add: http_outcome_def h_complete_upload_def h_abort_upload_def h_get_video_def h_get_session_def
        h_get_part_url_def h_confirm_part_def h_complete_session_def h_abort_session_def
        or_error_def parse_uuid_param_def status_response_error as_app_error_def app_error_defs)
qed

theorem malformed_id_answers_500_witness:
  "http_outcome (upload_handle demo_env) demo_world (h_get_video demo_lib ''x'') = (500, demo_world)"
  using malformed_id_answers_500 [of demo_lib "''x''" "''invalid UUID''" "''7''" 7 "''0''" demo_env demo_world]
  by (simp add: demo_lib_def in_int64_def parse_digits_def is_digit_def digits_val_def digit_val_def
      int64_min_def int64_max_def)

end
