(* ===== verification/Routes.thy ===== *)
theory Routes
  imports RateLimit NotifyHandlers UploadHandlers
begin

text \<open>
  How the routes of the notification and the upload service stand behind the limiters:
  services/notification/internal/route/route.go and services/upload/internal/route/route.go. A request
  passes its middlewares in order; the first that aborts answers it.
\<close>

section \<open>The limiters of a route\<close>

text \<open>A limiter: its key for the client's address, its limit and its window.\<close>

type_synonym limiter = "string \<times> int \<times> duration"

record route_limits =
  rt_global_limit :: int
  rt_global_window :: int
  rt_send_limit :: int
  rt_send_window :: int

text \<open>
  The groups of the notification service share the limiter that \<open>runAPI\<close> builds, and its key;
  'send' has one more.
\<close>

definition notify_limiters :: "route_limits \<Rightarrow> string \<Rightarrow> notify_route \<Rightarrow> limiter list" where
  "notify_limiters rl client_ip r =
     (by_ip client_ip, rt_global_limit rl, rt_global_window rl * second)
     # (if r = RtSend then [(''rl:send:'' @ client_ip, rt_send_limit rl, rt_send_window rl * second)] else [])"

datatype upload_route =
    RtInitUpload | RtListVideos | RtGetVideo | RtCompleteUpload | RtAbortUpload
  | RtInitSession | RtGetSession | RtPartUrl | RtConfirmPart | RtCompleteSession | RtAbortSession

fun upload_route_path :: "upload_route \<Rightarrow> string \<times> string" where
  "upload_route_path RtInitUpload = (''POST'', ''/api/v1/videos'')"
| "upload_route_path RtListVideos = (''GET'', ''/api/v1/videos'')"
| "upload_route_path RtGetVideo = (''GET'', ''/api/v1/videos/:id'')"
| "upload_route_path RtCompleteUpload = (''POST'', ''/api/v1/videos/:id/complete'')"
| "upload_route_path RtAbortUpload = (''POST'', ''/api/v1/videos/:id/abort'')"
| "upload_route_path RtInitSession = (''POST'', ''/api/v1/uploads/sessions'')"
| "upload_route_path RtGetSession = (''GET'', ''/api/v1/uploads/sessions/:id'')"
| "upload_route_path RtPartUrl = (''POST'', ''/api/v1/uploads/sessions/:id/parts/:number/url'')"
| "upload_route_path RtConfirmPart = (''POST'', ''/api/v1/uploads/sessions/:id/parts/:number/confirm'')"
| "upload_route_path RtCompleteSession = (''POST'', ''/api/v1/uploads/sessions/:id/complete'')"
| "upload_route_path RtAbortSession = (''POST'', ''/api/v1/uploads/sessions/:id/abort'')"

definition upload_limiters :: "int \<Rightarrow> int \<Rightarrow> string \<Rightarrow> upload_route \<Rightarrow> limiter list" where
  "upload_limiters limit window_secs client_ip r = [(by_ip client_ip, limit, window_secs * second)]"

text \<open>Routes of one service do not collide: no two have the same method and path.\<close>

lemma notify_routes_distinct: "route_path r = route_path r' \<Longrightarrow> r = r'"
  by (cases r; cases r') simp_all

lemma upload_routes_distinct: "upload_route_path r = upload_route_path r' \<Longrightarrow> r = r'"
  by (cases r; cases r') simp_all

text \<open>The chain of limiters: whether the handler is reached, and the store of counters.\<close>

fun pass_limiters :: "gotime \<Rightarrow> limiter list \<Rightarrow> int rstore \<Rightarrow> bool \<times> int rstore" where
  "pass_limiters now [] st = (True, st)"
| "pass_limiters now ((key, limit, window) # ls) st =
     (case gin_rate_limit None now key limit window st :: unit mw_outcome \<times> int rstore of
        (MwAbort _ _, st') \<Rightarrow> (False, st')
      | (MwNext _, st') \<Rightarrow> pass_limiters now ls st')"

text \<open>Requests of one client, at their instants, on any routes.\<close>

fun serve_all :: "('r \<Rightarrow> limiter list) \<Rightarrow> (gotime \<times> 'r) list \<Rightarrow> int rstore \<Rightarrow> bool list \<times> int rstore" where
  "serve_all limiters [] st = ([], st)"
| "serve_all limiters ((now, r) # rs) st =
     (case pass_limiters now (limiters r) st of
        (ok, st') \<Rightarrow> (case serve_all limiters rs st' of (oks, st'') \<Rightarrow> (ok # oks, st'')))"

section \<open>One limit for all routes\<close>

text \<open>The limiter of a key leaves the counter of another key alone.\<close>

lemma pass_limiters_other:
  "list_all (\<lambda>(k, _). k \<noteq> key) ls \<Longrightarrow> snd (pass_limiters now ls st) key = st key"
proof (induction ls arbitrary: st)
  case (Cons l ls)
  obtain k limit window where l: "l = (k, limit, window)" by (cases l)
  obtain r st' where a: "allow_request None now k limit window st = (r, st')" by fastforce
  have "st' key = st key" using allow_request_other [of key k now limit window st] Cons.prems l a by auto
  with Cons.IH [of st'] Cons.prems show ?case
    by (auto simp: l gin_rate_limit_def a Let_def split: sum.splits)
qed simp

text \<open>Whether a request passes, and the counter of its first limiter, while that counter lives.\<close>

lemma pass_counting:
  assumes "st key = Some (n, Some t)" and "now < t" and "1 \<le> n" and "list_all (\<lambda>(k, _). k \<noteq> key) ls"
  shows "snd (pass_limiters now ((key, limit, window) # ls) st) key = Some (n + 1, Some t)
    \<and> (fst (pass_limiters now ((key, limit, window) # ls) st) \<longrightarrow> n + 1 \<le> limit)"
proof -
  obtain r where a: "allow_request None now key limit window st = (Inr r, st(key \<mapsto> (n + 1, Some t)))"
      and r: "rl_allowed r = (n + 1 \<le> limit)"
    using allow_request_counting [of st key n t now limit window] assms(1-3) by blast
  with pass_limiters_other [OF assms(4), of now "st(key \<mapsto> (n + 1, Some t))"] show ?thesis
    by (auto simp: gin_rate_limit_def Let_def split: prod.splits)
qed

lemma serve_counting:
  assumes "\<And>r. \<exists>ls. limiters r = (key, limit, window) # ls \<and> list_all (\<lambda>(k, _). k \<noteq> key) ls"
  shows "st key = Some (n, Some t) \<Longrightarrow> 1 \<le> n \<Longrightarrow> list_all (\<lambda>(now, _). now < t) rs \<Longrightarrow>
    int (length (filter id (fst (serve_all limiters rs st)))) \<le> max 0 (limit - n)"
proof (induction rs arbitrary: st n)
  case (Cons req rs)
  obtain now r where req: "req = (now, r)" by (cases req)
  obtain ls where ls: "limiters r = (key, limit, window) # ls" "list_all (\<lambda>(k, _). k \<noteq> key) ls" using assms by blast
  obtain ok st' where p: "pass_limiters now (limiters r) st = (ok, st')" by fastforce
  have "now < t" using Cons.prems(3) by (simp add: req)
  from pass_counting [where key = key and st = st and limit = limit and window = window, OF Cons.prems(1) this Cons.prems(2) ls(2)] p
  have s: "st' key = Some (n + 1, Some t)" "ok \<longrightarrow> n + 1 \<le> limit" by (auto simp: ls(1))
  from Cons.IH [of st' "n + 1"] s(1) Cons.prems(2,3) s(2) show ?case
    by (auto simp: req p split: prod.splits)
qed simp



end
