(* ===== verification/Topology.thy ===== *)
theory Topology
  imports Broker Emails DeadLetters "HOL-Library.Multiset"
begin

text \<open>
  What the workers of the notification service declare on RabbitMQ when they start (the \<open>Start\<close> methods
  of email_worker.go, webhook_worker.go and dlq_worker.go), where a message goes on the server that
  results, and the journey of an e-mail task over its queues: delivery, retry, dead letter, table.
\<close>

section \<open>What the workers declare\<close>

text \<open>A queue to declare and bind, and whether it is also consumed.\<close>

record queue_setup =
  qs_queue :: string
  qs_exchange :: string
  qs_key :: string
  qs_opts :: queue_options
  qs_consumed :: bool

definition setup_prog :: "bool \<Rightarrow> queue_setup \<Rightarrow> goerr option amqp_prog" where
  "setup_prog conn_open s =
     (if qs_consumed s
      then snd (queue_subscribe_with_options conn_open [] (qs_queue s) (qs_exchange s) (qs_key s) (qs_opts s))
      else broker_queue_declare conn_open (qs_queue s) (qs_exchange s) (qs_key s) (qs_opts s))"

definition dead_letter_args :: "string \<Rightarrow> string \<Rightarrow> (string \<times> amqp_arg) list" where
  "dead_letter_args exchange key =
     [(''x-dead-letter-exchange'', AStr exchange), (''x-dead-letter-routing-key'', AStr key)]"

definition retry_queue_setup :: "notify_config \<Rightarrow> queue_setup" where
  "retry_queue_setup cfg =
     \<lparr>qs_queue = ''email.retry'', qs_exchange = nc_exchange cfg @ ''.retry'', qs_key = channel_email @ ''.retry'',
      qs_opts = \<lparr>qo_prefetch = 0,
                 qo_args = dead_letter_args (nc_exchange cfg) channel_email @ [(''x-message-ttl'', AInt 60000)]\<rparr>,
      qs_consumed = False\<rparr>"

definition campaign_email_queue_args :: "(string \<times> amqp_arg) list" where
  "campaign_email_queue_args = [(''x-max-length'', AInt 50000), (''x-overflow'', AStr ''reject-publish'')]"

text \<open>
  \<open>EmailWorker.Start\<close>: the retry queue first, then the two subscriptions, each in its own
  goroutine. Errors are logged. \<open>prefetch\<close> is \<open>cfg.Worker.CampaignPrefetch\<close>.
\<close>

definition email_worker_start :: "notify_config \<Rightarrow> int \<Rightarrow> queue_setup list" where
  "email_worker_start cfg prefetch =
     [retry_queue_setup cfg,
      \<lparr>qs_queue = ''email'', qs_exchange = nc_exchange cfg, qs_key = channel_email,
       qs_opts = \<lparr>qo_prefetch = 1, qo_args = dead_letter_args (nc_exchange cfg @ ''.dlq'') ''email.dlq''\<rparr>,
       qs_consumed = True\<rparr>,
      \<lparr>qs_queue = campaign_email_routing_key, qs_exchange = nc_exchange cfg, qs_key = campaign_email_routing_key,
       qs_opts = \<lparr>qo_prefetch = (if prefetch \<le> 0 then 20 else prefetch), qo_args = campaign_email_queue_args\<rparr>,
       qs_consumed = True\<rparr>]"

definition webhook_worker_start :: "notify_config \<Rightarrow> queue_setup list" where
  "webhook_worker_start cfg =
     [\<lparr>qs_queue = nc_webhook_queue cfg, qs_exchange = nc_exchange cfg, qs_key = nc_webhook_queue cfg,
       qs_opts = \<lparr>qo_prefetch = 1, qo_args = dead_letter_args (nc_exchange cfg @ ''.dlq'') ''webhook.dlq''\<rparr>,
       qs_consumed = True\<rparr>]"

definition dlq_worker_start :: "notify_config \<Rightarrow> queue_setup list" where
  "dlq_worker_start cfg =
     map (\<lambda>q. \<lparr>qs_queue = q, qs_exchange = nc_exchange cfg @ ''.dlq'', qs_key = q,
               qs_opts = \<lparr>qo_prefetch = 1, qo_args = []\<rparr>, qs_consumed = True\<rparr>)
       [''email.dlq'', ''webhook.dlq'']"

definition all_workers :: "notify_config \<Rightarrow> int \<Rightarrow> queue_setup list" where
  "all_workers cfg prefetch = email_worker_start cfg prefetch @ webhook_worker_start cfg @ dlq_worker_start cfg"

text \<open>The declarations, one after the other, on an open connection.\<close>

definition set_up :: "(amqp_call \<Rightarrow> goerr + string) \<Rightarrow> queue_setup list \<Rightarrow> amqp_world \<Rightarrow> amqp_world" where
  "set_up a qs w = fold (\<lambda>s w. snd (run (amqp_handle a) (setup_prog True s) w)) qs w"

section \<open>Where a message goes\<close>

text \<open>
  A direct exchange copies a message to the queues bound with its key, and drops it when there are
  none (\<open>mandatory\<close> is false in \<open>Publish\<close>). A rejected or expired message goes to the dead letter
  exchange of its queue with the dead letter key, or is dropped.
\<close>

definition routed :: "amqp_world \<Rightarrow> string \<Rightarrow> string \<Rightarrow> string list" where
  "routed w exchange key =
     map (snd \<circ> snd) (filter (\<lambda>b. fst b = exchange \<and> fst (snd b) = key) (aw_bindings w))"

definition dead_letters_to :: "amqp_world \<Rightarrow> string \<Rightarrow> string list" where
  "dead_letters_to w queue =
     (case map_of (aw_queues w) queue of
        None \<Rightarrow> []
      | Some args \<Rightarrow>
          (case (map_of args ''x-dead-letter-exchange'', map_of args ''x-dead-letter-routing-key'') of
             (Some (AStr exchange), Some (AStr key)) \<Rightarrow> routed w exchange key
           | _ \<Rightarrow> []))"

section \<open>The server after the workers have started\<close>

text \<open>The server accepts everything it is asked, and gives a queue the name it is asked for.\<close>

definition accepting :: "(amqp_call \<Rightarrow> goerr + string) \<Rightarrow> bool" where
  "accepting a \<longleftrightarrow> (\<forall>c. \<not> isl (a c)) \<and> (\<forall>q e args. q \<noteq> '''' \<longrightarrow> a (AQueueDeclare q e args) = Inr q)"

definition set_up_one :: "queue_setup \<Rightarrow> amqp_world \<Rightarrow> amqp_world" where
  "set_up_one s w = w
     \<lparr>aw_channels := aw_channels w + (if qs_consumed s then 1 else 0),
      aw_consumers := aw_consumers w @ (if qs_consumed s then [qs_queue s] else []),
      aw_queues := (if map_of (aw_queues w) (qs_queue s) = None
                    then aw_queues w @ [(qs_queue s, qo_args (qs_opts s))] else aw_queues w),
      aw_bindings := List.insert (qs_exchange s, qs_key s, qs_queue s) (aw_bindings w)\<rparr>"

lemma accepted: "accepting a \<Longrightarrow> \<exists>x. a c = Inr x"
  by (cases "a c") (auto simp: accepting_def isl_def)

lemma accepted_queue: "accepting a \<Longrightarrow> q \<noteq> '''' \<Longrightarrow> a (AQueueDeclare q e args) = Inr q"
  by (simp add: accepting_def)

lemma run_setup:
  assumes "accepting a" and "qs_queue s \<noteq> ''''" and "qs_exchange s \<noteq> ''''"
  shows "snd (run (amqp_handle a) (setup_prog True s) w) = set_up_one s w"
proof -
  obtain x1 where x1: "a AChannel = Inr x1" using accepted [OF assms(1)] by blast
  obtain x2 where x2: "a (AExchangeDeclare (qs_exchange s) ''direct'') = Inr x2" using accepted [OF assms(1)] by blast
  obtain x3 where x3: "a (AQueueBind (qs_queue s) (qs_key s) (qs_exchange s)) = Inr x3" using accepted [OF assms(1)] by blast
  have x4: "\<exists>x. a (AQos p) = Inr x" for p using accepted [OF assms(1)] by blast
  obtain x4 where x4: "a (AQos (if qo_prefetch (qs_opts s) \<le> 0 then 1 else qo_prefetch (qs_opts s))) = Inr x4"
    using x4 by blast
  obtain x5 where x5: "a (AConsume (qs_queue s) False) = Inr x5" using accepted [OF assms(1)] by blast
  note q = accepted_queue [OF assms(1,2)]
  show ?thesis
    using assms(3) x1 x2 x3 x4 x5
    by (simp add: setup_prog_def queue_subscribe_with_options_def subscribe_queue_def broker_queue_declare_def
        declare_queue_and_exchange_def q Let_def set_up_one_def run_bind)
qed

lemma set_up_accepted:
  assumes "accepting a" and "\<forall>s\<in>set qs. qs_queue s \<noteq> '''' \<and> qs_exchange s \<noteq> ''''"
  shows "set_up a qs w = fold set_up_one qs w"
  using assms(2) unfolding set_up_def by (induction qs arbitrary: w) (simp_all add: run_setup [OF assms(1)])

lemma set_up_bindings:
  "set (aw_bindings (fold set_up_one qs w)) =
     set (aw_bindings w) \<union> (\<lambda>s. (qs_exchange s, qs_key s, qs_queue s)) ` set qs"
  by (induction qs arbitrary: w) (auto simp: set_up_one_def)

lemma distinct_bindings:
  "distinct (aw_bindings w) \<Longrightarrow> distinct (aw_bindings (fold set_up_one qs w))"
  by (induction qs arbitrary: w) (simp_all add: set_up_one_def distinct_insert)

lemma set_up_consumers:
  "aw_consumers (fold set_up_one qs w) = aw_consumers w @ map qs_queue (filter qs_consumed qs)"
  by (induction qs arbitrary: w) (simp_all add: set_up_one_def)

lemma set_up_keeps_queue:
  "map_of (aw_queues w) q = Some args \<Longrightarrow> map_of (aw_queues (fold set_up_one qs w)) q = Some args"
  by (induction qs arbitrary: w) (simp_all add: set_up_one_def map_add_def)

lemma set_up_other_queue:
  "map_of (aw_queues w) q = None \<Longrightarrow> q \<notin> qs_queue ` set qs \<Longrightarrow> map_of (aw_queues (fold set_up_one qs w)) q = None"
  by (induction qs arbitrary: w) (simp_all add: set_up_one_def map_add_def)

lemma set_up_queue:
  assumes "distinct (map qs_queue qs)" and "s \<in> set qs" and "aw_queues w = []"
  shows "map_of (aw_queues (fold set_up_one qs w)) (qs_queue s) = Some (qo_args (qs_opts s))"
proof -
  obtain xs ys where qs: "qs = xs @ s # ys" using assms(2) by (meson split_list)
  let ?w = "fold set_up_one xs w"
  have "map_of (aw_queues ?w) (qs_queue s) = None"
    using assms(1,3) by (intro set_up_other_queue) (auto simp: qs)
  then have "map_of (aw_queues (set_up_one s ?w)) (qs_queue s) = Some (qo_args (qs_opts s))"
    by (simp add: set_up_one_def map_add_def)
  then show ?thesis by (simp add: qs set_up_keeps_queue)
qed

lemma routed_only:
  assumes "distinct (aw_bindings w)" and "\<And>q'. (ex, key, q') \<in> set (aw_bindings w) \<longleftrightarrow> q' = q"
  shows "routed w ex key = [q]"
proof -
  let ?l = "filter (\<lambda>b. fst b = ex \<and> fst (snd b) = key) (aw_bindings w)"
  have s: "set ?l = {(ex, key, q)}"
  proof (rule set_eqI)
    show "b \<in> set ?l \<longleftrightarrow> b \<in> {(ex, key, q)}" for b by (cases b) (auto simp: assms(2))
  qed
  have "distinct ?l" using assms(1) by simp
  from distinct_card [OF this] s have "length ?l = Suc 0" by simp
  then obtain b where "?l = [b]" by (auto simp: length_Suc_conv)
  with s have "?l = [(ex, key, q)]" by simp
  then show ?thesis by (simp add: routed_def)
qed

text \<open>The configured names: an exchange, and a webhook queue that is none of the fixed ones.\<close>

definition names_ok :: "notify_config \<Rightarrow> bool" where
  "names_ok cfg \<longleftrightarrow> nc_exchange cfg \<noteq> '''' \<and> nc_webhook_queue cfg \<notin>
     {'''', ''email'', ''campaign.email'', ''email.retry'', ''email.dlq'', ''webhook.dlq''}"

text \<open>
  The journeys the workers rely on: tasks reach their queue; a retry waits in a queue nobody consumes
  and comes back to the e-mail queue; what the workers reject ends in a queue of the dead letter
  worker.
\<close>

definition journeys_ok :: "notify_config \<Rightarrow> amqp_world \<Rightarrow> bool" where
  "journeys_ok cfg w \<longleftrightarrow>
     routed w (nc_exchange cfg) channel_email = [''email'']
     \<and> routed w (nc_exchange cfg) campaign_email_routing_key = [campaign_email_routing_key]
     \<and> routed w (nc_exchange cfg) (nc_webhook_queue cfg) = [nc_webhook_queue cfg]
     \<and> routed w (nc_exchange cfg @ ''.retry'') (channel_email @ ''.retry'') = [''email.retry'']
     \<and> dead_letters_to w ''email.retry'' = [''email'']
     \<and> dead_letters_to w ''email'' = [''email.dlq'']
     \<and> dead_letters_to w (nc_webhook_queue cfg) = [''webhook.dlq'']
     \<and> dead_letters_to w ''email.dlq'' = []
     \<and> set (aw_consumers w) = {''email'', campaign_email_routing_key, nc_webhook_queue cfg, ''email.dlq'', ''webhook.dlq''}"

definition blank_server :: "amqp_world \<Rightarrow> bool" where
  "blank_server w \<longleftrightarrow> aw_queues w = [] \<and> aw_bindings w = [] \<and> aw_consumers w = []"

lemmas worker_start_defs =
  all_workers_def email_worker_start_def webhook_worker_start_def dlq_worker_start_def retry_queue_setup_def
  campaign_email_routing_key_def channel_email_def

lemma all_workers_distinct:
  "names_ok cfg \<Longrightarrow> distinct (map qs_queue (all_workers cfg prefetch))"
  by (auto simp: worker_start_defs names_ok_def)

text \<open>A server that was blank when the workers started on it, in whatever order.\<close>

inductive started :: "notify_config \<Rightarrow> amqp_world \<Rightarrow> bool" for cfg :: notify_config where
  start: "accepting a \<Longrightarrow> blank_server w \<Longrightarrow> mset qs = mset (all_workers cfg prefetch) \<Longrightarrow> started cfg (set_up a qs w)"

lemma started_folds:
  assumes "accepting a" and "names_ok cfg" and "mset qs = mset (all_workers cfg prefetch)"
  shows "set_up a qs w = fold set_up_one qs w"
proof -
  have "set qs = set (all_workers cfg prefetch)" using assms(3) by (rule mset_eq_setD)
  then show ?thesis
    using assms(2) by (intro set_up_accepted [OF assms(1)]) (auto simp: worker_start_defs names_ok_def)
qed

lemma started_bindings:
  assumes "started cfg topo" and "names_ok cfg"
  shows "set (aw_bindings topo) =
      {(nc_exchange cfg @ ''.retry'', ''email.retry'', ''email.retry''), (nc_exchange cfg, ''email'', ''email''),
       (nc_exchange cfg, ''campaign.email'', ''campaign.email''), (nc_exchange cfg, nc_webhook_queue cfg, nc_webhook_queue cfg),
       (nc_exchange cfg @ ''.dlq'', ''email.dlq'', ''email.dlq''), (nc_exchange cfg @ ''.dlq'', ''webhook.dlq'', ''webhook.dlq'')}"
  using assms(1)
proof cases
  case (start a w qs prefetch)
  have sq: "set qs = set (all_workers cfg prefetch)" using start(4) by (rule mset_eq_setD)
  show ?thesis
    unfolding start(1) started_folds [OF start(2) assms(2) start(4)] set_up_bindings sq
    using start(3) by (simp add: blank_server_def worker_start_defs)
qed

lemma started_journeys:
  assumes "started cfg topo" and "names_ok cfg"
  shows "journeys_ok cfg topo"
  using assms(1)
proof cases
  case (start a w qs prefetch)
  let ?x = "nc_exchange cfg" and ?h = "nc_webhook_queue cfg"
  have w': "topo = fold set_up_one qs w" using started_folds [OF start(2) assms(2) start(4)] start(1) by simp
  have sq: "set qs = set (all_workers cfg prefetch)" using start(4) by (rule mset_eq_setD)
  have "distinct (map qs_queue qs) = distinct (map qs_queue (all_workers cfg prefetch))"
    by (rule mset_eq_imp_distinct_iff) (simp add: start(4))
  then have dq: "distinct (map qs_queue qs)" using all_workers_distinct [OF assms(2)] by simp
  have d: "distinct (aw_bindings topo)"
    unfolding w' by (rule distinct_bindings) (use start(3) in \<open>simp add: blank_server_def\<close>)
  note b = started_bindings [OF assms]
  have c: "set (aw_consumers topo) = {''email'', ''campaign.email'', ?h, ''email.dlq'', ''webhook.dlq''}"
  proof -
    have "set (aw_consumers topo) = set (map qs_queue (filter qs_consumed (all_workers cfg prefetch)))"
      unfolding w' set_up_consumers set_map set_filter using start(3) by (simp add: blank_server_def sq)
    then show ?thesis by (simp add: worker_start_defs)
  qed
  have q: "list_all (\<lambda>s. map_of (aw_queues topo) (qs_queue s) = Some (qo_args (qs_opts s))) (all_workers cfg prefetch)"
    unfolding w' list_all_iff using set_up_queue [OF dq] start(3) by (simp add: sq blank_server_def)
  have qs: "map_of (aw_queues topo) ''email.retry'' =
        Some (dead_letter_args ?x ''email'' @ [(''x-message-ttl'', AInt 60000)])"
      "map_of (aw_queues topo) ''email'' = Some (dead_letter_args (?x @ ''.dlq'') ''email.dlq'')"
      "map_of (aw_queues topo) ?h = Some (dead_letter_args (?x @ ''.dlq'') ''webhook.dlq'')"
      "map_of (aw_queues topo) ''email.dlq'' = Some []"
    using q by (simp_all add: worker_start_defs)
  have r: "routed topo ?x ''email'' = [''email'']" "routed topo ?x ''campaign.email'' = [''campaign.email'']"
      "routed topo ?x ?h = [?h]" "routed topo (?x @ ''.retry'') ''email.retry'' = [''email.retry'']"
      "routed topo (?x @ ''.dlq'') ''email.dlq'' = [''email.dlq'']"
      "routed topo (?x @ ''.dlq'') ''webhook.dlq'' = [''webhook.dlq'']"
    using assms(2) by (intro routed_only [OF d]; auto simp: b names_ok_def)+
  show ?thesis
    using qs r c
    by (simp add: journeys_ok_def dead_letters_to_def dead_letter_args_def channel_email_def campaign_email_routing_key_def)
qed

section \<open>The journey of an e-mail task\<close>

text \<open>
  The messages in the queues, the state of the notification service, and how many messages were
  acknowledged although nothing was sent, published or stored for them.
\<close>

record bus =
  bs_queues :: "string \<Rightarrow> string list"
  bs_world :: notify_world
  bs_lost :: nat

definition put :: "string \<Rightarrow> string \<Rightarrow> bus \<Rightarrow> bus" where
  "put q body b = b\<lparr>bs_queues := (bs_queues b)(q := bs_queues b q @ [body])\<rparr>"

definition put_all :: "string list \<Rightarrow> string \<Rightarrow> bus \<Rightarrow> bus" where
  "put_all qs body b = fold (\<lambda>q. put q body) qs b"

definition take_off :: "string \<Rightarrow> string \<Rightarrow> bus \<Rightarrow> bus" where
  "take_off q body b = b\<lparr>bs_queues := (bs_queues b)(q := remove1 body (bs_queues b q))\<rparr>"

definition settle_on :: "amqp_world \<Rightarrow> string \<Rightarrow> string \<Rightarrow> goerr option \<Rightarrow> bus \<Rightarrow> bus" where
  "settle_on topo q body err b =
     (case settle err of
        Ack \<Rightarrow> b
      | NackDrop \<Rightarrow> put_all (dead_letters_to topo q) body b
      | NackRequeue \<Rightarrow> put q body b)"

definition route_new :: "amqp_world \<Rightarrow> nat \<Rightarrow> bus \<Rightarrow> bus" where
  "route_new topo n b =
     fold (\<lambda>(exchange, key, body). put_all (routed topo exchange key) body) (drop n (nw_published (bs_world b))) b"

definition nothing_done :: "notify_world \<Rightarrow> notify_world \<Rightarrow> bool" where
  "nothing_done w w' \<longleftrightarrow> nw_mails w' = nw_mails w \<and> nw_published w' = nw_published w \<and> nw_dlq w' = nw_dlq w"

text \<open>A delivery: the handler runs, what it published is routed, and the message is settled.\<close>

definition deliver ::
  "notify_lib \<Rightarrow> notify_env \<Rightarrow> amqp_world \<Rightarrow> (string \<Rightarrow> goerr option notify_prog) \<Rightarrow> string \<Rightarrow> string \<Rightarrow> bus \<Rightarrow> bus" where
  "deliver lib env topo handler q body b =
     (case run (notify_handle lib env) (handler body) (bs_world b) of
        (err, w') \<Rightarrow>
          settle_on topo q body err
            (route_new topo (length (nw_published (bs_world b)))
              ((take_off q body b)
                 \<lparr>bs_world := w',
                  bs_lost := (if err = None \<and> nothing_done (bs_world b) w' then Suc (bs_lost b) else bs_lost b)\<rparr>)))"

text \<open>
  One step: the e-mail worker or the dead letter worker takes a message, or the time of a message in
  the retry queue is up. Any environment may decide a step; the database has no errors of the
  broker's.
\<close>

inductive bus_step :: "notify_lib \<Rightarrow> notify_config \<Rightarrow> amqp_world \<Rightarrow> bus \<Rightarrow> bus \<Rightarrow> bool"
  for lib :: notify_lib and cfg :: notify_config and topo :: amqp_world where
  email: "body \<in> set (bs_queues b ''email'')
    \<Longrightarrow> bus_step lib cfg topo b (deliver lib env topo (handle_email lib cfg) ''email'' body b)"
| dead_letter: "body \<in> set (bs_queues b ''email.dlq'') \<Longrightarrow> (\<And>c x. ne_db env c = Some x \<Longrightarrow> \<not> errors_is x ErrRejectToDLQ)
    \<Longrightarrow> bus_step lib cfg topo b (deliver lib env topo (handle_email_dlq lib) ''email.dlq'' body b)"
| expired: "body \<in> set (bs_queues b ''email.retry'')
    \<Longrightarrow> bus_step lib cfg topo b (put_all (dead_letters_to topo ''email.retry'') body (take_off ''email.retry'' body b))"

definition in_transit :: "bus \<Rightarrow> nat" where
  "in_transit b = length (bs_queues b ''email'') + length (bs_queues b ''email.retry'') + length (bs_queues b ''email.dlq'')"

definition accounted :: "bus \<Rightarrow> nat" where
  "accounted b = in_transit b + length (nw_mails (bs_world b)) + length (nw_dlq (bs_world b)) + bs_lost b"

lemma breaker_send_effects:
  assumes "breaker_send env to msg w = (r, w')"
  shows "nw_published w' = nw_published w \<and> nw_dlq w' = nw_dlq w \<and>
    (case r of
       None \<Rightarrow> length (nw_mails w') = Suc (length (nw_mails w))
           \<or> nw_mails w' = nw_mails w \<and> cb_state (nw_breaker w) = Open
     | Some _ \<Rightarrow> nw_mails w' = nw_mails w)"
  using assms
  by (auto simp: breaker_send_def nnow_def cb_execute_def smtp_send_def Let_def
      split: breaker_state.splits option.splits if_splits prod.splits)

text \<open>What handling an e-mail task does: it is sent, lost at the breaker, published for a retry, or refused.\<close>

lemma email_effects:
  assumes "run (notify_handle lib env) (handle_email lib cfg body) w = (err, w')"
  shows "nw_dlq w' = nw_dlq w \<and>
    (case err of
       Some _ \<Rightarrow> nw_mails w' = nw_mails w \<and> nw_published w' = nw_published w
     | None \<Rightarrow>
         length (nw_mails w') = Suc (length (nw_mails w)) \<and> nw_published w' = nw_published w
         \<or> nw_mails w' = nw_mails w \<and> nw_published w' = nw_published w \<and> cb_state (nw_breaker w) = Open
         \<or> nw_mails w' = nw_mails w \<and>
           (\<exists>m. nw_published w' = nw_published w @ [(nc_exchange cfg @ ''.retry'', channel_email @ ''.retry'', m)]))"
proof (cases "nl_task_parse lib body")
  case (Inr task)
  show ?thesis
  proof (cases "nk_recipient task = ''''")
    case True
    with Inr assms show ?thesis
      by (auto simp: handle_email_def send_email_def npublish_def notify_call_defs sql_update_delivery_def Let_def
          split: if_splits option.splits sum.splits)
  next
    case False
    obtain r w1 where s: "breaker_send env (nk_recipient task)
        (mail_body (nk_recipient task) (data_get ''subject'' (nk_data task)) (nk_notification task)
           (data_get ''content'' (nk_data task))) w = (r, w1)" by fastforce
    from breaker_send_effects [OF s] Inr False assms show ?thesis
      by (auto simp: handle_email_def run_bind run_send_email s npublish_def notify_call_defs sql_update_delivery_def Let_def
          split: if_splits option.splits sum.splits)
  qed
qed (use assms in \<open>auto simp: handle_email_def split: option.splits\<close>)

lemma dead_letter_effects:
  assumes "run (notify_handle lib env) (handle_email_dlq lib body) w = (err, w')"
    and "\<And>c x. ne_db env c = Some x \<Longrightarrow> \<not> errors_is x ErrRejectToDLQ"
  shows "nw_mails w' = nw_mails w \<and> nw_published w' = nw_published w \<and>
    (if err = None then length (nw_dlq w') = Suc (length (nw_dlq w)) \<and> settle err = Ack
     else nw_dlq w' = nw_dlq w \<and> settle err = NackRequeue)"
proof -
  obtain m where m: "handle_email_dlq lib body = Call (NDlqSave m) (\<lambda>r. Return (n_error r))"
    by (simp add: handle_email_dlq_def save_to_dlq_def)
  show ?thesis
  proof (cases "ne_db env (NDlqSave m)")
    case None
    let ?w = "w\<lparr>nw_ticks := Suc (nw_ticks w), nw_uuids := Suc (nw_uuids w)\<rparr>"
    have s: "dlq_storable lib m ?w = dlq_storable lib m w" by (simp add: dlq_storable_def split: option.splits)
    have "run (notify_handle lib env) (handle_email_dlq lib body) w =
        (if dlq_storable lib m w then (None, sql_dlq_save (ne_clock env (nw_ticks w)) (ne_uuid env (nw_uuids w)) m ?w)
         else (Some (Plain ''invalid dlq message''), ?w))"
      by (cases "dlq_storable lib m w") (simp_all add: m nstmt_def nnow_def nuuid_def None s split: unit.splits)
    with assms(1) show ?thesis
      by (cases "dlq_storable lib m w") (auto simp: sql_dlq_save_def insert_row_def settle_def)
  next
    case (Some x)
    then have "run (notify_handle lib env) (handle_email_dlq lib body) w = (Some x, w)" by (simp add: m nstmt_def)
    with assms(1) assms(2) [OF Some] show ?thesis by (auto simp: settle_def)
  qed
qed

lemma put_frame [simp]: "bs_world (put q m b) = bs_world b" "bs_lost (put q m b) = bs_lost b"
  by (simp_all add: put_def)

lemma take_off_frame [simp]: "bs_world (take_off q m b) = bs_world b" "bs_lost (take_off q m b) = bs_lost b"
  by (simp_all add: take_off_def)

lemma in_transit_put:
  "q \<in> {''email'', ''email.retry'', ''email.dlq''} \<Longrightarrow> in_transit (put q m b) = Suc (in_transit b)"
  by (auto simp: in_transit_def put_def)

lemma in_transit_take:
  assumes "q \<in> {''email'', ''email.retry'', ''email.dlq''}" and "m \<in> set (bs_queues b q)"
  shows "Suc (in_transit (take_off q m b)) = in_transit b"
proof -
  have "length (bs_queues b q) = Suc (length (remove1 m (bs_queues b q)))"
    using assms(2) length_pos_if_in_set [OF assms(2)] by (simp add: length_remove1)
  with assms(1) show ?thesis by (auto simp: in_transit_def take_off_def)
qed

lemma in_transit_world [simp]: "in_transit (b\<lparr>bs_world := w, bs_lost := n\<rparr>) = in_transit b"
  by (simp add: in_transit_def)

text \<open>Where the three queues' messages go when they are settled; a delivery never drops one.\<close>

lemma in_transit_settle:
  assumes "journeys_ok cfg topo" and "q = ''email'' \<or> q = ''email.dlq'' \<and> settle err \<noteq> NackDrop"
  shows "in_transit (settle_on topo q m err b) = in_transit b + (if settle err = Ack then 0 else 1)
    \<and> bs_world (settle_on topo q m err b) = bs_world b \<and> bs_lost (settle_on topo q m err b) = bs_lost b"
  using assms
  by (auto simp: settle_on_def put_all_def journeys_ok_def in_transit_put split: delivery_outcome.splits)

lemma route_none: "nw_published (bs_world b) = ps \<Longrightarrow> route_new topo (length ps) b = b"
  by (simp add: route_new_def)

lemma route_retry:
  assumes "journeys_ok cfg topo" and "nw_published (bs_world b) = ps @ [(nc_exchange cfg @ ''.retry'', channel_email @ ''.retry'', m)]"
  shows "route_new topo (length ps) b = put ''email.retry'' m b"
  using assms by (simp add: route_new_def put_all_def journeys_ok_def)

lemma settle_error: "settle (Some e) \<noteq> Ack" "settle None = Ack"
  by (simp_all add: settle_def)

lemma email_delivery:
  assumes "journeys_ok cfg topo" and "m \<in> set (bs_queues b ''email'')"
  shows "accounted (deliver lib env topo (handle_email lib cfg) ''email'' m b) = accounted b
    \<and> (bs_lost (deliver lib env topo (handle_email lib cfg) ''email'' m b) = bs_lost b
       \<or> cb_state (nw_breaker (bs_world b)) = Open)"
proof -
  obtain err w' where r: "run (notify_handle lib env) (handle_email lib cfg m) (bs_world b) = (err, w')" by fastforce
  let ?ps = "nw_published (bs_world b)"
  define b1 where "b1 = (take_off ''email'' m b)\<lparr>bs_world := w',
      bs_lost := (if err = None \<and> nothing_done (bs_world b) w' then Suc (bs_lost b) else bs_lost b)\<rparr>"
  have d: "deliver lib env topo (handle_email lib cfg) ''email'' m b =
      settle_on topo ''email'' m err (route_new topo (length ?ps) b1)"
    by (simp add: deliver_def r b1_def)
  have b1: "Suc (in_transit b1) = in_transit b" "bs_world b1 = w'"
    using in_transit_take [OF _ assms(2)] by (simp_all add: b1_def)
  note s = in_transit_settle [OF assms(1), of "''email''" err m]
  show ?thesis
  proof (cases err)
    case (Some e)
    with email_effects [OF r] have "nw_mails w' = nw_mails (bs_world b)" "nw_published w' = ?ps" "nw_dlq w' = nw_dlq (bs_world b)"
      by simp_all
    moreover have "bs_lost b1 = bs_lost b" by (simp add: b1_def Some)
    ultimately show ?thesis using b1 s by (simp add: d accounted_def route_none Some settle_error)
  next
    case None
    from email_effects [OF r] None consider
        (sent) "length (nw_mails w') = Suc (length (nw_mails (bs_world b)))" "nw_published w' = ?ps" "nw_dlq w' = nw_dlq (bs_world b)"
      | (lost) "nw_mails w' = nw_mails (bs_world b)" "nw_published w' = ?ps" "nw_dlq w' = nw_dlq (bs_world b)"
          "cb_state (nw_breaker (bs_world b)) = Open"
      | (retry) m' where "nw_mails w' = nw_mails (bs_world b)" "nw_dlq w' = nw_dlq (bs_world b)"
          "nw_published w' = ?ps @ [(nc_exchange cfg @ ''.retry'', channel_email @ ''.retry'', m')]"
      by auto
    then show ?thesis
    proof cases
      case sent
      then have "bs_lost b1 = bs_lost b" by (auto simp: b1_def None nothing_done_def)
      with sent b1 s show ?thesis by (simp add: d accounted_def route_none None settle_error)
    next
      case lost
      then have "bs_lost b1 = Suc (bs_lost b)" by (simp add: b1_def None nothing_done_def)
      with lost b1 s show ?thesis by (simp add: d accounted_def route_none None settle_error)
    next
      case retry
      then have "bs_lost b1 = bs_lost b" by (auto simp: b1_def None nothing_done_def)
      with retry b1 s route_retry [OF assms(1), of b1 ?ps m'] show ?thesis
        by (simp add: d accounted_def None settle_error in_transit_put)
    qed
  qed
qed

lemma dead_letter_delivery:
  assumes "journeys_ok cfg topo" and "m \<in> set (bs_queues b ''email.dlq'')"
    and "\<And>c x. ne_db env c = Some x \<Longrightarrow> \<not> errors_is x ErrRejectToDLQ"
  shows "accounted (deliver lib env topo (handle_email_dlq lib) ''email.dlq'' m b) = accounted b
    \<and> bs_lost (deliver lib env topo (handle_email_dlq lib) ''email.dlq'' m b) = bs_lost b"
proof -
  obtain err w' where r: "run (notify_handle lib env) (handle_email_dlq lib m) (bs_world b) = (err, w')" by fastforce
  have e: "nw_mails w' = nw_mails (bs_world b) \<and> nw_published w' = nw_published (bs_world b) \<and>
      (if err = None then length (nw_dlq w') = Suc (length (nw_dlq (bs_world b))) \<and> settle err = Ack
       else nw_dlq w' = nw_dlq (bs_world b) \<and> settle err = NackRequeue)"
    by (rule dead_letter_effects [OF r]) (rule assms(3))
  define b1 where "b1 = (take_off ''email.dlq'' m b)\<lparr>bs_world := w', bs_lost := bs_lost b\<rparr>"
  have l: "(if err = None \<and> nothing_done (bs_world b) w' then Suc (bs_lost b) else bs_lost b) = bs_lost b"
    using e by (auto simp: nothing_done_def)
  have "deliver lib env topo (handle_email_dlq lib) ''email.dlq'' m b =
      settle_on topo ''email.dlq'' m err (route_new topo (length (nw_published (bs_world b))) b1)"
    by (simp only: deliver_def r b1_def prod.case l)
  then have d: "deliver lib env topo (handle_email_dlq lib) ''email.dlq'' m b = settle_on topo ''email.dlq'' m err b1"
    using e by (simp add: route_none b1_def)
  have b1: "Suc (in_transit b1) = in_transit b" "bs_world b1 = w'" "bs_lost b1 = bs_lost b"
    using in_transit_take [OF _ assms(2)] by (simp_all add: b1_def)
  have "settle err \<noteq> NackDrop" using e by (auto split: if_splits)
  from in_transit_settle [OF assms(1), of "''email.dlq''" err m b1] this e b1 show ?thesis
    by (auto simp: d accounted_def split: if_splits)
qed

lemma bus_step_accounted:
  assumes "bus_step lib cfg topo b b'" and "journeys_ok cfg topo"
  shows "accounted b' = accounted b \<and> (bs_lost b' = bs_lost b \<or> cb_state (nw_breaker (bs_world b)) = Open)"
  using assms(1)
proof cases
  case (email body env)
  with email_delivery [OF assms(2)] show ?thesis by simp
next
  case (dead_letter body env)
  with dead_letter_delivery [OF assms(2)] show ?thesis by simp
next
  case (expired body)
  with assms(2) in_transit_take [of "''email.retry''" body b] show ?thesis
    by (simp add: journeys_ok_def put_all_def accounted_def in_transit_put)
qed


text \<open>
  The replay of a webhook's dead letter is reported as done and lost. \<open>ReplayMessage\<close> publishes it with
  the name stored by the dead letter worker, 'webhook', as its routing key; unless the webhook
  queue itself is configured to be called so, no queue is bound with that key and the server drops
  the message, while the letter is marked as replayed and cannot be replayed again. The replay of an
  e-mail task (the other name there is) does reach the e-mail queue.
\<close>
theorem webhook_replay_lost:
  assumes "started cfg topo" and "names_ok cfg" and "nc_webhook_queue cfg \<noteq> ''webhook''"
    and "calm env" and "nl_uuid_parse lib id_str = Inr i"
    and "by_key dq_id i (nw_dlq w) = Some msg" and "dq_status msg \<noteq> DReplayed" and "dq_queue msg \<in> {''webhook'', ''email''}"
    and "nl_task_parse lib (dq_payload msg) = Inr task" and "nl_task_json lib (task\<lparr>nk_retry := 0\<rparr>) = Inr body"
  shows "case run (notify_handle lib env) (replay_dlq_message lib cfg id_str) w of (err, w') \<Rightarrow>
    err = None \<and> map_option dq_status (by_key dq_id i (nw_dlq w')) = Some DReplayed
    \<and> concat (map (\<lambda>(exchange, key, m). routed topo exchange key) (drop (length (nw_published w)) (nw_published w')))
        = (if dq_queue msg = ''webhook'' then [] else [''email''])"
proof (rule run_replay [OF assms(4-7,9,10), of cfg])
  fix w'
  assume r: "run (notify_handle lib env) (replay_dlq_message lib cfg id_str) w = (None, w')"
    and p: "nw_published w' = nw_published w @ [(nc_exchange cfg, dq_queue msg, body)]"
    and d: "by_key dq_id i (nw_dlq w') = Some (msg\<lparr>dq_status := DReplayed\<rparr>)"
  have "routed topo (nc_exchange cfg) ''webhook'' = []"
    using started_bindings [OF assms(1,2)] assms(3) by (auto simp: routed_def filter_empty_conv)
  moreover have "routed topo (nc_exchange cfg) ''email'' = [''email'']"
    using started_journeys [OF assms(1,2)] by (simp add: journeys_ok_def channel_email_def)
  ultimately show ?thesis using r p d assms(8) by auto
qed

section \<open>An instance\<close>

definition demo_server :: "amqp_call \<Rightarrow> goerr + string" where
  "demo_server c = (case c of AQueueDeclare q _ _ \<Rightarrow> Inr q | _ \<Rightarrow> Inr '''')"

definition demo_topology :: amqp_world where
  "demo_topology = set_up demo_server (all_workers demo_nconfig 20)
     \<lparr>aw_channels = 0, aw_published = [], aw_consumers = [], aw_queues = [], aw_bindings = []\<rparr>"

lemma demo_started: "started demo_nconfig demo_topology" "names_ok demo_nconfig"
proof -
  have "accepting demo_server" by (simp add: accepting_def demo_server_def split: amqp_call.splits)
  then show "started demo_nconfig demo_topology"
    unfolding demo_topology_def by (rule start) (simp_all add: blank_server_def)
  show "names_ok demo_nconfig" by (simp add: names_ok_def demo_nconfig_def)
qed

definition demo_bus :: bus where
  "demo_bus = \<lparr>bs_queues = (\<lambda>q. if q = ''email'' then [''+''] else []),
     bs_world = demo_nworld\<lparr>nw_notifications := [demo_notification]\<rparr>, bs_lost = 0\<rparr>"


theorem webhook_replay_lost_witness:
  "map_option dq_status (by_key dq_id 1 (nw_dlq (snd (run (notify_handle demo_nlib demo_nenv)
     (replay_dlq_message demo_nlib demo_nconfig ''+'') (demo_nworld\<lparr>nw_dlq := [demo_letter\<lparr>dq_queue := ''webhook''\<rparr>]\<rparr>)))))
   = Some DReplayed"
proof -
  let ?m = "demo_letter\<lparr>dq_queue := ''webhook''\<rparr>"
  let ?w = "demo_nworld\<lparr>nw_dlq := [?m]\<rparr>"
  have n: "nc_webhook_queue demo_nconfig \<noteq> ''webhook''" by (simp add: demo_nconfig_def)
  have c: "calm demo_nenv" by (simp add: calm_def demo_nenv_def)
  have p: "nl_uuid_parse demo_nlib ''+'' = Inr 1" by (simp add: demo_nlib_def unary_parse_def)
  have k: "by_key dq_id 1 (nw_dlq ?w) = Some ?m" "dq_status ?m \<noteq> DReplayed" "dq_queue ?m \<in> {''webhook'', ''email''}"
    by (simp_all add: by_key_def demo_letter_def)
  have t: "nl_task_parse demo_nlib (dq_payload ?m) = Inr (demo_task\<lparr>nk_retry := 3\<rparr>)"
    "nl_task_json demo_nlib (demo_task\<lparr>nk_retry := 3, nk_retry := 0\<rparr>) = Inr (unary 0)"
    by (simp_all add: demo_nlib_def demo_letter_def unary_parse_def)
  from webhook_replay_lost [OF demo_started n c p k t] show ?thesis by (simp split: prod.splits)
qed

end
