(* ===== verification/Workers.thy ===== *)
theory Workers
  imports Outbox Scheduler Campaigns Janitor "HOL-Library.Multiset"
begin

text \<open>
  How the processes start and loop: the modes of services/notification/cmd/main.go and
  services/upload/cmd/main.go, and the \<open>Start\<close> loops of the workers that poll (outbox_worker.go,
  campaign_worker.go, scheduler_worker.go, janitor_worker.go).
\<close>

section \<open>Modes\<close>

datatype notification_process =
  RunAPI | RunEmailWorker | RunWebhookWorker | RunSchedulerWorker | RunCampaignWorker | RunOutboxWorker | RunDLQWorker
  | NotificationExits

definition notification_main :: "string \<Rightarrow> notification_process" where
  "notification_main app_mode =
     (if app_mode = ''worker-email'' then RunEmailWorker
      else if app_mode = ''worker-webhook'' then RunWebhookWorker
      else if app_mode = ''worker-scheduler'' then RunSchedulerWorker
      else if app_mode = ''worker-campaign'' then RunCampaignWorker
      else if app_mode = ''worker-outbox'' then RunOutboxWorker
      else if app_mode = ''worker-dlq'' then RunDLQWorker
      else if app_mode = ''api'' then RunAPI
      else NotificationExits)"

datatype upload_process = RunUploadAPI | RunJanitor

definition upload_main :: "string \<Rightarrow> upload_process" where
  "upload_main app_mode = (if app_mode = ''worker-janitor'' then RunJanitor else RunUploadAPI)"

text \<open>
  The modes the configuration names. 'worker-pending' is one of them, but the notification service exits
  on it, as on any mode it does not know, although it logs that it falls back to the API mode; the
  upload service does fall back.
\<close>

lemma unknown_mode_exits:
  "notification_main ''worker-pending'' = NotificationExits" "notification_main '''' = NotificationExits"
  "upload_main '''' = RunUploadAPI"
  by (simp_all add: notification_main_def upload_main_def)

section \<open>Tickers\<close>

text \<open>\<open>time.NewTicker\<close> panics when the interval is not positive; the interval is that of its ticks.\<close>

definition new_ticker :: "duration \<Rightarrow> duration outcome" where
  "new_ticker d = (if d \<le> 0 then Panicked ''non-positive interval for NewTicker'' else Returned d)"

text \<open>What the \<open>select\<close> of a loop sees: a tick, in some environment, or the end of the context.\<close>

datatype 'e tick = Tick 'e | Done

fun tick_loop :: "('e \<Rightarrow> 's \<Rightarrow> 's) \<Rightarrow> 'e tick list \<Rightarrow> 's \<Rightarrow> 's" where
  "tick_loop work [] s = s"
| "tick_loop work (Done # ts) s = s"
| "tick_loop work (Tick e # ts) s = tick_loop work ts (work e s)"

text \<open>A loop with its ticker: the interval it ticks at and the state it ends in, or the panic.\<close>

definition start_loop :: "duration \<Rightarrow> ('e \<Rightarrow> 's \<Rightarrow> 's) \<Rightarrow> 'e tick list \<Rightarrow> 's \<Rightarrow> (duration \<times> 's) outcome" where
  "start_loop interval work ts s =
     (case new_ticker interval of
        Panicked msg \<Rightarrow> Panicked msg
      | Returned d \<Rightarrow> Returned (d, tick_loop work ts s))"

definition outbox_tick :: "notify_lib \<Rightarrow> notify_config \<Rightarrow> notify_env \<Rightarrow> notify_world \<Rightarrow> notify_world" where
  "outbox_tick lib cfg env w = snd (run (notify_handle lib env) (process_batch cfg) w)"

text \<open>\<open>outbox_interval\<close> is \<open>cfg.Worker.OutboxInterval\<close>, in seconds.\<close>

definition outbox_start ::
  "notify_lib \<Rightarrow> notify_config \<Rightarrow> int \<Rightarrow> notify_env tick list \<Rightarrow> notify_world \<Rightarrow> (duration \<times> notify_world) outcome" where
  "outbox_start lib cfg outbox_interval = start_loop (outbox_interval * second) (outbox_tick lib cfg)"

text \<open>\<open>interval\<close> is \<open>cfg.Worker.Interval\<close>; the campaign dispatcher has a default for it.\<close>

definition campaign_start ::
  "notify_lib \<Rightarrow> notify_config \<Rightarrow> int \<Rightarrow> notify_env tick list \<Rightarrow> notify_world \<Rightarrow> (duration \<times> notify_world) outcome" where
  "campaign_start lib cfg interval =
     start_loop ((if interval \<le> 0 then 10 else interval) * second)
       (\<lambda>env w. snd (run (notify_handle lib env) (dispatch_pending_campaigns lib cfg) w))"

text \<open>
  The scheduler runs once before its first tick, at a fixed interval. A panic of a run ends the
  process: nothing recovers it.
\<close>

fun scheduler_loop ::
  "notify_lib \<Rightarrow> notify_wiring \<Rightarrow> notify_env tick list \<Rightarrow> notify_world \<Rightarrow> unit outcome \<times> notify_world" where
  "scheduler_loop lib wiring [] w = (Returned (), w)"
| "scheduler_loop lib wiring (Done # ts) w = (Returned (), w)"
| "scheduler_loop lib wiring (Tick env # ts) w =
     (case run (notify_handle lib env) (process_due_schedules lib wiring) w of
        (Panicked msg, w') \<Rightarrow> (Panicked msg, w')
      | (Returned _, w') \<Rightarrow> scheduler_loop lib wiring ts w')"

definition scheduler_start ::
  "notify_lib \<Rightarrow> notify_wiring \<Rightarrow> notify_env \<Rightarrow> notify_env tick list \<Rightarrow> notify_world \<Rightarrow> unit outcome \<times> notify_world" where
  "scheduler_start lib wiring env ts w = scheduler_loop lib wiring (Tick env # ts) w"

definition janitor_start ::
  "upload_lib \<Rightarrow> upload_config \<Rightarrow> upload_env tick list \<Rightarrow> upload_world \<Rightarrow> (duration \<times> upload_world) outcome" where
  "janitor_start lib cfg =
     start_loop (uc_janitor_interval cfg * second) (\<lambda>env w. snd (run (upload_handle env) (janitor_tick lib cfg) w))"

lemma tick_loop_ticks: "tick_loop work (map Tick es @ Done # ts) s = fold work es s"
  by (induction es arbitrary: s) simp_all

text \<open>An interval that is not configured is zero: two of the workers die of it, one has a default.\<close>

lemma missing_interval:
  "outbox_start lib cfg 0 ts w = Panicked ''non-positive interval for NewTicker''"
  "uc_janitor_interval ucfg = 0 \<Longrightarrow> janitor_start ulib ucfg uts uw = Panicked ''non-positive interval for NewTicker''"
  "\<exists>w'. campaign_start lib cfg 0 ts w = Returned (10 * second, w')"
  by (auto simp: outbox_start_def janitor_start_def campaign_start_def start_loop_def new_ticker_def second_def)

section \<open>The outbox is drained\<close>

definition pending_event :: "outbox_event \<Rightarrow> bool" where
  "pending_event e \<longleftrightarrow> ob_published e = None \<and> ob_status e = OPending"

text \<open>The pending events, oldest first.\<close>

definition outbox_queue :: "notify_world \<Rightarrow> outbox_event list" where
  "outbox_queue w = sort_key ob_created (filter pending_event (nw_outbox w))"

definition wire_message :: "notify_config \<Rightarrow> outbox_event \<Rightarrow> string \<times> string \<times> string" where
  "wire_message cfg e = (nc_exchange cfg, ob_key e, ob_payload e)"

text \<open>Database and broker do what they are asked.\<close>

definition delivers :: "notify_env \<Rightarrow> bool" where
  "delivers env \<longleftrightarrow> (\<forall>c. ne_db env c = None) \<and> (\<forall>exchange key body. ne_publish env exchange key body = None)"

lemma filter_update:
  "(\<And>r. \<not> P (f r)) \<Longrightarrow> filter P (update_rows Q f t) = filter (\<lambda>r. P r \<and> \<not> Q r) t"
  by (induction t) (simp_all add: update_rows_def)

lemma publishing_drains:
  assumes "delivers env"
  shows "\<exists>w'. run (notify_handle lib env) (publish_events cfg es) w = ((), w')
    \<and> nw_published w' = nw_published w @ map (wire_message cfg) es
    \<and> filter pending_event (nw_outbox w') = filter (\<lambda>e. pending_event e \<and> ob_id e \<notin> ob_id ` set es) (nw_outbox w)
    \<and> map ob_id (nw_outbox w') = map ob_id (nw_outbox w)"
proof (induction es arbitrary: w)
  case (Cons e es)
  define w1 where "w1 = snd (notify_handle lib env (NOutboxPublished (ob_id e))
      (snd (notify_handle lib env (NPublish (nc_exchange cfg) (ob_key e) (ob_payload e)) w)))"
  have r: "run (notify_handle lib env) (publish_events cfg (e # es)) w = run (notify_handle lib env) (publish_events cfg es) w1"
    using assms by (simp add: w1_def publish_event_def delivers_def notify_call_defs)
  have p: "nw_published w1 = nw_published w @ [wire_message cfg e]"
      "nw_outbox w1 = update_rows (\<lambda>x. ob_id x = ob_id e)
        (\<lambda>x. x\<lparr>ob_status := OPublished, ob_published := Some (ne_clock env (nw_ticks w))\<rparr>) (nw_outbox w)"
    using assms by (simp_all add: w1_def delivers_def notify_call_defs sql_outbox_published_def wire_message_def)
  have f: "filter (\<lambda>x. pending_event x \<and> ob_id x \<notin> ob_id ` set es) (nw_outbox w1) =
      filter (\<lambda>x. pending_event x \<and> ob_id x \<notin> ob_id ` set (e # es)) (nw_outbox w)"
    unfolding p(2) by (subst filter_update) (auto simp: pending_event_def intro!: filter_cong)
  obtain w' where "run (notify_handle lib env) (publish_events cfg es) w1 = ((), w')"
      "nw_published w' = nw_published w1 @ map (wire_message cfg) es"
      "filter pending_event (nw_outbox w') = filter (\<lambda>x. pending_event x \<and> ob_id x \<notin> ob_id ` set es) (nw_outbox w1)"
      "map ob_id (nw_outbox w') = map ob_id (nw_outbox w1)"
    using Cons.IH by blast
  then show ?case
    unfolding r f p(1) by (intro exI [of _ w']) (simp add: p(2) map_key_update)
qed simp

text \<open>One tick publishes the oldest pending events, up to the batch size, and leaves the others.\<close>

lemma drop_is_filter:
  "distinct (map f xs) \<Longrightarrow> filter (\<lambda>x. f x \<notin> f ` set (take n xs)) xs = drop n xs"
proof (induction xs arbitrary: n)
  case (Cons x xs)
  show ?case
  proof (cases n)
    case (Suc m)
    have "filter (\<lambda>y. f y \<notin> f ` set (take n (x # xs))) (x # xs) = filter (\<lambda>y. f y \<notin> f ` set (take m xs)) xs"
      using Cons.prems by (auto simp: Suc intro!: filter_cong) (metis image_eqI)
    with Cons show ?thesis by (simp add: Suc)
  qed simp
qed simp

lemma outbox_tick_queue:
  assumes "delivers env" and "keyed ob_id (nw_outbox w)" and "0 \<le> nc_outbox_batch cfg"
  shows "nw_published (outbox_tick lib cfg env w) =
      nw_published w @ map (wire_message cfg) (take (nat (nc_outbox_batch cfg)) (outbox_queue w))"
    and "outbox_queue (outbox_tick lib cfg env w) = drop (nat (nc_outbox_batch cfg)) (outbox_queue w)"
    and "keyed ob_id (nw_outbox (outbox_tick lib cfg env w))"
proof -
  let ?n = "nat (nc_outbox_batch cfg)"
  define cl where "cl = take ?n (outbox_queue w)"
  define w1 where "w1 = w\<lparr>nw_ticks := Suc (nw_ticks w), nw_uuids := Suc (nw_uuids w),
      nw_outbox := update_rows (\<lambda>e. ob_id e \<in> set (map ob_id cl))
        (\<lambda>e. e\<lparr>ob_status := OProcessing, ob_last_error := None\<rparr>) (nw_outbox w)\<rparr>"
  have pe: "pending_event = (\<lambda>e. ob_published e = None \<and> ob_status e = OPending)"
    by (rule ext) (simp add: pending_event_def)
  have r: "run (notify_handle lib env) (process_batch cfg) w = run (notify_handle lib env) (publish_events cfg cl) w1"
    using assms(1,3)
    by (simp add: process_batch_def delivers_def notify_call_defs sql_outbox_claim_def Let_def limit_rows_def
        w1_def cl_def outbox_queue_def pe)
  have f1: "filter pending_event (nw_outbox w1) = filter (\<lambda>e. pending_event e \<and> ob_id e \<notin> ob_id ` set cl) (nw_outbox w)"
    unfolding w1_def by simp (subst filter_update, auto simp: pending_event_def intro!: filter_cong)
  obtain w' where w': "run (notify_handle lib env) (publish_events cfg cl) w1 = ((), w')"
      "nw_published w' = nw_published w1 @ map (wire_message cfg) cl"
      "filter pending_event (nw_outbox w') = filter (\<lambda>e. pending_event e \<and> ob_id e \<notin> ob_id ` set cl) (nw_outbox w1)"
      "map ob_id (nw_outbox w') = map ob_id (nw_outbox w1)"
    using publishing_drains [OF assms(1), where lib = lib and cfg = cfg and es = cl and w = w1] by blast
  have t: "outbox_tick lib cfg env w = w'" by (simp add: outbox_tick_def r w'(1))
  show "nw_published (outbox_tick lib cfg env w) = nw_published w @ map (wire_message cfg) (take ?n (outbox_queue w))"
    unfolding t w'(2) by (simp add: w1_def cl_def)
  have ids: "map ob_id (nw_outbox w') = map ob_id (nw_outbox w)" unfolding w'(4) w1_def by (simp add: map_key_update)
  then show "keyed ob_id (nw_outbox (outbox_tick lib cfg env w))" using assms(2) unfolding t keyed_def by simp
  have "filter pending_event (nw_outbox w') =
      filter (\<lambda>e. ob_id e \<notin> ob_id ` set cl) (filter pending_event (nw_outbox w1))"
    unfolding w'(3) by (simp add: conj_commute)
  also have "\<dots> = filter (\<lambda>e. ob_id e \<notin> ob_id ` set cl) (filter pending_event (nw_outbox w))"
    unfolding f1 by (auto intro!: filter_cong)
  finally have q: "outbox_queue w' = filter (\<lambda>e. ob_id e \<notin> ob_id ` set cl) (outbox_queue w)"
    by (simp add: outbox_queue_def filter_sort)
  have "distinct (map ob_id (filter pending_event (nw_outbox w)))"
    using assms(2) by (simp add: keyed_def distinct_map_filter)
  moreover have "mset (map ob_id (outbox_queue w)) = mset (map ob_id (filter pending_event (nw_outbox w)))"
    by (simp add: outbox_queue_def)
  ultimately have "distinct (map ob_id (outbox_queue w))" using mset_eq_imp_distinct_iff by blast
  from drop_is_filter [OF this, of ?n] q show "outbox_queue (outbox_tick lib cfg env w) = drop ?n (outbox_queue w)"
    unfolding t cl_def by simp
qed

lemma outbox_ticks_queue:
  assumes "list_all delivers envs" and "keyed ob_id (nw_outbox w)" and "0 \<le> nc_outbox_batch cfg"
  shows "nw_published (fold (outbox_tick lib cfg) envs w) =
      nw_published w @ map (wire_message cfg) (take (length envs * nat (nc_outbox_batch cfg)) (outbox_queue w))
    \<and> outbox_queue (fold (outbox_tick lib cfg) envs w) = drop (length envs * nat (nc_outbox_batch cfg)) (outbox_queue w)"
  using assms(1,2)
proof (induction envs arbitrary: w)
  case (Cons env envs)
  let ?w = "outbox_tick lib cfg env w"
  note t = outbox_tick_queue [where lib = lib, OF _ Cons.prems(2) assms(3), of env]
  from Cons.IH [of ?w] Cons.prems t show ?case
    by (simp add: take_add [symmetric] drop_drop add.commute flip: map_append)
qed simp

text \<open>
  C4. The outbox worker gets every notification out, in the order of their events. While database and
  broker do what they are asked, n ticks of its loop publish exactly the n times batch size oldest
  pending events, each once and oldest first, and leave the younger ones pending; so a loop with a
  positive interval and batch size that ticks often enough ends with an empty queue, whatever else
  is in the outbox.
\<close>
theorem outbox_drains:
  assumes "0 < outbox_interval" and "0 < nc_outbox_batch cfg" and "keyed ob_id (nw_outbox w)" and "list_all delivers envs"
  shows "\<exists>w'. outbox_start lib cfg outbox_interval (map Tick envs @ Done # rest) w = Returned (outbox_interval * second, w')
    \<and> nw_published w' = nw_published w @ map (wire_message cfg) (take (length envs * nat (nc_outbox_batch cfg)) (outbox_queue w))
    \<and> outbox_queue w' = drop (length envs * nat (nc_outbox_batch cfg)) (outbox_queue w)
    \<and> (length (outbox_queue w) \<le> length envs \<longrightarrow> outbox_queue w' = [])"
proof -
  let ?b = "nat (nc_outbox_batch cfg)"
  have "1 \<le> ?b" using assms(2) by linarith
  then have n: "length envs \<le> length envs * ?b" using mult_le_mono2 [of 1 ?b "length envs"] by (simp only: mult_1_right)
  have "drop (length envs * ?b) (outbox_queue w) = []" if "length (outbox_queue w) \<le> length envs"
    by (rule drop_all) (rule le_trans [OF that n])
  moreover have "new_ticker (outbox_interval * second) = Returned (outbox_interval * second)"
    using assms(1) by (simp add: new_ticker_def second_def)
  ultimately show ?thesis
    using outbox_ticks_queue [OF assms(4,3), of cfg lib] assms(2)
    by (simp add: outbox_start_def start_loop_def tick_loop_ticks)
qed

theorem outbox_drains_witness:
  "\<exists>w'. outbox_start demo_nlib demo_nconfig 2 [Tick demo_nenv, Done] (demo_nworld\<lparr>nw_outbox := [demo_event]\<rparr>)
     = Returned (2 * second, w') \<and> nw_published w' = [(''notifications'', ''email'', ''p'')]"
proof -
  let ?w = "demo_nworld\<lparr>nw_outbox := [demo_event]\<rparr>"
  have k: "keyed ob_id (nw_outbox ?w)" by (simp add: keyed_def)
  have b: "0 < nc_outbox_batch demo_nconfig" by (simp add: demo_nconfig_def)
  have e: "list_all delivers [demo_nenv]" by (simp add: delivers_def demo_nenv_def)
  from outbox_drains [of 2, OF _ b k e, of demo_nlib "[]"] show ?thesis
    by (auto simp: outbox_queue_def pending_event_def wire_message_def demo_event_def demo_nworld_def demo_nconfig_def)
qed

end
