(* ===== verification/Startup.thy ===== *)
theory Startup
  imports Workers
begin

text \<open>
  The \<open>main\<close> functions and the \<open>run...\<close> functions they dispatch to (cmd/main.go of the three services):
  what a process sets up, in which order, what an error at each point does, and what the deferred
  calls release. The objects that are set up are modelled elsewhere; here they are only named.
\<close>

section \<open>Stages of a start\<close>

text \<open>What is called; a worker's \<open>Start\<close> and a server return when the process is asked to stop.\<close>

datatype boot_call =
    BLogger | BConfig | BDatabase | BSqlDB | BMigrate | BSignals | BTrace | BBroker | BRedis | BStorage
  | BIdentityDial | BMetricsServer | BSeedTemplates | BGrpcServer | BServe | BGrpcStop | BShutdown | BWork

text \<open>
  An error of \<open>Must\<close> panics, after which the deferred calls run; \<open>Acquire\<close> also defers the release of
  what it got; \<open>Attempt\<close> goes on; an error of \<open>MustExit\<close> ends in \<open>log.Fatal\<close>, which leaves the process without
  running the deferred calls.
\<close>

datatype stage = Must boot_call | Acquire boot_call | Attempt boot_call | MustExit boot_call

datatype boot_event = Called boot_call | Released boot_call

datatype boot_end = Stopped | PanickedAt boot_call | FatalAt boot_call

fun boot :: "(boot_call \<Rightarrow> bool) \<Rightarrow> stage list \<Rightarrow> boot_call list \<Rightarrow> boot_event list \<times> boot_end" where
  "boot ok [] deferred = (map Released deferred, Stopped)"
| "boot ok (Must c # ss) deferred =
     (if ok c then (case boot ok ss deferred of (evs, e) \<Rightarrow> (Called c # evs, e))
      else (map Released deferred, PanickedAt c))"
| "boot ok (Acquire c # ss) deferred =
     (if ok c then (case boot ok ss (c # deferred) of (evs, e) \<Rightarrow> (Called c # evs, e))
      else (map Released deferred, PanickedAt c))"
| "boot ok (Attempt c # ss) deferred = (case boot ok ss deferred of (evs, e) \<Rightarrow> (Called c # evs, e))"
| "boot ok (MustExit c # ss) deferred =
     (if ok c then (case boot ok ss deferred of (evs, e) \<Rightarrow> (Called c # evs, e))
      else ([], FatalAt c))"

section \<open>The processes\<close>

text \<open>The signal context and the shutdown of tracing are deferred; neither can fail.\<close>

definition main_stages :: "stage list" where
  "main_stages = [Must BLogger, Must BConfig, Must BDatabase, Must BSqlDB, Must BMigrate, Acquire BSignals, Acquire BTrace]"

definition notification_api_stages :: "stage list" where
  "notification_api_stages =
     [Acquire BBroker, Must BRedis, Attempt BSeedTemplates, MustExit BServe, MustExit BShutdown]"

definition broker_worker_stages :: "stage list" where
  "broker_worker_stages = [Attempt BMetricsServer, Acquire BBroker, Attempt BWork]"

definition campaign_worker_stages :: "stage list" where
  "campaign_worker_stages = [Attempt BMetricsServer, Acquire BBroker, Acquire BIdentityDial, Attempt BWork]"

definition scheduler_worker_stages :: "stage list" where
  "scheduler_worker_stages = [Attempt BMetricsServer, Attempt BWork]"

fun notification_run :: "notification_process \<Rightarrow> stage list" where
  "notification_run RunAPI = notification_api_stages"
| "notification_run RunEmailWorker = broker_worker_stages"
| "notification_run RunWebhookWorker = broker_worker_stages"
| "notification_run RunSchedulerWorker = scheduler_worker_stages"
| "notification_run RunCampaignWorker = campaign_worker_stages"
| "notification_run RunOutboxWorker = broker_worker_stages"
| "notification_run RunDLQWorker = broker_worker_stages"
| "notification_run NotificationExits = []"

definition notification_stages :: "string \<Rightarrow> stage list" where
  "notification_stages app_mode = main_stages @ notification_run (notification_main app_mode)"

definition upload_api_stages :: "stage list" where
  "upload_api_stages = [Acquire BBroker, Must BRedis, Must BStorage, MustExit BServe, MustExit BShutdown]"

definition janitor_stages :: "stage list" where
  "janitor_stages = [Acquire BBroker, Must BStorage, Attempt BWork]"

definition upload_stages :: "string \<Rightarrow> stage list" where
  "upload_stages app_mode =
     main_stages @ (case upload_main app_mode of RunUploadAPI \<Rightarrow> upload_api_stages | RunJanitor \<Rightarrow> janitor_stages)"

text \<open>The identity service ignores an error of its logger, and defers nothing that it acquires.\<close>

definition identity_stages :: "stage list" where
  "identity_stages =
     [Attempt BLogger, Must BConfig, Must BDatabase, Must BSqlDB, Must BMigrate, Must BRedis, MustExit BGrpcServer,
      MustExit BServe, Attempt BGrpcStop, MustExit BShutdown]"

definition all_stages :: "stage list set" where
  "all_stages = range notification_stages \<union> range upload_stages \<union> {identity_stages}"

section \<open>Releases and order\<close>

fun acquired :: "(boot_call \<Rightarrow> bool) \<Rightarrow> stage list \<Rightarrow> boot_call list" where
  "acquired ok [] = []"
| "acquired ok (Must c # ss) = (if ok c then acquired ok ss else [])"
| "acquired ok (Acquire c # ss) = (if ok c then c # acquired ok ss else [])"
| "acquired ok (Attempt c # ss) = acquired ok ss"
| "acquired ok (MustExit c # ss) = (if ok c then acquired ok ss else [])"

definition releases :: "boot_event list \<Rightarrow> boot_call list" where
  "releases evs = concat (map (\<lambda>ev. case ev of Released c \<Rightarrow> [c] | Called c \<Rightarrow> []) evs)"

definition is_fatal :: "boot_end \<Rightarrow> bool" where
  "is_fatal e = (case e of FatalAt c \<Rightarrow> True | _ \<Rightarrow> False)"

lemma releases_simps [simp]:
  "releases [] = []" "releases (Called c # evs) = releases evs" "releases (Released c # evs) = c # releases evs"
  "releases (map Released cs) = cs"
proof -
  show "releases [] = []" "releases (Called c # evs) = releases evs" "releases (Released c # evs) = c # releases evs"
    by (simp_all add: releases_def)
  show "releases (map Released cs) = cs" by (induction cs) (simp_all add: releases_def)
qed

text \<open>
  A process releases what it acquired, in the opposite order, when it stops and when it panics; and
  nothing at all when it ends in \<open>log.Fatal\<close>.
\<close>

lemma boot_releases:
  "releases (fst (boot ok ss deferred)) =
     (if is_fatal (snd (boot ok ss deferred)) then [] else rev (acquired ok ss) @ deferred)"
  by (induction ok ss deferred rule: boot.induct) (auto simp: is_fatal_def split: prod.splits boot_end.splits)

text \<open>A call is only made after the calls before it that must succeed have succeeded.\<close>

lemma boot_order:
  "Called c \<in> set (fst (boot ok (ss @ Must d # ss') deferred)) \<Longrightarrow> c \<notin> (\<Union>s\<in>set ss. case s of Must x \<Rightarrow> {x} | Acquire x \<Rightarrow> {x}
      | Attempt x \<Rightarrow> {x} | MustExit x \<Rightarrow> {x}) \<Longrightarrow> ok d"
proof (induction ss arbitrary: deferred)
  case Nil
  then show ?case by (auto split: if_splits)
next
  case (Cons s ss)
  then show ?case by (cases s) (auto simp: split_def split: if_splits)
qed



text \<open>
  A forced shutdown of the API ends in \<open>log.Fatal\<close>, so the deferred close of the broker and the flush of
  the traces are skipped; the clients of Redis and of the database are never closed by anybody.
\<close>

lemma forced_shutdown_leaks:
  assumes "\<And>c. ok c \<longleftrightarrow> c \<noteq> BShutdown"
  shows "releases (fst (boot ok (notification_stages ''api'') [])) = []"
    and "releases (fst (boot ok (upload_stages ''api'') [])) = []"
    and "Called BBroker \<in> set (fst (boot ok (notification_stages ''api'') []))"
  using assms
  by (simp_all add: notification_stages_def upload_stages_def main_stages_def notification_main_def upload_main_def
      notification_api_stages_def upload_api_stages_def)

lemma connections_never_released:
  assumes "ss \<in> all_stages" and "c \<in> {BRedis, BDatabase}"
  shows "c \<notin> set (acquired ok ss)"
proof -
  have "c \<notin> set (acquired ok (notification_run p))" for p
    using assms(2)
    by (cases p) (auto simp: notification_api_stages_def broker_worker_stages_def campaign_worker_stages_def
        scheduler_worker_stages_def)
  with assms show ?thesis
    by (auto simp: all_stages_def notification_stages_def upload_stages_def main_stages_def identity_stages_def
        upload_api_stages_def janitor_stages_def split: upload_process.splits if_splits)
qed


end
