(* ===== verification/UploadTypes.thy ===== *)
theory UploadTypes
  imports SessionRace
begin

text \<open>
  The types the Go structs of the upload service do not enforce: which nullable columns are set in
  which status, the range of part numbers, the shape of entity tags. A row that was read keeps its
  type through every operation, whatever the other requests do in between, so all rows, all published
  events and all lists of parts that S3 is given are well typed in every reachable state.
\<close>

section \<open>Types\<close>

definition video_typed :: "video \<Rightarrow> bool" where
  "video_typed v \<longleftrightarrow>
     (vid_status v = Uploaded \<longrightarrow> vid_size v \<noteq> None \<and> vid_uploaded_at v \<noteq> None)
   \<and> (vid_status v = PendingUpload \<longrightarrow> vid_size v = None \<and> vid_uploaded_at v = None \<and> vid_upload_expires v \<noteq> None)"

definition session_typed :: "upload_session \<Rightarrow> bool" where
  "session_typed s \<longleftrightarrow> 1 \<le> us_total_parts s \<and> us_total_parts s \<le> max_part_count \<and> min_part_size \<le> us_part_size s
   \<and> (us_status s = SCompleted \<longrightarrow> us_completed_at s \<noteq> None)"

definition part_typed :: "upload_part \<Rightarrow> bool" where
  "part_typed p \<longleftrightarrow> 1 \<le> up_number p \<and> up_number p \<le> max_part_count
   \<and> (up_status p = PUploaded) = (up_etag p \<noteq> '''') \<and> (up_status p = PUploaded) = (up_uploaded_at p \<noteq> None)
   \<and> \<not> has_prefix (up_etag p) [quote_char]"

definition event_typed :: "video_uploaded_event \<Rightarrow> bool" where
  "event_typed ev \<longleftrightarrow> ev_size ev \<noteq> None \<and> ev_uploaded_at ev \<noteq> None"

text \<open>What S3 demands of a list of parts: numbers in range and in order, tags that are quoted and not empty.\<close>

definition parts_accepted :: "(int \<times> string) list \<Rightarrow> bool" where
  "parts_accepted ps \<longleftrightarrow> sorted (map fst ps)
   \<and> list_all (\<lambda>(n, tag). 1 \<le> n \<and> n \<le> max_part_count \<and> 3 \<le> length tag \<and> hd tag = quote_char \<and> last tag = quote_char) ps"

fun effect_typed :: "s3_effect \<Rightarrow> bool" where
  "effect_typed (S3Completed key upload ps) = parts_accepted ps"
| "effect_typed x = True"

definition world_typed :: "upload_world \<Rightarrow> bool" where
  "world_typed w \<longleftrightarrow> list_all video_typed (uw_videos w) \<and> list_all session_typed (uw_sessions w)
   \<and> list_all part_typed (uw_parts w) \<and> list_all event_typed (uw_events w) \<and> list_all effect_typed (uw_s3 w)"

section \<open>Typed calls and replies\<close>

fun call_typed :: "upload_call \<Rightarrow> bool" where
  "call_typed (CVideoCreate v) = video_typed v"
| "call_typed (CVideoSave v) = video_typed v"
| "call_typed (CSessionCreate s ps) = (session_typed s \<and> list_all part_typed ps)"
| "call_typed (CSessionSave s) = session_typed s"
| "call_typed (CPartSave p) = part_typed p"
| "call_typed (CTransition i frm to) = (to \<noteq> SCompleted)"
| "call_typed (CComplete key upload ps) = parts_accepted (sent_parts ps)"
| "call_typed (CPublish exchange key ev) = event_typed ev"
| "call_typed c = True"

fun reply_typed :: "upload_call \<Rightarrow> upload_reply \<Rightarrow> bool" where
  "reply_typed (CVideoGet i) r = (\<forall>v. r_video r = Inr v \<longrightarrow> video_typed v)"
| "reply_typed (CVideosExpired t n) r = (\<forall>vs. r_videos r = Inr vs \<longrightarrow> list_all video_typed vs)"
| "reply_typed (CSessionGet i) r = (\<forall>s. r_session r = Inr s \<longrightarrow> session_typed s)"
| "reply_typed (CSessionsExpired t n) r = (\<forall>ss. r_sessions r = Inr ss \<longrightarrow> list_all session_typed ss)"
| "reply_typed (CPartGet i n) r = (\<forall>p. r_part r = Inr p \<longrightarrow> part_typed p)"
| "reply_typed (CPartsOf i) r = (\<forall>ps. r_parts r = Inr ps \<longrightarrow> list_all part_typed ps \<and> sorted (map up_number ps))"
| "reply_typed c r = True"

abbreviation prog_typed :: "'a upload_prog \<Rightarrow> bool" where
  "prog_typed p \<equiv> follows (\<lambda>_. call_typed) (\<lambda>_ _ _. ()) reply_typed p ()"

text \<open>Reading returns rows of the tables; writing stores what it is given.\<close>

lemma first_row_in: "first_row P t = Inr x \<Longrightarrow> x \<in> set t"
  by (auto simp: first_row_def find_Some_iff split: option.splits)

lemma typed_reply:
  assumes "world_typed w" and "upload_handle env c w = (r, w')"
  shows "reply_typed c r"
  using assms
  by (cases c)
    (auto simp: world_typed_def db_read_def list_all_iff sql_videos_expired_def sql_sessions_expired_def sql_parts_of_def
      limit_rows_def split: option.splits if_splits dest!: first_row_in in_set_takeD)

lemma typed_write:
  assumes "world_typed w" and "call_typed c" and "upload_handle env c w = (r, w')"
  shows "world_typed w'"
proof -
  have f: "video_typed (v\<lparr>vid_updated_at := t\<rparr>) = video_typed v" "video_typed (v\<lparr>vid_created_at := t\<rparr>) = video_typed v"
      "session_typed (s\<lparr>us_updated_at := t\<rparr>) = session_typed s" "session_typed (s\<lparr>us_created_at := t\<rparr>) = session_typed s"
      "session_typed (s\<lparr>us_parts := ps\<rparr>) = session_typed s"
      "session_typed s \<Longrightarrow> st \<noteq> SCompleted \<Longrightarrow> session_typed (s\<lparr>us_status := st\<rparr>)"
      "part_typed (p\<lparr>up_updated_at := t\<rparr>) = part_typed p" "part_typed (p\<lparr>up_created_at := t\<rparr>) = part_typed p"
      for v s p t st ps
    by (simp_all add: video_typed_def session_typed_def part_typed_def)
  show ?thesis
    using assms
    by (cases c)
      (auto simp: world_typed_def db_exec_def split_def tick_def log_s3_def sql_video_create_def sql_video_save_def
        sql_session_create_def sql_session_save_def sql_part_save_def sql_transition_def insert_row_def f
        list.pred_map comp_def
        intro!: all_saved all_updated split: option.splits sum.splits)
qed

interpretation upload_types: typestate upload_handle "\<lambda>_. call_typed" "\<lambda>_ _ _. ()" reply_typed "()" "\<lambda>w _. world_typed w"
  by unfold_locales (auto intro: typed_reply typed_write)

section \<open>The requests of the upload service\<close>

definition upload_requests :: "upload_lib \<Rightarrow> s3_storage \<Rightarrow> upload_config \<Rightarrow> bool upload_prog set" where
  "upload_requests lib store cfg =
     session_requests lib cfg \<union>
     range (\<lambda>req. outcome (init_chunked_upload lib cfg req)) \<union>
     range (\<lambda>req. outcome (init_upload lib store cfg req)) \<union>
     range (\<lambda>i. outcome (complete_upload lib i)) \<union>
     range (\<lambda>i. outcome (abort_upload lib i)) \<union>
     range (\<lambda>i. outcome (get_video lib i)) \<union>
     range (\<lambda>req. outcome (list_videos lib req)) \<union>
     {bind (janitor_tick lib cfg) (\<lambda>_. Return True)}"

lemma event_of_uploaded:
  "vid_size v \<noteq> None \<Longrightarrow> vid_uploaded_at v \<noteq> None \<Longrightarrow> event_typed (uploaded_event lib v)"
  by (simp add: event_typed_def uploaded_event_def)

lemma int32_small: "1 \<le> n \<Longrightarrow> n \<le> max_part_count \<Longrightarrow> int32 n = n"
  by (rule int32_id) (simp_all add: max_part_count_def)

text \<open>Parts that are all uploaded make a list that S3 accepts.\<close>

lemma uploaded_parts_accepted:
  assumes "list_all part_typed ps" and "sorted (map up_number ps)" and "filter (\<lambda>p. up_status p \<noteq> PUploaded) ps = []"
  shows "parts_accepted (sent_parts (completed_parts ps))"
proof -
  have up: "\<forall>p\<in>set ps. part_typed p \<and> up_status p = PUploaded"
    using assms(1,3) by (auto simp: list_all_iff filter_empty_conv)
  then have "map (\<lambda>p. int32 (up_number p)) ps = map up_number ps" by (auto simp: part_typed_def int32_small)
  with assms(2) have n: "sorted (map (\<lambda>p. int32 (up_number p)) ps)" by metis
  have "3 \<le> length (quoted_etag e) \<and> hd (quoted_etag e) = quote_char \<and> last (quoted_etag e) = quote_char"
    if "e \<noteq> ''''" "\<not> has_prefix e [quote_char]" for e
    using that by (cases e) (auto simp: quoted_etag_def)
  with up n show ?thesis
    by (auto simp: parts_accepted_def completed_parts_def sent_parts_def comp_def list_all_iff part_typed_def int32_small)
qed

lemma confirmed_part_typed:
  assumes "part_typed p" and "trim_char quote_char e \<noteq> ''''"
  shows "part_typed (p\<lparr>up_etag := trim_char quote_char e, up_status := PUploaded, up_uploaded_at := Some now\<rparr>)"
  using assms trim_by_ends(1) [of "\<lambda>c. c = quote_char" e]
  by (cases "trim_char quote_char e") (auto simp: part_typed_def has_prefix_def trim_char_def)

lemma new_parts_typed:
  assumes "list_all (\<lambda>n. 1 \<le> n \<and> n \<le> max_part_count) ns" and "\<And>ps. list_all part_typed ps \<Longrightarrow> prog_typed (k ps)"
  shows "prog_typed (new_parts sid ns k)"
  using assms
  by (induction ns arbitrary: k) (auto simp: uuid_new_def part_typed_def has_prefix_def)

lemma chunked_typed: "prog_typed (init_chunked_upload lib cfg req)"
proof -
  have s: "session_typed (new_session cfg req n (part_size_of cfg) i v u sid now)" if "1 \<le> n" "n \<le> max_part_count" for n i v u sid now
    using that part_size_min by (simp add: new_session_def Let_def session_typed_def)
  have "prog_typed (store_session lib (new_session cfg req n (part_size_of cfg) i v u sid now) ps)"
    if "1 \<le> n" "n \<le> max_part_count" "list_all part_typed ps" for n i v u sid now ps
    using that s by (auto simp: store_session_def upload_call_defs split: option.splits)
  then have "prog_typed (init_session lib cfg req n (part_size_of cfg) i v u)" if "1 \<le> n" "n \<le> max_part_count" for n i v u
    using that by (auto simp: init_session_def time_now_def uuid_new_def list_all_iff intro!: new_parts_typed)
  then show ?thesis
    by (auto simp: init_chunked_upload_def upload_call_defs Let_def max_part_count_def split: option.splits sum.splits)
qed

lemma process_videos_typed: "list_all video_typed vs \<Longrightarrow> prog_typed k \<Longrightarrow> prog_typed (process_videos lib vs k)"
  by (induction vs)
    (auto simp: process_video_def upload_call_defs Let_def video_typed_def intro!: event_of_uploaded split: sum.splits option.splits)

lemma expire_sessions_typed: "list_all session_typed ss \<Longrightarrow> prog_typed k \<Longrightarrow> prog_typed (expire_sessions ss k)"
  by (induction ss) (auto simp: upload_call_defs session_typed_def)

lemma janitor_typed:
  "prog_typed k \<Longrightarrow> prog_typed (run_session_batch cfg k)" "prog_typed (janitor_tick lib cfg)"
proof -
  show b: "prog_typed k \<Longrightarrow> prog_typed (run_session_batch cfg k)" for k :: "'x upload_prog"
    by (auto simp: run_session_batch_def time_now_def list_expired_active_sessions_def intro!: expire_sessions_typed
        split: sum.splits)
  show "prog_typed (janitor_tick lib cfg)"
    unfolding janitor_tick_def run_batch_def time_now_def video_list_expired_pending_def
    by (auto intro!: process_videos_typed b split: sum.splits)
qed

lemma requests_typed:
  assumes "p \<in> upload_requests lib store cfg"
  shows "prog_typed p"
proof -
  have "prog_typed (run_session_batch cfg (Return True))" by (rule janitor_typed) simp
  moreover have "prog_typed (complete_session lib i)" for i
    by (auto simp: complete_session_def complete_locked_def complete_stored_def upload_call_defs
        publish_uploaded_event_def Let_def session_typed_def video_typed_def
        intro!: uploaded_parts_accepted event_of_uploaded split: sum.splits option.splits if_splits)
  moreover have "prog_typed (abort_session lib i)" "prog_typed (get_session lib i)" for i
    by (auto simp: abort_session_def get_session_def upload_call_defs session_typed_def split: sum.splits option.splits)
  moreover have "prog_typed (get_part_url lib cfg i n)" for i n
    by (auto simp: get_part_url_def upload_call_defs Let_def part_typed_def split: sum.splits)
  moreover have "prog_typed (confirm_part lib i n e)" for i n e
    by (auto simp: confirm_part_def upload_call_defs Let_def intro!: confirmed_part_typed split: sum.splits option.splits)
  moreover have "prog_typed (init_upload lib store cfg req)" for req
    by (auto simp: init_upload_def upload_call_defs Let_def video_typed_def split: sum.splits option.splits)
  moreover have "prog_typed (complete_upload lib i)" "prog_typed (abort_upload lib i)" "prog_typed (get_video lib i)" for i
    by (auto simp: complete_upload_def abort_upload_def get_video_def publish_uploaded_event_def upload_call_defs Let_def
        video_typed_def intro!: event_of_uploaded split: sum.splits option.splits)
  moreover have "prog_typed (list_videos lib req)" for req
    by (auto simp: list_videos_def upload_call_defs Let_def split: sum.splits)
  ultimately show ?thesis
    using assms chunked_typed janitor_typed(2)
    by (auto simp: upload_requests_def session_requests_def follows_outcome follows_ignore_result)
qed

section \<open>Every reachable state is well typed\<close>

text \<open>
  C9. The upload service never stores, publishes or sends an ill-typed value. Let any number of its
  requests (single and chunked uploads, all eleven) and janitor ticks run interleaved call by call,
  with database, S3 and broker failing as they like. If the rows are well typed at first, they stay so: an
  uploaded video has a size and a time, a part is 'uploaded' exactly if it has an entity tag and a
  time, part numbers are between 1 and 10000, a completed session has its time; every published event
  carries size and time; and every list of parts that S3 assembled an object from was in ascending order, with
  numbers in range and tags quoted and not empty.
\<close>
theorem upload_rows_typed:
  assumes "reachable upload_handle (upload_requests lib store cfg) w0 (ts, w)" and "world_typed w0"
  shows "world_typed w"
proof -
  have "\<exists>phs :: unit list. length phs = length ts \<and> world_typed w"
    by (rule upload_types.reachable_inv [OF assms]) (rule requests_typed)
  then show ?thesis by blast
qed

definition typed_pending :: upload_world where
  "typed_pending = one_pending\<lparr>uw_videos := [demo_video],
     uw_parts := [(demo_part 1)\<lparr>up_status := PPending, up_etag := '''', up_uploaded_at := None\<rparr>]\<rparr>"

theorem upload_rows_typed_witness:
  "world_typed (snd (run_sched upload_handle lost_schedule
     ([outcome (get_part_url demo_lib demo_cfg 9 1), outcome (confirm_part demo_lib 9 1 ''e'')], typed_pending)))"
proof -
  let ?ps = "[outcome (get_part_url demo_lib demo_cfg 9 1), outcome (confirm_part demo_lib 9 1 ''e'')]"
  obtain ts w where x: "run_sched upload_handle lost_schedule (?ps, typed_pending) = (ts, w)"
    by (cases "run_sched upload_handle lost_schedule (?ps, typed_pending)")
  have "reachable upload_handle (upload_requests demo_lib (ue_storage demo_env) demo_cfg) typed_pending
      (run_sched upload_handle lost_schedule (?ps, typed_pending))"
    by (rule reachable_schedule) (auto simp: upload_requests_def lost_schedule_def list_all_iff)
  moreover have "world_typed typed_pending" by code_simp
  ultimately show ?thesis using upload_rows_typed x by (metis snd_conv)
qed

end
