(* ===== verification/VideoRace.thy ===== *)
theory VideoRace
  imports UploadTypes
begin

text \<open>
  The row of a video under interleaved requests and janitor ticks. Its status refines a small
  abstract machine, and a typestate relates the published events to the rows: a request publishes
  only after it has stored the video as uploaded. The services read a row and write the whole of it
  back later without a condition on the status, so an announced video need not stay uploaded; a
  schedule shows it.
\<close>

section \<open>The status of a video as an abstract state machine\<close>

definition video_edge :: "video_status \<Rightarrow> video_status \<Rightarrow> bool" where
  "video_edge a b \<longleftrightarrow> a = b \<or> b \<noteq> PendingUpload"

definition video_status_of :: "uuid \<Rightarrow> upload_world \<Rightarrow> video_status option" where
  "video_status_of i w = map_option vid_status (by_key vid_id i (uw_videos w))"

definition video_step :: "uuid \<Rightarrow> upload_world \<Rightarrow> upload_world \<Rightarrow> bool" where
  "video_step i w w' \<longleftrightarrow>
     (case video_status_of i w of
        Some a \<Rightarrow> (\<exists>b. video_status_of i w' = Some b \<and> video_edge a b)
      | None \<Rightarrow> True)"

text \<open>The phase of a request: the row that it has stored last. It publishes the event of that row or nothing.\<close>

fun video_allows :: "upload_lib \<Rightarrow> video option \<Rightarrow> upload_call \<Rightarrow> bool" where
  "video_allows lib ph (CVideoSave v) = (vid_status v \<noteq> PendingUpload)"
| "video_allows lib ph (CPublish x y ev) = (\<exists>v. ph = Some v \<and> ev = uploaded_event lib v)"
| "video_allows lib ph c = True"

fun video_next :: "video option \<Rightarrow> upload_call \<Rightarrow> upload_reply \<Rightarrow> video option" where
  "video_next ph (CVideoSave v) r = (if r_error r = None then Some v else ph)"
| "video_next ph c r = ph"

abbreviation video_follows :: "upload_lib \<Rightarrow> 'a upload_prog \<Rightarrow> video option \<Rightarrow> bool" where
  "video_follows lib \<equiv> follows (video_allows lib) video_next (\<lambda>_ _. True)"

text \<open>A video that is stored and has left its first status.\<close>

definition settled :: "upload_world \<Rightarrow> uuid \<Rightarrow> bool" where
  "settled w i \<longleftrightarrow> (\<exists>st. video_status_of i w = Some st \<and> st \<noteq> PendingUpload)"

definition events_settled :: "upload_lib \<Rightarrow> upload_world \<Rightarrow> bool" where
  "events_settled lib w \<longleftrightarrow> (\<forall>ev\<in>set (uw_events w). \<exists>i. ev_video ev = ul_uuid_string lib i \<and> settled w i)"

definition video_inv :: "upload_lib \<Rightarrow> upload_world \<Rightarrow> video option list \<Rightarrow> bool" where
  "video_inv lib w phs \<longleftrightarrow> events_settled lib w \<and> (\<forall>v. Some v \<in> set phs \<longrightarrow> settled w (vid_id v))"

section \<open>Every call obeys the machine\<close>

lemma by_key_insert: "by_key key k t = Some r \<Longrightarrow> by_key key k (insert_row x t) = Some r"
  by (induction t) (auto simp: by_key_def insert_row_def)

lemma video_step_same: "uw_videos w' = uw_videos w \<Longrightarrow> video_step i w w'"
  by (simp add: video_step_def video_status_of_def video_edge_def split: option.splits)

lemma video_step_create: "video_step i w (sql_video_create now v w)"
  by (auto simp: video_step_def video_status_of_def video_edge_def sql_video_create_def by_key_insert split: option.splits)

lemma video_step_save: "vid_status v \<noteq> PendingUpload \<Longrightarrow> video_step i w (sql_video_save now v w)"
  by (auto simp: video_step_def video_status_of_def video_edge_def sql_video_save_def by_key_save split: option.splits)

lemma video_step_cong: "uw_videos w1 = uw_videos w \<Longrightarrow> video_step i w1 w' = video_step i w w'"
  by (simp add: video_step_def video_status_of_def)

text \<open>The calls that write the videos or the events, and those that do not.\<close>

definition video_quiet :: "upload_call \<Rightarrow> bool" where
  "video_quiet c \<longleftrightarrow> (case c of CVideoCreate _ \<Rightarrow> False | CVideoSave _ \<Rightarrow> False | CPublish _ _ _ \<Rightarrow> False | _ \<Rightarrow> True)"

lemma video_quiet_frame:
  assumes "video_quiet c" and "upload_handle env c w = (r, w')"
  shows "uw_videos w' = uw_videos w" "uw_events w' = uw_events w" "video_next ph c r = ph"
  using assms
  by (cases c; auto simp: video_quiet_def db_exec_def sql_session_create_def sql_session_save_def sql_part_save_def
      sql_transition_def log_s3_def split_def split: option.splits sum.splits)+

lemma video_step_handle:
  assumes "video_allows lib ph c" and "upload_handle env c w = (r, w')"
  shows "video_step i w w'"
proof (cases "video_quiet c")
  case True
  with video_quiet_frame(1) assms(2) show ?thesis by (blast intro: video_step_same)
next
  case False
  with assms show ?thesis
    by (cases c)
      (auto simp: video_quiet_def db_exec_def split_def video_step_same
        intro!: iffD1 [OF video_step_cong [of "snd (tick env w)" w]] video_step_create video_step_save split: option.splits)
qed

lemma settled_step: "settled w i \<Longrightarrow> video_step i w w' \<Longrightarrow> settled w' i"
  by (auto simp: settled_def video_step_def video_edge_def split: option.splits)

section \<open>Every call keeps the invariant\<close>

lemma saved_settled:
  assumes "upload_handle env (CVideoSave v) w = (r, w')" and "r_error r = None" and "vid_status v \<noteq> PendingUpload"
  shows "settled w' (vid_id v)"
  using assms
  by (auto simp: db_exec_def split_def settled_def video_status_of_def sql_video_save_def by_key_save split: option.splits)

lemma published_only:
  assumes "upload_handle env c w = (r, w')"
  shows "set (uw_events w') \<subseteq> set (uw_events w) \<union> {ev. \<exists>x y. c = CPublish x y ev}"
  using assms
  by (cases "video_quiet c")
    (auto dest: video_quiet_frame(2), cases c, auto simp: video_quiet_def db_exec_def split_def sql_video_create_def
      sql_video_save_def split: option.splits)

lemma video_inv_step:
  assumes inv: "video_inv lib w phs" and i: "i < length phs"
    and allowed: "video_allows lib (phs ! i) c" and h: "upload_handle env c w = (r, w')"
  shows "video_inv lib w' (phs[i := video_next (phs ! i) c r])"
proof -
  have keep: "settled w j \<Longrightarrow> settled w' j" for j
    using settled_step video_step_handle [OF allowed h] by blast
  have now: "settled w (vid_id v)" if "phs ! i = Some v" for v
    using inv i that unfolding video_inv_def by (metis nth_mem)
  have "\<exists>j. ev_video ev = ul_uuid_string lib j \<and> settled w' j" if "ev \<in> set (uw_events w')" for ev
  proof (cases "ev \<in> set (uw_events w)")
    case True
    with inv obtain j where "ev_video ev = ul_uuid_string lib j" "settled w j"
      by (auto simp: video_inv_def events_settled_def)
    with keep show ?thesis by blast
  next
    case False
    with published_only [OF h] that obtain x y where "c = CPublish x y ev" by blast
    with allowed obtain v where "phs ! i = Some v" "ev = uploaded_event lib v" by auto
    with now keep show ?thesis by (auto simp: uploaded_event_def)
  qed
  moreover have "settled w' (vid_id v)" if "Some v \<in> set (phs[i := video_next (phs ! i) c r])" for v
  proof (cases "Some v \<in> set phs")
    case True
    with inv keep show ?thesis by (auto simp: video_inv_def)
  next
    case False
    with that set_update_subset_insert have "video_next (phs ! i) c r = Some v" by fastforce
    moreover have "phs ! i \<noteq> Some v" using False i by (metis nth_mem)
    ultimately have "c = CVideoSave v" "r_error r = None" by (cases c; auto split: if_splits)+
    with allowed h show ?thesis by (auto intro: saved_settled)
  qed
  ultimately show ?thesis by (simp add: video_inv_def events_settled_def)
qed

interpretation video_writes: typestate upload_handle "video_allows lib" video_next "\<lambda>_ _. True" None "video_inv lib" for lib
proof unfold_locales
  show "video_inv lib w (phs @ [None])" if "video_inv lib w phs" for w phs
    using that by (simp add: video_inv_def)
qed (simp add: video_inv_step)

section \<open>The requests follow it\<close>

lemma new_parts_follow: "(\<And>ps. video_follows lib (k ps) ph) \<Longrightarrow> video_follows lib (new_parts sid ns k) ph"
  by (induction ns arbitrary: k) (auto simp: uuid_new_def)

lemma init_chunked_follows: "video_follows lib (init_chunked_upload lib cfg req) ph"
  by (auto simp: init_chunked_upload_def init_session_def store_session_def upload_call_defs Let_def
      intro!: new_parts_follow split: option.splits sum.splits)

lemma janitor_follows:
  "(\<And>ph. video_follows lib k ph) \<Longrightarrow> video_follows lib (process_videos lib vs k) ph"
  "video_follows lib k ph \<Longrightarrow> video_follows lib (expire_sessions ss k) ph"
  "video_follows lib (janitor_tick lib cfg) ph"
proof -
  show v: "(\<And>ph. video_follows lib k ph) \<Longrightarrow> video_follows lib (process_videos lib vs k) ph" for k :: "'x upload_prog" and vs ph
    by (induction vs arbitrary: ph) (auto simp: process_video_def upload_call_defs Let_def split: sum.splits)
  show e: "video_follows lib k ph \<Longrightarrow> video_follows lib (expire_sessions ss k) ph" for k :: "'x upload_prog" and ss ph
    by (induction ss) (auto simp: upload_call_defs)
  have "video_follows lib (run_session_batch cfg (Return ())) ph" for ph
    by (auto simp: run_session_batch_def time_now_def list_expired_active_sessions_def intro!: e split: sum.splits)
  then show "video_follows lib (janitor_tick lib cfg) ph"
    by (auto simp: janitor_tick_def run_batch_def time_now_def video_list_expired_pending_def intro!: v split: sum.splits)
qed

lemma requests_follow_video:
  assumes "p \<in> upload_requests lib store cfg"
  shows "video_follows lib p None"
proof -
  have "video_follows lib (run_session_batch cfg (Return True)) None"
    by (auto simp: run_session_batch_def time_now_def list_expired_active_sessions_def intro!: janitor_follows(2) split: sum.splits)
  moreover have "video_follows lib (complete_session lib i) None" for i
    by (auto simp: complete_session_def complete_locked_def complete_stored_def upload_call_defs
        publish_uploaded_event_def Let_def split: sum.splits option.splits)
  moreover have "video_follows lib (abort_session lib i) None" "video_follows lib (get_session lib i) None"
    "video_follows lib (get_part_url lib cfg i n) None" "video_follows lib (confirm_part lib i n e) None" for i n e
    by (auto simp: abort_session_def get_session_def get_part_url_def confirm_part_def upload_call_defs Let_def
        split: sum.splits option.splits)
  moreover have "video_follows lib (init_upload lib store cfg req) None" for req
    by (auto simp: init_upload_def upload_call_defs Let_def split: sum.splits option.splits)
  moreover have "video_follows lib (complete_upload lib i) None" "video_follows lib (abort_upload lib i) None"
    "video_follows lib (get_video lib i) None" "video_follows lib (list_videos lib lreq) None" for i lreq
    by (auto simp: complete_upload_def abort_upload_def get_video_def list_videos_def publish_uploaded_event_def
        upload_call_defs Let_def split: sum.splits option.splits)
  ultimately show ?thesis
    using assms init_chunked_follows janitor_follows(3)
    by (auto simp: upload_requests_def session_requests_def follows_outcome follows_ignore_result)
qed

section \<open>What is announced was stored\<close>

text \<open>
  C22. No event is ahead of the database. Let any number of requests of the upload service (all eleven)
  and janitor ticks run interleaved call by call, with database, S3 and broker failing as they
  like: every published event names a video whose row is stored and is no longer 'pending_upload', at the time
  of the publication and for ever after. In particular nothing is announced whose update failed, and no
  request or janitor tick removes an announced row or makes it pending again.
\<close>
theorem announced_videos_settled:
  assumes "reachable upload_handle (upload_requests lib store cfg) w0 (ts, w)" and "uw_events w0 = []"
  shows "\<forall>ev\<in>set (uw_events w). \<exists>v. by_key vid_id (vid_id v) (uw_videos w) = Some v
    \<and> ev_video ev = ul_uuid_string lib (vid_id v) \<and> vid_status v \<noteq> PendingUpload"
proof -
  have "video_inv lib w0 []" using assms(2) by (simp add: video_inv_def events_settled_def)
  with video_writes.reachable_inv [OF assms(1)] requests_follow_video
  have "events_settled lib w" unfolding video_inv_def by blast
  moreover have "\<exists>v. by_key vid_id (vid_id v) (uw_videos w) = Some v \<and> i = vid_id v \<and> vid_status v \<noteq> PendingUpload"
    if "settled w i" for i
    using that by (auto simp: settled_def video_status_of_def dest: by_key_Some)
  ultimately show ?thesis unfolding events_settled_def by blast
qed

section \<open>An announced video that is stored as expired\<close>

text \<open>The SDK's answer for an object that is not there.\<close>

definition empty_bucket :: upload_env where
  "empty_bucket = demo_env\<lparr>ue_sdk_head := (\<lambda>_ _. Inl (Plain ''NoSuchKey''))\<rparr>"

definition overdue :: upload_world where
  "overdue = demo_world\<lparr>uw_ticks := 1\<rparr>"

text \<open>
  The janitor (0) lists the video and asks S3 before the object is there; the client (1) has the upload
  completed; then the janitor writes the row it has read.
\<close>

definition janitor_meets_client :: "bool upload_prog list" where
  "janitor_meets_client = [bind (janitor_tick demo_lib demo_cfg) (\<lambda>_. Return True), outcome (complete_upload demo_lib 7)]"

definition overtaking :: "(nat \<times> upload_env) list" where
  "overtaking = replicate 3 (0, empty_bucket) @ replicate 5 (1, demo_env) @ replicate 3 (0, demo_env)"

text \<open>
  The video is announced and the client was told of its success, but its row is 'expired' and has
  no size: the update of the janitor (like every update of the service) does not look at the
  status that it overwrites.
\<close>

lemma announced_video_expires:
  "\<exists>w. reachable upload_handle (upload_requests demo_lib (ue_storage demo_env) demo_cfg) overdue ([Return True, Return True], w)
     \<and> map ev_video (uw_events w) = [''7'']
     \<and> map (\<lambda>v. (vid_id v, vid_status v, vid_size v)) (uw_videos w) = [(7, Expired, None)]"
proof -
  let ?x = "run_sched upload_handle overtaking (janitor_meets_client, overdue)"
  have r: "reachable upload_handle (upload_requests demo_lib (ue_storage demo_env) demo_cfg) overdue ?x"
    by (rule reachable_schedule) (auto simp: janitor_meets_client_def upload_requests_def overtaking_def list_all_iff)
  have "map result_of (fst ?x) = map Some [True, True]"
    and w: "map ev_video (uw_events (snd ?x)) = [''7'']"
      "map (\<lambda>v. (vid_id v, vid_status v, vid_size v)) (uw_videos (snd ?x)) = [(7, Expired, None)]"
    by code_simp+
  then have "fst ?x = map Return [True, True]" by (intro all_returned)
  then have "?x = ([Return True, Return True], snd ?x)" by (simp add: prod_eq_iff)
  with r w show ?thesis by (intro exI [of _ "snd ?x"] conjI) simp_all
qed

theorem announced_videos_settled_witness:
  "list_all (\<lambda>ev. \<exists>v. by_key vid_id (vid_id v) (uw_videos (snd (run_sched upload_handle overtaking (janitor_meets_client, overdue)))) = Some v
       \<and> ev_video ev = ul_uuid_string demo_lib (vid_id v) \<and> vid_status v \<noteq> PendingUpload)
     (uw_events (snd (run_sched upload_handle overtaking (janitor_meets_client, overdue))))"
proof -
  obtain ts w where x: "run_sched upload_handle overtaking (janitor_meets_client, overdue) = (ts, w)"
    by (cases "run_sched upload_handle overtaking (janitor_meets_client, overdue)")
  have "reachable upload_handle (upload_requests demo_lib (ue_storage demo_env) demo_cfg) overdue
      (run_sched upload_handle overtaking (janitor_meets_client, overdue))"
    by (rule reachable_schedule) (auto simp: janitor_meets_client_def upload_requests_def overtaking_def list_all_iff)
  moreover have "uw_events overdue = []" by (simp add: overdue_def demo_world_def)
  ultimately have "\<forall>ev\<in>set (uw_events w). \<exists>v. by_key vid_id (vid_id v) (uw_videos w) = Some v
      \<and> ev_video ev = ul_uuid_string demo_lib (vid_id v) \<and> vid_status v \<noteq> PendingUpload"
    unfolding x by (rule announced_videos_settled)
  then show ?thesis unfolding x list_all_iff snd_conv .
qed

section \<open>Aborting and completing in any status\<close>

text \<open>
  \<open>AbortUpload\<close> is guarded by 'aborted' only: the object of an uploaded and announced video is deleted
  as well, and its row keeps the size and the time of the upload. A failure of S3 does not stop it.
\<close>

lemma abort_upload_any_status:
  fixes lib :: upload_lib
  assumes "by_key vid_id i (uw_videos w) = Some v" and "vid_status v \<noteq> Aborted" and "db_ok env"
  defines "out \<equiv> run (upload_handle env) (abort_upload lib i) w"
  shows "fst out = Inr \<lparr>ar_id = ul_uuid_string lib i, ar_status = video_status_str Aborted\<rparr>
    \<and> by_key vid_id i (uw_videos (snd out)) =
        Some (v\<lparr>vid_status := Aborted, vid_updated_at := ue_clock env (uw_ticks w)\<rparr>)
    \<and> uw_s3 (snd out) = uw_s3 w @
        (if s3_delete_object (ue_sdk_delete env) (ue_storage env) (vid_object_key v) = None then [S3Deleted (vid_object_key v)] else [])
    \<and> uw_events (snd out) = uw_events w"
  using assms by_key_Some [OF assms(1)]
  by (auto simp: out_def abort_upload_def upload_call_defs first_row_def by_key_def [symmetric] db_exec_def
      tick_def log_s3_def sql_video_save_def by_key_save split: option.splits)

text \<open>A second request changes nothing and gets the same answer.\<close>

lemma abort_upload_again:
  assumes "by_key vid_id i (uw_videos w) = Some v" and "vid_status v = Aborted" and "db_ok env"
  shows "run (upload_handle env) (abort_upload lib i) w =
    (Inr \<lparr>ar_id = ul_uuid_string lib i, ar_status = video_status_str Aborted\<rparr>, w)"
  using assms by (simp add: abort_upload_def upload_call_defs first_row_def by_key_def [symmetric])

text \<open>An aborted or expired video becomes uploaded, and is announced, if its object is (still) there.\<close>

lemma complete_upload_revives:
  fixes lib :: upload_lib
  assumes "by_key vid_id i (uw_videos w) = Some v" and "vid_status v \<noteq> Uploaded" and "store_ok env" and "in_store env v"
  defines "out \<equiv> run (upload_handle env) (complete_upload lib i) w"
  shows "\<not> isl (fst out) \<and> video_status_of i (snd out) = Some Uploaded
    \<and> map ev_video (uw_events (snd out)) = map ev_video (uw_events w) @ [ul_uuid_string lib i]"
  using assms by_key_Some [OF assms(1)]
  by (auto simp: out_def complete_upload_def publish_uploaded_event_def upload_call_defs first_row_def
      by_key_def [symmetric] db_exec_def tick_def sql_video_save_def by_key_save store_ok_def in_store_def
      video_status_of_def uploaded_event_def Let_def split: option.splits sum.splits)

end
