(* ===== verification/Tracing.thy ===== *)
theory Tracing
  imports Program AppErrors
begin

text \<open>
  pkg/trace and pkg/logger: how the trace of a request follows it over HTTP, the outbox and RabbitMQ. The
  OpenTelemetry library is a parameter: a propagator writes fields into a carrier and reads them back.
  The carriers are the program's: AMQP headers and string maps. Exporters, samplers and the clocks of spans
  are the library's.
\<close>

section \<open>Carriers\<close>

text \<open>An AMQP table; only its string values can be read.\<close>

datatype header_value = HText string | HOther

type_synonym amqp_headers = "string \<rightharpoonup> header_value"

definition amqp_get :: "amqp_headers \<Rightarrow> string \<Rightarrow> string" where
  "amqp_get c key = (case c key of Some (HText s) \<Rightarrow> s | _ \<Rightarrow> '''')"

definition amqp_set :: "string \<Rightarrow> string \<Rightarrow> amqp_headers \<Rightarrow> amqp_headers" where
  "amqp_set key v c = c(key \<mapsto> HText v)"

definition amqp_keys :: "amqp_headers \<Rightarrow> string set" where
  "amqp_keys c = dom c"

type_synonym map_carrier = "string \<rightharpoonup> string"

definition map_get :: "map_carrier \<Rightarrow> string \<Rightarrow> string" where
  "map_get m key = (case m key of Some s \<Rightarrow> s | None \<Rightarrow> '''')"

definition map_set :: "string \<Rightarrow> string \<Rightarrow> map_carrier \<Rightarrow> map_carrier" where
  "map_set key v m = m(key \<mapsto> v)"

definition map_keys :: "map_carrier \<Rightarrow> string set" where
  "map_keys m = dom m"

text \<open>What a propagator does to a carrier: it sets its fields, one after the other.\<close>

definition set_fields :: "(string \<Rightarrow> string \<Rightarrow> 'c \<Rightarrow> 'c) \<Rightarrow> (string \<times> string) list \<Rightarrow> 'c \<Rightarrow> 'c" where
  "set_fields set_field kvs c = fold (\<lambda>(k, v). set_field k v) kvs c"

definition field :: "(string \<times> string) list \<Rightarrow> string \<Rightarrow> string" where
  "field kvs k = (case map_of kvs k of Some v \<Rightarrow> v | None \<Rightarrow> '''')"

text \<open>The contract of OpenTelemetry's \<open>TextMapCarrier\<close>.\<close>

locale text_map_carrier =
  fixes get :: "'c \<Rightarrow> string \<Rightarrow> string" and set_field :: "string \<Rightarrow> string \<Rightarrow> 'c \<Rightarrow> 'c" and keys :: "'c \<Rightarrow> string set"
    and fresh :: 'c
  assumes get_set: "get (set_field k v c) k' = (if k' = k then v else get c k')"
    and keys_set: "keys (set_field k v c) = insert k (keys c)"
    and get_fresh: "get fresh k = ''''" and keys_fresh: "keys fresh = {}"
begin

lemma get_fields: "distinct (map fst kvs) \<Longrightarrow>
  get (set_fields set_field kvs c) k = (case map_of kvs k of Some v \<Rightarrow> v | None \<Rightarrow> get c k)"
proof (induction kvs arbitrary: c)
  case (Cons kv kvs)
  obtain k' v' where kv: "kv = (k', v')" by (cases kv)
  from Cons.prems have n: "map_of kvs k' = None" by (simp add: kv map_of_eq_None_iff)
  have "get (set_fields set_field (kv # kvs) c) k = (case map_of kvs k of Some v \<Rightarrow> v | None \<Rightarrow> get (set_field k' v' c) k)"
    using Cons by (simp add: set_fields_def kv)
  then show ?case by (auto simp: get_set kv n split: option.splits)
qed (simp add: set_fields_def)

lemma get_injected: "distinct (map fst kvs) \<Longrightarrow> get (set_fields set_field kvs fresh) = field kvs"
  by (rule ext) (simp add: get_fields get_fresh field_def split: option.splits)

lemma keys_injected: "keys (set_fields set_field kvs c) = fst ` set kvs \<union> keys c"
  by (induction kvs arbitrary: c) (auto simp: set_fields_def keys_set)

end

interpretation amqp_carrier: text_map_carrier amqp_get amqp_set amqp_keys Map.empty
  by unfold_locales (auto simp: amqp_get_def amqp_set_def amqp_keys_def)

interpretation map_carrier: text_map_carrier map_get map_set map_keys Map.empty
  by unfold_locales (auto simp: map_get_def map_set_def map_keys_def)

section \<open>Injecting and extracting\<close>

text \<open>
  The propagator that is installed. \<open>pg_restore c0 c\<close> is the context that results when the trace of
  \<open>c\<close> is restored into \<open>c0\<close>; \<open>propagator_ok\<close> is OpenTelemetry's promise that reading the fields does so.
\<close>

record 'ctx propagator =
  pg_fields :: "'ctx \<Rightarrow> (string \<times> string) list"
  pg_extract :: "'ctx \<Rightarrow> (string \<Rightarrow> string) \<Rightarrow> 'ctx"
  pg_restore :: "'ctx \<Rightarrow> 'ctx \<Rightarrow> 'ctx"

definition propagator_ok :: "'ctx propagator \<Rightarrow> bool" where
  "propagator_ok pg \<longleftrightarrow> (\<forall>c. distinct (map fst (pg_fields pg c)))
     \<and> (\<forall>c0 c. pg_extract pg c0 (field (pg_fields pg c)) = pg_restore pg c0 c)"

definition inject_amqp :: "'ctx propagator \<Rightarrow> 'ctx \<Rightarrow> amqp_headers \<Rightarrow> amqp_headers" where
  "inject_amqp pg ctx headers = set_fields amqp_set (pg_fields pg ctx) headers"

definition extract_amqp :: "'ctx propagator \<Rightarrow> 'ctx \<Rightarrow> amqp_headers \<Rightarrow> 'ctx" where
  "extract_amqp pg ctx headers = pg_extract pg ctx (amqp_get headers)"

definition inject_map :: "'ctx propagator \<Rightarrow> 'ctx \<Rightarrow> map_carrier" where
  "inject_map pg ctx = set_fields map_set (pg_fields pg ctx) Map.empty"

definition extract_map :: "'ctx propagator \<Rightarrow> 'ctx \<Rightarrow> map_carrier \<Rightarrow> 'ctx" where
  "extract_map pg ctx m = pg_extract pg ctx (map_get m)"

text \<open>
  The way of a trace: the service stores it with the outbox event (notification_service.go), the outbox
  worker restores it, starts a child span and publishes (outbox_worker.go: it keeps its own context
  when the stored map is empty), and the consumer loop restores it from the headers (rabbitmq.go).
\<close>

definition outbox_context :: "'ctx propagator \<Rightarrow> 'ctx \<Rightarrow> map_carrier \<Rightarrow> 'ctx" where
  "outbox_context pg worker_ctx stored = (if stored = Map.empty then worker_ctx else extract_map pg worker_ctx stored)"


text \<open>A propagator with one field, for contexts that are the text of a trace.\<close>

definition trace_parent :: "string propagator" where
  "trace_parent = \<lparr>pg_fields = (\<lambda>c. [(''traceparent'', c)]),
     pg_extract = (\<lambda>c0 get. if get ''traceparent'' = '''' then c0 else get ''traceparent''),
     pg_restore = (\<lambda>c0 c. if c = '''' then c0 else c)\<rparr>"


section \<open>Contexts\<close>

text \<open>
  The values the code keeps in a \<open>context.Context\<close>: each package has its own key type, so keys of
  different packages never meet (pkg/logger/context.go, pkg/auth/context.go).
\<close>

datatype ctx_key = LoggerKey string | AuthKey string

datatype 'c ctx_value = VText string | VClaims 'c

type_synonym 'c go_context = "(ctx_key \<times> 'c ctx_value) list"

definition with_trace_id :: "'c go_context \<Rightarrow> string \<Rightarrow> 'c go_context" where
  "with_trace_id ctx trace_id = (LoggerKey ''trace_id'', VText trace_id) # ctx"

definition with_request_id :: "'c go_context \<Rightarrow> string \<Rightarrow> 'c go_context" where
  "with_request_id ctx request_id = (LoggerKey ''request_id'', VText request_id) # ctx"

text \<open>The fields \<open>FromContext\<close> adds to the logger.\<close>

definition from_context :: "'c go_context \<Rightarrow> (string \<times> string) list" where
  "from_context ctx =
     (case map_of ctx (LoggerKey ''trace_id'') of Some (VText t) \<Rightarrow> [(''trace_id'', t)] | _ \<Rightarrow> [])
     @ (case map_of ctx (LoggerKey ''request_id'') of Some (VText t) \<Rightarrow> [(''request_id'', t)] | _ \<Rightarrow> [])"

definition with_user :: "'c go_context \<Rightarrow> 'c \<Rightarrow> 'c go_context" where
  "with_user ctx claims = (AuthKey ''user_claims'', VClaims claims) # ctx"

definition current_user :: "'c go_context \<Rightarrow> 'c option" where
  "current_user ctx = (case map_of ctx (AuthKey ''user_claims'') of Some (VClaims c) \<Rightarrow> Some c | _ \<Rightarrow> None)"

lemma context_values:
  "current_user (with_user ctx claims) = Some claims"
  "current_user (with_trace_id ctx t) = current_user ctx"
  "from_context (with_user ctx claims) = from_context ctx"
  "from_context (with_trace_id (with_request_id ctx r) t) = [(''trace_id'', t), (''request_id'', r)]"
  by (simp_all add: with_user_def current_user_def with_trace_id_def with_request_id_def from_context_def)

section \<open>pkg/logger/logger.go\<close>

text \<open>The fields every entry of the global logger has.\<close>

definition logger_fields :: "string \<Rightarrow> string \<Rightarrow> (string \<times> string) list" where
  "logger_fields service env = (''service'', service) # (if env \<noteq> '''' then [(''env'', env)] else [])"

section \<open>pkg/logger/gin_middelware.go\<close>

text \<open>
  The trace id is the caller's, or a fresh one. \<open>chain\<close> is the rest of the handlers, which answer with a status or
  panic; \<open>errors_of\<close> are the errors Gin has collected by then. An entry is logged per error, or one for the
  request; a panic passes by.
\<close>

datatype log_entry = GinError string | HttpRequest int

type_synonym access_log = "((string \<times> string) list \<times> log_entry) list"

definition request_trace_id :: "string \<Rightarrow> string \<Rightarrow> string" where
  "request_trace_id header fresh_id = (if header = '''' then fresh_id else header)"

definition gin_middleware ::
  "('s \<Rightarrow> string list) \<Rightarrow> string \<Rightarrow> string \<Rightarrow> 'c go_context \<Rightarrow> ('c go_context \<Rightarrow> 's \<Rightarrow> int outcome \<times> 's)
     \<Rightarrow> access_log \<times> 's \<Rightarrow> int outcome \<times> access_log \<times> 's" where
  "gin_middleware errors_of header fresh_id ctx chain ls =
     (let ctx' = with_trace_id ctx (request_trace_id header fresh_id);
          tag = from_context ctx'
      in case chain ctx' (snd ls) of
           (Panicked msg, s') \<Rightarrow> (Panicked msg, fst ls, s')
         | (Returned status, s') \<Rightarrow>
             (Returned status,
              fst ls @ (if errors_of s' \<noteq> [] then map (\<lambda>e. (tag, GinError e)) (errors_of s') else [(tag, HttpRequest status)]), s'))"

section \<open>pkg/trace: the server span\<close>

text \<open>
  The name of the span of a request. The comparison with a single space is meant for a request without a
  route, whose full path is empty; but its method is not, so the name is the method and a space, and
  the path is never used.
\<close>

definition span_name :: "string \<Rightarrow> string \<Rightarrow> string \<Rightarrow> string" where
  "span_name http_method full_path url_path =
     (let n = http_method @ '' '' @ full_path in if n = '' '' then http_method @ '' '' @ url_path else n)"

definition span_failed :: "int \<Rightarrow> bool" where
  "span_failed status \<longleftrightarrow> status \<ge> 500"

lemma span_name_ignores_path: "http_method \<noteq> '''' \<Longrightarrow> span_name http_method '''' url_path = http_method @ '' ''"
  by (cases http_method) (simp_all add: span_name_def Let_def)

text \<open>What the middleware reads of a request; \<open>tq_header\<close> is the carrier of its headers.\<close>

record traced_request =
  tq_method :: string
  tq_route :: string
  tq_path :: string
  tq_ip :: string
  tq_agent :: string
  tq_header :: "string \<Rightarrow> string"

record 'ctx span =
  sp_name :: string
  sp_kind :: string
  sp_parent :: 'ctx
  sp_attributes :: "(string \<times> string) list"
  sp_status :: "int option"
  sp_error :: bool

definition server_span :: "'ctx \<Rightarrow> traced_request \<Rightarrow> 'ctx span" where
  "server_span parent req =
     \<lparr>sp_name = span_name (tq_method req) (tq_route req) (tq_path req), sp_kind = ''server'', sp_parent = parent,
      sp_attributes = [(''http.request.method'', tq_method req), (''http.route'', tq_route req), (''url.path'', tq_path req),
                       (''network.peer.address'', tq_ip req), (''http.user_agent'', tq_agent req)],
      sp_status = None, sp_error = False\<rparr>"

text \<open>
  \<open>start\<close> is the context the library makes of its parent when a span is started. The list holds the spans that
  have ended: \<open>defer span.End()\<close> ends one when the handlers panic, too.
\<close>

definition tracer_middleware ::
  "'ctx propagator \<Rightarrow> ('ctx \<Rightarrow> 'ctx) \<Rightarrow> traced_request \<Rightarrow> 'ctx \<Rightarrow> ('ctx \<Rightarrow> 's \<Rightarrow> int outcome \<times> 's)
     \<Rightarrow> 'ctx span list \<times> 's \<Rightarrow> int outcome \<times> 'ctx span list \<times> 's" where
  "tracer_middleware pg start req ctx chain ss =
     (let parent = pg_extract pg ctx (tq_header req); span = server_span parent req in
      case chain (start parent) (snd ss) of
        (Panicked msg, s') \<Rightarrow> (Panicked msg, fst ss @ [span], s')
      | (Returned status, s') \<Rightarrow>
          (Returned status, fst ss @ [span\<lparr>sp_status := Some status, sp_error := span_failed status\<rparr>], s'))"

section \<open>pkg/trace: the set-up\<close>

text \<open>
  The library builds the exporter and the resource; the provider and the propagators are global. Before
  they are set, both do nothing.
\<close>

record ('e, 'r) otel_lib =
  ol_exporter :: "string \<Rightarrow> goerr + 'e"
  ol_resource :: "(string \<times> string) list \<Rightarrow> goerr + 'r"

record ('e, 'r) tracer_provider =
  tv_batcher :: 'e
  tv_resource :: 'r
  tv_always_sample :: bool

datatype propagation = TraceContext | Baggage

record ('e, 'r) otel_globals =
  og_provider :: "('e, 'r) tracer_provider option"
  og_propagators :: "propagation list"

definition init_tracer ::
  "('e, 'r) otel_lib \<Rightarrow> string \<Rightarrow> string \<Rightarrow> ('e, 'r) otel_globals
     \<Rightarrow> (goerr + ('e, 'r) tracer_provider) \<times> ('e, 'r) otel_globals" where
  "init_tracer ol service_name collector_url g =
     (case ol_exporter ol (collector_url @ ''/v1/traces'') of
        Inl err \<Rightarrow> (Inl err, g)
      | Inr exporter \<Rightarrow>
          (case ol_resource ol [(''service.name'', service_name), (''library.language'', ''go'')] of
             Inl err \<Rightarrow> (Inl err, g)
           | Inr res \<Rightarrow>
               (let tp = \<lparr>tv_batcher = exporter, tv_resource = res, tv_always_sample = True\<rparr> in
                (Inr tp, g\<lparr>og_provider := Some tp, og_propagators := [TraceContext, Baggage]\<rparr>))))"

text \<open>The result says whether \<open>Setup\<close> returns the shutdown of a provider or a function that does nothing.\<close>

definition trace_setup ::
  "('e, 'r) otel_lib \<Rightarrow> string \<Rightarrow> bool \<Rightarrow> string \<Rightarrow> ('e, 'r) otel_globals
     \<Rightarrow> ('e, 'r) tracer_provider option \<times> ('e, 'r) otel_globals" where
  "trace_setup ol service_name enabled endpoint g =
     (if \<not> enabled then (None, g)
      else if endpoint = '''' then (None, g)
      else (case init_tracer ol service_name endpoint g of
              (Inl _, g') \<Rightarrow> (None, g')
            | (Inr tp, g') \<Rightarrow> (Some tp, g')))"

text \<open>
  Tracing is all or nothing: a provider that has to be shut down is the one that was installed, together with the
  propagators; in every other case the globals are as they were, and the service runs without.
\<close>

lemma setup_all_or_nothing:
  assumes "trace_setup ol service_name enabled endpoint g = (tp, g')"
  shows "(case tp of None \<Rightarrow> g' = g
     | Some p \<Rightarrow> enabled \<and> endpoint \<noteq> '''' \<and> g' = g\<lparr>og_provider := Some p, og_propagators := [TraceContext, Baggage]\<rparr>)"
  using assms by (auto simp: trace_setup_def init_tracer_def Let_def split: if_splits sum.splits)


end
