(* ===== verification/Observers.thy ===== *)
theory Observers
  imports Tracing
begin

text \<open>
  What watches the services: the logger of GORM (pkg/db/gorm_logger.go), the HTTP logger
  (pkg/logger/middleware.go) and the Prometheus middlewares of the identity and the notification
  service. Only what they record is modelled, not how it is encoded.
\<close>

section \<open>pkg/db/gorm_logger.go\<close>

text \<open>GORM's levels, in the order of their numbers.\<close>

datatype gorm_level = Silent | LvError | LvWarn | LvInfo

fun level_number :: "gorm_level \<Rightarrow> int" where
  "level_number Silent = 1"
| "level_number LvError = 2"
| "level_number LvWarn = 3"
| "level_number LvInfo = 4"

instantiation gorm_level :: linorder
begin

definition less_eq_gorm_level :: "gorm_level \<Rightarrow> gorm_level \<Rightarrow> bool" where
  "less_eq_gorm_level a b \<longleftrightarrow> level_number a \<le> level_number b"

definition less_gorm_level :: "gorm_level \<Rightarrow> gorm_level \<Rightarrow> bool" where
  "less_gorm_level a b \<longleftrightarrow> level_number a < level_number b"

instance
proof
  show "a = b" if "a \<le> b" "b \<le> a" for a b :: gorm_level
    using that by (cases a; cases b) (simp_all add: less_eq_gorm_level_def)
qed (auto simp: less_eq_gorm_level_def less_gorm_level_def)

end

record zap_gorm_logger =
  zg_level :: gorm_level

  zg_slow :: duration
  zg_ignore_not_found :: bool

definition new_zap_gorm_logger :: zap_gorm_logger where
  "new_zap_gorm_logger = \<lparr>zg_level = LvInfo, zg_slow = 200 * (second div 1000), zg_ignore_not_found = True\<rparr>"

definition log_mode :: "zap_gorm_logger \<Rightarrow> gorm_level \<Rightarrow> zap_gorm_logger" where
  "log_mode l level = l\<lparr>zg_level := level\<rparr>"

text \<open>Whether \<open>Info\<close>, \<open>Warn\<close> and \<open>Error\<close> write.\<close>

definition gorm_writes :: "zap_gorm_logger \<Rightarrow> gorm_level \<Rightarrow> bool" where
  "gorm_writes l level \<longleftrightarrow> level \<le> zg_level l"

datatype query_log = QueryError goerr | SlowQuery | Query

definition gorm_trace :: "zap_gorm_logger \<Rightarrow> duration \<Rightarrow> goerr option \<Rightarrow> query_log option" where
  "gorm_trace l elapsed err =
     (if zg_level l \<le> Silent then None
      else if (case err of None \<Rightarrow> False | Some e \<Rightarrow> \<not> (zg_ignore_not_found l \<and> errors_is e ErrRecordNotFound))
      then Some (QueryError (the err))
      else if elapsed > zg_slow l \<and> zg_slow l > 0 \<and> LvWarn \<le> zg_level l
      then Some SlowQuery
      else if LvInfo \<le> zg_level l then Some Query
      else None)"

text \<open>
  The logger that the connections are opened with writes every statement; a row that is not found is no
  error of it.
\<close>

lemma default_logger_writes:
  "gorm_trace new_zap_gorm_logger elapsed err \<noteq> None"
  "gorm_trace new_zap_gorm_logger elapsed (Some (Sentinel ErrRecordNotFound)) \<noteq> Some (QueryError e)"
  "gorm_trace (log_mode l Silent) elapsed err = None"
  by (simp_all add: gorm_trace_def new_zap_gorm_logger_def log_mode_def less_eq_gorm_level_def)

section \<open>pkg/logger/middleware.go\<close>

text \<open>
  The status that is logged is the last one the handler wrote, and 200 if it wrote none. \<open>chain\<close> is the
  handler: the codes it passes to \<open>WriteHeader\<close>.
\<close>

definition http_logger :: "string \<Rightarrow> 'c go_context \<Rightarrow> ('c go_context \<Rightarrow> int list) \<Rightarrow> (string \<times> string) list \<times> int" where
  "http_logger fresh_id ctx chain =
     (let ctx' = with_trace_id ctx fresh_id;
          status = fold (\<lambda>code _. code) (chain ctx') 200
      in (from_context ctx', status))"

section \<open>The Prometheus middlewares\<close>

text \<open>
  The two middlewares record the same: the gauge of requests in flight, a counter by method, route and
  status, and a histogram by method and route. The counters are kept as the lists of the labels they
  were incremented for.
\<close>

record http_metrics =
  hm_in_flight :: int
  hm_requests :: "(string \<times> string \<times> int) list"
  hm_durations :: "(string \<times> string) list"

text \<open>
  A handler answers with a status or panics. A panic leaves the middleware where it calls \<open>c.Next()\<close>.
\<close>

definition prometheus_middleware ::
  "string \<Rightarrow> string \<Rightarrow> string \<Rightarrow> ('s \<Rightarrow> int outcome \<times> 's) \<Rightarrow> http_metrics \<times> 's \<Rightarrow> int outcome \<times> http_metrics \<times> 's" where
  "prometheus_middleware http_method url_path full_path chain ms =
     (let m = fst ms; s = snd ms in
      if url_path = ''/metrics'' then (case chain s of (r, s') \<Rightarrow> (r, m, s'))
      else
        (let m1 = m\<lparr>hm_in_flight := hm_in_flight m + 1\<rparr> in
         case chain s of
           (Panicked msg, s') \<Rightarrow> (Panicked msg, m1, s')
         | (Returned status, s') \<Rightarrow>
             (let path = (if full_path = '''' then ''unknown'' else full_path) in
              (Returned status,
               m1\<lparr>hm_in_flight := hm_in_flight m1 - 1,
                  hm_requests := hm_requests m1 @ [(http_method, path, status)],
                  hm_durations := hm_durations m1 @ [(http_method, path)]\<rparr>, s'))))"

text \<open>The middleware of the notification service, on its own counters.\<close>

definition notification_prometheus_middleware ::
  "string \<Rightarrow> string \<Rightarrow> string \<Rightarrow> ('s \<Rightarrow> int outcome \<times> 's) \<Rightarrow> http_metrics \<times> 's \<Rightarrow> int outcome \<times> http_metrics \<times> 's" where
  "notification_prometheus_middleware = prometheus_middleware"

text \<open>\<open>gin.Recovery\<close> stands before it (cmd/main.go, route.go) and answers a panic with 500.\<close>

definition recovery :: "('m \<Rightarrow> int outcome \<times> 'm) \<Rightarrow> 'm \<Rightarrow> int \<times> 'm" where
  "recovery chain m = (case chain m of (Panicked _, m') \<Rightarrow> (500, m') | (Returned status, m') \<Rightarrow> (status, m'))"

record 's http_request =
  hr_method :: string
  hr_url :: string
  hr_route :: string
  hr_handler :: "'s \<Rightarrow> int outcome \<times> 's"

definition serve_request :: "'s http_request \<Rightarrow> http_metrics \<times> 's \<Rightarrow> int \<times> http_metrics \<times> 's" where
  "serve_request req = recovery (prometheus_middleware (hr_method req) (hr_url req) (hr_route req) (hr_handler req))"

fun serve_requests :: "'s http_request list \<Rightarrow> http_metrics \<times> 's \<Rightarrow> int list \<times> http_metrics \<times> 's" where
  "serve_requests [] x = ([], x)"
| "serve_requests (req # reqs) x =
     (case serve_request req x of (status, x') \<Rightarrow> (case serve_requests reqs x' of (ss, x'') \<Rightarrow> (status # ss, x'')))"

text \<open>How many of the requests panic, on the states they meet.\<close>

fun panics :: "'s http_request list \<Rightarrow> 's \<Rightarrow> nat" where
  "panics [] s = 0"
| "panics (req # reqs) s =
     (case hr_handler req s of (r, s') \<Rightarrow> (case r of Panicked _ \<Rightarrow> 1 | Returned _ \<Rightarrow> 0) + panics reqs s')"

text \<open>
  After all requests have been answered the gauge of requests in flight should be where it was. It is higher by
  the number of requests that panicked, and just these are missing from the counter, although the
  comment on the notification service's middleware says that they are counted.
\<close>

lemma in_flight_counts_panics:
  assumes "list_all (\<lambda>req. hr_url req \<noteq> ''/metrics'') reqs" and "serve_requests reqs (m, s) = (ss, m', s')"
  shows "hm_in_flight m' = hm_in_flight m + int (panics reqs s)"
    and "length (hm_requests m') + panics reqs s = length (hm_requests m) + length reqs"
    and "length (hm_durations m') + panics reqs s = length (hm_durations m) + length reqs"
  using assms
  by (induction reqs arbitrary: m s ss)
    (auto simp: serve_request_def recovery_def prometheus_middleware_def Let_def split: prod.splits outcome.splits)

end
