(* ===== verification/HttpChain.thy ===== *)
theory HttpChain
  imports Observers
begin

text \<open>
  The middlewares of the three servers, in the order cmd/main.go and route.go install them, around a handler that
  answers with a status or panics: what a request leaves in the access log, in the traces and in the
  metrics. The limiters and the authentication of single routes are in theories Routes and Auth.
\<close>

section \<open>The servers\<close>

text \<open>
  A handler gets the request's context: the values of the program's packages and the context of the
  tracing library.
\<close>

type_synonym ('c, 'ctx, 's) handler = "'c go_context \<Rightarrow> 'ctx \<Rightarrow> 's \<Rightarrow> int outcome \<times> 's"

definition notification_server ::
  "'ctx propagator \<Rightarrow> ('ctx \<Rightarrow> 'ctx) \<Rightarrow> ('s \<Rightarrow> string list) \<Rightarrow> traced_request \<Rightarrow> string \<Rightarrow> 'c go_context \<Rightarrow> 'ctx
     \<Rightarrow> ('c, 'ctx, 's) handler \<Rightarrow> access_log \<times> 'ctx span list \<times> http_metrics \<times> 's
     \<Rightarrow> int \<times> access_log \<times> 'ctx span list \<times> http_metrics \<times> 's" where
  "notification_server pg start errors_of req fresh_id ctx tctx handler =
     recovery (gin_middleware (\<lambda>(spans, m, s). errors_of s) (tq_header req ''X-Trace-ID'') fresh_id ctx (\<lambda>ctx'.
       tracer_middleware pg start req tctx (\<lambda>tctx'.
         notification_prometheus_middleware (tq_method req) (tq_path req) (tq_route req) (handler ctx' tctx'))))"

definition upload_server ::
  "'ctx propagator \<Rightarrow> ('ctx \<Rightarrow> 'ctx) \<Rightarrow> ('s \<Rightarrow> string list) \<Rightarrow> traced_request \<Rightarrow> string \<Rightarrow> 'c go_context \<Rightarrow> 'ctx
     \<Rightarrow> ('c, 'ctx, 's) handler \<Rightarrow> access_log \<times> 'ctx span list \<times> 's \<Rightarrow> int \<times> access_log \<times> 'ctx span list \<times> 's" where
  "upload_server pg start errors_of req fresh_id ctx tctx handler =
     recovery (gin_middleware (\<lambda>(spans, s). errors_of s) (tq_header req ''X-Trace-ID'') fresh_id ctx (\<lambda>ctx'.
       tracer_middleware pg start req tctx (handler ctx')))"

definition identity_server ::
  "('s \<Rightarrow> string list) \<Rightarrow> traced_request \<Rightarrow> string \<Rightarrow> 'c go_context \<Rightarrow> ('c, 'ctx, 's) handler \<Rightarrow> 'ctx
     \<Rightarrow> access_log \<times> http_metrics \<times> 's \<Rightarrow> int \<times> access_log \<times> http_metrics \<times> 's" where
  "identity_server errors_of req fresh_id ctx handler tctx =
     recovery (gin_middleware (\<lambda>(m, s). errors_of s) (tq_header req ''X-Trace-ID'') fresh_id ctx (\<lambda>ctx'.
       prometheus_middleware (tq_method req) (tq_path req) (tq_route req) (handler ctx' tctx)))"

section \<open>What a request leaves\<close>

definition logged_context :: "traced_request \<Rightarrow> string \<Rightarrow> 'c go_context \<Rightarrow> 'c go_context" where
  "logged_context req fresh_id ctx = with_trace_id ctx (request_trace_id (tq_header req ''X-Trace-ID'') fresh_id)"

definition metric_path :: "traced_request \<Rightarrow> string" where
  "metric_path req = (if tq_route req = '''' then ''unknown'' else tq_route req)"

definition counted_request :: "traced_request \<Rightarrow> int \<Rightarrow> http_metrics \<Rightarrow> http_metrics" where
  "counted_request req status m =
     m\<lparr>hm_requests := hm_requests m @ [(tq_method req, metric_path req, status)],
       hm_durations := hm_durations m @ [(tq_method req, metric_path req)]\<rparr>"

lemma recovery_simps [simp]:
  "chain m = (Panicked msg, m') \<Longrightarrow> recovery chain m = (500, m')"
  "chain m = (Returned status, m') \<Longrightarrow> recovery chain m = (status, m')"
  by (simp_all add: recovery_def)

lemma observe_metrics:
  assumes "tq_path req \<noteq> ''/metrics''" and "chain s = (r, s')"
  shows "prometheus_middleware (tq_method req) (tq_path req) (tq_route req) chain (m, s) =
    (case r of Panicked msg \<Rightarrow> (r, m\<lparr>hm_in_flight := hm_in_flight m + 1\<rparr>, s')
       | Returned status \<Rightarrow> (r, counted_request req status m, s'))"
  using assms by (simp add: prometheus_middleware_def counted_request_def metric_path_def Let_def split: outcome.splits)


definition demo_traced :: traced_request where
  "demo_traced = \<lparr>tq_method = ''GET'', tq_route = ''/api/v1/notifications'', tq_path = ''/api/v1/notifications'', tq_ip = ''::1'',
     tq_agent = '''', tq_header = (\<lambda>k. if k = ''traceparent'' then ''up'' else '''')\<rparr>"


text \<open>The upload service traces and logs the same way, the identity service logs and counts.\<close>

lemma upload_observed:
  assumes "parent = pg_extract pg tctx (tq_header req)" and "ctx' = logged_context req fresh_id ctx"
    and "handler ctx' (start parent) s = (r, s')" and "errors_of s' = []"
  shows "upload_server pg start errors_of req fresh_id ctx tctx handler (log, spans, s) =
    (case r of
       Returned status \<Rightarrow>
         (status, log @ [(from_context ctx', HttpRequest status)],
          spans @ [(server_span parent req)\<lparr>sp_status := Some status, sp_error := status \<ge> 500\<rparr>], s')
     | Panicked msg \<Rightarrow> (500, log, spans @ [server_span parent req], s'))"
  using assms(3,4)
  by (cases r) (simp_all add: upload_server_def recovery_def gin_middleware_def tracer_middleware_def Let_def span_failed_def
      assms(1,2) logged_context_def)

lemma identity_observed:
  assumes "ctx' = logged_context req fresh_id ctx" and "handler ctx' tctx s = (r, s')" and "errors_of s' = []"
    and "tq_path req \<noteq> ''/metrics''"
  shows "identity_server errors_of req fresh_id ctx handler tctx (log, m, s) =
    (case r of
       Returned status \<Rightarrow> (status, log @ [(from_context ctx', HttpRequest status)], counted_request req status m, s')
     | Panicked msg \<Rightarrow> (500, log, m\<lparr>hm_in_flight := hm_in_flight m + 1\<rparr>, s'))"
  using assms(3) observe_metrics [of req "handler ctx' tctx" s r s' m, OF assms(4,2)]
  by (cases r) (simp_all add: identity_server_def recovery_def gin_middleware_def Let_def assms(1) logged_context_def)

end
