(* ===== verification/Settings.thy ===== *)
theory Settings
  imports GoStrings Program
begin

text \<open>
  pkg/config, the configuration structures of the three services, and pkg/db: which environment variable
  sets which field, the connection string, and \<open>WithTx\<close>. Viper's files and GORM are not modelled.
\<close>

section \<open>pkg/config/config.go\<close>

text \<open>A field of a structure: its name, its \<open>mapstructure\<close> tag, and its own fields if it is a structure.\<close>

datatype config_field = ConfigField string "string option" "config_field list option"

definition field_key :: "string \<Rightarrow> string option \<Rightarrow> string" where
  "field_key name tag = (case tag of None \<Rightarrow> to_lower name | Some tv \<Rightarrow> tv)"

text \<open>\<open>strings.Join(parts, ".")\<close>\<close>

fun join_dots :: "string list \<Rightarrow> string" where
  "join_dots [] = ''''"
| "join_dots [p] = p"
| "join_dots (p # q # ps) = p @ ''.'' @ join_dots (q # ps)"

text \<open>The keys that \<open>bindEnvs\<close> binds, in order.\<close>

fun bind_envs :: "config_field list \<Rightarrow> string list \<Rightarrow> string list" where
  "bind_envs [] parts = []"
| "bind_envs (ConfigField name tag sub # fs) parts =
     (let tv = field_key name tag in
      (if tv = ''-'' then []
       else (case sub of
               Some ss \<Rightarrow> bind_envs ss (parts @ [tv])
             | None \<Rightarrow> [join_dots (parts @ [tv])]))
      @ bind_envs fs parts)"

definition upper_char :: "char \<Rightarrow> char" where
  "upper_char c = (let n = of_char c :: nat in if 97 \<le> n \<and> n \<le> 122 then char_of (n - 32) else c)"

text \<open>The variable of a key: upper case, and the replacer's underscores for dots.\<close>

definition underscores :: "string \<Rightarrow> string" where
  "underscores key = map (\<lambda>c. if c = CHR ''.'' then CHR ''_'' else c) key"

definition env_name :: "string \<Rightarrow> string" where
  "env_name key = map upper_char (underscores key)"

text \<open>No two names without capital letters are made equal by upper case.\<close>

definition is_capital :: "char \<Rightarrow> bool" where
  "is_capital c \<longleftrightarrow> (let n = of_char c :: nat in 65 \<le> n \<and> n \<le> 90)"

lemma upper_char_inj:
  assumes "upper_char c = upper_char d" and "\<not> is_capital c" and "\<not> is_capital d"
  shows "c = d"
proof -
  have u: "of_char (upper_char x) = (let n = of_char x :: nat in if 97 \<le> n \<and> n \<le> 122 then n - 32 else n)" for x
    by (auto simp: upper_char_def Let_def)
  define m n :: nat where "m = of_char c" and "n = of_char d"
  have "of_char (upper_char c) = (of_char (upper_char d) :: nat)" using assms(1) by simp
  then have "m = n"
    using assms(2,3) unfolding u is_capital_def Let_def m_def [symmetric] n_def [symmetric]
    by (simp split: if_splits; presburger)
  then show ?thesis by (simp add: m_def n_def)
qed

lemma upper_names_distinct:
  assumes "distinct ks" and "list_all (list_all (\<lambda>c. \<not> is_capital c)) ks"
  shows "distinct (map (map upper_char) ks)"
proof -
  have "inj_on (map upper_char) (set ks)"
  proof (rule inj_onI)
    fix xs ys assume "xs \<in> set ks" "ys \<in> set ks" and e: "map upper_char xs = map upper_char ys"
    then have n: "\<forall>c\<in>set xs. \<not> is_capital c" "\<forall>c\<in>set ys. \<not> is_capital c"
      using assms(2) by (auto simp: list_all_iff)
    from e n show "xs = ys"
    proof (induction xs arbitrary: ys)
      case (Cons x xs)
      then show ?case by (cases ys) (auto dest: upper_char_inj)
    qed simp
  qed
  with assms(1) show ?thesis by (simp add: distinct_map)
qed

text \<open>\<open>DefaultOptions\<close>: the name is given without its type.\<close>

record load_options =
  lo_name :: string
  lo_type :: string
  lo_paths :: "string list"
  lo_prefix :: string

definition default_options :: load_options where
  "default_options = \<lparr>lo_name = ''.env'', lo_type = ''env'', lo_paths = [''.'', ''./cmd''], lo_prefix = ''''\<rparr>"

section \<open>The configurations of the services\<close>

definition leaf :: "string \<Rightarrow> string \<Rightarrow> config_field" where
  "leaf name tag = ConfigField name (Some tag) None"

definition struct :: "string \<Rightarrow> string \<Rightarrow> config_field list \<Rightarrow> config_field" where
  "struct name tag fs = ConfigField name (Some tag) (Some fs)"

definition db_config :: "config_field list" where
  "db_config = [leaf ''Host'' ''host'', leaf ''Port'' ''port'', leaf ''User'' ''user'', leaf ''Password'' ''password'',
     leaf ''DBName'' ''dbname'', leaf ''SSLMode'' ''sslmode'']"

definition redis_config :: "config_field list" where
  "redis_config = [leaf ''Host'' ''host'', leaf ''Port'' ''port'', leaf ''Password'' ''password'', leaf ''DB'' ''db'']"

definition broker_config :: "config_field list" where
  "broker_config = [leaf ''Host'' ''host'', leaf ''Port'' ''port'', leaf ''User'' ''user'', leaf ''Password'' ''password'']"

definition jwt_config :: "config_field list" where
  "jwt_config = [leaf ''SecretKey'' ''secret_key'', leaf ''Issuer'' ''issuer'',
     leaf ''AccessTokenLifespan'' ''access_token_lifespan'', leaf ''RefreshTokenLifespan'' ''refresh_token_lifespan'']"

definition otel_config :: "config_field list" where
  "otel_config = [leaf ''Enabled'' ''enabled'', leaf ''ExporterEndpoint'' ''exporter_otlp_endpoint'']"

definition identity_config :: "config_field list" where
  "identity_config =
     [leaf ''TimeGrace'' ''time_grace'', leaf ''ServerPort'' ''port'', leaf ''GRPCPort'' ''grpc_port'',
      struct ''Database'' ''database'' db_config, struct ''JWT'' ''jwt'' jwt_config,
      struct ''GoogleOAuth'' ''google_oauth'' [leaf ''ClientID'' ''client_id'', leaf ''ClientSecret'' ''client_secret'',
        leaf ''RedirectURL'' ''redirect_url''],
      struct ''Redis'' ''redis'' redis_config]"

definition notification_config :: "config_field list" where
  "notification_config =
     [leaf ''AppMode'' ''app_mode'', leaf ''TimeGrace'' ''time_grace'', leaf ''ServerPort'' ''port'',
      leaf ''IdentityGRPCAddr'' ''identity_grpc_addr'',
      struct ''Database'' ''database'' db_config, struct ''Redis'' ''redis'' redis_config, struct ''Broker'' ''broker'' broker_config,
      struct ''SMTP'' ''smtp'' [leaf ''Host'' ''host'', leaf ''Port'' ''port'', leaf ''Username'' ''username'',
        leaf ''Password'' ''password'', leaf ''From'' ''from'', leaf ''MailpitAPIURL'' ''mailpit_api_url''],
      struct ''Queue'' ''queue'' [leaf ''Exchange'' ''exchange'', leaf ''WebhookMailpit'' ''webhook_mailpit''],
      struct ''Worker'' ''worker'' [leaf ''BatchSize'' ''batch_size'', leaf ''Interval'' ''interval'', leaf ''MaxRetries'' ''max_retries'',
        leaf ''CircuitBreakerMaxFailures'' ''circuit_breaker_max_failures'',
        leaf ''CircuitBreakerOpenDuration'' ''circuit_breaker_open_duration'', leaf ''CampaignBatchSize'' ''campaign_batch_size'',
        leaf ''CampaignPrefetch'' ''campaign_prefetch'', leaf ''OutboxInterval'' ''outbox_interval'',
        leaf ''OutboxBatchSize'' ''outbox_batch_size'', leaf ''OutboxMaxRetries'' ''outbox_max_retries''],
      struct ''RateLimit'' ''rate_limit'' [leaf ''GlobalLimit'' ''global_limit'', leaf ''GlobalWindowSecs'' ''global_window_secs'',
        leaf ''SendLimit'' ''send_limit'', leaf ''SendWindowSecs'' ''send_window_secs''],
      struct ''Otel'' ''otel'' otel_config]"

definition upload_service_config :: "config_field list" where
  "upload_service_config =
     [leaf ''AppMode'' ''app_mode'', leaf ''TimeGrace'' ''time_grace'', leaf ''ServerPort'' ''port'',
      struct ''Database'' ''database'' db_config, struct ''Redis'' ''redis'' redis_config, struct ''Broker'' ''broker'' broker_config,
      struct ''Storage'' ''storage'' [leaf ''Endpoint'' ''endpoint'', leaf ''Region'' ''region'', leaf ''Bucket'' ''bucket'',
        leaf ''AccessKey'' ''access_key'', leaf ''SecretKey'' ''secret_key'', leaf ''UsePathStyle'' ''use_path_style'',
        leaf ''PublicURL'' ''public_url''],
      struct ''Upload'' ''upload'' [leaf ''MaxSizeBytes'' ''max_size_bytes'', leaf ''PresignTTLSeconds'' ''presign_ttl_seconds'',
        leaf ''AllowedMimeTypes'' ''allowed_mime_types'', leaf ''ChunkSizeMB'' ''chunk_size_mb'',
        leaf ''PartPresignTTLSeconds'' ''part_presign_ttl_seconds'', leaf ''SessionTTLHours'' ''session_ttl_hours''],
      struct ''Janitor'' ''janitor'' [leaf ''IntervalSeconds'' ''interval_seconds'', leaf ''BatchSize'' ''batch_size''],
      struct ''RateLimit'' ''rate_limit'' [leaf ''Limit'' ''limit'', leaf ''WindowSecs'' ''window_secs''],
      struct ''Otel'' ''otel'' otel_config]"

text \<open>
  Every setting of a service has a variable of its own: replacing the dots makes no two of them
  equal.
\<close>

definition variables :: "config_field list \<Rightarrow> string list" where
  "variables fs = map env_name (bind_envs fs [])"

lemmas config_defs =
  identity_config_def notification_config_def upload_service_config_def leaf_def struct_def db_config_def redis_config_def
  broker_config_def jwt_config_def otel_config_def field_key_def

lemma settings_have_own_variables:
  "distinct (variables identity_config)" "distinct (variables notification_config)" "distinct (variables upload_service_config)"
proof -
  have v: "distinct (variables fs)"
    if "distinct (map underscores (bind_envs fs []))" "list_all (list_all (\<lambda>c. \<not> is_capital c)) (map underscores (bind_envs fs []))" for fs
    using upper_names_distinct [OF that] by (simp add: variables_def env_name_def [abs_def] comp_def)
  show "distinct (variables identity_config)"
    by (rule v) (simp_all add: config_defs underscores_def is_capital_def Let_def)
  show "distinct (variables notification_config)"
    by (rule v) (simp_all add: config_defs underscores_def is_capital_def Let_def)
  show "distinct (variables upload_service_config)"
    by (rule v) (simp_all add: config_defs underscores_def is_capital_def Let_def)
qed

section \<open>pkg/db\<close>

record db_settings =
  db_host :: string
  db_port :: int
  db_user :: string
  db_password :: string
  db_name :: string
  db_sslmode :: string

definition build_dsn :: "db_settings \<Rightarrow> string" where
  "build_dsn cfg =
     ''host='' @ db_host cfg @ '' port='' @ dec (db_port cfg) @ '' user='' @ db_user cfg @ '' password='' @ db_password cfg
     @ '' dbname='' @ db_name cfg @ '' sslmode='' @ db_sslmode cfg"

text \<open>
  \<open>WithTx\<close>: the function runs on the transaction's view of the state; a rollback, and a commit that
  fails, leave the state as it was. A panic is recovered after the rollback, and the results then
  have their zero value, which is no error.
\<close>

definition with_tx ::
  "goerr option \<Rightarrow> goerr option \<Rightarrow> ('s \<Rightarrow> goerr option outcome \<times> 's) \<Rightarrow> 's \<Rightarrow> goerr option \<times> 's" where
  "with_tx begin_err commit_err f s =
     (case begin_err of
        Some err \<Rightarrow> (Some err, s)
      | None \<Rightarrow>
          (case f s of
             (Panicked msg, _) \<Rightarrow> (None, s)
           | (Returned (Some err), _) \<Rightarrow> (Some err, s)
           | (Returned None, s') \<Rightarrow> (case commit_err of Some err \<Rightarrow> (Some err, s) | None \<Rightarrow> (None, s'))))"

text \<open>All or nothing; but that nothing was stored need not be reported.\<close>

lemma with_tx_atomic:
  assumes "with_tx begin_err commit_err f s = (err, s')"
  shows "s' = s \<or> err = None \<and> f s = (Returned None, s')" and "err \<noteq> None \<Longrightarrow> s' = s"
  using assms by (auto simp: with_tx_def split: option.splits prod.splits outcome.splits)

lemma with_tx_swallows_panic: "f s = (Panicked msg, s') \<Longrightarrow> with_tx None commit_err f s = (None, s)"
  by (simp add: with_tx_def)

section \<open>Connections\<close>

text \<open>
  What the connecting functions add to the libraries they call, which are arguments: the address, the
  limits of the pool, the text of an error.
\<close>

record pool_limits =
  pl_max_open :: int
  pl_max_idle :: int
  pl_lifetime :: duration

definition db_new ::
  "(string \<Rightarrow> goerr + 'db) \<Rightarrow> ('db \<Rightarrow> goerr option) \<Rightarrow> db_settings \<Rightarrow> goerr + ('db \<times> pool_limits)" where
  "db_new open_postgres sql_db cfg =
     (case open_postgres (build_dsn cfg) of
        Inl err \<Rightarrow> Inl err
      | Inr db \<Rightarrow>
          (case sql_db db of
             Some err \<Rightarrow> Inl err
           | None \<Rightarrow> Inr (db, \<lparr>pl_max_open = 25, pl_max_idle = 10, pl_lifetime = hour\<rparr>)))"

definition run_migrations :: "(string \<Rightarrow> goerr option) \<Rightarrow> (string \<Rightarrow> goerr option) \<Rightarrow> string \<Rightarrow> goerr option" where
  "run_migrations set_dialect up_to dir =
     (case set_dialect ''postgres'' of Some err \<Rightarrow> Some err | None \<Rightarrow> up_to dir)"

record redis_settings =
  rs_host :: string
  rs_port :: int
  rs_password :: string
  rs_db :: int

definition redis_new :: "(string \<Rightarrow> string \<Rightarrow> int \<Rightarrow> goerr option) \<Rightarrow> redis_settings \<Rightarrow> goerr + string" where
  "redis_new ping cfg =
     (let addr = rs_host cfg @ '':'' @ dec (rs_port cfg) in
      case ping addr (rs_password cfg) (rs_db cfg) of
        Some err \<Rightarrow> Inl (Wrap (''Failed to connect to redis at '' @ addr @ '': '') err)
      | None \<Rightarrow> Inr addr)"

text \<open>services/identity/internal/grpc/server.go and the client of the notification service.\<close>

definition listen_and_serve :: "(string \<Rightarrow> goerr + 'l) \<Rightarrow> ('l \<Rightarrow> goerr option) \<Rightarrow> int \<Rightarrow> goerr option" where
  "listen_and_serve listen serve port =
     (let addr = '':'' @ dec port in
      case listen addr of
        Inl err \<Rightarrow> Some (Wrap (''gRPC listen '' @ addr @ '': '') err)
      | Inr lis \<Rightarrow> serve lis)"

definition new_identity_client :: "(string \<Rightarrow> goerr + 'conn) \<Rightarrow> string \<Rightarrow> goerr + 'conn" where
  "new_identity_client dial addr =
     (case dial addr of
        Inl err \<Rightarrow> Inl (Wrap (''dial identity gRPC '' @ addr @ '': '') err)
      | Inr conn \<Rightarrow> Inr conn)"

definition identity_count_users :: "(string \<Rightarrow> goerr + int) \<Rightarrow> string \<Rightarrow> goerr + int" where
  "identity_count_users count_users role =
     (case count_users role of Inl err \<Rightarrow> Inl err | Inr n \<Rightarrow> Inr n)"

text \<open>Every error of a connection keeps its cause, so that the callers can test for it.\<close>

lemma connection_errors_wrap:
  "redis_new ping cfg = Inl e \<Longrightarrow> \<exists>err. ping (rs_host cfg @ '':'' @ dec (rs_port cfg)) (rs_password cfg) (rs_db cfg) = Some err
     \<and> errors_is e t = errors_is err t"
  "new_identity_client dial addr = Inl e \<Longrightarrow> \<exists>err. dial addr = Inl err \<and> errors_is e t = errors_is err t"
  by (auto simp: redis_new_def new_identity_client_def Let_def split: option.splits sum.splits)

end
