(* ===== verification/NotifyIntegrity.thy ===== *)
theory NotifyIntegrity
  imports NotifyService Emails
begin

text \<open>
  What holds of the tables of the notification service whatever its requests and workers do at the same
  time, and a status that they get wrong: outbox events keep referring to stored notifications, and a
  confirmation that overtakes the worker's own update is lost.
\<close>

section \<open>Outbox events and their notifications\<close>

text \<open>
  An event is about a notification if it carries its id and channel, and its payload is the task of the
  notification as the row now stands; only the number of retries may have changed since.
\<close>

definition about :: "notify_lib \<Rightarrow> outbox_event \<Rightarrow> notification \<Rightarrow> bool" where
  "about lib ev n \<longleftrightarrow> ob_aggregate ev = nt_id n \<and> ob_key ev = nt_channel n
     \<and> ob_aggregate_type ev = ''notification''
     \<and> (\<exists>k. nl_task_json lib ((outbox_task lib n)\<lparr>nk_retry := k\<rparr>) = Inr (ob_payload ev))"

definition events_refer :: "notify_lib \<Rightarrow> notify_world \<Rightarrow> bool" where
  "events_refer lib w \<longleftrightarrow> list_all (\<lambda>ev. list_ex (about lib ev) (nw_notifications w)) (nw_outbox w)"

text \<open>Nothing rewrites what an event or a notification is about.\<close>

definition same_subject :: "notification \<Rightarrow> notification \<Rightarrow> bool" where
  "same_subject n n' \<longleftrightarrow> nt_id n' = nt_id n \<and> nt_user n' = nt_user n \<and> nt_event n' = nt_event n \<and> nt_channel n' = nt_channel n
     \<and> nt_recipient n' = nt_recipient n \<and> nt_subject n' = nt_subject n \<and> nt_content n' = nt_content n"

definition same_event :: "outbox_event \<Rightarrow> outbox_event \<Rightarrow> bool" where
  "same_event ev ev' \<longleftrightarrow> ob_aggregate ev' = ob_aggregate ev \<and> ob_aggregate_type ev' = ob_aggregate_type ev
     \<and> ob_key ev' = ob_key ev \<and> ob_payload ev' = ob_payload ev"

lemma about_same:
  assumes "about lib ev n" and "same_subject n n'" and "same_event ev ev'"
  shows "about lib ev' n'"
proof -
  have "(outbox_task lib n')\<lparr>nk_retry := k\<rparr> = (outbox_task lib n)\<lparr>nk_retry := k\<rparr>" for k
    using assms(2) by (simp add: same_subject_def outbox_task_def)
  then show ?thesis using assms by (simp add: about_def same_subject_def same_event_def)
qed

lemma refer_updates:
  assumes "events_refer lib w" and "\<And>n. same_subject n (f n)" and "\<And>ev. same_event ev (g ev)"
    and "nw_notifications w' = update_rows P f (nw_notifications w) @ ns"
    and "nw_outbox w' = update_rows Q g (nw_outbox w)"
  shows "events_refer lib w'"
proof -
  have "\<exists>n'\<in>set (nw_notifications w'). about lib ev' n'" if "ev' \<in> set (nw_outbox w')" for ev'
  proof -
    from that obtain ev where ev: "ev \<in> set (nw_outbox w)" "ev' = (if Q ev then g ev else ev)"
      by (auto simp: assms(5) update_rows_def)
    have e: "same_event ev ev'" using assms(3) by (simp add: ev(2) same_event_def)
    from ev(1) assms(1) obtain n where n: "n \<in> set (nw_notifications w)" "about lib ev n"
      by (auto simp: events_refer_def list_all_iff list_ex_iff)
    have s: "same_subject n (if P n then f n else n)" using assms(2) by (simp add: same_subject_def)
    have "(if P n then f n else n) \<in> set (nw_notifications w')"
      using n(1) by (auto simp: assms(4) update_rows_def)
    with about_same [OF n(2) s e] show ?thesis by blast
  qed
  then show ?thesis by (auto simp: events_refer_def list_all_iff list_ex_iff)
qed

lemma refer_same: "events_refer lib w \<Longrightarrow> nw_notifications w' = nw_notifications w \<Longrightarrow> nw_outbox w' = nw_outbox w \<Longrightarrow> events_refer lib w'"
  by (simp add: events_refer_def)

lemma update_none [simp]: "update_rows (\<lambda>_. False) f t = t"
  by (simp add: update_rows_def)

lemma refer_notifications:
  assumes "events_refer lib w" and "\<And>n. same_subject n (f n)"
  shows "events_refer lib (w\<lparr>nw_notifications := update_rows P f (nw_notifications w)\<rparr>)"
  by (rule refer_updates [OF assms, where Q = "\<lambda>_. False" and g = "\<lambda>e. e" and ns = "[]"]) (simp_all add: same_event_def)

lemma refer_events:
  assumes "events_refer lib w" and "\<And>ev. same_event ev (g ev)"
  shows "events_refer lib (w\<lparr>nw_outbox := update_rows Q g (nw_outbox w)\<rparr>)"
  by (rule refer_updates [OF assms(1) _ assms(2), where P = "\<lambda>_. False" and f = "\<lambda>n. n" and ns = "[]"])
    (simp_all add: same_subject_def)

text \<open>The transaction stores an event with the notification it is about.\<close>

lemma about_new:
  assumes "outbox_event_of lib n = Inr ev"
  shows "about lib ev n"
proof -
  have "(outbox_task lib n)\<lparr>nk_retry := nt_retry n\<rparr> = outbox_task lib n" by (simp add: outbox_task_def)
  then show ?thesis
    using assms by (auto simp: about_def outbox_event_of_def intro!: exI [of _ "nt_retry n"] split: sum.splits)
qed

lemma refer_create:
  assumes "events_refer lib w" and "tx_create_with_outbox lib env fault n w = (r, w')"
  shows "events_refer lib w'"
proof (cases "\<exists>m. r = Inr m")
  case False
  with assms(2) have "nw_notifications w' = nw_notifications w" "nw_outbox w' = nw_outbox w"
    by (auto simp: tx_create_with_outbox_def nnow_def nuuid_def split: sum.splits option.splits prod.splits)
  with assms(1) show ?thesis by (rule refer_same)
next
  case True
  with assms(2) obtain m ev i t where n: "nw_notifications w' = nw_notifications w @ [m]" and ev: "outbox_event_of lib m = Inr ev"
      and o: "nw_outbox w' = nw_outbox w @ [ev\<lparr>ob_id := i, ob_created := t\<rparr>]"
    by (auto simp: tx_create_with_outbox_def nnow_def nuuid_def sql_notification_create_def sql_outbox_create_def insert_row_def
        Let_def split: sum.splits option.splits prod.splits if_splits)
  have "about lib (ev\<lparr>ob_id := i, ob_created := t\<rparr>) m"
    by (rule about_same [OF about_new [OF ev]]) (simp_all add: same_subject_def same_event_def)
  with assms(1) show ?thesis by (auto simp: events_refer_def n o list_all_iff list_ex_iff)
qed

fun touches :: "notify_call \<Rightarrow> bool" where
  "touches (NCreate n) = True"
| "touches (NCreateWithOutbox n) = True"
| "touches (NUpdateDelivery i st msg sent retry) = True"
| "touches (NClaimNotifications n) = True"
| "touches (NRetryNotification i msg t) = True"
| "touches (NOutboxClaim n) = True"
| "touches (NOutboxPublished i) = True"
| "touches (NOutboxRetry i msg) = True"
| "touches (NOutboxFailed i msg agg msg') = True"
| "touches c = False"

text \<open>The rows of the two tables, and the statements that do not write them.\<close>

definition rows_of :: "notify_world \<Rightarrow> notification list \<times> outbox_event list" where
  "rows_of w = (nw_notifications w, nw_outbox w)"

lemma rows_of_clock [simp]:
  "rows_of (w\<lparr>nw_ticks := t\<rparr>) = rows_of w" "rows_of (w\<lparr>nw_uuids := u\<rparr>) = rows_of w"
  "rows_of (w\<lparr>nw_cache := st\<rparr>) = rows_of w" "rows_of (w\<lparr>nw_published := ps\<rparr>) = rows_of w"
  by (simp_all add: rows_of_def)

lemma nexec_rows: "(\<And>now v. rows_of (f now v) = rows_of v) \<Longrightarrow> rows_of (snd (nexec env c f w)) = rows_of w"
  by (simp add: nexec_def nnow_def split: option.splits)

lemma nstmt_rows: "(\<And>now u v. rows_of (snd (f now u v)) = rows_of v) \<Longrightarrow> rows_of (snd (nstmt env c k f w)) = rows_of w"
  by (simp add: nstmt_def nnow_def nuuid_def split_def split: option.splits)

lemma other_statements [simp]:
  "rows_of (snd (sql_template_create t w)) = rows_of w" "rows_of (snd (sql_pref_upsert now u p w)) = rows_of w"
  "rows_of (snd (sql_schedule_upsert now u s w)) = rows_of w" "rows_of (sql_schedule_sent i x w) = rows_of w"
  "rows_of (sql_schedule_delete y z w) = rows_of w"
  "rows_of (snd (sql_campaign_create now u cp w)) = rows_of w" "rows_of (snd (sql_campaign_claim now w)) = rows_of w"
  "rows_of (sql_campaign_total now i n w) = rows_of w" "rows_of (sql_campaign_checkpoint now i cur n w) = rows_of w"
  "rows_of (sql_campaign_mark now i st w) = rows_of w" "rows_of (sql_recipient_create rc w) = rows_of w"
  "rows_of (snd (sql_campaign_increment now i fld w)) = rows_of w"
  "rows_of (sql_dlq_save now u m w) = rows_of w" "rows_of (sql_dlq_status i ds w) = rows_of w"
  by (simp_all add: rows_of_def sql_template_create_def sql_pref_upsert_def sql_schedule_upsert_def sql_schedule_sent_def
      sql_schedule_delete_def sql_campaign_create_def sql_campaign_claim_def sql_campaign_total_def sql_campaign_checkpoint_def
      sql_campaign_mark_def sql_recipient_create_def sql_campaign_increment_def sql_dlq_save_def sql_dlq_status_def
      update_campaign_def Let_def split: option.splits list.splits)

lemma sending_rows [simp]: "rows_of (snd (breaker_send env to msg w)) = rows_of w"
  by (auto simp: breaker_send_def nnow_def cb_execute_def smtp_send_def rows_of_def Let_def split_def
      split: option.splits breaker_state.splits)

lemma untouched_rows:
  assumes "\<not> touches c"
  shows "rows_of (snd (notify_handle lib env c w)) = rows_of w"
  using assms
  by (cases c; simp add: nnow_def split_def nexec_rows nstmt_rows split: option.splits)

lemma refer_insert:
  "events_refer lib w \<Longrightarrow> nw_notifications w' = nw_notifications w @ ns \<Longrightarrow> nw_outbox w' = nw_outbox w \<Longrightarrow> events_refer lib w'"
  by (auto simp: events_refer_def list_all_iff list_ex_iff)

lemma refer_statements:
  assumes "events_refer lib w"
  shows "events_refer lib (sql_update_delivery now i st msg sent again w)"
    and "events_refer lib (snd (sql_claim_notifications now n w))"
    and "events_refer lib (sql_retry_notification now i msg t w)"
    and "events_refer lib (snd (sql_outbox_claim n w))"
    and "events_refer lib (sql_outbox_published now i w)"
    and "events_refer lib (sql_outbox_retry i msg w)"
    and "events_refer lib (sql_outbox_failed i msg w)"
    and "events_refer lib (snd (sql_notification_create now u row w))"
  using assms refer_insert [OF assms]
  by (simp_all add: refer_notifications refer_events sql_update_delivery_def sql_claim_notifications_def
      sql_retry_notification_def sql_outbox_claim_def sql_outbox_published_def sql_outbox_retry_def sql_outbox_failed_def
      sql_notification_create_def insert_row_def Let_def same_subject_def same_event_def)

lemma refer_touched:
  assumes "events_refer lib w" and "touches c"
  shows "events_refer lib (snd (notify_handle lib env c w))"
proof -
  have ticked: "events_refer lib (w\<lparr>nw_ticks := t\<rparr>)" "events_refer lib (w\<lparr>nw_ticks := t, nw_uuids := u\<rparr>)" for t u
    using assms(1) by (simp_all add: events_refer_def)
  have created: "events_refer lib (snd (tx_create_with_outbox lib env fault n w))" for fault n
    by (rule refer_create [OF assms(1)]) (rule surjective_pairing)
  show ?thesis
    using assms
    by (cases c; simp add: notify_call_defs split_def ticked created refer_statements
        split: option.splits)
qed


definition demo_stored :: notify_world where
  "demo_stored = demo_nworld\<lparr>nw_notifications := [demo_notification]\<rparr>"

definition created_event :: outbox_event where
  "created_event = (case outbox_event_of demo_nlib demo_notification of Inr ev \<Rightarrow> ev)"



section \<open>A confirmation that overtakes the worker\<close>

text \<open>The consumers that write the delivery status of a notification.\<close>

definition delivery_consumers :: "notify_lib \<Rightarrow> notify_config \<Rightarrow> goerr option notify_prog set" where
  "delivery_consumers lib cfg = range (handle_email lib cfg) \<union> range (handle_webhook_message lib cfg)"

definition mail_env :: notify_env where
  "mail_env = demo_nenv\<lparr>ne_http := \<lambda>_. Inr (200, ''+'')\<rparr>"

text \<open>The mail is sent, its confirmation is handled, and only then the worker writes its own update.\<close>

definition overtaking_schedule :: "(nat \<times> notify_env) list" where
  "overtaking_schedule = map (\<lambda>i. (i, mail_env)) [0, 1, 1, 1, 0]"

lemma confirmation_overtaken:
  "\<exists>w. reachable (notify_handle demo_nlib) (delivery_consumers demo_nlib demo_nconfig) demo_stored ([Return None, Return None], w)
     \<and> length (nw_mails w) = 1 \<and> map nt_status (nw_notifications w) = [NDelivering]
     \<and> map nt_error (nw_notifications w) = [''Waiting for webhook confirmation'']"
proof -
  let ?ps = "[handle_email demo_nlib demo_nconfig ''+'', handle_webhook_message demo_nlib demo_nconfig ''m'']"
  let ?x = "run_sched (notify_handle demo_nlib) overtaking_schedule (?ps, demo_stored)"
  have "reachable (notify_handle demo_nlib) (delivery_consumers demo_nlib demo_nconfig) demo_stored ?x"
    by (rule reachable_schedule) (auto simp: delivery_consumers_def overtaking_schedule_def)
  moreover have "map result_of (fst ?x) = map Some [None, None]"
    and w: "length (nw_mails (snd ?x)) = 1" "map nt_status (nw_notifications (snd ?x)) = [NDelivering]"
      "map nt_error (nw_notifications (snd ?x)) = [''Waiting for webhook confirmation'']"
    by code_simp+
  then have "fst ?x = map Return [None, None]" by (intro all_returned)
  then have "?x = ([Return None, Return None], snd ?x)" by (simp add: prod_eq_iff)
  ultimately show ?thesis using w by (intro exI [of _ "snd ?x"] conjI) simp_all
qed


end
