(* ===== verification/Templates.thy ===== *)
theory Templates
  imports NotifyService
begin

text \<open>
  The part of Go's text/template that the templates of the notification service use, and with it the
  texts of the mails. The only templates ever stored are those of the seeder (there is no other
  insert), and they are made of text and of fields of the payload, as in \<open>#{{.order_id}}\<close>. A template outside this
  fragment (pipelines, spaces in an action, functions) is left to the parameter \<open>other\<close>, the
  printing of arrays, objects and fractions to the parameter \<open>show\<close>.
\<close>

section \<open>Parsing a template\<close>

text \<open>\<open>strings.Cut\<close>: what stands before and after the first occurrence of a separator.\<close>

fun cut_at :: "string \<Rightarrow> string \<Rightarrow> (string \<times> string) option" where
  "cut_at sep [] = None"
| "cut_at sep (c # cs) =
     (if has_prefix (c # cs) sep then Some ([], drop (length sep) (c # cs))
      else map_option (\<lambda>(a, b). (c # a, b)) (cut_at sep cs))"

lemma cut_at_length: "cut_at (x # sep) s = Some (a, b) \<Longrightarrow> length b < length s"
  by (induction s arbitrary: a) (auto split: if_splits)

definition ident_char :: "char \<Rightarrow> bool" where
  "ident_char c \<longleftrightarrow> (let n = of_char c :: nat in
     (48 \<le> n \<and> n \<le> 57) \<or> (65 \<le> n \<and> n \<le> 90) \<or> n = 95 \<or> (97 \<le> n \<and> n \<le> 122))"

definition is_ident :: "string \<Rightarrow> bool" where
  "is_ident k \<longleftrightarrow> k \<noteq> [] \<and> list_all ident_char k \<and> \<not> is_digit (hd k)"

datatype piece = Lit string | Field string

text \<open>The action between the braces: a dot and the name of a field.\<close>

fun field_of :: "string \<Rightarrow> string option" where
  "field_of (c # k) = (if c = CHR ''.'' \<and> is_ident k then Some k else None)"
| "field_of [] = None"

function parse_template :: "string \<Rightarrow> piece list option" where
  "parse_template s =
     (case cut_at ''{{'' s of
        None \<Rightarrow> Some [Lit s]
      | Some (before, rest) \<Rightarrow>
          (case cut_at ''}}'' rest of
             None \<Rightarrow> None
           | Some (action, after) \<Rightarrow>
               (case field_of action of
                  None \<Rightarrow> None
                | Some k \<Rightarrow> map_option (\<lambda>ps. Lit before # Field k # ps) (parse_template after))))"
  by pat_completeness auto
termination
  by (relation "measure length") (auto dest!: cut_at_length)

declare parse_template.simps [simp del]

section \<open>Executing it\<close>

text \<open>
  A JSON number is decoded into a \<open>float64\<close>, which \<open>fmt.Fprint\<close> writes with \<open>%g\<close> and the fewest digits: an
  integer in plain digits while its exponent is below 6, else as mantissa and exponent. Below 2^53
  the fewest digits that tell an integer from its neighbours are its own without final zeros.
\<close>

definition float_digits :: "string \<Rightarrow> string" where
  "float_digits ds =
     (let e = length ds - 1; m = trim_right_by (\<lambda>c. c = CHR ''0'') ds in
      if e < 6 then ds
      else hd m # (if tl m = [] then [] else CHR ''.'' # tl m) @ ''e+'' @ dec2 (int e))"

definition go_float :: "int \<Rightarrow> string" where
  "go_float n = (if n < 0 then ''-'' else '''') @ float_digits (dec_nat (nat \<bar>n\<bar>))"

text \<open>The JSON text of an integer that a \<open>float64\<close> holds exactly.\<close>

definition json_int :: "string \<Rightarrow> int option" where
  "json_int s =
     (case atoi s of
        Some n \<Rightarrow> if dec n = s \<and> \<bar>n\<bar> < 2 ^ 53 then Some n else None
      | None \<Rightarrow> None)"

definition print_value :: "(string \<Rightarrow> string) \<Rightarrow> json_value option \<Rightarrow> string" where
  "print_value show v =
     (case v of
        None \<Rightarrow> ''<no value>''
      | Some (JString s) \<Rightarrow> s
      | Some (JOther s) \<Rightarrow>
          if s = ''null'' then ''<no value>''
          else if s = ''true'' \<or> s = ''false'' then s
          else (case json_int s of Some n \<Rightarrow> go_float n | None \<Rightarrow> show s))"

fun piece_text :: "(string \<Rightarrow> string) \<Rightarrow> json_map \<Rightarrow> piece \<Rightarrow> string" where
  "piece_text show data (Lit s) = s"
| "piece_text show data (Field k) = print_value show (map_of data k)"

definition execute :: "(string \<Rightarrow> string) \<Rightarrow> json_map \<Rightarrow> piece list \<Rightarrow> string" where
  "execute show data ps = concat (map (piece_text show data) ps)"

definition render ::
  "(string \<Rightarrow> json_map \<Rightarrow> goerr + string) \<Rightarrow> (string \<Rightarrow> string) \<Rightarrow> string \<Rightarrow> json_map \<Rightarrow> goerr + string" where
  "render other show tmpl_str data =
     (case parse_template tmpl_str of
        Some t \<Rightarrow> Inr (execute show data t)
      | None \<Rightarrow> other tmpl_str data)"

section \<open>The parser inverts the printer\<close>

fun unparse :: "piece \<Rightarrow> string" where
  "unparse (Lit s) = s"
| "unparse (Field k) = ''{{.'' @ k @ ''}}''"

fun canonical :: "piece list \<Rightarrow> bool" where
  "canonical [Lit s] = (cut_at ''{{'' s = None)"
| "canonical (Lit s # Field k # ps) =
     (cut_at ''{{'' s = None \<and> (s \<noteq> [] \<longrightarrow> last s \<noteq> CHR ''{'') \<and> is_ident k \<and> canonical ps)"
| "canonical _ = False"

lemma cut_at_first:
  assumes "cut_at [x, x] s = None" and "s \<noteq> [] \<longrightarrow> last s \<noteq> x"
  shows "cut_at [x, x] (s @ x # x # r) = Some (s, r)"
  using assms
proof (induction s)
  case (Cons c s)
  then show ?case by (cases s) (auto simp: has_prefix_def split: if_splits)
qed (simp add: has_prefix_def)

lemma cut_at_absent: "x \<notin> set s \<Longrightarrow> cut_at [x, x] s = None"
  by (induction s) (auto simp: has_prefix_def)

lemma ident_braces: "is_ident k \<Longrightarrow> CHR ''}'' \<notin> set k"
  by (auto simp: is_ident_def list_all_iff ident_char_def)

lemma parse_unparse: "canonical ps \<Longrightarrow> parse_template (concat (map unparse ps)) = Some ps"
proof (induction ps rule: canonical.induct)
  case (1 s)
  then show ?case by (subst parse_template.simps) simp
next
  case (2 s k ps)
  let ?rest = "concat (map unparse ps)"
  have "cut_at ''{{'' (s @ CHR ''{'' # CHR ''{'' # (CHR ''.'' # k @ ''}}'' @ ?rest)) = Some (s, CHR ''.'' # k @ ''}}'' @ ?rest)"
    by (rule cut_at_first) (use 2 in auto)
  moreover have "cut_at ''}}'' ((CHR ''.'' # k) @ CHR ''}'' # CHR ''}'' # ?rest) = Some (CHR ''.'' # k, ?rest)"
    using 2 ident_braces [of k] by (intro cut_at_first cut_at_absent) (auto simp: is_ident_def dest: last_in_set)
  ultimately show ?case using 2 by (subst parse_template.simps) simp
qed simp_all

text \<open>The templates of the seeder, taken apart.\<close>

definition seeded_pieces :: "(string \<times> piece list \<times> piece list) list" where
  "seeded_pieces =
     [(''auth_otp'', [Lit ''Your OTP Verification Code''],
        [Lit ''Hello, your OTP code is: '', Field ''otp'', Lit ''. This code is valid for 5 minutes.'']),
      (''auth_login_alert'', [Lit ''New Login Security Alert''],
        [Lit ''Your account was just logged in from device '', Field ''device'', Lit '' at '', Field ''location'',
         Lit (''. If this wasn'' @ [CHR 0x27] @ ''t you, please secure your account immediately.'')]),
      (''order_created'', [Lit ''Order Confirmation - #'', Field ''order_id'', Lit ''''],
        [Lit ''Hi '', Field ''name'', Lit '', your order #'', Field ''order_id'',
         Lit '' has been successfully placed and is currently being processed.'']),
      (''payment_success'', [Lit ''Payment Successful - Order #'', Field ''order_id'', Lit ''''],
        [Lit ''Thank you '', Field ''name'', Lit '', your payment of '', Field ''amount'', Lit '' '', Field ''currency'',
         Lit '' for order #'', Field ''order_id'', Lit '' has been processed successfully.'']),
      (event_promotion, [Lit ''Exclusive Offer: '', Field ''campaign_name'', Lit ''''],
        [Lit ''Hello '', Field ''name'', Lit ('', you'' @ [CHR 0x27] @ ''ve just received a special discount! Use code ''),
         Field ''discount_code'', Lit '' to get '', Field ''discount_value'', Lit '' off your next purchase.''])]"

lemma seeded_pieces_unparse:
  "map (\<lambda>t. (tp_event t, tp_subject t, tp_content t)) seed_templates_list =
     map (\<lambda>(e, subj, cont). (e, concat (map unparse subj), concat (map unparse cont))) seeded_pieces"
  by code_simp

lemma seeded_pieces_canonical: "list_all (\<lambda>(e, subj, cont). canonical subj \<and> canonical cont) seeded_pieces"
  by code_simp

section \<open>Numbers\<close>

lemma length_dec_nat: "0 < k \<Longrightarrow> length (dec_nat n) \<le> k \<longleftrightarrow> n < 10 ^ k"
proof (induction n arbitrary: k rule: dec_nat.induct)
  case (1 n)
  show ?case
  proof (cases "n < 10")
    case True
    with 1(2) show ?thesis by (cases k) (auto simp: dec_nat.simps [of n] intro: less_le_trans)
  next
    case False
    then obtain j where k: "k = Suc j" "n div 10 \<noteq> 0" using 1(2) by (cases k) (auto simp: div_eq_0_iff)
    have "length (dec_nat n) = Suc (length (dec_nat (n div 10)))" using False by (simp add: dec_nat.simps [of n])
    moreover have "length (dec_nat (n div 10)) \<noteq> 0" by (subst dec_nat.simps) simp
    moreover have "n div 10 < 10 ^ j \<longleftrightarrow> n < 10 ^ k" using k by (simp add: div_less_iff_less_mult mult.commute)
    ultimately show ?thesis using 1(1) [OF False, of j] k by (cases j) auto
  qed
qed

lemma dec_nat_digits: "c \<in> set (dec_nat n) \<Longrightarrow> is_digit c"
proof (induction n rule: dec_nat.induct)
  case (1 n)
  have d: "is_digit (digit m)" if "m < 10" for m
    using that by (simp add: is_digit_def digit_def Let_def)
  from 1 show ?case by (cases "n < 10") (auto simp: dec_nat.simps [of n] d)
qed

lemma dec_no_letter: "\<not> is_digit c \<Longrightarrow> c \<noteq> CHR ''-'' \<Longrightarrow> c \<notin> set (dec n)"
  by (auto simp: dec_def dest: dec_nat_digits)

lemma go_float_small: "\<bar>n\<bar> < 10 ^ 6 \<Longrightarrow> go_float n = dec n"
proof -
  assume "\<bar>n\<bar> < 10 ^ 6"
  then have "length (dec_nat (nat \<bar>n\<bar>)) \<le> 6" by (simp add: length_dec_nat nat_less_iff)
  then have "length (dec_nat (nat \<bar>n\<bar>)) - 1 < 6" by simp
  then show ?thesis by (simp add: go_float_def float_digits_def dec_def Let_def)
qed

lemma go_float_large: "10 ^ 6 \<le> \<bar>n\<bar> \<Longrightarrow> CHR ''e'' \<in> set (go_float n) \<and> go_float n \<noteq> dec n"
proof -
  assume "10 ^ 6 \<le> \<bar>n\<bar>"
  then have "\<not> length (dec_nat (nat \<bar>n\<bar>)) \<le> 6" by (simp add: length_dec_nat nat_less_iff)
  then have "\<not> length (dec_nat (nat \<bar>n\<bar>)) - 1 < 6" by simp
  then have "CHR ''e'' \<in> set (go_float n)" by (simp only: go_float_def float_digits_def Let_def) simp
  moreover have "CHR ''e'' \<notin> set (dec n)" by (rule dec_no_letter) (simp_all add: is_digit_def)
  ultimately show ?thesis by metis
qed

text \<open>The text of an integer is read back.\<close>

lemma digits_val_dec_nat: "digits_val (dec_nat n) = n"
proof (induction n rule: dec_nat.induct)
  case (1 n)
  have d: "digit_val (digit m) = m" if "m < 10" for m
    using that by (simp add: digit_val_def digit_def)
  from 1 d [of "n mod 10"] d [of n] show ?case
    by (cases "n < 10") (simp_all add: dec_nat.simps [of n] digits_val_def)
qed

lemma dec_nat_nonempty: "dec_nat n \<noteq> []"
  by (subst dec_nat.simps) simp

lemma parse_digits_dec_nat: "parse_digits (dec_nat n) = Some (int n)"
  using dec_nat_digits dec_nat_nonempty by (auto simp: parse_digits_def list_all_iff digits_val_dec_nat)

lemma json_int_dec: "\<bar>n\<bar> < 2 ^ 53 \<Longrightarrow> json_int (dec n) = Some n"
proof -
  assume n: "\<bar>n\<bar> < 2 ^ 53"
  then have "in_int64 n = Some n" by (auto simp: in_int64_def int64_min_def int64_max_def abs_less_iff)
  moreover have "c \<noteq> CHR ''-'' \<and> c \<noteq> CHR ''+''" if "dec_nat m = c # cs" for m c cs
    using dec_nat_digits [of c m] that by (auto simp: is_digit_def)
  ultimately have "atoi (dec n) = Some n"
    using parse_digits_dec_nat [of "nat n"] by (cases "dec_nat (nat n)") (auto simp: dec_def parse_digits_dec_nat dec_nat_nonempty)
  with n show ?thesis by (simp add: json_int_def)
qed

lemma print_int: "\<bar>n\<bar> < 2 ^ 53 \<Longrightarrow> print_value show (Some (JOther (dec n))) = go_float n"
  using json_int_dec [of n] dec_no_letter [of "CHR ''e''" n] dec_no_letter [of "CHR ''l''" n]
  by (auto simp: print_value_def is_digit_def)

section \<open>What the mails say\<close>

definition template_lib ::
  "notify_lib \<Rightarrow> (string \<Rightarrow> json_map \<Rightarrow> goerr + string) \<Rightarrow> (string \<Rightarrow> string) \<Rightarrow> notify_lib" where
  "template_lib lib other show = lib\<lparr>nl_render := render other show\<rparr>"

lemma render_canonical: "canonical ps \<Longrightarrow> render other show (concat (map unparse ps)) data = Inr (execute show data ps)"
  by (simp add: render_def parse_unparse)

lemma seeded_template_pieces:
  assumes "tmpl \<in> set seed_templates_list"
  shows "\<exists>subj cont. (tp_event tmpl, subj, cont) \<in> set seeded_pieces
    \<and> tp_subject tmpl = concat (map unparse subj) \<and> tp_content tmpl = concat (map unparse cont) \<and> canonical subj \<and> canonical cont"
proof -
  have "(tp_event tmpl, tp_subject tmpl, tp_content tmpl) \<in>
      set (map (\<lambda>(e, subj, cont). (e, concat (map unparse subj), concat (map unparse cont))) seeded_pieces)"
    using assms unfolding seeded_pieces_unparse [symmetric] by simp
  with seeded_pieces_canonical show ?thesis by (force simp: list_all_iff)
qed

lemma seeded_channel: "tmpl \<in> set seed_templates_list \<Longrightarrow> tp_channel tmpl = channel_email"
  by (auto simp: seed_templates_list_def)

text \<open>
  C20. The text of a seeded mail. Each template of the seeder parses, so rendering never fails: a request for its event
  is refused only for its recipient or its metadata. Otherwise the subject and the content of the
  notification are those of the template with every field replaced by its value in the payload: a
  string as it is (nothing is escaped), an integer below a million in digits, and '<no value>'
  where the payload has no such key or null.
\<close>
theorem seeded_mails_rendered:
  assumes "tmpl \<in> set seed_templates_list"
  shows "\<exists>subj cont. canonical subj \<and> canonical cont
    \<and> tp_subject tmpl = concat (map unparse subj) \<and> tp_content tmpl = concat (map unparse cont)
    \<and> (case build_notification (template_lib lib other show) event tmpl of
         Inr n \<Rightarrow> nt_subject n = concat (map (piece_text show (sq_payload event)) subj)
               \<and> nt_content n = concat (map (piece_text show (sq_payload event)) cont)
       | Inl e \<Rightarrow> (\<exists>e'. e = Wrap ''failed to marshal metadata: '' e')
               \<or> checked_recipient lib channel_email (payload_recipient (sq_payload event)) = Some e)"
proof -
  obtain subj cont where p: "tp_subject tmpl = concat (map unparse subj)" "tp_content tmpl = concat (map unparse cont)"
    "canonical subj" "canonical cont"
    using seeded_template_pieces [OF assms] by blast
  have "checked_recipient (template_lib lib other show) c r = checked_recipient lib c r" for c r
    by (simp add: checked_recipient_def template_lib_def)
  with p show ?thesis
    by (intro exI [of _ subj] exI [of _ cont])
      (auto simp: build_notification_def template_lib_def render_canonical execute_def seeded_channel [OF assms] Let_def
        split: sum.splits option.splits)
qed

definition otp_request :: send_request where
  "otp_request = \<lparr>sq_user = ''u'', sq_event = ''auth_otp'',
     sq_payload = [(''recipient'', JString ''u@x''), (''otp'', JString ''123456'')], sq_metadata = None\<rparr>"

theorem seeded_mails_rendered_witness:
  "map_sum (\<lambda>_. ()) (\<lambda>n. (nt_subject n, nt_content n))
     (build_notification (template_lib demo_nlib (\<lambda>s _. Inr s) (\<lambda>s. s)) otp_request (hd seed_templates_list)) =
     Inr (''Your OTP Verification Code'', ''Hello, your OTP code is: 123456. This code is valid for 5 minutes.'')
   \<and> (\<exists>subj cont. canonical subj \<and> canonical cont \<and> tp_subject (hd seed_templates_list) = concat (map unparse subj)
       \<and> tp_content (hd seed_templates_list) = concat (map unparse cont))"
proof
  show "\<exists>subj cont. canonical subj \<and> canonical cont \<and> tp_subject (hd seed_templates_list) = concat (map unparse subj)
       \<and> tp_content (hd seed_templates_list) = concat (map unparse cont)"
    using seeded_mails_rendered [of "hd seed_templates_list"] by (simp add: seed_templates_list_def) blast
qed code_simp

section \<open>Large numbers\<close>

definition payment_template :: notif_template where
  "payment_template = seed_templates_list ! 3"

lemma payment_pieces:
  "tp_content payment_template = concat (map unparse
     [Lit ''Thank you '', Field ''name'', Lit '', your payment of '', Field ''amount'', Lit '' '', Field ''currency'',
      Lit '' for order #'', Field ''order_id'', Lit '' has been processed successfully.''])"
  by code_simp

lemma canonical_payment:
  "canonical [Lit ''Thank you '', Field ''name'', Lit '', your payment of '', Field ''amount'', Lit '' '', Field ''currency'',
      Lit '' for order #'', Field ''order_id'', Lit '' has been processed successfully.'']"
  by code_simp

text \<open>
  An amount of a million or more that is a JSON number (likewise an order number) is not written in
  digits: the customer reads \<open>1.5e+06\<close> for 1500000.
\<close>

lemma payment_in_scientific_notation:
  assumes "10 ^ 6 \<le> \<bar>n\<bar>" and "\<bar>n\<bar> < 2 ^ 53" and "map_of (sq_payload event) ''amount'' = Some (JOther (dec n))"
    and "map_of (sq_payload event) ''name'' = Some (JString name)"
    and "map_of (sq_payload event) ''currency'' = Some (JString currency)"
    and "map_of (sq_payload event) ''order_id'' = Some (JString order)"
    and "build_notification (template_lib lib other show) event payment_template = Inr nt"
  shows "nt_content nt = ''Thank you '' @ name @ '', your payment of '' @ go_float n @ '' '' @ currency @ '' for order #'' @ order
      @ '' has been processed successfully.''
    \<and> CHR ''e'' \<in> set (go_float n) \<and> go_float n \<noteq> dec n"
proof -
  have "nl_render (template_lib lib other show) (tp_content payment_template) (sq_payload event) = Inr (nt_content nt)"
    using assms(7) by (auto simp: build_notification_def Let_def split: sum.splits option.splits)
  then have "nt_content nt = ''Thank you '' @ name @ '', your payment of '' @ print_value show (Some (JOther (dec n))) @ '' '' @
      currency @ '' for order #'' @ order @ '' has been processed successfully.''"
    unfolding payment_pieces template_lib_def using render_canonical [OF canonical_payment] assms(3-6)
    by (simp add: execute_def print_value_def [of _ "Some (JString _)"] del: unparse.simps)
  with print_int [OF assms(2)] go_float_large [OF assms(1)] show ?thesis by simp
qed

lemma million_and_a_half: "go_float 1500000 = ''1.5e+06''"
proof -
  have "digit 0 = CHR ''0''" "digit (Suc 0) = CHR ''1''" "digit 5 = CHR ''5''" "digit 6 = CHR ''6''" by code_simp+
  then show ?thesis
    by (simp add: go_float_def float_digits_def dec_nat.simps dec2_def dec_def trim_right_by_def Let_def)
qed

section \<open>Line breaks in a subject\<close>

text \<open>The lines of a mail above its first empty line, as the mail server reads them.\<close>

function mail_headers :: "string \<Rightarrow> string list" where
  "mail_headers s =
     (case cut_at [CHR 0x0D, CHR 0x0A] s of
        None \<Rightarrow> [s]
      | Some (l, rest) \<Rightarrow> if l = [] then [] else l # mail_headers rest)"
  by pat_completeness auto
termination
  by (relation "measure length") (auto dest!: cut_at_length)

declare mail_headers.simps [simp del]

lemma cut_at_crlf: "CHR 0x0D \<notin> set a \<Longrightarrow> cut_at [CHR 0x0D, CHR 0x0A] (a @ CHR 0x0D # CHR 0x0A # r) = Some (a, r)"
  by (induction a) (auto simp: has_prefix_def)

lemma mail_headers_line:
  "CHR 0x0D \<notin> set a \<Longrightarrow> mail_headers (a @ CHR 0x0D # CHR 0x0A # r) = (if a = [] then [] else a # mail_headers r)"
  by (subst mail_headers.simps) (simp add: cut_at_crlf)

text \<open>Three headers, if no value has a line break.\<close>

lemma mail_headers_plain:
  assumes "CHR 0x0D \<notin> set to" and "CHR 0x0D \<notin> set subject" and "CHR 0x0D \<notin> set i"
  shows "mail_headers (mail_body to subject i body) = [''To: '' @ to, ''Subject: '' @ subject, ''X-Notification-ID: '' @ i]"
  using assms mail_headers_line [of "''To: '' @ to"] mail_headers_line [of "''Subject: '' @ subject"]
    mail_headers_line [of "''X-Notification-ID: '' @ i"] mail_headers_line [of "[]"]
  by (simp add: mail_body_def Let_def)

text \<open>A value of the payload with a line break adds any header to the mail.\<close>

lemma subject_injects_header:
  assumes "CHR 0x0D \<notin> set to" and "CHR 0x0D \<notin> set a" and "CHR 0x0D \<notin> set h" and "h \<noteq> []"
    and "map_of (sq_payload event) ''order_id'' = Some (JString (a @ [CHR 0x0D, CHR 0x0A] @ h))"
    and "build_notification (template_lib lib other show) event (seed_templates_list ! 2) = Inr n"
  shows "h \<in> set (mail_headers (mail_body to (nt_subject n) i (nt_content n)))"
proof -
  have s: "tp_subject (seed_templates_list ! 2) = concat (map unparse [Lit ''Order Confirmation - #'', Field ''order_id'', Lit []])"
    and c: "canonical [Lit ''Order Confirmation - #'', Field ''order_id'', Lit []]"
    by code_simp+
  have "nl_render (template_lib lib other show) (tp_subject (seed_templates_list ! 2)) (sq_payload event) = Inr (nt_subject n)"
    using assms(6) by (auto simp: build_notification_def Let_def split: sum.splits option.splits)
  then have "nt_subject n = ''Order Confirmation - #'' @ a @ [CHR 0x0D, CHR 0x0A] @ h"
    unfolding s template_lib_def using render_canonical [OF c] assms(5)
    by (simp add: execute_def print_value_def del: unparse.simps)
  then show ?thesis
    using assms(1-4) mail_headers_line [of "''To: '' @ to"] mail_headers_line [of "''Subject: Order Confirmation - #'' @ a"]
      mail_headers_line [of h]
    by (simp add: mail_body_def Let_def)
qed

text \<open>A key that the payload lacks is no error.\<close>

lemma code_without_a_value:
  assumes "map_of (sq_payload event) ''otp'' = None"
    and "build_notification (template_lib lib other show) event (hd seed_templates_list) = Inr n"
  shows "nt_content n = ''Hello, your OTP code is: <no value>. This code is valid for 5 minutes.''"
proof -
  have s: "tp_content (hd seed_templates_list) =
      concat (map unparse [Lit ''Hello, your OTP code is: '', Field ''otp'', Lit ''. This code is valid for 5 minutes.''])"
    and c: "canonical [Lit ''Hello, your OTP code is: '', Field ''otp'', Lit ''. This code is valid for 5 minutes.'']"
    by code_simp+
  have "nl_render (template_lib lib other show) (tp_content (hd seed_templates_list)) (sq_payload event) = Inr (nt_content n)"
    using assms(2) by (auto simp: build_notification_def Let_def split: sum.splits option.splits)
  then show ?thesis
    unfolding s template_lib_def using render_canonical [OF c] assms(1)
    by (simp add: execute_def print_value_def del: unparse.simps)
qed

end
