(* ===== verification/LiveTokens.thy ===== *)
theory LiveTokens
  imports Tokens
begin

text \<open>
  What the auth service promises, and that it does: an abstract machine of users and sessions, a session
  being a refresh token that still works, and a refinement of every request to a step of it. The
  sessions are read off the keys of the cache.
\<close>

section \<open>Requests and answers\<close>

datatype auth_request =
    ReqRegister string string string
  | ReqLogin string string
  | ReqUser string
  | ReqRefresh string
  | ReqGoogle string
  | ReqProfile string
  | ReqLogout string string

text \<open>\<open>Granted\<close> carries the refresh token that the client gets.\<close>

datatype auth_answer = Granted string | Answered | Refused

definition granted :: "goerr + login_response \<Rightarrow> auth_answer" where
  "granted r = (case r of Inl _ \<Rightarrow> Refused | Inr resp \<Rightarrow> Granted (lr_refresh resp))"

definition answered :: "goerr + 'x \<Rightarrow> auth_answer" where
  "answered r = (case r of Inl _ \<Rightarrow> Refused | Inr _ \<Rightarrow> Answered)"

fun auth_answer_of :: "identity_lib \<Rightarrow> auth_config \<Rightarrow> auth_request \<Rightarrow> auth_answer identity_prog" where
  "auth_answer_of lib cfg (ReqRegister email password name) = bind (register_user email password name) (\<lambda>r. Return (answered r))"
| "auth_answer_of lib cfg (ReqLogin email password) = bind (login lib cfg email password) (\<lambda>r. Return (granted r))"
| "auth_answer_of lib cfg (ReqUser uid) = bind (get_user_by_id uid) (\<lambda>r. Return (answered r))"
| "auth_answer_of lib cfg (ReqRefresh token) = bind (refresh_token lib cfg token) (\<lambda>r. Return (granted r))"
| "auth_answer_of lib cfg (ReqGoogle code) = bind (login_with_google lib cfg code) (\<lambda>r. Return (granted r))"
| "auth_answer_of lib cfg (ReqProfile uid) = bind (get_profile uid) (\<lambda>r. Return (answered r))"
| "auth_answer_of lib cfg (ReqLogout access refresh) =
     bind (logout lib cfg access refresh) (\<lambda>r. Return (if r = Returned None then Answered else Refused))"

section \<open>The abstract machine\<close>

text \<open>A session is known by its key; it has the instant it ends at, if any.\<close>

type_synonym sessions = "string \<rightharpoonup> gotime option"

definition unexpired :: "gotime \<Rightarrow> gotime option \<Rightarrow> bool" where
  "unexpired now end_at \<longleftrightarrow> (case end_at of None \<Rightarrow> True | Some t \<Rightarrow> now < t)"

definition presents :: "identity_lib \<Rightarrow> auth_config \<Rightarrow> string \<Rightarrow> claims \<Rightarrow> bool" where
  "presents lib cfg token c \<longleftrightarrow> (\<exists>now. verify_token (il_jwt lib) cfg now token = Inr c)"

definition session_key :: "claims \<Rightarrow> string" where
  "session_key c = build_rt_key (cl_user c) (cl_jti c)"

text \<open>The token is signed for the user, and its key is the one that is stored.\<close>

definition issued :: "identity_lib \<Rightarrow> auth_config \<Rightarrow> user \<Rightarrow> string \<Rightarrow> string \<Rightarrow> bool" where
  "issued lib cfg u token key \<longleftrightarrow> (\<exists>c. jl_sign (il_jwt lib) (ac_secret cfg) c = Inr token
     \<and> cl_user c = il_uuid_str lib (usr_id u) \<and> cl_role c = usr_role u \<and> key = session_key c)"

definition session_end :: "auth_config \<Rightarrow> gotime \<Rightarrow> gotime option" where
  "session_end cfg now = (if 0 < rt_expiration cfg then Some (now + rt_expiration cfg) else None)"

inductive session_step ::
  "identity_lib \<Rightarrow> auth_config \<Rightarrow> auth_request \<Rightarrow> auth_answer \<Rightarrow> user list \<times> sessions \<Rightarrow> user list \<times> sessions \<Rightarrow> bool"
  for lib cfg where
  opened: "\<lbrakk>u \<in> set us; usr_email u = email; check_password lib u password; issued lib cfg u token key\<rbrakk>
    \<Longrightarrow> session_step lib cfg (ReqLogin email password) (Granted token) (us, S) (us, S(key \<mapsto> session_end cfg now))"
| rotated: "\<lbrakk>presents lib cfg old c; S (session_key c) = Some end_at; unexpired now end_at; u \<in> set us;
      il_uuid_cast lib (cl_user c) = Some (usr_id u); issued lib cfg u token key\<rbrakk>
    \<Longrightarrow> session_step lib cfg (ReqRefresh old) (Granted token) (us, S)
          (us, S(session_key c := None, key \<mapsto> session_end cfg now'))"
| consumed: "presents lib cfg old c
    \<Longrightarrow> session_step lib cfg (ReqRefresh old) Refused (us, S) (us, S(session_key c := None))"
| closed: "presents lib cfg refresh c
    \<Longrightarrow> session_step lib cfg (ReqLogout access refresh) ans (us, S) (us, S(session_key c := None))"
| joined: "session_step lib cfg (ReqRegister email password name) Answered (us, S) (us @ [u], S)"
| joined_google: "session_step lib cfg (ReqGoogle code) ans (us, S) (us @ [u], S)"
| google: "session_step lib cfg (ReqGoogle code) (Granted token) (us, S) (us, S)"
| looked_up: "session_step lib cfg (ReqUser uid) ans (us, S) (us, S)"
| profile: "session_step lib cfg (ReqProfile uid) ans (us, S) (us, S)"
| refused: "session_step lib cfg req Refused (us, S) (us, S)"

section \<open>The abstraction\<close>

definition sessions_of :: "string rstore \<Rightarrow> sessions" where
  "sessions_of st = (\<lambda>k. if take 3 k = ''rt:'' then map_option snd (st k) else None)"

definition abs_auth :: "identity_world \<Rightarrow> user list \<times> sessions" where
  "abs_auth w = (iw_users w, sessions_of (iw_cache w))"

lemma rt_key_prefix [simp]: "take 3 (build_rt_key uid jti) = ''rt:''" "take 3 (build_blacklist_key a) = ''bla''"
  by (simp_all add: build_rt_key_def build_blacklist_key_def)

lemma sessions_of_set [simp]:
  "sessions_of (rset now (build_rt_key uid jti) v (rt_expiration cfg) st) =
     (sessions_of st)(build_rt_key uid jti \<mapsto> session_end cfg now)"
  by (rule ext) (simp add: sessions_of_def rset_def session_end_def)

lemma sessions_of_blacklist [simp]: "sessions_of (rset now (build_blacklist_key a) v d st) = sessions_of st"
  by (rule ext) (auto simp: sessions_of_def rset_def)

lemma sessions_of_del [simp]: "sessions_of (rdel [k] st) = (sessions_of st)(k := None)"
  by (rule ext) (simp add: sessions_of_def rdel_def)

lemma sessions_of_hit:
  assumes "cache_get u f now (build_rt_key uid jti) st = Inr v"
  shows "\<exists>end_at. sessions_of st (build_rt_key uid jti) = Some end_at \<and> unexpired now end_at"
  using assms by (auto simp: cache_get_def rget_def sessions_of_def unexpired_def split: option.splits if_splits)

section \<open>Every request refines a step\<close>

text \<open>What the two generators return, on the users and the cache of the world.\<close>

lemma issued_refresh:
  assumes "generate_refresh_token (il_jwt lib) cfg jti now now' (il_uuid_str lib (usr_id u)) (usr_role u) = Inr (token, jti')"
  shows "issued lib cfg u token (build_rt_key (il_uuid_str lib (usr_id u)) jti')"
  using assms
  by (auto simp: generate_refresh_token_def issued_def session_key_def refresh_claims_def split: sum.splits)

lemma with_tokens_run:
  assumes "run (identity_handle lib env) (with_access_token lib cfg u (\<lambda>access. with_refresh_token lib cfg u (\<lambda>refresh jti.
      Call (ICacheSet (build_rt_key (il_uuid_str lib (usr_id u)) jti) v (rt_expiration cfg)) (\<lambda>r.
        case j_error r of Some err \<Rightarrow> Return (Inl err)
        | None \<Rightarrow> Return (Inr \<lparr>lr_access = access, lr_refresh = refresh, lr_user = resp\<rparr>))))) w = (r, w')"
  shows "abs_auth w' = abs_auth w \<and> isl r
    \<or> (\<exists>resp key now. r = Inr resp \<and> issued lib cfg u (lr_refresh resp) key
         \<and> abs_auth w' = (iw_users w, (sessions_of (iw_cache w))(key \<mapsto> session_end cfg now)))"
  using assms
  by (auto simp: with_access_token_def with_refresh_token_def inow_def new_uuid_def cache_set_def abs_auth_def isl_def
      dest!: issued_refresh split: sum.splits option.splits) blast+

lemma login_refines:
  assumes "run (identity_handle lib env) (login lib cfg email password) w = (r, w')"
  shows "session_step lib cfg (ReqLogin email password) (granted r) (abs_auth w) (abs_auth w')"
proof (cases "\<exists>u. ie_db_err env (IByEmail email) = None \<and> first_row (\<lambda>u. usr_email u = email) (iw_users w) = Inr u
    \<and> check_password lib u password")
  case False
  with assms have "granted r = Refused \<and> w' = w"
    by (auto simp: login_def ie_read_def granted_def split: option.splits sum.splits if_splits)
  then show ?thesis by (simp add: abs_auth_def refused)
next
  case True
  then obtain u where u: "ie_db_err env (IByEmail email) = None"
    "first_row (\<lambda>u. usr_email u = email) (iw_users w) = Inr u" "check_password lib u password" by blast
  from first_row_Inr [OF u(2)] have m: "u \<in> set (iw_users w)" "usr_email u = email" by auto
  from assms u have "abs_auth w' = abs_auth w \<and> isl r
    \<or> (\<exists>resp key now. r = Inr resp \<and> issued lib cfg u (lr_refresh resp) key
         \<and> abs_auth w' = (iw_users w, (sessions_of (iw_cache w))(key \<mapsto> session_end cfg now)))"
    by (intro with_tokens_run) (simp add: login_def ie_read_def)
  with m u(3) show ?thesis
    by (auto simp: granted_def isl_def abs_auth_def intro: refused opened)
qed

text \<open>A rotation is a deletion followed by a new session of the user that the token names.\<close>

lemma reissue_run:
  assumes "run (identity_handle lib env) (reissue lib cfg uid) w = (r, w')"
  shows "abs_auth w' = abs_auth w \<and> isl r
    \<or> (\<exists>resp u key now. r = Inr resp \<and> u \<in> set (iw_users w) \<and> il_uuid_cast lib uid = Some (usr_id u)
         \<and> issued lib cfg u (lr_refresh resp) key
         \<and> abs_auth w' = (iw_users w, (sessions_of (iw_cache w))(key \<mapsto> session_end cfg now)))"
proof (cases "ie_read env (IByID uid) (sql_user_by_id lib uid w)")
  case (Inl e)
  with assms show ?thesis by (auto simp: reissue_def isl_def)
next
  case (Inr u)
  then have u: "u \<in> set (iw_users w)" "il_uuid_cast lib uid = Some (usr_id u)"
    by (auto simp: ie_read_def sql_user_by_id_def split: option.splits dest: first_row_Inr)
  from Inr assms have "abs_auth w' = abs_auth w \<and> isl r
    \<or> (\<exists>resp key now. r = Inr resp \<and> issued lib cfg u (lr_refresh resp) key
         \<and> abs_auth w' = (iw_users w, (sessions_of (iw_cache w))(key \<mapsto> session_end cfg now)))"
    by (intro with_tokens_run) (simp add: reissue_def)
  with u show ?thesis by blast
qed

lemma refresh_refines:
  assumes "run (identity_handle lib env) (refresh_token lib cfg token) w = (r, w')"
    and "\<And>ks. ie_cache_err env (ICacheDel ks) = None"
  shows "session_step lib cfg (ReqRefresh token) (granted r) (abs_auth w) (abs_auth w')"
proof (cases "verify_token (il_jwt lib) cfg (ie_clock env (iw_ticks w)) token")
  case (Inl e)
  with assms(1) have "granted r = Refused \<and> abs_auth w' = abs_auth w"
    by (auto simp: refresh_token_def inow_def granted_def abs_auth_def)
  then show ?thesis by (simp add: abs_auth_def refused)
next
  case v: (Inr c)
  let ?key = "build_rt_key (cl_user c) (cl_jti c)" and ?now = "ie_clock env (Suc (iw_ticks w))"
  let ?w1 = "w\<lparr>iw_ticks := Suc (Suc (iw_ticks w)), iw_cache := rdel [?key] (iw_cache w)\<rparr>"
  have p: "presents lib cfg token c" using v by (auto simp: presents_def)
  show ?thesis
  proof (cases "cache_get (il_unmarshal lib) (ie_cache_err env (ICacheGet ?key)) ?now ?key (iw_cache w)")
    case (Inl e)
    with v assms(1) have "granted r = Refused \<and> abs_auth w' = abs_auth w"
      by (auto simp: refresh_token_def inow_def granted_def abs_auth_def Let_def)
    then show ?thesis by (simp add: abs_auth_def refused)
  next
    case (Inr v')
    then obtain t where t: "sessions_of (iw_cache w) ?key = Some t" "unexpired ?now t"
      using sessions_of_hit [OF Inr] by blast
    from v Inr assms have "run (identity_handle lib env) (reissue lib cfg (cl_user c)) ?w1 = (r, w')"
      by (simp add: refresh_token_def inow_def Let_def cache_delete_def)
    from reissue_run [OF this] t p show ?thesis
      by (auto simp: abs_auth_def granted_def isl_def session_key_def
          intro: consumed [of lib cfg token c, unfolded session_key_def] rotated [of lib cfg token c, unfolded session_key_def])
  qed
qed

lemma logout_refines:
  assumes "run (identity_handle lib env) (logout lib cfg access token) w = (r, w')"
    and "\<And>ks. ie_cache_err env (ICacheDel ks) = None"
  shows "session_step lib cfg (ReqLogout access token) (if r = Returned None then Answered else Refused) (abs_auth w) (abs_auth w')"
proof (cases "verify_token (il_jwt lib) cfg (ie_clock env (Suc (iw_ticks w))) token")
  case (Inl e)
  with assms(1) have "r = Returned (Some e) \<and> abs_auth w' = abs_auth w"
    by (auto simp: logout_def inow_def abs_auth_def Let_def)
  then show ?thesis by (simp add: abs_auth_def refused)
next
  case (Inr c)
  have p: "presents lib cfg token c" using Inr by (auto simp: presents_def)
  from Inr assms have "abs_auth w' = (iw_users w, (sessions_of (iw_cache w))(session_key c := None))"
    by (auto simp: logout_def blacklist_access_def inow_def cache_delete_def cache_set_def abs_auth_def session_key_def Let_def
        split: sum.splits option.splits if_splits)
  with closed [OF p] show ?thesis by (simp add: abs_auth_def)
qed

lemma google_tokens_abs: "run (identity_handle lib env) (google_tokens lib cfg u) w = (r, w') \<Longrightarrow> abs_auth w' = abs_auth w"
  by (auto simp: google_tokens_def with_access_token_def with_refresh_token_def inow_def new_uuid_def abs_auth_def
      split: sum.splits)

lemma user_create_abs:
  assumes "identity_handle lib env (IUserCreate u) w = (r, w')"
  shows "abs_auth w' = abs_auth w \<and> isl (j_user r) \<or> (\<exists>v. abs_auth w' = (iw_users w @ [v], sessions_of (iw_cache w)))"
  using assms
  by (auto simp: inow_def new_uuid_def sql_user_create_def insert_row_def abs_auth_def Let_def split: option.splits if_splits)

lemma create_then_tokens:
  assumes "run (identity_handle lib env) (Call (IUserCreate u0) (\<lambda>r. case j_user r of
      Inl err \<Rightarrow> Return (Inl err) | Inr u \<Rightarrow> google_tokens lib cfg u)) w = (r, w')"
  shows "abs_auth w' = abs_auth w \<or> (\<exists>v. abs_auth w' = (iw_users w @ [v], sessions_of (iw_cache w)))"
proof -
  obtain r1 w1 where h: "identity_handle lib env (IUserCreate u0) w = (r1, w1)" by fastforce
  with assms have "abs_auth w' = abs_auth w1"
    by (auto simp: simp del: identity_handle.simps split: sum.splits dest: google_tokens_abs)
  with user_create_abs [OF h] show ?thesis by auto
qed

lemma google_refines:
  assumes "run (identity_handle lib env) (login_with_google lib cfg code) w = (r, w')"
  shows "session_step lib cfg (ReqGoogle code) (granted r) (abs_auth w) (abs_auth w')"
proof -
  have "abs_auth w' = abs_auth w \<or> (\<exists>u. abs_auth w' = (iw_users w @ [u], sessions_of (iw_cache w)))"
    using assms
    by (auto simp: login_with_google_def fetch_google_profile_def simp del: identity_handle.simps(1) run.simps(2)
        simp: run.simps(2) [of _ "IByEmail e" for e] run.simps(2) [of _ "IExchange e" for e] run.simps(2) [of _ "IHttpGet e" for e]
        split: sum.splits dest!: google_tokens_abs dest: create_then_tokens)
  then show ?thesis
    by (cases r) (auto simp: granted_def abs_auth_def intro: refused joined_google google)
qed


lemma other_requests_refine:
  "run (identity_handle lib env) (register_user email password name) w = (ru, w')
    \<Longrightarrow> session_step lib cfg (ReqRegister email password name) (answered ru) (abs_auth w) (abs_auth w')"
  "run (identity_handle lib env) (get_user_by_id uid) w = (rg, w')
    \<Longrightarrow> session_step lib cfg (ReqUser uid) (answered rg) (abs_auth w) (abs_auth w')"
  "run (identity_handle lib env) (get_profile uid) w = (rp, w')
    \<Longrightarrow> session_step lib cfg (ReqProfile uid) (answered rp) (abs_auth w) (abs_auth w')"
  by (auto simp: register_user_def get_user_by_id_def get_profile_def answered_def inow_def new_uuid_def sql_user_create_def
      insert_row_def abs_auth_def Let_def split: sum.splits option.splits if_splits
      intro: refused joined looked_up profile)

lemma auth_request_refines:
  assumes "run (identity_handle lib env) (auth_answer_of lib cfg req) w = (ans, w')"
    and "\<And>ks. ie_cache_err env (ICacheDel ks) = None"
  shows "session_step lib cfg req ans (abs_auth w) (abs_auth w')"
  using assms
  by (cases req) (auto simp: run_bind split: prod.splits
      intro: login_refines refresh_refines google_refines logout_refines other_requests_refine)

section \<open>Histories\<close>

fun serve_auth ::
  "identity_lib \<Rightarrow> auth_config \<Rightarrow> (identity_env \<times> auth_request) list \<Rightarrow> identity_world \<Rightarrow> auth_answer list \<times> identity_world" where
  "serve_auth lib cfg [] w = ([], w)"
| "serve_auth lib cfg ((env, req) # h) w =
     (case run (identity_handle lib env) (auth_answer_of lib cfg req) w of
        (ans, w1) \<Rightarrow> (case serve_auth lib cfg h w1 of (anss, w2) \<Rightarrow> (ans # anss, w2)))"

inductive session_steps ::
  "identity_lib \<Rightarrow> auth_config \<Rightarrow> auth_request list \<Rightarrow> auth_answer list \<Rightarrow> user list \<times> sessions \<Rightarrow> user list \<times> sessions \<Rightarrow> bool"
  for lib cfg where
  steps_none: "session_steps lib cfg [] [] A A"
| steps_some: "session_step lib cfg req ans A A' \<Longrightarrow> session_steps lib cfg reqs anss A' A''
    \<Longrightarrow> session_steps lib cfg (req # reqs) (ans # anss) A A''"

text \<open>The logins that were granted.\<close>

fun logins :: "auth_request list \<Rightarrow> auth_answer list \<Rightarrow> nat" where
  "logins (ReqLogin _ _ # reqs) (Granted _ # anss) = Suc (logins reqs anss)"
| "logins (_ # reqs) (_ # anss) = logins reqs anss"
| "logins _ _ = 0"

lemma no_logins: "list_all (\<lambda>req. \<not> (\<exists>e p. req = ReqLogin e p)) reqs \<Longrightarrow> logins reqs anss = 0"
  by (induction reqs anss rule: logins.induct) auto

lemma finite_upd [simp]: "finite (dom (S(k \<mapsto> v))) = finite (dom S)"
  by (simp add: dom_def [symmetric])

lemma card_upd: "finite (dom S) \<Longrightarrow> card (dom (S(k \<mapsto> v))) \<le> Suc (card (dom S))"
  by (simp add: card_insert_if)

text \<open>No step but a login adds a session: a rotation puts one session in the place of another.\<close>

lemma step_counts:
  assumes "session_step lib cfg req ans (us, S) (us', S')" and "finite (dom S)"
  shows "finite (dom S') \<and> card (dom S') \<le> card (dom S) + logins [req] [ans]"
  using assms
proof cases
  case (rotated old c end_at now u token key now')
  then have "card (dom S') \<le> Suc (card (dom S - {session_key c}))"
    using card_upd [of "S(session_key c := None)" key] assms(2) by simp
  also have "\<dots> \<le> card (dom S)"
    using rotated assms(2) by (intro Suc_leI card_Diff1_less) auto
  finally show ?thesis using rotated assms(2) by simp
qed (auto simp: card_insert_if card_Diff1_le)

lemma steps_count:
  assumes "session_steps lib cfg reqs anss A A'" and "finite (dom (snd A))"
  shows "finite (dom (snd A')) \<and> card (dom (snd A')) \<le> card (dom (snd A)) + logins reqs anss"
  using assms
proof (induction rule: session_steps.induct)
  case (steps_some req ans A A' reqs anss A'')
  have "finite (dom (snd A')) \<and> card (dom (snd A')) \<le> card (dom (snd A)) + logins [req] [ans]"
    using step_counts [of lib cfg req ans "fst A" "snd A" "fst A'" "snd A'"] steps_some by simp
  moreover have "logins (req # reqs) (ans # anss) = logins [req] [ans] + logins reqs anss"
    by (cases req; cases ans) simp_all
  ultimately show ?case using steps_some.IH by simp
qed simp



end
