(* ===== verification/CampaignMails.thy ===== *)
theory CampaignMails
  imports Campaigns
begin

text \<open>
  The other half of a campaign: the worker of the campaign.email queue, on the messages that a dispatch
  publishes. Together with theory Campaigns this is the way of a campaign from its dispatch to the
  statistics a client reads; and what becomes of a mail that the mail server refuses.
\<close>

section \<open>The queue is worked off\<close>

text \<open>Each message is delivered once, in order; the answers are what the consumer loop settles them with.\<close>

fun work_campaign_queue ::
  "notify_lib \<Rightarrow> notify_env \<Rightarrow> notify_config \<Rightarrow> string list \<Rightarrow> notify_world \<Rightarrow> delivery_outcome list \<times> notify_world" where
  "work_campaign_queue lib env cfg [] w = ([], w)"
| "work_campaign_queue lib env cfg (body # bodies) w =
     (case run (notify_handle lib env) (handle_campaign_email lib cfg body) w of
        (err, w1) \<Rightarrow> (case work_campaign_queue lib env cfg bodies w1 of (outs, w2) \<Rightarrow> (settle err # outs, w2)))"

text \<open>A task is read back from its JSON, with the campaign's id.\<close>

definition campaign_json_ok :: "notify_lib \<Rightarrow> campaign \<Rightarrow> stream_user \<Rightarrow> bool" where
  "campaign_json_ok lib campaign u \<longleftrightarrow>
     (\<exists>b. nl_campaign_json lib (campaign_task_for lib campaign u) = Inr b
        \<and> nl_campaign_parse lib b = Inr (campaign_task_for lib campaign u))
     \<and> nl_uuid_parse lib (nl_uuid_str lib (cp_id campaign)) = Inr (cp_id campaign)"

definition campaign_mail :: "notify_lib \<Rightarrow> campaign \<Rightarrow> stream_user \<Rightarrow> string \<times> string" where
  "campaign_mail lib campaign u =
     (su_email u, mail_body (su_email u) (cp_subject campaign)
        (''campaign:'' @ nl_uuid_str lib (cp_id campaign) @ '':'' @ su_id u) (cp_content campaign))"

definition recipient_row :: "campaign \<Rightarrow> string \<Rightarrow> stream_user \<Rightarrow> campaign_recipient" where
  "recipient_row campaign status u =
     \<lparr>rp_campaign = cp_id campaign, rp_user = su_id u, rp_recipient = su_email u, rp_status = status\<rparr>"

text \<open>
  What is on record after the users \<open>ok\<close> were mailed and the mails to the users \<open>bad\<close> were refused: the
  mails, an audit row per attempt, and the counters of the campaign, whose other columns stay.
\<close>

definition recorded :: "notify_lib \<Rightarrow> campaign \<Rightarrow> stream_user list \<Rightarrow> stream_user list \<Rightarrow> notify_world \<Rightarrow> notify_world \<Rightarrow> bool" where
  "recorded lib campaign ok bad w w' \<longleftrightarrow>
     nw_mails w' = nw_mails w @ map (campaign_mail lib campaign) ok \<and> nw_published w' = nw_published w
     \<and> nw_recipients w' = nw_recipients w @ map (recipient_row campaign ''sent'') ok @ map (recipient_row campaign ''failed'') bad
     \<and> map nt_status (nw_notifications w') =
         map nt_status (nw_notifications w) @ replicate (length ok) NSent @ replicate (length bad) NFailed
     \<and> (\<forall>c. by_key cp_id (cp_id campaign) (nw_campaigns w) = Some c \<longrightarrow>
          (\<exists>t. by_key cp_id (cp_id campaign) (nw_campaigns w') =
             Some (c\<lparr>cp_sent := cp_sent c + int (length ok), cp_failed := cp_failed c + int (length bad), cp_updated := t\<rparr>)))"

lemma recorded_none: "recorded lib campaign [] [] w w"
proof -
  have "\<exists>t. c = c\<lparr>cp_updated := t\<rparr>" for c :: campaign
    by (rule exI [of _ "cp_updated c"]) simp
  then show ?thesis by (simp add: recorded_def)
qed

lemma recorded_trans:
  assumes "recorded lib campaign ok bad w w1" and "recorded lib campaign ok' bad' w1 w2" and "bad = [] \<or> ok' = []"
  shows "recorded lib campaign (ok @ ok') (bad @ bad') w w2"
proof -
  let ?i = "cp_id campaign"
  have "\<exists>t. by_key cp_id ?i (nw_campaigns w2) = Some (c\<lparr>cp_sent := cp_sent c + int (length (ok @ ok')),
      cp_failed := cp_failed c + int (length (bad @ bad')), cp_updated := t\<rparr>)"
    if c: "by_key cp_id ?i (nw_campaigns w) = Some c" for c
  proof -
    from assms(1) c obtain t where "by_key cp_id ?i (nw_campaigns w1) =
        Some (c\<lparr>cp_sent := cp_sent c + int (length ok), cp_failed := cp_failed c + int (length bad), cp_updated := t\<rparr>)"
      by (auto simp: recorded_def)
    with assms(2) show ?thesis by (fastforce simp: recorded_def add.assoc)
  qed
  with assms show ?thesis by (auto simp: recorded_def replicate_add)
qed


lemma mail_accepted:
  assumes "\<And>c. ne_db env c = None" and "\<And>to msg. ne_smtp env to msg = None" and "cb_state (nw_breaker w) = Closed"
    and "nl_campaign_parse lib body = Inr (campaign_task_for lib campaign u)"
    and "nl_uuid_parse lib (nl_uuid_str lib (cp_id campaign)) = Inr (cp_id campaign)" and "su_email u \<noteq> ''''"
  shows "\<exists>w'. run (notify_handle lib env) (handle_campaign_email lib cfg body) w = (None, w')
    \<and> recorded lib campaign [u] [] w w' \<and> cb_state (nw_breaker w') = Closed"
  using assms by_key_Some
  by (auto simp: handle_campaign_email_def campaign_task_for_def run_bind run_send_email breaker_send_accepted
      insert_campaign_audit_def insert_campaign_recipient_def uuid_or_nil_def notify_call_defs sql_notification_create_def
      sql_recipient_create_def sql_campaign_increment_def update_campaign_def insert_row_def recorded_def campaign_mail_def
      recipient_row_def by_key_update_same Let_def)

text \<open>A refused mail is an attempt on record, and the message goes back to the queue.\<close>

lemma mail_refused:
  assumes "\<And>c. ne_db env c = None" and "\<And>to msg. ne_smtp env to msg = Some (Plain m)" and "cb_state (nw_breaker w) = Closed"
    and "cb_failures (nw_breaker w) + 1 < cb_max_failures (nw_breaker w)"
    and "nl_campaign_parse lib body = Inr (campaign_task_for lib campaign u)"
    and "nl_uuid_parse lib (nl_uuid_str lib (cp_id campaign)) = Inr (cp_id campaign)" and "su_email u \<noteq> ''''"
  shows "\<exists>w'. run (notify_handle lib env) (handle_campaign_email lib cfg body) w = (Some (Plain m), w')
    \<and> recorded lib campaign [] [u] w w'
    \<and> nw_breaker w' = (nw_breaker w)\<lparr>cb_failures := cb_failures (nw_breaker w) + 1\<rparr>"
  using assms by_key_Some
  by (auto simp: handle_campaign_email_def campaign_task_for_def run_bind run_send_email breaker_send_refused
      insert_campaign_audit_def insert_campaign_recipient_def uuid_or_nil_def notify_call_defs sql_notification_create_def
      sql_recipient_create_def sql_campaign_increment_def update_campaign_def insert_row_def recorded_def
      recipient_row_def by_key_update_same Let_def)

lemma queue_accepted:
  assumes "\<And>c. ne_db env c = None" and "\<And>to msg. ne_smtp env to msg = None"
    and "list_all (\<lambda>u. campaign_json_ok lib campaign u \<and> su_email u \<noteq> '''') us" and "cb_state (nw_breaker w) = Closed"
  shows "\<exists>w'. work_campaign_queue lib env cfg (map (\<lambda>u. projr (nl_campaign_json lib (campaign_task_for lib campaign u))) us) w =
      (replicate (length us) Ack, w') \<and> recorded lib campaign us [] w w'"
  using assms(3,4)
proof (induction us arbitrary: w)
  case (Cons u us)
  let ?body = "projr (nl_campaign_json lib (campaign_task_for lib campaign u))"
  from Cons.prems have "nl_campaign_parse lib ?body = Inr (campaign_task_for lib campaign u)"
    and "nl_uuid_parse lib (nl_uuid_str lib (cp_id campaign)) = Inr (cp_id campaign)" and "su_email u \<noteq> ''''"
    by (auto simp: campaign_json_ok_def)
  from mail_accepted [OF assms(1,2) Cons.prems(2) this] obtain w1 where
    1: "run (notify_handle lib env) (handle_campaign_email lib cfg ?body) w = (None, w1)"
      "recorded lib campaign [u] [] w w1" "cb_state (nw_breaker w1) = Closed" by blast
  from Cons.IH [OF _ 1(3)] Cons.prems obtain w2 where
    2: "work_campaign_queue lib env cfg (map (\<lambda>u. projr (nl_campaign_json lib (campaign_task_for lib campaign u))) us) w1 =
        (replicate (length us) Ack, w2)" "recorded lib campaign us [] w1 w2" by auto
  from recorded_trans [OF 1(2) 2(2)] 1(1) 2(1) show ?case by (simp add: settle_def)
qed (simp add: recorded_none)

section \<open>A campaign arrives\<close>

definition after_dispatch :: "notify_lib \<Rightarrow> notify_env \<Rightarrow> notify_config \<Rightarrow> campaign \<Rightarrow> notify_world \<Rightarrow> notify_world" where
  "after_dispatch lib env cfg campaign w = snd (run (notify_handle lib env) (dispatch_campaign lib cfg campaign) w)"

text \<open>The bodies that the dispatch has put on the queue.\<close>

definition queued :: "notify_lib \<Rightarrow> notify_env \<Rightarrow> notify_config \<Rightarrow> campaign \<Rightarrow> notify_world \<Rightarrow> string list" where
  "queued lib env cfg campaign w =
     map (snd \<circ> snd) (drop (length (nw_published w)) (nw_published (after_dispatch lib env cfg campaign w)))"

text \<open>A dispatch sends no mail and records no attempt.\<close>

definition untouched_by_dispatch :: "notify_world \<Rightarrow> notify_world \<Rightarrow> bool" where
  "untouched_by_dispatch w w' \<longleftrightarrow> nw_mails w' = nw_mails w \<and> nw_recipients w' = nw_recipients w
     \<and> nw_notifications w' = nw_notifications w \<and> nw_breaker w' = nw_breaker w"

lemma dispatch_frame: "untouched_by_dispatch w (after_dispatch lib env cfg campaign w)"
  unfolding after_dispatch_def
proof (rule run_invariant [OF calls_dispatch_campaign])
  fix c v
  assume "campaign_allows (Some (cp_id campaign)) c" and "untouched_by_dispatch w v"
  then show "untouched_by_dispatch w (snd (notify_handle lib env c v))"
    by (cases c) (auto simp: campaign_allows_def untouched_by_dispatch_def notify_call_defs sql_campaign_total_def
        sql_campaign_checkpoint_def sql_campaign_mark_def update_campaign_def split: option.splits)
qed (simp add: untouched_by_dispatch_def)

definition campaign_fresh :: "campaign \<Rightarrow> notify_world \<Rightarrow> bool" where
  "campaign_fresh campaign w \<longleftrightarrow> by_key cp_id (cp_id campaign) (nw_campaigns w) = Some campaign
     \<and> cp_sent campaign = 0 \<and> cp_failed campaign = 0 \<and> cp_dispatched campaign = 0"

text \<open>
  C6. A campaign that nothing disturbs arrives. Its dispatch puts one task per user on the queue, whatever the
  batch size; the worker of that queue acknowledges each of them, mails every user once and in order,
  with the campaign's subject and content, and records one sent recipient and one sent notification
  each. The statistics then say that the campaign is completed, that all its users were dispatched
  and mailed, that none failed and that nothing is pending.
\<close>
theorem campaign_arrives:
  assumes "calm env" and "\<And>to msg. ne_smtp env to msg = None" and "cb_state (nw_breaker w) = Closed"
    and json: "\<And>u. \<exists>b. nl_campaign_json lib (campaign_task_for lib campaign u) = Inr b"
    and rt: "list_all (\<lambda>u. campaign_json_ok lib campaign u \<and> su_email u \<noteq> '''') us" and "us \<noteq> []"
    and "ne_count env (campaign_role lib campaign) = Inr (int (length us))"
    and "ne_stream env (campaign_role lib campaign) (cp_cursor campaign) (int32 (campaign_batch_size cfg)) = Inr (us, None)"
    and "campaign_fresh campaign w"
    and "work_campaign_queue lib env cfg (queued lib env cfg campaign w) (after_dispatch lib env cfg campaign w) = (outs, w')"
  shows "outs = replicate (length us) Ack
    \<and> nw_mails w' = nw_mails w @ map (campaign_mail lib campaign) us
    \<and> nw_recipients w' = nw_recipients w @ map (recipient_row campaign ''sent'') us
    \<and> map nt_status (nw_notifications w') = map nt_status (nw_notifications w) @ replicate (length us) NSent
    \<and> fst (run (notify_handle lib env) (get_campaign_stats lib (nl_uuid_str lib (cp_id campaign))) w') =
        Inr \<lparr>sr_campaign = nl_uuid_str lib (cp_id campaign), sr_status = CCompleted, sr_total = int (length us),
             sr_cursor = su_id (last us), sr_dispatched = int (length us), sr_sent = int (length us), sr_failed = 0,
             sr_pending = 0, sr_progress = (int (length us), int (length us))\<rparr>"
proof -
  let ?i = "cp_id campaign" and ?w1 = "after_dispatch lib env cfg campaign w"
  let ?bodies = "map (\<lambda>u. projr (nl_campaign_json lib (campaign_task_for lib campaign u))) us"
  have n: "reached cfg us None = length us" "length us \<noteq> 0" "us ! (length us - 1) = last us"
    using assms(6) by (simp_all add: reached_def last_conv_nth)
  from dispatch_run [OF assms(1) json assms(7,8), of w] obtain w3 where
    d: "dispatched_to ?i (campaign_messages lib cfg campaign us) (length us) (su_id (last us))
        (snd (notify_handle lib env (NCampaignTotal ?i (int (length us))) w)) w3"
    and r: "?w1 = marked lib env ?i (Some CCompleted) w3"
    using n by (auto simp: after_dispatch_def final_status_def)
  from assms(9) have row: "by_key cp_id ?i (nw_campaigns w) = Some campaign" by (simp add: campaign_fresh_def)
  note d' = dispatch_row [OF assms(1) row d, of "Some CCompleted", folded r]
  have q: "queued lib env cfg campaign w = ?bodies"
    by (simp add: queued_def d'(1) campaign_messages_def)
  have f: "untouched_by_dispatch w ?w1" by (rule dispatch_frame)
  then have "cb_state (nw_breaker ?w1) = Closed" using assms(3) by (simp add: untouched_by_dispatch_def)
  from queue_accepted [OF _ assms(2) rt this, of cfg] assms(1,10) q
  have o: "outs = replicate (length us) Ack" and rec: "recorded lib campaign us [] ?w1 w'"
    by (auto simp: calm_def)
  obtain row' where row': "by_key cp_id ?i (nw_campaigns w') = Some row'" "cp_total row' = int (length us)"
      "cp_sent row' = int (length us)" "cp_failed row' = 0" "cp_dispatched row' = int (length us)"
      "cp_cursor row' = su_id (last us)" "cp_status row' = CCompleted"
    using d'(2) rec assms(9) n(2) by (auto simp: recorded_def campaign_fresh_def)
  moreover have "cp_id row' = ?i" using by_key_Some [OF row'(1)] by simp
  moreover have "nl_uuid_parse lib (nl_uuid_str lib ?i) = Inr ?i"
    using rt assms(6) by (cases us) (auto simp: campaign_json_ok_def)
  ultimately have "fst (run (notify_handle lib env) (get_campaign_stats lib (nl_uuid_str lib ?i)) w') =
      Inr \<lparr>sr_campaign = nl_uuid_str lib ?i, sr_status = CCompleted, sr_total = int (length us), sr_cursor = su_id (last us),
           sr_dispatched = int (length us), sr_sent = int (length us), sr_failed = 0, sr_pending = 0,
           sr_progress = (int (length us), int (length us))\<rparr>"
    using assms(1,6) by (simp add: get_campaign_stats_def notify_call_defs sql_campaign_get_def first_row_by_key calm_def stats_of_def)
  with o rec f show ?thesis by (simp add: recorded_def untouched_by_dispatch_def)
qed

definition mail_lib :: notify_lib where
  "mail_lib = demo_nlib\<lparr>nl_campaign_parse := \<lambda>s. Inr (demo_campaign_task\<lparr>ck_user := s, ck_recipient := s @ ''@x''\<rparr>)\<rparr>"

theorem campaign_arrives_witness:
  "nw_mails (snd (work_campaign_queue mail_lib (demo_nenv\<lparr>ne_stream := \<lambda>_ _ _. Inr (demo_users, None), ne_count := \<lambda>_. Inr 3\<rparr>) demo_nconfig
      (queued mail_lib (demo_nenv\<lparr>ne_stream := \<lambda>_ _ _. Inr (demo_users, None), ne_count := \<lambda>_. Inr 3\<rparr>) demo_nconfig demo_campaign
        (demo_nworld\<lparr>nw_campaigns := [demo_campaign]\<rparr>))
      (after_dispatch mail_lib (demo_nenv\<lparr>ne_stream := \<lambda>_ _ _. Inr (demo_users, None), ne_count := \<lambda>_. Inr 3\<rparr>) demo_nconfig demo_campaign
        (demo_nworld\<lparr>nw_campaigns := [demo_campaign]\<rparr>)))) =
   map (campaign_mail mail_lib demo_campaign) demo_users"
proof -
  let ?env = "demo_nenv\<lparr>ne_stream := \<lambda>_ _ _. Inr (demo_users, None), ne_count := \<lambda>_. Inr 3\<rparr>"
  let ?w = "demo_nworld\<lparr>nw_campaigns := [demo_campaign]\<rparr>"
  let ?x = "work_campaign_queue mail_lib ?env demo_nconfig (queued mail_lib ?env demo_nconfig demo_campaign ?w)
      (after_dispatch mail_lib ?env demo_nconfig demo_campaign ?w)"
  have e: "calm ?env" "\<And>to msg. ne_smtp ?env to msg = None" "cb_state (nw_breaker ?w) = Closed" "nw_mails ?w = []"
    by (simp_all add: calm_def demo_nenv_def demo_nworld_def new_breaker_def)
  have j: "\<exists>b. nl_campaign_json mail_lib (campaign_task_for mail_lib demo_campaign u) = Inr b" for u
    by (simp add: mail_lib_def demo_nlib_def)
  have one: "uint (1 :: uuid) = 1" by simp
  have rt: "list_all (\<lambda>u. campaign_json_ok mail_lib demo_campaign u \<and> su_email u \<noteq> '''') demo_users" "demo_users \<noteq> []"
    by (simp_all add: demo_users_def campaign_json_ok_def campaign_task_for_def mail_lib_def demo_nlib_def demo_campaign_def
        demo_campaign_task_def one unary_def unary_parse_def)
  have s: "ne_count ?env (campaign_role mail_lib demo_campaign) = Inr (int (length demo_users))"
    "ne_stream ?env (campaign_role mail_lib demo_campaign) (cp_cursor demo_campaign) (int32 (campaign_batch_size demo_nconfig)) = Inr (demo_users, None)"
    "campaign_fresh demo_campaign ?w"
    by (simp_all add: demo_users_def campaign_fresh_def by_key_def demo_campaign_def)
  show ?thesis
    using campaign_arrives [OF e(1,2,3) j rt s surjective_pairing] e(4) by simp
qed

section \<open>A mail that is refused\<close>

text \<open>A message that cannot be read is put back as well, and leaves nothing on record.\<close>

lemma unreadable_campaign_mail:
  "nl_campaign_parse lib body = Inl e \<Longrightarrow>
   run (notify_handle lib env) (handle_campaign_email lib cfg body) w = (Some e, w)"
  by (simp add: handle_campaign_email_def)

text \<open>
  C27. A refused campaign mail is never given up. The worker answers its error, which is not the one that
  rejects a message, so the message is put back and delivered again, with no limit and no delay; and
  every delivery is recorded as another failure. While the breaker stays closed, \<open>n\<close> deliveries of one
  message leave \<open>n\<close> failed recipients, \<open>n\<close> failed notifications and a failure count of \<open>n\<close> for one user.
\<close>
theorem campaign_failure_recounted:
  assumes "\<And>c. ne_db env c = None" and "\<And>to msg. ne_smtp env to msg = Some (Plain m)"
    and "nl_campaign_parse lib body = Inr (campaign_task_for lib campaign u)"
    and "nl_uuid_parse lib (nl_uuid_str lib (cp_id campaign)) = Inr (cp_id campaign)" and "su_email u \<noteq> ''''"
    and "cb_state (nw_breaker w) = Closed" and "cb_failures (nw_breaker w) + int n < cb_max_failures (nw_breaker w)"
  shows "case work_campaign_queue lib env cfg (replicate n body) w of (outs, w') \<Rightarrow>
    outs = replicate n NackRequeue \<and> recorded lib campaign [] (replicate n u) w w'"
  using assms(6,7)
proof (induction n arbitrary: w)
  case (Suc n)
  from mail_refused [OF assms(1,2) Suc.prems(1) _ assms(3-5)] Suc.prems(2) obtain w1 where
    1: "run (notify_handle lib env) (handle_campaign_email lib cfg body) w = (Some (Plain m), w1)"
      "recorded lib campaign [] [u] w w1" "nw_breaker w1 = (nw_breaker w)\<lparr>cb_failures := cb_failures (nw_breaker w) + 1\<rparr>"
    by fastforce
  obtain outs w2 where r: "work_campaign_queue lib env cfg (replicate n body) w1 = (outs, w2)" by fastforce
  with Suc.IH [of w1] Suc.prems 1(3) have 2: "outs = replicate n NackRequeue" "recorded lib campaign [] (replicate n u) w1 w2"
    by auto
  from recorded_trans [OF 1(2) 2(2)] 1(1) r 2(1) show ?case by (simp add: settle_def)
qed (simp add: recorded_none)

theorem campaign_failure_recounted_witness:
  "fst (work_campaign_queue mail_lib (demo_nenv\<lparr>ne_smtp := \<lambda>_ _. Some (Plain ''550'')\<rparr>) demo_nconfig (replicate 4 ''a'') demo_nworld) =
   replicate 4 NackRequeue"
proof -
  let ?env = "demo_nenv\<lparr>ne_smtp := \<lambda>_ _. Some (Plain ''550'')\<rparr>"
  let ?u = "\<lparr>su_id = ''a'', su_email = ''a@x''\<rparr>"
  have p: "nl_campaign_parse mail_lib ''a'' = Inr (campaign_task_for mail_lib demo_campaign ?u)"
    "nl_uuid_parse mail_lib (nl_uuid_str mail_lib (cp_id demo_campaign)) = Inr (cp_id demo_campaign)"
    by (simp_all add: mail_lib_def campaign_task_for_def demo_nlib_def demo_campaign_def demo_campaign_task_def unary_def unary_parse_def)
  show ?thesis
    using campaign_failure_recounted [OF _ _ p, of ?env "''550''" demo_nworld 4 demo_nconfig]
    by (simp add: demo_nenv_def demo_nworld_def new_breaker_def split: prod.splits)
qed

end
