(* ===== verification/Metrics.thy ===== *)
theory Metrics
  imports Complex_Main Campaigns
begin

text \<open>
  services/notification/internal/metrics/metrics.go and what the email worker records there: the handlers of
  theory Emails once more, with every counter they increment and every duration they observe. The plain
  handlers are what is left when the metrics are erased.
\<close>

section \<open>The metrics\<close>

text \<open>All of them are in the namespace \<open>notification\<close>.\<close>

datatype metric_kind = Counter | Gauge | Histogram "rat list"

record metric =
  mt_name :: string
  mt_kind :: metric_kind
  mt_labels :: "string list"

definition http_requests_total :: metric where
  "http_requests_total = \<lparr>mt_name = ''http_requests_total'', mt_kind = Counter, mt_labels = [''method'', ''path'', ''status'']\<rparr>"

definition http_request_duration :: metric where
  "http_request_duration =
     \<lparr>mt_name = ''http_request_duration_seconds'',
      mt_kind = Histogram [1/100, 5/100, 1/10, 2/10, 5/10, 1, 2, 5], mt_labels = [''method'', ''path'']\<rparr>"

definition http_requests_in_flight :: metric where
  "http_requests_in_flight = \<lparr>mt_name = ''http_requests_in_flight'', mt_kind = Gauge, mt_labels = []\<rparr>"

definition emails_processed_total :: metric where
  "emails_processed_total = \<lparr>mt_name = ''emails_processed_total'', mt_kind = Counter, mt_labels = [''type'', ''status'']\<rparr>"

definition email_send_duration :: metric where
  "email_send_duration =
     \<lparr>mt_name = ''email_send_duration_seconds'',
      mt_kind = Histogram [5/100, 1/10, 25/100, 5/10, 1, 2, 5, 10], mt_labels = [''type'']\<rparr>"

definition campaign_batches_dispatched :: metric where
  "campaign_batches_dispatched = \<lparr>mt_name = ''campaign_batches_dispatched_total'', mt_kind = Counter, mt_labels = []\<rparr>"

definition campaign_users_dispatched :: metric where
  "campaign_users_dispatched = \<lparr>mt_name = ''campaign_users_dispatched_total'', mt_kind = Counter, mt_labels = []\<rparr>"

definition campaign_backoffs :: metric where
  "campaign_backoffs = \<lparr>mt_name = ''campaign_backoffs_total'', mt_kind = Counter, mt_labels = []\<rparr>"

definition campaign_dispatch_duration :: metric where
  "campaign_dispatch_duration =
     \<lparr>mt_name = ''campaign_dispatch_duration_seconds'', mt_kind = Histogram [1, 5, 15, 30, 60, 120, 300, 600], mt_labels = []\<rparr>"

definition notification_metrics :: "metric list" where
  "notification_metrics = [http_requests_total, http_request_duration, http_requests_in_flight, emails_processed_total,
     email_send_duration, campaign_batches_dispatched, campaign_users_dispatched, campaign_backoffs, campaign_dispatch_duration]"

text \<open>
  \<open>promauto\<close> panics when two metrics have one name, and a histogram's buckets must increase: the package
  initialises.
\<close>

fun metric_ok :: "metric \<Rightarrow> bool" where
  "metric_ok m = (case mt_kind m of Histogram bs \<Rightarrow> sorted_wrt (<) bs | _ \<Rightarrow> True)"

lemma metrics_register: "distinct (map mt_name notification_metrics)" "list_all metric_ok notification_metrics"
  by code_simp+

section \<open>Recording\<close>

text \<open>
  A metered function makes calls of its service and records in between. \<open>WithLabelValues\<close> panics unless there
  are as many values as the metric has labels.
\<close>

datatype 'c metered = Do 'c | Record metric "string list"

type_synonym observation = "metric \<times> string list"

primrec lift :: "('c, 'r, 'a) prog \<Rightarrow> ('c metered, 'r option, 'a) prog" where
  "lift (Return x) = Return x"
| "lift (Call c k) = Call (Do c) (\<lambda>r. lift (k (the r)))"

definition record_metric :: "metric \<Rightarrow> string list \<Rightarrow> ('c metered, 'r option, 'a) prog \<Rightarrow> ('c metered, 'r option, 'a) prog" where
  "record_metric m labels p = Call (Record m labels) (\<lambda>_. p)"

fun metered_handle :: "('c \<Rightarrow> 's \<Rightarrow> 'r \<times> 's) \<Rightarrow> 'c metered \<Rightarrow> 's \<times> observation list \<Rightarrow> 'r option \<times> 's \<times> observation list" where
  "metered_handle h (Do c) (w, obs) = (case h c w of (r, w') \<Rightarrow> (Some r, w', obs))"
| "metered_handle h (Record m labels) (w, obs) = (None, w, obs @ [(m, labels)])"

lemma run_lift: "run (metered_handle h) (lift p) (w, obs) = (case run h p w of (x, w') \<Rightarrow> (x, w', obs))"
  by (induction p arbitrary: w) (auto split: prod.splits)

lemma run_record [simp]:
  "run (metered_handle h) (record_metric m labels p) (w, obs) = run (metered_handle h) p (w, obs @ [(m, labels)])"
  by (simp add: record_metric_def)

section \<open>internal/worker/email_worker.go, with its metrics\<close>

definition handle_email_metered :: "notify_lib \<Rightarrow> notify_config \<Rightarrow> string \<Rightarrow> (notify_call metered, notify_reply option, goerr option) prog" where
  "handle_email_metered lib cfg body =
     (let count = (\<lambda>status. record_metric emails_processed_total [''regular'', status]) in
      case nl_task_parse lib body of
        Inl _ \<Rightarrow> count ''rejected'' (Return (Some (Sentinel ErrRejectToDLQ)))
      | Inr task \<Rightarrow>
          bind (lift (send_email cfg (nk_notification task) (nk_recipient task)
                  (data_get ''subject'' (nk_data task)) (data_get ''content'' (nk_data task)))) (\<lambda>err.
          record_metric email_send_duration [''regular'']
           (case err of
              Some e \<Rightarrow>
                if errors_is e ErrCircuitBreakerOpen then count ''circuit_open'' (Return (Some e))
                else if nk_retry task < nc_max_retries cfg then
                  (let task' = task\<lparr>nk_retry := nk_retry task + 1\<rparr> in
                   bind (lift (npublish (nc_exchange cfg @ ''.retry'') (channel_email @ ''.retry'') (nl_task_json lib task') Return))
                     (\<lambda>publish_err.
                       case publish_err of Some _ \<Rightarrow> Return (Some e) | None \<Rightarrow> count ''retried'' (Return None)))
                else
                  bind (lift (Call (NUpdateDelivery (uuid_or_nil lib (nk_notification task)) NFailed (error_text e) None
                                (Some (nk_retry task))) Return))
                    (\<lambda>_. count ''failed'' (Return (Some (Sentinel ErrRejectToDLQ))))
            | None \<Rightarrow>
                bind (lift (Call (NUpdateDelivery (uuid_or_nil lib (nk_notification task)) NDelivering
                              ''Waiting for webhook confirmation'' None (Some (nk_retry task))) Return))
                  (\<lambda>_. count ''success'' (Return None)))))"

definition handle_campaign_email_metered ::
  "notify_lib \<Rightarrow> notify_config \<Rightarrow> string \<Rightarrow> (notify_call metered, notify_reply option, goerr option) prog" where
  "handle_campaign_email_metered lib cfg body =
     (let count = (\<lambda>status. record_metric emails_processed_total [''campaign'', status]) in
      case nl_campaign_parse lib body of
        Inl err \<Rightarrow> Return (Some err)
      | Inr task \<Rightarrow>
          bind (lift (send_email cfg (''campaign:'' @ ck_campaign task @ '':'' @ ck_user task) (ck_recipient task)
                  (ck_subject task) (ck_content task))) (\<lambda>send_err.
          record_metric email_send_duration [''campaign'']
           (let campaign_id = uuid_or_nil lib (ck_campaign task) in
            case send_err of
              Some e \<Rightarrow>
                if errors_is e ErrCircuitBreakerOpen then count ''circuit_open'' (Return (Some e))
                else
                  bind (lift (insert_campaign_audit task NFailed (error_text e)
                    (insert_campaign_recipient campaign_id (ck_user task) (ck_recipient task) ''failed''
                      (Call (NCampaignIncrement campaign_id ''failed_count'') Return))))
                    (\<lambda>_. count ''failed'' (Return (Some e)))
            | None \<Rightarrow>
                bind (lift (Call NNow (\<lambda>_.
                  insert_campaign_audit task NSent ''''
                    (insert_campaign_recipient campaign_id (ck_user task) (ck_recipient task) ''sent''
                      (Call (NCampaignIncrement campaign_id ''sent_count'') Return)))))
                    (\<lambda>_. count ''success'' (Return None)))))"

section \<open>The counters tell what happened\<close>

definition labelled :: "observation \<Rightarrow> bool" where
  "labelled ob \<longleftrightarrow> fst ob \<in> set notification_metrics \<and> length (snd ob) = length (mt_labels (fst ob))"

lemma email_metrics_labelled [simp]:
  "labelled (emails_processed_total, [t, s])" "labelled (email_send_duration, [t])"
  by (simp_all add: labelled_def notification_metrics_def emails_processed_total_def email_send_duration_def)

text \<open>The observations that one message may leave, by the way it is settled.\<close>

fun counted :: "string \<Rightarrow> delivery_outcome \<Rightarrow> observation list \<Rightarrow> bool" where
  "counted t Ack os \<longleftrightarrow>
     (\<exists>s\<in>{''success'', ''retried''}. os = [(email_send_duration, [t]), (emails_processed_total, [t, s])])"
| "counted t NackDrop os \<longleftrightarrow> os = [(emails_processed_total, [t, ''rejected''])]
     \<or> os = [(email_send_duration, [t]), (emails_processed_total, [t, ''failed''])]"
| "counted t NackRequeue os \<longleftrightarrow>
     os = [(email_send_duration, [t])] \<or> os = [(email_send_duration, [t]), (emails_processed_total, [t, ''circuit_open''])]"

text \<open>No error of the mail server is the worker's own \<open>ErrRejectToDLQ\<close>.\<close>

definition plain_refusals :: "notify_env \<Rightarrow> bool" where
  "plain_refusals env \<longleftrightarrow> (\<forall>to msg e. ne_smtp env to msg = Some e \<longrightarrow> \<not> errors_is e ErrRejectToDLQ)"

lemma send_error_requeues:
  assumes "plain_refusals env"
    and "run (notify_handle lib env) (send_email cfg i to subject msg) w = (Some e, w')"
  shows "settle (Some e) = NackRequeue"
  using assms
  by (auto simp: plain_refusals_def send_email_def breaker_send_def cb_execute_def smtp_send_def nnow_def settle_def Let_def
      split: if_splits prod.splits breaker_state.splits option.splits)

lemma run_npublish_return:
  "run (notify_handle lib env) (npublish ex key json k) w =
     (case run (notify_handle lib env) (npublish ex key json Return) w of (err, w1) \<Rightarrow> run (notify_handle lib env) (k err) w1)"
  by (auto simp: npublish_def split: sum.splits prod.splits)

lemma email_metered:
  assumes "plain_refusals env"
    and "run (notify_handle lib env) (handle_email lib cfg body) w = (r, w')"
  shows "\<exists>new. run (metered_handle (notify_handle lib env)) (handle_email_metered lib cfg body) (w, obs) = (r, w', obs @ new)
    \<and> counted ''regular'' (settle r) new"
proof (cases "nl_task_parse lib body")
  case (Inl e)
  with assms(2) show ?thesis by (auto simp: handle_email_def handle_email_metered_def Let_def settle_def)
next
  case (Inr task)
  obtain err w1 where s: "run (notify_handle lib env) (send_email cfg (nk_notification task) (nk_recipient task)
      (data_get ''subject'' (nk_data task)) (data_get ''content'' (nk_data task))) w = (err, w1)" by fastforce
  have q: "settle (Some e) = NackRequeue" if "err = Some e" for e
    using send_error_requeues [OF assms(1) s [unfolded that]] .
  show ?thesis
    using assms(2) s q Inr
    by (auto simp: handle_email_def handle_email_metered_def Let_def run_bind run_lift settle_def
        run_npublish_return [where k = "\<lambda>e. case e of Some _ \<Rightarrow> _ | None \<Rightarrow> _"]
        split: option.splits prod.splits if_splits)
qed

text \<open>
  A campaign mail is counted as well, but a failure of it does not settle the message; one that cannot be read
  leaves no trace in the counters.
\<close>

fun campaign_counted :: "delivery_outcome \<Rightarrow> observation list \<Rightarrow> bool" where
  "campaign_counted Ack os \<longleftrightarrow> os = [(email_send_duration, [''campaign'']), (emails_processed_total, [''campaign'', ''success''])]"
| "campaign_counted NackDrop os \<longleftrightarrow> False"
| "campaign_counted NackRequeue os \<longleftrightarrow> os = []
     \<or> (\<exists>s\<in>{''failed'', ''circuit_open''}. os = [(email_send_duration, [''campaign'']), (emails_processed_total, [''campaign'', s])])"

lemma campaign_email_metered:
  assumes "plain_refusals env"
    and "\<And>s e. nl_campaign_parse lib s = Inl e \<Longrightarrow> \<not> errors_is e ErrRejectToDLQ"
    and "run (notify_handle lib env) (handle_campaign_email lib cfg body) w = (r, w')"
  shows "\<exists>new. run (metered_handle (notify_handle lib env)) (handle_campaign_email_metered lib cfg body) (w, obs) = (r, w', obs @ new)
    \<and> campaign_counted (settle r) new"
proof (cases "nl_campaign_parse lib body")
  case (Inl e)
  with assms(2,3) show ?thesis by (auto simp: handle_campaign_email_def handle_campaign_email_metered_def settle_def)
next
  case (Inr task)
  obtain err w1 where s: "run (notify_handle lib env) (send_email cfg (''campaign:'' @ ck_campaign task @ '':'' @ ck_user task)
      (ck_recipient task) (ck_subject task) (ck_content task)) w = (err, w1)" by fastforce
  have q: "settle (Some e) = NackRequeue" if "err = Some e" for e
    using send_error_requeues [OF assms(1) s [unfolded that]] .
  show ?thesis
    using assms(3) s q Inr
    by (auto simp: handle_campaign_email_def handle_campaign_email_metered_def Let_def run_bind run_lift settle_def
        insert_campaign_audit_def insert_campaign_recipient_def split: option.splits prod.splits if_splits)
qed

fun serve_emails ::
  "notify_lib \<Rightarrow> notify_env \<Rightarrow> notify_config \<Rightarrow> string list \<Rightarrow> notify_world \<Rightarrow> delivery_outcome list \<times> notify_world" where
  "serve_emails lib env cfg [] w = ([], w)"
| "serve_emails lib env cfg (body # bodies) w =
     (case run (notify_handle lib env) (handle_email lib cfg body) w of
        (err, w1) \<Rightarrow> (case serve_emails lib env cfg bodies w1 of (outs, w2) \<Rightarrow> (settle err # outs, w2)))"

fun serve_metered ::
  "notify_lib \<Rightarrow> notify_env \<Rightarrow> notify_config \<Rightarrow> string list \<Rightarrow> notify_world \<times> observation list
     \<Rightarrow> delivery_outcome list \<times> notify_world \<times> observation list" where
  "serve_metered lib env cfg [] x = ([], x)"
| "serve_metered lib env cfg (body # bodies) x =
     (case run (metered_handle (notify_handle lib env)) (handle_email_metered lib cfg body) x of
        (err, x1) \<Rightarrow> (case serve_metered lib env cfg bodies x1 of (outs, x2) \<Rightarrow> (settle err # outs, x2)))"

definition processed :: "string \<Rightarrow> observation list \<Rightarrow> nat" where
  "processed status obs = count_list obs (emails_processed_total, [''regular'', status])"

definition timed :: "observation list \<Rightarrow> nat" where
  "timed obs = count_list obs (email_send_duration, [''regular''])"

text \<open>The counters and the answers agree.\<close>

definition tallied :: "delivery_outcome list \<Rightarrow> observation list \<Rightarrow> bool" where
  "tallied outs obs \<longleftrightarrow> list_all labelled obs
     \<and> processed ''success'' obs + processed ''retried'' obs = count_list outs Ack
     \<and> processed ''rejected'' obs + processed ''failed'' obs = count_list outs NackDrop
     \<and> processed ''circuit_open'' obs \<le> count_list outs NackRequeue
     \<and> timed obs + processed ''rejected'' obs = length outs"

lemma metric_names [simp]: "emails_processed_total \<noteq> email_send_duration" "email_send_duration \<noteq> emails_processed_total"
  "campaign_batches_dispatched \<noteq> campaign_users_dispatched" "campaign_backoffs \<noteq> campaign_users_dispatched"
  "campaign_batches_dispatched \<noteq> campaign_dispatch_duration" "campaign_backoffs \<noteq> campaign_dispatch_duration"
  "campaign_users_dispatched \<noteq> campaign_dispatch_duration" "campaign_dispatch_duration \<noteq> campaign_users_dispatched"
  by (simp_all add: emails_processed_total_def email_send_duration_def campaign_batches_dispatched_def
      campaign_users_dispatched_def campaign_backoffs_def campaign_dispatch_duration_def)

lemma count_replicate [simp]: "count_list (replicate n x) y = (if x = y then n else 0)"
  by (induction n) auto

lemma tallied_more:
  assumes "tallied outs obs" and "counted ''regular'' out new"
  shows "tallied (out # outs) (new @ obs)"
  using assms by (cases out) (auto simp: tallied_def processed_def timed_def)



section \<open>internal/worker/campaign_worker.go, with its metrics\<close>

text \<open>
  The dispatcher records where it makes a call: a checkpoint counts a batch and its users (\<open>Add(n)\<close> is \<open>n\<close>
  recordings), a pause of \<open>publishBatch\<close> a backoff. The duration is observed when \<open>dispatchCampaign\<close> returns,
  on every path, because it is deferred.
\<close>

primrec record_all :: "observation list \<Rightarrow> ('c metered, 'r option, 'a) prog \<Rightarrow> ('c metered, 'r option, 'a) prog" where
  "record_all [] p = p"
| "record_all (ob # obs) p = record_metric (fst ob) (snd ob) (record_all obs p)"

primrec meter :: "('c \<Rightarrow> observation list) \<Rightarrow> ('c, 'r, 'a) prog \<Rightarrow> ('c metered, 'r option, 'a) prog" where
  "meter f (Return x) = Return x"
| "meter f (Call c k) = Call (Do c) (\<lambda>r. record_all (f c) (meter f (k (the r))))"

fun campaign_observes :: "notify_call \<Rightarrow> observation list" where
  "campaign_observes (NCampaignCheckpoint i cursor n) =
     (campaign_batches_dispatched, []) # replicate (nat n) (campaign_users_dispatched, [])"
| "campaign_observes (NSleep d) = [(campaign_backoffs, [])]"
| "campaign_observes c = []"

definition dispatch_campaign_metered :: "notify_lib \<Rightarrow> notify_config \<Rightarrow> campaign \<Rightarrow> (notify_call metered, notify_reply option, unit) prog" where
  "dispatch_campaign_metered lib cfg campaign =
     bind (meter campaign_observes (dispatch_campaign lib cfg campaign))
       (\<lambda>_. record_metric campaign_dispatch_duration [] (Return ()))"

lemma run_record_all [simp]:
  "run (metered_handle h) (record_all os p) (w, obs) = run (metered_handle h) p (w, obs @ os)"
  by (induction os arbitrary: obs) simp_all

lemma meter_invariant:
  assumes "calls_in C p" and "\<And>c w obs. C c \<Longrightarrow> I w obs \<Longrightarrow> I (snd (h c w)) (obs @ f c)" and "I w obs"
  shows "\<exists>r w' obs'. run (metered_handle h) (meter f p) (w, obs) = (r, w', obs') \<and> run h p w = (r, w') \<and> I w' obs'"
  using assms(1,3)
proof (induction p arbitrary: w obs)
  case (Call c k)
  obtain r w1 where h: "h c w = (r, w1)" by fastforce
  with Call.prems assms(2) [of c w obs] have "I w1 (obs @ f c)" by simp
  with Call.IH [of "k r" w1 "obs @ f c"] Call.prems(1) h show ?case by simp
qed simp

text \<open>
  While the database works, the counter of dispatched users and the campaign's row move together, whatever the
  broker and the stream of users do; and each dispatch is timed once.
\<close>

lemma dispatch_counted:
  assumes "\<And>c. ne_db env c = None" and "by_key cp_id (cp_id campaign) (nw_campaigns w) = Some row"
  shows "\<exists>w' obs row'. run (metered_handle (notify_handle lib env)) (dispatch_campaign_metered lib cfg campaign) (w, []) = ((), w', obs)
    \<and> run (notify_handle lib env) (dispatch_campaign lib cfg campaign) w = ((), w')
    \<and> by_key cp_id (cp_id campaign) (nw_campaigns w') = Some row'
    \<and> cp_dispatched row' = cp_dispatched row + int (count_list obs (campaign_users_dispatched, []))
    \<and> count_list obs (campaign_dispatch_duration, []) = 1"
proof -
  let ?i = "cp_id campaign" and ?users = "(campaign_users_dispatched, []) :: observation" and ?time = "(campaign_dispatch_duration, []) :: observation"
  define I where "I v obs \<longleftrightarrow> map_option cp_dispatched (by_key cp_id ?i (nw_campaigns v)) =
      Some (cp_dispatched row + int (count_list obs ?users)) \<and> count_list obs ?time = 0" for v :: notify_world and obs
  have "I (snd (notify_handle lib env c v)) (obs @ campaign_observes c)"
    if "campaign_allows (Some ?i) c" "I v obs" for c v obs
    using that assms(1)
    by (cases c) (auto simp: I_def campaign_allows_def notify_call_defs sql_campaign_total_def sql_campaign_checkpoint_def
        sql_campaign_mark_def update_campaign_def by_key_update_same split: option.splits)
  then obtain v obs where "run (metered_handle (notify_handle lib env)) (meter campaign_observes (dispatch_campaign lib cfg campaign)) (w, []) = ((), v, obs)"
    "run (notify_handle lib env) (dispatch_campaign lib cfg campaign) w = ((), v)" "I v obs"
    using meter_invariant [OF calls_dispatch_campaign [of campaign lib cfg], where I = I and h = "notify_handle lib env"
        and f = campaign_observes and w = w and obs = "[]"] assms(2)
    by (auto simp: I_def)
  then show ?thesis
    by (auto simp: dispatch_campaign_metered_def run_bind I_def)
qed


end
