(* ===== verification/Pipeline.thy ===== *)
theory Pipeline
  imports NotifyService Campaigns
begin

text \<open>
  The parts of the notification service put together: a request creates a notification and its event, a tick
  of the outbox worker publishes it, the email worker sends the mail, and Mailpit's webhook
  confirms it.
\<close>

section \<open>The way of a notification\<close>

definition after_create :: "notify_lib \<Rightarrow> notify_env \<Rightarrow> send_request \<Rightarrow> notify_world \<Rightarrow> notify_world" where
  "after_create lib env event w = snd (run (notify_handle lib env) (create_notification lib api_wiring event) w)"

definition after_tick :: "notify_lib \<Rightarrow> notify_env \<Rightarrow> notify_config \<Rightarrow> send_request \<Rightarrow> notify_world \<Rightarrow> notify_world" where
  "after_tick lib env cfg event w = snd (run (notify_handle lib env) (process_batch cfg) (after_create lib env event w))"

text \<open>The email worker takes the last message that was published.\<close>

definition after_email :: "notify_lib \<Rightarrow> notify_env \<Rightarrow> notify_config \<Rightarrow> send_request \<Rightarrow> notify_world \<Rightarrow> goerr option \<times> notify_world" where
  "after_email lib env cfg event w =
     (let w2 = after_tick lib env cfg event w in
      run (notify_handle lib env) (handle_email lib cfg (snd (snd (last (nw_published w2))))) w2)"

definition after_webhook :: "notify_lib \<Rightarrow> notify_env \<Rightarrow> notify_config \<Rightarrow> send_request \<Rightarrow> notify_world \<Rightarrow> goerr option \<times> notify_world" where
  "after_webhook lib env cfg event w =
     run (notify_handle lib env) (handle_mailpit_webhook lib cfg ''mail'') (snd (after_email lib env cfg event w))"

text \<open>The task of a notification survives JSON, whatever its id.\<close>

definition task_survives :: "notify_lib \<Rightarrow> notification \<Rightarrow> bool" where
  "task_survives lib n \<longleftrightarrow>
     (\<forall>i. \<exists>b. nl_task_json lib (outbox_task lib (n\<lparr>nt_id := i\<rparr>)) = Inr b
            \<and> nl_task_parse lib b = Inr (outbox_task lib (n\<lparr>nt_id := i\<rparr>)) \<and> nl_uuid_parse lib (nl_uuid_str lib i) = Inr i)"

lemma built_recipient:
  assumes "build_notification lib event tmpl = Inr n" and "tp_channel tmpl = channel_email"
  shows "nt_recipient n \<noteq> ''''" "nt_channel n = channel_email" "nt_event_id n = ''''" "nt_status n = NPending" "nt_retry n = 0"
    "nt_scheduled n = zero_time"
  using assms by (auto simp: build_notification_def checked_recipient_def Let_def split: sum.splits option.splits if_splits)

lemma run_create:
  assumes "\<And>c. ne_db env c = None" and "sql_template_get (sq_event event) w = Inr tmpl" and "tp_event tmpl \<noteq> event_promotion"
    and "tp_channel tmpl = channel_email" and "build_notification lib event tmpl = Inr n" and "task_survives lib n"
  shows "\<exists>m ev. created_both lib w (after_create lib env event w) m ev
    \<and> nt_id m = ne_uuid env (nw_uuids w) \<and> outbox_task lib m = outbox_task lib (n\<lparr>nt_id := ne_uuid env (nw_uuids w)\<rparr>)
    \<and> nw_published (after_create lib env event w) = nw_published w \<and> nw_mails (after_create lib env event w) = nw_mails w
    \<and> nw_breaker (after_create lib env event w) = nw_breaker w"
proof -
  let ?i = "ne_uuid env (nw_uuids w)"
  let ?m = "n\<lparr>nt_id := ?i, nt_created := ne_clock env (nw_ticks w), nt_updated := ne_clock env (nw_ticks w),
              nt_scheduled := ne_clock env (nw_ticks w)\<rparr>"
  have o: "outbox_task lib ?m = outbox_task lib (n\<lparr>nt_id := ?i\<rparr>)" by (simp add: outbox_task_def)
  obtain b where b: "nl_task_json lib (outbox_task lib ?m) = Inr b"
    using assms(6) unfolding o task_survives_def by blast
  note n = built_recipient [OF assms(5,4)]
  have "run (notify_handle lib env) (create_notification lib api_wiring event) w =
      (Returned (Inr \<lparr>sp_notification = nl_uuid_str lib ?i, sp_message = ''notification sent successfully''\<rparr>),
       w\<lparr>nw_ticks := Suc (nw_ticks w), nw_uuids := Suc (Suc (nw_uuids w)), nw_notifications := nw_notifications w @ [?m],
         nw_outbox := nw_outbox w @ [(case outbox_event_of lib ?m of Inr ev \<Rightarrow> ev)
            \<lparr>ob_id := ne_uuid env (Suc (nw_uuids w)), ob_created := ne_clock env (nw_ticks w)\<rparr>]\<rparr>)"
    using assms(1-5) n b
    by (simp add: create_notification_def create_from_template_def api_wiring_def is_notification_enabled_def nread_def
        send_notification_def create_with_outbox_def tx_create_with_outbox_def nnow_def nuuid_def sql_notification_create_def
        outbox_event_of_def sql_outbox_create_def insert_row_def Let_def)
  then show ?thesis
    using b n o
    by (intro exI [of _ ?m]) (simp add: after_create_def created_both_def outbox_event_of_def)
qed

lemma run_tick:
  assumes "calm env" and "nw_outbox w = [ev]" and "ob_status ev = OPending" and "ob_published ev = None" and "1 \<le> nc_outbox_batch cfg"
  shows "\<exists>w'. run (notify_handle lib env) (process_batch cfg) w = ((), w')
    \<and> nw_published w' = nw_published w @ [(nc_exchange cfg, ob_key ev, ob_payload ev)]
    \<and> map ob_status (nw_outbox w') = [OPublished] \<and> nw_notifications w' = nw_notifications w
    \<and> nw_mails w' = nw_mails w \<and> nw_breaker w' = nw_breaker w"
proof -
  have l: "limit_rows (nc_outbox_batch cfg) [ev] = [ev]" "\<not> nc_outbox_batch cfg < 0"
    using assms(5) by (auto simp: limit_rows_def)
  from assms(1-4) l show ?thesis
    by (simp add: calm_def process_batch_def publish_event_def notify_call_defs sql_outbox_claim_def sql_outbox_published_def
        update_rows_def)
qed

lemma run_email_sent:
  assumes "calm env" and "nl_task_parse lib body = Inr task" and "nk_recipient task \<noteq> ''''"
    and "nl_uuid_parse lib (nk_notification task) = Inr i" and "by_key nt_id i (nw_notifications w) = Some n"
    and "cb_state (nw_breaker w) = Closed" and "\<And>to msg. ne_smtp env to msg = None"
  shows "\<exists>w'. run (notify_handle lib env) (handle_email lib cfg body) w = (None, w')
    \<and> nw_mails w' = nw_mails w @ [(nk_recipient task, mail_body (nk_recipient task) (data_get ''subject'' (nk_data task))
         (nk_notification task) (data_get ''content'' (nk_data task)))]
    \<and> map_option nt_status (by_key nt_id i (nw_notifications w')) = Some NDelivering"
  using assms(1-5) by_key_Some [OF assms(5)]
  by (simp add: handle_email_def run_bind run_send_email breaker_send_accepted [OF assms(6,7)] calm_def notify_call_defs
      uuid_or_nil_def sql_update_delivery_def by_key_update_same)

text \<open>
  C5. A notification that nothing disturbs arrives. For an e-mail template of an event the user cannot switch
  off: the request stores the notification, one tick of the outbox worker publishes exactly one
  message on the e-mail routing key, handling that message hands the rendered mail to the mail
  server once, and the webhook with its id marks the notification as sent.
\<close>
theorem notification_arrives:
  assumes "calm env" and "\<And>to msg. ne_smtp env to msg = None" and "cb_state (nw_breaker w) = Closed"
    and "nw_outbox w = []" and "1 \<le> nc_outbox_batch cfg"
    and "sql_template_get (sq_event event) w = Inr tmpl" and "tp_event tmpl \<noteq> event_promotion"
    and "tp_channel tmpl = channel_email" and "build_notification lib event tmpl = Inr n" and "task_survives lib n"
    and "i = ne_uuid env (nw_uuids w)" and "by_key nt_id i (nw_notifications w) = None"
    and "\<And>url. ne_http env url = Inr (200, hdr)"
    and "nl_headers_parse lib hdr = Inr [(''X-Notification-Id'', [nl_uuid_str lib i])]"
  shows "map (fst \<circ> snd) (nw_published (after_tick lib env cfg event w)) = map (fst \<circ> snd) (nw_published w) @ [''email'']
    \<and> fst (after_email lib env cfg event w) = None
    \<and> nw_mails (snd (after_email lib env cfg event w)) = nw_mails w @
        [(nt_recipient n, mail_body (nt_recipient n) (nt_subject n) (nl_uuid_str lib i) (nt_content n))]
    \<and> map_option nt_status (by_key nt_id i (nw_notifications (snd (after_email lib env cfg event w)))) = Some NDelivering
    \<and> map_option nt_status (by_key nt_id i (nw_notifications (snd (after_webhook lib env cfg event w)))) = Some NSent"
proof -
  have db: "\<And>c. ne_db env c = None" using assms(1) by (simp add: calm_def)
  obtain m ev where m: "created_both lib w (after_create lib env event w) m ev" "nt_id m = i"
      "outbox_task lib m = outbox_task lib (n\<lparr>nt_id := i\<rparr>)"
    and same: "nw_published (after_create lib env event w) = nw_published w" "nw_mails (after_create lib env event w) = nw_mails w"
      "nw_breaker (after_create lib env event w) = nw_breaker w"
    using run_create [OF db assms(6-10)] unfolding assms(11) by blast
  note n = built_recipient [OF assms(9,8)]
  let ?task = "outbox_task lib (n\<lparr>nt_id := i\<rparr>)"
  obtain b where "nl_task_json lib ?task = Inr b" "nl_task_parse lib b = Inr ?task" "nl_uuid_parse lib (nl_uuid_str lib i) = Inr i"
    using assms(10) unfolding task_survives_def by blast
  then have pay: "nl_task_parse lib (ob_payload ev) = Inr ?task" "nl_uuid_parse lib (nl_uuid_str lib i) = Inr i"
    using m by (auto simp: created_both_def)
  have nc: "nt_channel m = channel_email"
    using m(3) n(2) by (simp add: outbox_task_def)
  obtain w2 where w2: "run (notify_handle lib env) (process_batch cfg) (after_create lib env event w) = ((), w2)"
      "nw_published w2 = nw_published w @ [(nc_exchange cfg, ob_key ev, ob_payload ev)]"
      "nw_notifications w2 = nw_notifications w @ [m]" "nw_mails w2 = nw_mails w" "nw_breaker w2 = nw_breaker w"
    using run_tick [OF assms(1) _ _ _ assms(5), of "after_create lib env event w" ev lib] m(1) assms(4) same
    by (auto simp: created_both_def)
  have t2: "after_tick lib env cfg event w = w2" by (simp add: after_tick_def w2(1))
  have row: "by_key nt_id i (nw_notifications w2) = Some m"
    using assms(12) m(2) by (simp add: w2(3) by_key_def find_append)
  obtain w3 where w3: "run (notify_handle lib env) (handle_email lib cfg (ob_payload ev)) w2 = (None, w3)"
      "nw_mails w3 = nw_mails w @ [(nt_recipient n, mail_body (nt_recipient n) (nt_subject n) (nl_uuid_str lib i) (nt_content n))]"
      "map_option nt_status (by_key nt_id i (nw_notifications w3)) = Some NDelivering"
    using run_email_sent [OF assms(1) pay(1) _ _ row _ assms(2), of cfg] n(1) pay(2) assms(3) w2(4,5)
    by (auto simp: outbox_task_def data_get_def)
  have t3: "after_email lib env cfg event w = (None, w3)"
    by (simp add: after_email_def t2 w2(2) w3(1))
  have "map_option nt_status (by_key nt_id i (nw_notifications (snd (after_webhook lib env cfg event w)))) = Some NSent"
    using w3(3) assms(13,14) pay(2) db
    by (auto simp: after_webhook_def t3 handle_mailpit_webhook_def update_status_def notify_call_defs sql_update_delivery_def
        by_key_update_same)
  then show ?thesis using w2(2) w3 m(1) nc by (simp add: t2 t3 created_both_def channel_email_def)
qed

section \<open>An instance\<close>


text \<open>JSON that keeps the id of the one notification there is.\<close>

definition demo_pipeline_task :: "string \<Rightarrow> notification_task" where
  "demo_pipeline_task s =
     \<lparr>nk_notification = s, nk_user = ''u'', nk_event = ''welcome'', nk_recipient = ''u@x'', nk_channel = ''email'',
      nk_data = [(''subject'', ''s''), (''content'', ''c'')], nk_retry = 0\<rparr>"

definition demo_pipeline_lib :: notify_lib where
  "demo_pipeline_lib = demo_nlib
     \<lparr>nl_task_json := (\<lambda>t. Inr (nk_notification t)), nl_task_parse := (\<lambda>s. Inr (demo_pipeline_task s)),
      nl_headers_parse := (\<lambda>_. Inr [(''X-Notification-Id'', [unary 1])])\<rparr>"

theorem notification_arrives_witness:
  "map_option nt_status (by_key nt_id 1 (nw_notifications (snd (after_webhook demo_pipeline_lib demo_nenv demo_nconfig
      demo_request (demo_nworld\<lparr>nw_templates := [demo_template]\<rparr>))))) = Some NSent"
proof -
  let ?w = "demo_nworld\<lparr>nw_templates := [demo_template]\<rparr>"
  let ?n = "\<lparr>nt_id = 0, nt_created = zero_time, nt_updated = zero_time, nt_event_id = '''', nt_event = ''welcome'', nt_user = ''u'',
      nt_channel = ''email'', nt_recipient = ''u@x'', nt_subject = ''s'', nt_content = ''c'', nt_status = NPending,
      nt_retry = 0, nt_next_retry = None, nt_error = '''', nt_metadata = '''', nt_scheduled = zero_time, nt_sent = None\<rparr>"
  have calm: "calm demo_nenv" by (simp add: calm_def demo_nenv_def)
  have smtp: "ne_smtp demo_nenv to msg = None" for to msg by (simp add: demo_nenv_def)
  have http: "ne_http demo_nenv url = Inr (200, '''')" for url by (simp add: demo_nenv_def)
  have w: "cb_state (nw_breaker ?w) = Closed" "nw_outbox ?w = []" "by_key nt_id 1 (nw_notifications ?w) = None"
      "sql_template_get (sq_event demo_request) ?w = Inr demo_template" "1 = ne_uuid demo_nenv (nw_uuids ?w)"
    by (simp_all add: demo_nworld_def new_breaker_def by_key_def sql_template_get_def first_row_def demo_template_def
        demo_request_def demo_nenv_def)
  have c: "1 \<le> nc_outbox_batch demo_nconfig" by (simp add: demo_nconfig_def)
  have t: "tp_event demo_template \<noteq> event_promotion" "tp_channel demo_template = channel_email"
    by (simp_all add: demo_template_def event_promotion_def channel_email_def)
  have b: "build_notification demo_pipeline_lib demo_request demo_template = Inr ?n"
    by (simp add: build_notification_def checked_recipient_def payload_recipient_def demo_request_def demo_template_def
        demo_pipeline_lib_def demo_nlib_def channel_email_def)
  have s: "task_survives demo_pipeline_lib ?n"
    by (simp add: task_survives_def outbox_task_def demo_pipeline_lib_def demo_pipeline_task_def demo_nlib_def)
  have h: "nl_headers_parse demo_pipeline_lib '''' = Inr [(''X-Notification-Id'', [nl_uuid_str demo_pipeline_lib 1])]"
    by (simp add: demo_pipeline_lib_def demo_nlib_def)
  from notification_arrives [OF calm smtp w(1,2) c w(4) t b s w(5,3) http h] show ?thesis by blast
qed

end
