(* ===== verification/Spec2Isabelle.thy ===== *)
theory Spec2Isabelle
  imports SessionRace UserStream IdentityHandlers Routes Topology Startup UploadTypes VideoRace HttpChain Settings NotifyIntegrity Templates LiveTokens CampaignMails Metrics Pipeline
begin

text \<open>
  A verification development for a platform of Go micro services: the upload service
  (services/upload), the identity service (services/identity), the notification service
  (services/notification) and the packages they share (pkg). A client registers and logs in at the
  identity service, uploads videos through the upload service, which hands out presigned S3 URLs and
  publishes events on RabbitMQ, and is notified by e-mail: the notification service stores a
  notification with an outbox event, a worker publishes the event, another one sends the mail, a
  webhook of the mail server confirms it. Campaigns stream the users of the identity service over
  gRPC and publish one mail task per user.

  \<^bold>\<open>How the code is modelled.\<close> A function that only computes is a HOL function. A function that calls
  the outside (a repository, the cache, S3, the broker, the clock, another service) is a tree of
  its calls (theory Program): \<open>Return\<close>, or \<open>Call\<close> with a continuation for every reply. Three
  semantics share that one text: \<open>run\<close> executes a tree alone on a state; \<open>sched\<close> and \<open>reachable\<close>
  interleave any number of trees call by call; \<open>run_sched\<close> executes a given schedule. Every call may
  fail: an environment record decides which calls fail, what S3 answers and what the clock shows. A
  database call that does not fail has the effect of its SQL statement on a list of rows (theory
  Tables). Errors are values of \<open>goerr\<close>; a panic is the outcome \<open>Panicked\<close>. Safety properties under
  concurrency are proved once and for all in the locale \<open>typestate\<close> (theory Program): each request
  follows a typestate, each call of an allowed kind keeps an invariant relating the world with the
  typestates of all requests. It is interpreted on the lock of upload sessions, the ownership of
  outbox events, the frozen campaigns, the dead refresh tokens, the preferences, the pool of
  seeding workers and the types of the upload service's rows. \<open>row_store\<close> (Tables), \<open>cache\<close> (Redis) and
  \<open>text_map_carrier\<close> (Tracing) are the interfaces of the tables, of the Redis client and of the
  carriers of a trace, interpreted on their models.

  \<^bold>\<open>Shared theories.\<close> Prelude (identifiers, errors, lists), GoStrings, GoNumbers (wrap-around of
  int and int32, the rounding of float64 division), GoTime (calendar), Tables, Program, Http.
  Pkg: AppErrors (pkg/errors, pkg/response), Redis and RateLimit (pkg/redis, pkg/ratelimit, with the
  Lua script), Broker (pkg/broker: connecting, publishing, declarations, subscriptions, consumer loop,
  reconnection, closing), Auth (pkg/auth on a JWT library that is a parameter), Tracing (pkg/trace,
  its set-up and its middleware, the contexts of pkg/logger and pkg/auth), Observers (the query logger,
  the HTTP logger and the Prometheus middlewares), HttpChain (the middlewares of each server in their order:
  what a request leaves in the log, the traces and the metrics), Settings (which variable sets which field of the three configurations,
  the connections, the transaction wrapper of pkg/db).

  \<^bold>\<open>Upload service.\<close> UploadCalls (domain, configuration, repositories, publisher), Storage (the S3
  wrapper), VideoService, SessionService (chunked uploads), SessionRuns (one request alone),
  SessionRace (interleavings: \<open>CompleteSession\<close> completes an S3 upload once, the stored status
  refines an abstract machine, a confirmation can be overwritten), Janitor, UploadTypes (a typing of
  calls and replies that every request of the service follows, so all rows, events and part lists
  stay well typed), VideoRace (the status of a video; every event names a stored video that is no longer
  pending, but the janitor can overwrite an announced one), UploadHandlers.

  \<^bold>\<open>Identity service.\<close> Identity (users, calls, all operations of the auth service), Tokens (a refresh
  token works once, except for two concurrent requests), LiveTokens (every history of requests
  refines an abstract machine of users and sessions), UserStream (the paged gRPC stream as a
  \<open>partial_function\<close>; it ends and misses nobody), Seeding (worker pool; fuel: a worker gets one more
  iteration than there are batches, and the call that would mark its end is proved unreachable),
  IdentityHandlers.

  \<^bold>\<open>Notification service.\<close> NotifyDomain (rows, DTOs, every repository method), NotifyCalls (calls and
  environment), NotifyService (sending, listing with cursors, webhook, templates), Templates (text/template on the
  seeded templates: what the mails say), Outbox (the relay
  and its ownership argument), NotifyIntegrity (under any interleaving every outbox event refers to a stored
  notification and carries its task; a confirmation can be overtaken), Breaker, Metrics
  (the registered metrics; the email worker and the campaign dispatcher with their counters, which erase to the plain ones), Emails (retries; the fuel of \<open>email_life\<close> is the number of
  deliveries, and one more than the remaining retries is proved to be enough), Campaigns,
  Preferences, Scheduler, DeadLetters, NotifyHandlers, Routes (the limiters before the routes of this
  and the upload service), and four compositions: CampaignMails (from the
  dispatch of a campaign over its mails to its statistics; a refused mail is counted at every redelivery), Topology (the queues that the workers declare, the
  server that results, and the journey of a task over delivery, retry and dead letter, in which
  no task is lost but at the breaker), Workers (the polling loops; ticks are given as a list, and as
  many ticks as there are pending events, of any batch size, are proved to drain the outbox) and
  Pipeline, from the request to the confirmed mail. Startup holds the processes: what each mode sets
  up, in which order, and what an error at each stage releases.

  \<^bold>\<open>What the properties show.\<close> C1 to C40 stand beside the components. They cover mutual exclusion and
  at-most-once publication under interleaving, refinement of a session's status and of the auth service's sessions, exact results of
  sending, dispatching, paging, seeding and rate limiting, the error paths (S3 or database failing in
  the middle of an operation), termination of the loops, and behaviour that differs from what
  comments or documents promise: the breaker's false success, opt-outs that are never stored, refused
  campaign mails that are never given up. The seeded mails are proved to say what their templates say, with the numbers and gaps that entails. More of these are lemmas: abandoned outbox events, campaigns
  that are not resumed, a scheduler built without its outbox, dead letters that are replayed into nothing.

  \<^bold>\<open>Parameters.\<close> The JSON, UUID, base64 and time zone libraries, text/template beyond the seeded templates, bcrypt and the JWT library are
  fields of library records; what the code relies on is a named hypothesis (\<open>jwt_ok\<close>, \<open>cursors_ok\<close>,
  \<open>task_json_ok\<close>), each shown satisfiable by an instance in a witness.

  \<^bold>\<open>Not modelled.\<close> The text of logs, the exporters and collectors of metrics and traces; the binding of
  request bodies by Gin (an argument of the handlers); Viper's reading of files; the construction of
  objects in cmd/main.go beyond the stages of the start and which parts of a service a worker is
  built without; the clocks and prefetch windows of RabbitMQ (a message is delivered, expires or is
  dead-lettered when the environment says so); generated code (docs, userpb) and mocks.
\<close>

end
